(* ===== verification/SB_Prelude.thy ===== *)
theory SB_Prelude
  imports Main "HOL-Library.List_Lexorder" "HOL-Library.Char_ord" "HOL-Library.AList"
    "HOL-Library.Product_Lexorder"
begin

text \<open>
  Shared vocabulary of the development: the outcome of a Go call (a value, a returned error or
  a panic), sequencing of calls, loops that stop at the first error, Go's string tests, and the
  association lists that stand for Go maps. The lemma collections \<open>outcome_simps\<close> and
  \<open>amap_simps\<close> carry the routine part of the component proofs.
\<close>

named_theorems outcome_simps \<open>rewrites for outcomes and their sequencing\<close>
named_theorems amap_simps \<open>rewrites for Go maps kept as association lists\<close>

section \<open>Outcomes of calls\<close>

text \<open>
  The errors the program distinguishes are the two API errors it tests with
  \<open>apierrs.IsNotFound\<close> and \<open>apierrs.IsForbidden\<close>; every other error is its message.
\<close>

datatype error = NotFound | Forbidden | Error string

datatype 'a outcome = Ok 'a | Fail error | Panic

type_synonym 'a ret = "'a outcome"

text \<open>The idiom \<open>x, err := f(); if err != nil { return err }\<close>; a panic unwinds likewise.\<close>

fun and_then :: "'a outcome \<Rightarrow> ('a \<Rightarrow> 'b outcome) \<Rightarrow> 'b outcome" where
  "and_then (Ok x) f = f x"
| "and_then (Fail e) f = Fail e"
| "and_then Panic f = Panic"

fun map_ok :: "('a \<Rightarrow> 'b) \<Rightarrow> 'a outcome \<Rightarrow> 'b outcome" where
  "map_ok f (Ok x) = Ok (f x)"
| "map_ok f (Fail e) = Fail e"
| "map_ok f Panic = Panic"

definition is_ok :: "'a outcome \<Rightarrow> bool" where
  "is_ok r = (case r of Ok _ \<Rightarrow> True | _ \<Rightarrow> False)"

text \<open>The result of a library call, which returns a value or an error, in the program's terms.\<close>

fun from_result :: "error + 'a \<Rightarrow> 'a outcome" where
  "from_result (Inl e) = Fail e"
| "from_result (Inr x) = Ok x"

lemma from_result_eq [outcome_simps]:
  "from_result r = Ok x \<longleftrightarrow> r = Inr x"
  "from_result r = Fail e \<longleftrightarrow> r = Inl e"
  "from_result r \<noteq> Panic"
  by (cases r; auto)+

lemma and_then_eq_Ok [outcome_simps]:
  "and_then r f = Ok y \<longleftrightarrow> (\<exists>x. r = Ok x \<and> f x = Ok y)"
  by (cases r) auto

lemma and_then_eq_Panic [outcome_simps]:
  "and_then r f = Panic \<longleftrightarrow> r = Panic \<or> (\<exists>x. r = Ok x \<and> f x = Panic)"
  by (cases r) auto

lemma map_ok_eq_Ok [outcome_simps]: "map_ok f r = Ok y \<longleftrightarrow> (\<exists>x. r = Ok x \<and> y = f x)"
  by (cases r) auto

lemma map_ok_eq_Panic [outcome_simps]: "map_ok f r = Panic \<longleftrightarrow> r = Panic"
  by (cases r) auto

lemma is_ok_simps [simp]: "is_ok (Ok x)" "\<not> is_ok (Fail e)" "\<not> is_ok Panic"
  by (simp_all add: is_ok_def)

lemma is_ok_iff: "is_ok r \<longleftrightarrow> (\<exists>x. r = Ok x)"
  by (cases r) auto

lemma and_then_assoc: "and_then (and_then r f) g = and_then r (\<lambda>x. and_then (f x) g)"
  by (cases r) auto

lemma and_then_cong [fundef_cong]:
  "r = r' \<Longrightarrow> (\<And>x. r' = Ok x \<Longrightarrow> f x = g x) \<Longrightarrow> and_then r f = and_then r' g"
  by (cases r') auto

text \<open>A \<open>for\<close> loop over a slice that returns at the first error, threading a state.\<close>

fun fold_ok :: "('a \<Rightarrow> 's \<Rightarrow> 's outcome) \<Rightarrow> 'a list \<Rightarrow> 's \<Rightarrow> 's outcome" where
  "fold_ok f [] s = Ok s"
| "fold_ok f (x # xs) s = and_then (f x s) (fold_ok f xs)"

fun map_ok_list :: "('a \<Rightarrow> 'b outcome) \<Rightarrow> 'a list \<Rightarrow> 'b list outcome" where
  "map_ok_list f [] = Ok []"
| "map_ok_list f (x # xs) =
     and_then (f x) (\<lambda>y. and_then (map_ok_list f xs) (\<lambda>ys. Ok (y # ys)))"

lemma fold_ok_append: "fold_ok f (xs @ ys) s = and_then (fold_ok f xs s) (fold_ok f ys)"
proof (induction xs arbitrary: s)
  case Nil
  show ?case by simp
next
  case (Cons x xs)
  have "fold_ok f (xs @ ys) = (\<lambda>s. and_then (fold_ok f xs s) (fold_ok f ys))"
    by (rule ext) (rule Cons.IH)
  then show ?case by (simp add: and_then_assoc)
qed

lemma fold_ok_invariant:
  assumes "fold_ok f xs s = Ok t" and "P s"
    and "\<And>x s t. x \<in> set xs \<Longrightarrow> P s \<Longrightarrow> f x s = Ok t \<Longrightarrow> P t"
  shows "P t"
  using assms
proof (induction xs arbitrary: s)
  case Nil
  then show ?case by simp
next
  case (Cons x xs)
  from Cons.prems(1) obtain s' where s': "f x s = Ok s'" "fold_ok f xs s' = Ok t"
    by (auto simp: outcome_simps)
  from Cons.prems(3) [of x s s'] Cons.prems(2) s'(1) have "P s'" by simp
  then show ?case
    by (rule Cons.IH [OF s'(2)]) (rule Cons.prems(3); simp)
qed

lemma map_ok_list_eq_Ok: "map_ok_list f xs = Ok ys \<longleftrightarrow> list_all2 (\<lambda>x y. f x = Ok y) xs ys"
proof (induction xs arbitrary: ys)
  case Nil
  show ?case by auto
next
  case (Cons x xs)
  show ?case by (cases ys) (auto simp: outcome_simps Cons.IH)
qed

lemma map_ok_list_map: "(\<And>x. x \<in> set xs \<Longrightarrow> f x = Ok (g x)) \<Longrightarrow> map_ok_list f xs = Ok (map g xs)"
  by (induction xs) simp_all

lemma map_ok_list_length: "map_ok_list f xs = Ok ys \<Longrightarrow> length ys = length xs"
  by (auto simp: map_ok_list_eq_Ok dest: list_all2_lengthD)

section \<open>Strings\<close>

text \<open>Go strings are byte sequences; \<open>strings.HasPrefix\<close> and \<open><\<close> compare bytes.\<close>

definition hasPrefix :: "string \<Rightarrow> string \<Rightarrow> bool" where
  "hasPrefix s p \<longleftrightarrow> take (length p) s = p"

lemma hasPrefix_append [simp]: "hasPrefix (p @ s) p"
  by (simp add: hasPrefix_def)

lemma hasPrefix_iff: "hasPrefix s p \<longleftrightarrow> (\<exists>t. s = p @ t)"
  by (metis append_eq_conv_conj append_take_drop_id hasPrefix_def)

section \<open>Go maps with string keys\<close>

type_synonym 'v amap = "(string \<times> 'v) list"

text \<open>\<open>m[k]\<close> on a \<open>map[string]string\<close> gives the zero value for a missing key.\<close>

definition amap_str :: "string amap \<Rightarrow> string \<Rightarrow> string" where
  "amap_str m k = (case map_of m k of None \<Rightarrow> '''' | Some v \<Rightarrow> v)"

lemma map_of_amap_update [amap_simps]: "map_of (AList.update k v m) = (map_of m)(k \<mapsto> v)"
  by (rule update_conv')

lemma map_of_amap_delete [amap_simps]: "map_of (AList.delete k m) = (map_of m)(k := None)"
  by (rule delete_conv')

lemma amap_distinct_update [intro]:
  "distinct (map fst m) \<Longrightarrow> distinct (map fst (AList.update k v m))"
  by (rule distinct_update)

lemma amap_distinct_delete [intro]:
  "distinct (map fst m) \<Longrightarrow> distinct (map fst (AList.delete k m))"
  by (rule distinct_delete)

text \<open>Storing a binding that is there already changes nothing, not even the order.\<close>

lemma amap_update_idem [amap_simps]: "map_of m k = Some v \<Longrightarrow> AList.update k v m = m"
  by (induction m) (auto split: if_splits)

lemma amap_delete_idem: "map_of m k = None \<Longrightarrow> AList.delete k m = m"
  by (simp add: delete_idem map_of_eq_None_iff)

lemma amap_delete_update_same:
  "map_of m k = None \<Longrightarrow> AList.delete k (AList.update k v m) = m"
  by (induction m) (auto split: if_splits)

lemma amap_delete_update_other:
  "k \<noteq> k' \<Longrightarrow> AList.delete k (AList.update k' v m) = AList.update k' v (AList.delete k m)"
  by (induction m) auto

section \<open>Lists\<close>

lemma filter_eq_self: "(\<And>x. x \<in> set xs \<Longrightarrow> P x) \<Longrightarrow> filter P xs = xs"
  by (induction xs) auto

lemma filter_eq_Nil: "(\<And>x. x \<in> set xs \<Longrightarrow> \<not> P x) \<Longrightarrow> filter P xs = []"
  by (induction xs) auto

end
