(* ===== verification/Json_Tree.thy ===== *)
theory Json_Tree
  imports SB_Prelude
begin

text \<open>
  Unstructured objects: the \<open>map[string]interface{}\<close> trees the converter produces from a
  workload, the positions in such a tree, and reading and writing at a position. A Go map or
  slice inside the tree is a reference, so a write through a \<open>reflect.Value\<close> is seen by
  every later read of the tree; here a reference is the position it was reached by and a write
  updates the tree at that position.
\<close>

section \<open>Trees and positions\<close>

text \<open>Numbers are kept as their literal: the program never computes with them.\<close>

datatype json =
    JNull
  | JBool bool
  | JNum string
  | JStr string
  | JArr "json list"
  | JObj "(string \<times> json) list"

datatype pstep = Key string | Idx nat

type_synonym loc = "pstep list"

fun childAt :: "pstep \<Rightarrow> json \<Rightarrow> json option" where
  "childAt (Key k) (JObj kvs) = map_of kvs k"
| "childAt (Idx i) (JArr xs) = (if i < length xs then Some (xs ! i) else None)"
| "childAt _ _ = None"

fun setChild :: "pstep \<Rightarrow> json \<Rightarrow> json \<Rightarrow> json" where
  "setChild (Key k) v (JObj kvs) = JObj (AList.update k v kvs)"
| "setChild (Idx i) v (JArr xs) = JArr (xs[i := v])"
| "setChild _ _ j = j"

fun getLoc :: "json \<Rightarrow> loc \<Rightarrow> json option" where
  "getLoc j [] = Some j"
| "getLoc j (s # l) = (case childAt s j of None \<Rightarrow> None | Some c \<Rightarrow> getLoc c l)"

text \<open>A write at a position that is not there changes nothing.\<close>

fun putLoc :: "json \<Rightarrow> loc \<Rightarrow> json \<Rightarrow> json" where
  "putLoc j [] v = v"
| "putLoc j (s # l) v =
     (case childAt s j of None \<Rightarrow> j | Some c \<Rightarrow> setChild s (putLoc c l v) j)"

section \<open>Reading and writing\<close>

lemma childAt_setChild_same: "childAt s j = Some c \<Longrightarrow> childAt s (setChild s v j) = Some v"
  by (cases "(s, j)" rule: childAt.cases) (auto simp: amap_simps split: if_splits)

lemma childAt_setChild_key [simp]:
  "childAt (Key k) (JObj (AList.update k' v kvs)) = (if k = k' then Some v else map_of kvs k)"
  by (simp add: amap_simps)

lemma childAt_setChild_other: "s \<noteq> s' \<Longrightarrow> childAt s (setChild s' v j) = childAt s j"
  by (cases "(s, j)" rule: childAt.cases; cases s') (auto simp: amap_simps)

lemma getLoc_append:
  "getLoc j (l @ m) = (case getLoc j l of None \<Rightarrow> None | Some c \<Rightarrow> getLoc c m)"
  by (induction l arbitrary: j) (auto split: option.splits)

lemma getLoc_putLoc_same: "getLoc j l = Some c \<Longrightarrow> getLoc (putLoc j l v) l = Some v"
proof (induction l arbitrary: j)
  case Nil
  show ?case by simp
next
  case (Cons s l)
  then obtain d where d: "childAt s j = Some d" "getLoc d l = Some c"
    by (auto split: option.splits)
  with Cons.IH [of d] show ?case by (simp add: childAt_setChild_same)
qed

lemma getLoc_putLoc_below:
  assumes "getLoc j l = Some c"
  shows "getLoc (putLoc j l v) (l @ m) = getLoc v m"
  using getLoc_putLoc_same [OF assms, of v] by (simp add: getLoc_append)

lemma putLoc_self: "getLoc j l = Some c \<Longrightarrow> putLoc j l c = j"
proof (induction l arbitrary: j)
  case Nil
  then show ?case by simp
next
  case (Cons s l)
  then obtain d where d: "childAt s j = Some d" "getLoc d l = Some c"
    by (auto split: option.splits)
  with Cons.IH [of d] show ?case
    by (cases "(s, j)" rule: childAt.cases) (auto simp: amap_simps split: if_splits)
qed

lemma putLoc_putLoc: "getLoc j l = Some c \<Longrightarrow> putLoc (putLoc j l v) l w = putLoc j l w"
proof (induction l arbitrary: j)
  case Nil
  show ?case by simp
next
  case (Cons s l)
  then obtain d where d: "childAt s j = Some d" "getLoc d l = Some c"
    by (auto split: option.splits)
  with Cons.IH [of d] show ?case
    by (cases "(s, j)" rule: childAt.cases) (auto simp: amap_simps split: if_splits)
qed

lemma putLoc_append:
  assumes "getLoc j l = Some c"
  shows "putLoc j (l @ m) v = putLoc j l (putLoc c m v)"
  using assms
  by (induction l arbitrary: j) (auto split: option.splits)

text \<open>Two positions that part at some step do not see each other's writes.\<close>

fun diverge :: "loc \<Rightarrow> loc \<Rightarrow> bool" where
  "diverge (s # l) (s' # l') \<longleftrightarrow> s \<noteq> s' \<or> diverge l l'"
| "diverge _ _ \<longleftrightarrow> False"

lemma diverge_sym: "diverge l m \<longleftrightarrow> diverge m l"
  by (induction l m rule: diverge.induct) auto

lemma diverge_prefix [simp]: "diverge (p @ l) (p @ m) \<longleftrightarrow> diverge l m"
  by (induction p) auto

lemma diverge_appendI: "diverge l m \<Longrightarrow> diverge (l @ x) (m @ y)"
  by (induction l m rule: diverge.induct) auto

lemma getLoc_putLoc_diverge:
  "diverge l m \<Longrightarrow> getLoc (putLoc j l v) m = getLoc j m"
proof (induction l m arbitrary: j rule: diverge.induct)
  case (1 s l s' m)
  show ?case
  proof (cases "childAt s j")
    case None
    then show ?thesis by simp
  next
    case (Some c)
    show ?thesis
    proof (cases "s = s'")
      case True
      with 1 Some show ?thesis by (simp add: childAt_setChild_same)
    next
      case False
      then show ?thesis by (simp add: Some childAt_setChild_other)
    qed
  qed
qed auto

section \<open>Nested keys\<close>

text \<open>
  The abstract view of a Restricted JSONPath with the keys \<open>ks\<close>: \<open>objGet\<close> reads the
  value below the keys, where a missing or null step reads as nothing; \<open>objSet\<close> writes it,
  making the objects on the way that are missing or null; \<open>objWritable\<close> says that no other
  value is in the way.
\<close>

fun objGet :: "json \<Rightarrow> string list \<Rightarrow> json option" where
  "objGet JNull ks = None"
| "objGet j [] = Some j"
| "objGet j (k # ks) =
     (case childAt (Key k) j of None \<Rightarrow> None | Some c \<Rightarrow> objGet c ks)"

definition orEmpty :: "json option \<Rightarrow> json" where
  "orEmpty v = (case v of None \<Rightarrow> JObj [] | Some JNull \<Rightarrow> JObj [] | Some j \<Rightarrow> j)"

fun objSet :: "json \<Rightarrow> string list \<Rightarrow> json \<Rightarrow> json" where
  "objSet j [] v = v"
| "objSet j [k] v = setChild (Key k) v j"
| "objSet j (k # ks) v = setChild (Key k) (objSet (orEmpty (childAt (Key k) j)) ks v) j"

fun isObj :: "json \<Rightarrow> bool" where
  "isObj (JObj _) = True"
| "isObj _ = False"

fun objWritable :: "json \<Rightarrow> string list \<Rightarrow> bool" where
  "objWritable j [] = False"
| "objWritable j [k] = isObj j"
| "objWritable j (k # ks) = (isObj j \<and> objWritable (orEmpty (childAt (Key k) j)) ks)"

lemma isObj_iff: "isObj j \<longleftrightarrow> (\<exists>kvs. j = JObj kvs)"
  by (cases j) auto

lemma orEmpty_JObj [simp]: "orEmpty None = JObj []" "orEmpty (Some JNull) = JObj []"
  "orEmpty (Some (JObj kvs)) = JObj kvs"
  by (simp_all add: orEmpty_def)

lemma objGet_JObj [simp]: "objGet (JObj kvs) [] = Some (JObj kvs)"
  "objGet (JObj kvs) (k # ks) = (case map_of kvs k of None \<Rightarrow> None | Some c \<Rightarrow> objGet c ks)"
  by simp_all

lemma objGet_Nil: "objGet j [] = (if j = JNull then None else Some j)"
  by (cases j) simp_all

lemma objSet_Cons2 [simp]:
  "ks \<noteq> [] \<Longrightarrow> objSet j (k # ks) v =
     setChild (Key k) (objSet (orEmpty (childAt (Key k) j)) ks v) j"
  by (cases ks) simp_all

lemma objWritable_Cons2 [simp]:
  "ks \<noteq> [] \<Longrightarrow> objWritable j (k # ks) \<longleftrightarrow>
     isObj j \<and> objWritable (orEmpty (childAt (Key k) j)) ks"
  by (cases ks) simp_all

lemma objSet_isObj: "objWritable j ks \<Longrightarrow> isObj (objSet j ks v)"
  by (induction j ks v rule: objSet.induct) (auto simp: isObj_iff)

text \<open>Reading what was written, and reading beside it.\<close>

lemma objGet_objSet_same:
  "objWritable j ks \<Longrightarrow> v \<noteq> JNull \<Longrightarrow> objGet (objSet j ks v) ks = Some v"
proof (induction j ks v rule: objSet.induct)
  case (2 j k v)
  then show ?case by (auto simp: isObj_iff objGet_Nil amap_simps)
next
  case (3 j k k' ks v)
  then show ?case by (auto simp: isObj_iff amap_simps)
qed auto

fun divergeKeys :: "string list \<Rightarrow> string list \<Rightarrow> bool" where
  "divergeKeys (k # ks) (k' # ks') \<longleftrightarrow> k \<noteq> k' \<or> divergeKeys ks ks'"
| "divergeKeys _ _ \<longleftrightarrow> False"

lemma objGet_empty: "ks \<noteq> [] \<Longrightarrow> objGet (JObj []) ks = None"
  by (cases ks) simp_all

lemma divergeKeys_nonempty: "divergeKeys ks ms \<Longrightarrow> ks \<noteq> [] \<and> ms \<noteq> []"
  by (cases "(ks, ms)" rule: divergeKeys.cases) auto

lemma objGet_orEmpty:
  "ms \<noteq> [] \<Longrightarrow> objGet (orEmpty v) ms = (case v of None \<Rightarrow> None | Some c \<Rightarrow> objGet c ms)"
  by (cases v rule: option.exhaust; cases "the v"; cases ms) (auto simp: orEmpty_def)

lemma objGet_objSet_diverge:
  "objWritable j ks \<Longrightarrow> divergeKeys ks ms \<Longrightarrow> objGet (objSet j ks v) ms = objGet j ms"
proof (induction j ks v arbitrary: ms rule: objSet.induct)
  case (2 j k v)
  then show ?case by (cases ms) (auto simp: isObj_iff amap_simps)
next
  case (3 j k k' ks v)
  then obtain m ms' where ms: "ms = m # ms'" by (cases ms) auto
  from 3(2) obtain kvs where j: "j = JObj kvs" by (auto simp: isObj_iff)
  show ?case
  proof (cases "m = k")
    case True
    with 3(3) ms have "divergeKeys (k' # ks) ms'" by simp
    with 3(1) [of ms'] 3(2) have
      "objGet (objSet (orEmpty (childAt (Key k) j)) (k' # ks) v) ms' =
       objGet (orEmpty (childAt (Key k) j)) ms'"
      by simp
    with True ms j divergeKeys_nonempty [OF \<open>divergeKeys (k' # ks) ms'\<close>] show ?thesis
      by (simp add: amap_simps objGet_orEmpty)
  next
    case False
    with ms j show ?thesis by (simp add: amap_simps)
  qed
qed auto

lemma objWritable_objSet_diverge:
  "objWritable j ks \<Longrightarrow> objWritable j ms \<Longrightarrow> divergeKeys ks ms \<Longrightarrow> objWritable (objSet j ks v) ms"
proof (induction j ks v arbitrary: ms rule: objSet.induct)
  case (2 j k v)
  then show ?case by (cases ms rule: remdups_adj.cases) (auto simp: isObj_iff amap_simps)
next
  case (3 j k k' ks v)
  then obtain m ms' where ms: "ms = m # ms'" by (cases ms) auto
  from 3(2) obtain kvs where j: "j = JObj kvs" by (auto simp: isObj_iff)
  show ?case
  proof (cases "ms' = []")
    case True
    with ms j show ?thesis by simp
  next
    case False
    have "isObj (objSet (orEmpty (map_of kvs k)) (k' # ks) v)"
      using 3(2) j by (intro objSet_isObj) simp
    then have "orEmpty (Some (objSet (orEmpty (map_of kvs k)) (k' # ks) v)) =
        objSet (orEmpty (map_of kvs k)) (k' # ks) v"
      by (auto simp: isObj_iff)
    with False 3(1) [of ms'] 3(2,3,4) ms j show ?thesis
      by (cases "m = k") (auto simp: amap_simps)
  qed
qed auto

end
