(* ===== verification/Core_Types.thy ===== *)
theory Core_Types
  imports Json_Tree
begin

text \<open>
  The data of the Kubernetes libraries as far as the program looks into it: the \<open>corev1\<close>
  structs it reads and builds, object metadata, parsed JSONPath nodes and validation errors.
  The fields the program neither reads nor writes are kept together as \<open>opaque\<close> (the zero
  value is empty). The operations of the libraries are arguments of the model: the JSON form of
  the \<open>corev1\<close> slices is the record \<open>codec\<close>, the JSONPath library the record
  \<open>jsonpath\<close>.
\<close>

type_synonym opaque = "(string \<times> json) list"

section \<open>Environment variables, volume mounts and volumes\<close>

record objectFieldSelector =
  ofs_FieldPath :: string
  ofs_rest :: opaque

record secretKeySelector =
  sks_Name :: string
  sks_Key :: string
  sks_rest :: opaque

record envVarSource =
  evs_FieldRef :: "objectFieldSelector option"
  evs_SecretKeyRef :: "secretKeySelector option"
  evs_rest :: opaque

record envVar =
  ev_Name :: string
  ev_Value :: string
  ev_ValueFrom :: "envVarSource option"

record volumeMount =
  vm_Name :: string
  vm_ReadOnly :: bool
  vm_MountPath :: string
  vm_rest :: opaque

record secretProjection =
  sp_Name :: string
  sp_rest :: opaque

record downwardAPIVolumeFile =
  daf_Path :: string
  daf_FieldRef :: "objectFieldSelector option"
  daf_rest :: opaque

record downwardAPIProjection =
  dap_Items :: "downwardAPIVolumeFile list"

record volumeProjection =
  vp_Secret :: "secretProjection option"
  vp_DownwardAPI :: "downwardAPIProjection option"
  vp_rest :: opaque

record projectedVolumeSource =
  pvs_Sources :: "volumeProjection list"
  pvs_rest :: opaque

record volume =
  v_Name :: string
  v_Projected :: "projectedVolumeSource option"
  v_rest :: opaque

text \<open>The JSON encoding of the slices, defined by the struct tags of \<open>corev1\<close>.\<close>

record codec =
  encEnv :: "envVar list \<Rightarrow> json"
  decEnv :: "json \<Rightarrow> error + envVar list"
  encMounts :: "volumeMount list \<Rightarrow> json"
  decMounts :: "json \<Rightarrow> error + volumeMount list"
  encVolumes :: "volume list \<Rightarrow> json"
  decVolumes :: "json \<Rightarrow> error + volume list"

text \<open>
  The documented behaviour of the encoding: a slice is encoded as an array, and decoding gives
  back what was encoded.
\<close>

definition codec_ok :: "codec \<Rightarrow> bool" where
  "codec_ok C \<longleftrightarrow>
     (\<forall>x. decEnv C (encEnv C x) = Inr x \<and> (\<exists>js. encEnv C x = JArr js)) \<and>
     (\<forall>x. decMounts C (encMounts C x) = Inr x \<and> (\<exists>js. encMounts C x = JArr js)) \<and>
     (\<forall>x. decVolumes C (encVolumes C x) = Inr x \<and> (\<exists>js. encVolumes C x = JArr js))"

section \<open>Object metadata\<close>

text \<open>A \<open>metav1.Time\<close> is kept as nanoseconds, 0 for Go's zero time.\<close>

record objectMeta =
  om_Name :: string
  om_Namespace :: string
  om_UID :: string
  om_ResourceVersion :: string
  om_Labels :: "string amap"
  om_DeletionTimestamp :: "int option"

definition timeIsZero :: "int option \<Rightarrow> bool" where
  "timeIsZero t = (case t of None \<Rightarrow> True | Some n \<Rightarrow> n = 0)"

record groupVersionKind =
  gvk_Group :: string
  gvk_Version :: string
  gvk_Kind :: string

text \<open>Label selectors are opaque to the program, which hands them to the library.\<close>

type_synonym labelSelector = json
type_synonym selector = "string amap \<Rightarrow> bool"

section \<open>Parsed JSONPath expressions\<close>

text \<open>
  Of the node types of the JSONPath library the program distinguishes lists and fields; any
  other node carries its type and its printed form.
\<close>

datatype node =
    NodeList "node list"
  | NodeField string
  | NodeOther string string

text \<open>
  \<open>jpParse\<close> gives the nodes of the root list. \<open>jpFind\<close> gives the results of
  \<open>FindResults\<close>: one list per root node, each result a \<open>reflect.Value\<close>.
\<close>

datatype rval =
    RInvalid        \<comment> \<open>the zero \<open>reflect.Value\<close>\<close>
  | RIface loc      \<comment> \<open>an element of a map or slice: a value of interface kind\<close>
  | RConc loc       \<comment> \<open>the value itself, of its own kind\<close>

record jsonpath =
  jpParse :: "string \<Rightarrow> error + node list"
  jpFind :: "string \<Rightarrow> json \<Rightarrow> error + rval list list"

text \<open>\<open>fmt.Sprintf("{%s}", expression)\<close>\<close>

definition braced :: "string \<Rightarrow> string" where
  "braced e = ''{'' @ e @ ''}''"

section \<open>Validation errors\<close>

datatype pathElem = Child string | Index nat

type_synonym fldPath = "pathElem list"

datatype fieldError =
    ErrRequired fldPath string
  | ErrInvalid fldPath json string
  | ErrDuplicate fldPath string

definition errString :: "error \<Rightarrow> string" where
  "errString e = (case e of NotFound \<Rightarrow> ''not found'' | Forbidden \<Rightarrow> ''forbidden'' | Error m \<Rightarrow> m)"

text \<open>\<open>ErrorList.ToAggregate\<close>: no error when the list is empty.\<close>

definition toAggregate :: "fieldError list \<Rightarrow> fieldError list option" where
  "toAggregate errs = (if errs = [] then None else Some errs)"

lemma toAggregate_None [simp]: "toAggregate errs = None \<longleftrightarrow> errs = []"
  by (simp add: toAggregate_def)

text \<open>\<open>%d\<close> of a non-negative index.\<close>

fun decimal :: "nat \<Rightarrow> string" where
  "decimal n = (if n < 10 then [char_of (48 + n)] else decimal (n div 10) @ [char_of (48 + n mod 10)])"

declare decimal.simps [simp del]

end
