(* ===== verification/Binding_Api.thy ===== *)
theory Binding_Api
  imports Core_Types
begin

text \<open>
  \<open>apis/v1beta1/servicebinding_types.go\<close> and \<open>servicebinding_webhook.go\<close>: the
  ServiceBinding resource, its default and its validation. The argument \<open>asSelector\<close> is
  \<open>metav1.LabelSelectorAsSelector\<close>.
\<close>

section \<open>The resource\<close>

record workloadReference =
  wr_APIVersion :: string
  wr_Kind :: string
  wr_Name :: string
  wr_Selector :: "labelSelector option"
  wr_Containers :: "string list"

record serviceReference =
  sr_APIVersion :: string
  sr_Kind :: string
  sr_Name :: string

record secretReference =
  sec_Name :: string

record envMapping =
  em_Name :: string
  em_Key :: string

record bindingSpec =
  bs_Name :: string
  bs_Type :: string
  bs_Provider :: string
  bs_Workload :: workloadReference
  bs_Service :: serviceReference
  bs_Env :: "envMapping list"

datatype conditionStatus = ConditionTrue | ConditionFalse | ConditionUnknown

record condition =
  c_Type :: string
  c_Status :: conditionStatus
  c_Reason :: string
  c_Message :: string

record bindingStatus =
  st_ObservedGeneration :: int
  st_Conditions :: "condition list"
  st_Binding :: "secretReference option"

record serviceBinding =
  sb_meta :: objectMeta
  sb_Spec :: bindingSpec
  sb_Status :: bindingStatus

type_synonym asSelector = "labelSelector option \<Rightarrow> error + selector"

section \<open>Default and validation\<close>

definition bindingDefault :: "serviceBinding \<Rightarrow> serviceBinding" where
  "bindingDefault r =
    (if bs_Name (sb_Spec r) = ''''
     then r\<lparr>sb_Spec := (sb_Spec r)\<lparr>bs_Name := om_Name (sb_meta r)\<rparr>\<rparr> else r)"

definition requiredIf :: "bool \<Rightarrow> fldPath \<Rightarrow> string \<Rightarrow> fieldError list" where
  "requiredIf b p d = (if b then [ErrRequired p d] else [])"

definition validateServiceRef :: "serviceReference \<Rightarrow> fldPath \<Rightarrow> fieldError list" where
  "validateServiceRef r p =
     requiredIf (sr_APIVersion r = '''') (p @ [Child ''apiVersion'']) '''' @
     requiredIf (sr_Kind r = '''') (p @ [Child ''kind'']) '''' @
     requiredIf (sr_Name r = '''') (p @ [Child ''name'']) ''''"

definition validateWorkloadRef ::
  "asSelector \<Rightarrow> workloadReference \<Rightarrow> fldPath \<Rightarrow> fieldError list" where
  "validateWorkloadRef asSel r p =
     requiredIf (wr_APIVersion r = '''') (p @ [Child ''apiVersion'']) '''' @
     requiredIf (wr_Kind r = '''') (p @ [Child ''kind'']) '''' @
     requiredIf (wr_Name r = '''' \<and> wr_Selector r = None)
       (p @ [Child ''[name, selector]'']) ''expected exactly one, got neither'' @
     requiredIf (wr_Name r \<noteq> '''' \<and> wr_Selector r \<noteq> None)
       (p @ [Child ''[name, selector]'']) ''expected exactly one, got both'' @
     (case wr_Selector r of
        None \<Rightarrow> []
      | Some s \<Rightarrow>
          (case asSel (wr_Selector r) of
             Inl err \<Rightarrow> [ErrInvalid (p @ [Child ''selector'']) s (errString err)]
           | Inr _ \<Rightarrow> []))"

definition validateEnvMapping :: "envMapping \<Rightarrow> fldPath \<Rightarrow> fieldError list" where
  "validateEnvMapping r p =
     requiredIf (em_Name r = '''') (p @ [Child ''name'']) '''' @
     requiredIf (em_Key r = '''') (p @ [Child ''key'']) ''''"

fun validateEnvFrom :: "nat \<Rightarrow> envMapping list \<Rightarrow> fldPath \<Rightarrow> fieldError list" where
  "validateEnvFrom i [] p = []"
| "validateEnvFrom i (e # es) p =
     validateEnvMapping e (p @ [Child ''env'', Index i]) @ validateEnvFrom (Suc i) es p"

definition validateSpec :: "asSelector \<Rightarrow> bindingSpec \<Rightarrow> fldPath \<Rightarrow> fieldError list" where
  "validateSpec asSel r p =
     requiredIf (bs_Name r = '''') (p @ [Child ''name'']) '''' @
     validateServiceRef (bs_Service r) (p @ [Child ''service'']) @
     validateWorkloadRef asSel (bs_Workload r) (p @ [Child ''workload'']) @
     validateEnvFrom 0 (bs_Env r) p"

definition validateBinding :: "asSelector \<Rightarrow> serviceBinding \<Rightarrow> fieldError list" where
  "validateBinding asSel r = validateSpec asSel (sb_Spec r) [Child ''spec'']"

text \<open>As for the mapping, the receiver is defaulted in place and returned beside the error.\<close>

definition bindingValidateCreate ::
  "asSelector \<Rightarrow> serviceBinding \<Rightarrow> serviceBinding \<times> fieldError list option" where
  "bindingValidateCreate asSel r =
     (let r = bindingDefault r in (r, toAggregate (validateBinding asSel r)))"

definition bindingValidateUpdate ::
  "asSelector \<Rightarrow> serviceBinding \<Rightarrow> serviceBinding \<Rightarrow> serviceBinding \<times> fieldError list option" where
  "bindingValidateUpdate asSel old r =
     (let r = bindingDefault r in (r, toAggregate (validateBinding asSel r)))"

definition bindingValidateDelete :: "serviceBinding \<Rightarrow> fieldError list option" where
  "bindingValidateDelete r = None"

section \<open>What validation accepts\<close>

definition workloadRefOk :: "asSelector \<Rightarrow> workloadReference \<Rightarrow> bool" where
  "workloadRefOk asSel r \<longleftrightarrow> wr_APIVersion r \<noteq> '''' \<and> wr_Kind r \<noteq> '''' \<and>
     (case wr_Selector r of
        None \<Rightarrow> wr_Name r \<noteq> ''''
      | Some _ \<Rightarrow> wr_Name r = '''' \<and> \<not> isl (asSel (wr_Selector r)))"

definition specOk :: "asSelector \<Rightarrow> bindingSpec \<Rightarrow> bool" where
  "specOk asSel s \<longleftrightarrow> bs_Name s \<noteq> '''' \<and>
     sr_APIVersion (bs_Service s) \<noteq> '''' \<and> sr_Kind (bs_Service s) \<noteq> '''' \<and>
     sr_Name (bs_Service s) \<noteq> '''' \<and> workloadRefOk asSel (bs_Workload s) \<and>
     (\<forall>e \<in> set (bs_Env s). em_Name e \<noteq> '''' \<and> em_Key e \<noteq> '''')"

lemma requiredIf_Nil [simp]: "requiredIf b p d = [] \<longleftrightarrow> \<not> b"
  by (simp add: requiredIf_def)

lemma validateWorkloadRef_eq_Nil: "validateWorkloadRef asSel r p = [] \<longleftrightarrow> workloadRefOk asSel r"
  by (auto simp: validateWorkloadRef_def workloadRefOk_def split: option.splits sum.splits)

lemma validateEnvFrom_eq_Nil:
  "validateEnvFrom i es p = [] \<longleftrightarrow> (\<forall>e \<in> set es. em_Name e \<noteq> '''' \<and> em_Key e \<noteq> '''')"
  by (induction es arbitrary: i) (auto simp: validateEnvMapping_def)

lemma validateBinding_eq_Nil: "validateBinding asSel r = [] \<longleftrightarrow> specOk asSel (sb_Spec r)"
  by (simp add: validateBinding_def validateSpec_def specOk_def validateServiceRef_def
      validateWorkloadRef_eq_Nil validateEnvFrom_eq_Nil)

lemma bindingDefault_idem: "bindingDefault (bindingDefault r) = bindingDefault r"
  by (simp add: bindingDefault_def)

lemma bindingDefault_meta [simp]: "sb_meta (bindingDefault r) = sb_meta r"
  by (simp add: bindingDefault_def)

lemma bindingDefault_Status [simp]: "sb_Status (bindingDefault r) = sb_Status r"
  by (simp add: bindingDefault_def)

end
