(* ===== verification/Mapping_Api.thy ===== *)
theory Mapping_Api
  imports Core_Types
begin

text \<open>
  \<open>apis/v1beta1/clusterworkloadresourcemapping_types.go\<close> and
  \<open>clusterworkloadresourcemapping_webhook.go\<close>: the mapping resource, its defaults and its
  validation, where JSONPath parsing is the argument \<open>J\<close>.
\<close>

section \<open>The resource\<close>

record mappingContainer =
  mc_Path :: string
  mc_Name :: string
  mc_Env :: string
  mc_VolumeMounts :: string

record mappingTemplate =
  mt_Version :: string
  mt_Annotations :: string
  mt_Containers :: "mappingContainer list"
  mt_Volumes :: string

record resourceMapping =
  rm_meta :: objectMeta
  rm_Versions :: "mappingTemplate list"

section \<open>Defaults\<close>

definition podSpecableContainers :: "mappingContainer list" where
  "podSpecableContainers =
    [\<lparr>mc_Path = ''.spec.template.spec.initContainers[*]'', mc_Name = ''.name'',
      mc_Env = '''', mc_VolumeMounts = ''''\<rparr>,
     \<lparr>mc_Path = ''.spec.template.spec.containers[*]'', mc_Name = ''.name'',
      mc_Env = '''', mc_VolumeMounts = ''''\<rparr>]"

definition defaultContainer :: "mappingContainer \<Rightarrow> mappingContainer" where
  "defaultContainer c =
    (let c = (if mc_Env c = '''' then c\<lparr>mc_Env := ''.env''\<rparr> else c)
     in if mc_VolumeMounts c = '''' then c\<lparr>mc_VolumeMounts := ''.volumeMounts''\<rparr> else c)"

definition defaultTemplate :: "mappingTemplate \<Rightarrow> mappingTemplate" where
  "defaultTemplate r =
    (let r = (if mt_Annotations r = ''''
              then r\<lparr>mt_Annotations := ''.spec.template.metadata.annotations''\<rparr> else r);
         r = (if length (mt_Containers r) = 0
              then r\<lparr>mt_Containers := podSpecableContainers\<rparr> else r);
         r = r\<lparr>mt_Containers := map defaultContainer (mt_Containers r)\<rparr>
     in if mt_Volumes r = '''' then r\<lparr>mt_Volumes := ''.spec.template.spec.volumes''\<rparr> else r)"

definition defaultMapping :: "resourceMapping \<Rightarrow> resourceMapping" where
  "defaultMapping r = r\<lparr>rm_Versions := map defaultTemplate (rm_Versions r)\<rparr>"

text \<open>What a defaulted template guarantees to the projector.\<close>

definition defaultedContainer :: "mappingContainer \<Rightarrow> bool" where
  "defaultedContainer c \<longleftrightarrow> mc_Env c \<noteq> '''' \<and> mc_VolumeMounts c \<noteq> ''''"

definition defaultedTemplate :: "mappingTemplate \<Rightarrow> bool" where
  "defaultedTemplate r \<longleftrightarrow> mt_Annotations r \<noteq> '''' \<and> mt_Volumes r \<noteq> '''' \<and>
     mt_Containers r \<noteq> [] \<and> (\<forall>c \<in> set (mt_Containers r). defaultedContainer c)"

lemma defaultContainer_defaulted: "defaultedContainer (defaultContainer c)"
  by (simp add: defaultedContainer_def defaultContainer_def Let_def)

lemma defaultContainer_id: "defaultedContainer c \<Longrightarrow> defaultContainer c = c"
  by (simp add: defaultedContainer_def defaultContainer_def Let_def)

lemma podSpecableContainers_nonempty [simp]: "podSpecableContainers \<noteq> []"
  by (simp add: podSpecableContainers_def)

lemma defaultTemplate_defaulted: "defaultedTemplate (defaultTemplate r)"
  by (auto simp: defaultedTemplate_def defaultTemplate_def Let_def defaultContainer_defaulted)

lemma defaultTemplate_id: "defaultedTemplate r \<Longrightarrow> defaultTemplate r = r"
  by (simp add: defaultedTemplate_def defaultTemplate_def Let_def defaultContainer_id
      map_idI)

lemma defaultTemplate_Version [simp]: "mt_Version (defaultTemplate r) = mt_Version r"
  by (simp add: defaultTemplate_def Let_def)

section \<open>Validation\<close>

text \<open>
  The loop over the nodes appends the children of a list node to the nodes still to visit.
\<close>

fun nodeSize :: "node \<Rightarrow> nat" where
  "nodeSize (NodeList ns) = Suc (sum_list (map nodeSize ns))"
| "nodeSize _ = 1"

function restrictedNodes :: "string \<Rightarrow> fldPath \<Rightarrow> node list \<Rightarrow> fieldError list" where
  "restrictedNodes e p [] = []"
| "restrictedNodes e p (NodeList ns # q) = restrictedNodes e p (q @ ns)"
| "restrictedNodes e p (NodeField f # q) = restrictedNodes e p q"
| "restrictedNodes e p (NodeOther t s # q) =
     ErrInvalid p (JStr e) (''unsupported node: '' @ s) # restrictedNodes e p q"
  by pat_completeness auto
termination
  by (relation "measure (\<lambda>(e, p, q). sum_list (map nodeSize q))") auto

definition validateJsonPath :: "jsonpath \<Rightarrow> string \<Rightarrow> fldPath \<Rightarrow> fieldError list" where
  "validateJsonPath J e p =
    (case jpParse J (braced e) of
       Inr nodes \<Rightarrow>
         (if length nodes \<noteq> 1 then [ErrInvalid p (JStr e) ''too many root nodes''] else [])
     | Inl err \<Rightarrow> [ErrInvalid p (JStr e) (errString err)])"

definition validateRestrictedJsonPath :: "jsonpath \<Rightarrow> string \<Rightarrow> fldPath \<Rightarrow> fieldError list" where
  "validateRestrictedJsonPath J e p =
    (case jpParse J (braced e) of
       Inr nodes \<Rightarrow>
         (if length nodes \<noteq> 1 then [ErrInvalid p (JStr e) ''too many root nodes''] else [])
         @ restrictedNodes e p nodes
     | Inl err \<Rightarrow> [ErrInvalid p (JStr e) (errString err)])"

definition validateContainer :: "jsonpath \<Rightarrow> mappingContainer \<Rightarrow> fldPath \<Rightarrow> fieldError list" where
  "validateContainer J c p =
     validateJsonPath J (mc_Path c) (p @ [Child ''path'']) @
     (if mc_Name c \<noteq> '''' then validateRestrictedJsonPath J (mc_Name c) (p @ [Child ''name'']) else []) @
     validateRestrictedJsonPath J (mc_Env c) (p @ [Child ''env'']) @
     validateRestrictedJsonPath J (mc_VolumeMounts c) (p @ [Child ''volumeMounts''])"

text \<open>A loop \<open>for i := range xs\<close> that appends the errors of each element.\<close>

fun errsFrom :: "nat \<Rightarrow> ('a \<Rightarrow> nat \<Rightarrow> fieldError list) \<Rightarrow> 'a list \<Rightarrow> fieldError list" where
  "errsFrom i f [] = []"
| "errsFrom i f (x # xs) = f x i @ errsFrom (Suc i) f xs"

definition validateTemplate :: "jsonpath \<Rightarrow> mappingTemplate \<Rightarrow> fldPath \<Rightarrow> fieldError list" where
  "validateTemplate J r p =
     (if mt_Version r = '''' then [ErrRequired (p @ [Child ''version'']) ''''] else []) @
     validateRestrictedJsonPath J (mt_Annotations r) (p @ [Child ''annotations'']) @
     validateRestrictedJsonPath J (mt_Volumes r) (p @ [Child ''volumes'']) @
     errsFrom 0 (\<lambda>c i. validateContainer J c (p @ [Child ''containers'', Index i])) (mt_Containers r)"

text \<open>The \<open>versions\<close> map holds the last index at which a version was seen.\<close>

fun validateVersions ::
  "jsonpath \<Rightarrow> nat \<Rightarrow> (string \<rightharpoonup> nat) \<Rightarrow> mappingTemplate list \<Rightarrow> fieldError list" where
  "validateVersions J i seen [] = []"
| "validateVersions J i seen (v # vs) =
     (case seen (mt_Version v) of
        Some p \<Rightarrow>
          [ErrDuplicate [Child ''spec'', Child ''versions'',
             Child (''['' @ decimal p @ '', '' @ decimal i @ '']''), Child ''version''] (mt_Version v)]
      | None \<Rightarrow> []) @
     validateTemplate J v [Child ''spec'', Child ''versions'', Index i] @
     validateVersions J (Suc i) (seen(mt_Version v \<mapsto> i)) vs"

definition validateMapping :: "jsonpath \<Rightarrow> resourceMapping \<Rightarrow> fieldError list" where
  "validateMapping J r = validateVersions J 0 Map.empty (rm_Versions r)"

text \<open>\<open>Default\<close> changes the receiver, so the defaulted resource is returned beside the error.\<close>

definition mappingValidateCreate ::
  "jsonpath \<Rightarrow> resourceMapping \<Rightarrow> resourceMapping \<times> fieldError list option" where
  "mappingValidateCreate J r = (let r = defaultMapping r in (r, toAggregate (validateMapping J r)))"

definition mappingValidateUpdate ::
  "jsonpath \<Rightarrow> resourceMapping \<Rightarrow> resourceMapping \<Rightarrow> resourceMapping \<times> fieldError list option" where
  "mappingValidateUpdate J old r =
     (let r = defaultMapping r in (r, toAggregate (validateMapping J r)))"

definition mappingValidateDelete :: "resourceMapping \<Rightarrow> fieldError list option" where
  "mappingValidateDelete r = None"

section \<open>What validation accepts\<close>

text \<open>A node tree with fields only, the Restricted JSONPath of the specification.\<close>

fun onlyFields :: "node \<Rightarrow> bool" where
  "onlyFields (NodeList ns) = list_all onlyFields ns"
| "onlyFields (NodeField f) = True"
| "onlyFields (NodeOther t s) = False"

lemma restrictedNodes_eq_Nil: "restrictedNodes e p q = [] \<longleftrightarrow> list_all onlyFields q"
  by (induction e p q rule: restrictedNodes.induct) auto

definition jsonPathOk :: "jsonpath \<Rightarrow> string \<Rightarrow> bool" where
  "jsonPathOk J e \<longleftrightarrow>
     (case jpParse J (braced e) of Inl _ \<Rightarrow> False | Inr nodes \<Rightarrow> length nodes = 1)"

definition restrictedJsonPathOk :: "jsonpath \<Rightarrow> string \<Rightarrow> bool" where
  "restrictedJsonPathOk J e \<longleftrightarrow>
     (case jpParse J (braced e) of Inl _ \<Rightarrow> False
      | Inr nodes \<Rightarrow> length nodes = 1 \<and> list_all onlyFields nodes)"

definition containerOk :: "jsonpath \<Rightarrow> mappingContainer \<Rightarrow> bool" where
  "containerOk J c \<longleftrightarrow> jsonPathOk J (mc_Path c) \<and>
     (mc_Name c = '''' \<or> restrictedJsonPathOk J (mc_Name c)) \<and>
     restrictedJsonPathOk J (mc_Env c) \<and> restrictedJsonPathOk J (mc_VolumeMounts c)"

definition templateOk :: "jsonpath \<Rightarrow> mappingTemplate \<Rightarrow> bool" where
  "templateOk J r \<longleftrightarrow> mt_Version r \<noteq> '''' \<and>
     restrictedJsonPathOk J (mt_Annotations r) \<and> restrictedJsonPathOk J (mt_Volumes r) \<and>
     list_all (containerOk J) (mt_Containers r)"

definition mappingOk :: "jsonpath \<Rightarrow> resourceMapping \<Rightarrow> bool" where
  "mappingOk J r \<longleftrightarrow>
     distinct (map mt_Version (rm_Versions r)) \<and> list_all (templateOk J) (rm_Versions r)"

lemma validateJsonPath_eq_Nil: "validateJsonPath J e p = [] \<longleftrightarrow> jsonPathOk J e"
  by (auto simp: validateJsonPath_def jsonPathOk_def split: sum.splits)

lemma validateRestrictedJsonPath_eq_Nil:
  "validateRestrictedJsonPath J e p = [] \<longleftrightarrow> restrictedJsonPathOk J e"
  by (auto simp: validateRestrictedJsonPath_def restrictedJsonPathOk_def restrictedNodes_eq_Nil
      split: sum.splits)

lemma validateContainer_eq_Nil: "validateContainer J c p = [] \<longleftrightarrow> containerOk J c"
  by (auto simp: validateContainer_def containerOk_def validateJsonPath_eq_Nil
      validateRestrictedJsonPath_eq_Nil)

lemma errsFrom_eq_Nil:
  "(\<And>x i. f x i = [] \<longleftrightarrow> P x) \<Longrightarrow> errsFrom n f xs = [] \<longleftrightarrow> list_all P xs"
  by (induction xs arbitrary: n) auto

lemma validateTemplate_eq_Nil: "validateTemplate J r p = [] \<longleftrightarrow> templateOk J r"
  by (auto simp: validateTemplate_def templateOk_def validateRestrictedJsonPath_eq_Nil
      errsFrom_eq_Nil [where P = "containerOk J"] validateContainer_eq_Nil)

lemma validateVersions_eq_Nil:
  "validateVersions J i seen vs = [] \<longleftrightarrow>
     distinct (map mt_Version vs) \<and> dom seen \<inter> mt_Version ` set vs = {} \<and>
     list_all (templateOk J) vs"
proof (induction vs arbitrary: i seen)
  case Nil
  show ?case by simp
next
  case (Cons v vs)
  have IH: "validateVersions J (Suc i) (seen(mt_Version v \<mapsto> i)) vs = [] \<longleftrightarrow>
      distinct (map mt_Version vs) \<and> insert (mt_Version v) (dom seen) \<inter> mt_Version ` set vs = {} \<and>
      list_all (templateOk J) vs"
    using Cons.IH [of "Suc i" "seen(mt_Version v \<mapsto> i)"] by (simp only: dom_fun_upd option.simps if_False)
  show ?case
    by (cases "seen (mt_Version v)")
      (simp_all only: validateVersions.simps option.case append_Nil append_is_Nil_conv IH
        validateTemplate_eq_Nil list.pred_inject, auto)
qed

lemma validateMapping_eq_Nil: "validateMapping J r = [] \<longleftrightarrow> mappingOk J r"
  by (simp add: validateMapping_def mappingOk_def validateVersions_eq_Nil)

end
