(* ===== verification/Meta_Pod_Template.thy ===== *)
theory Meta_Pod_Template
  imports Mapping_Api
begin

text \<open>
  \<open>projector/metapodtemplate.go\<close>: reading the annotations, containers and volumes of a
  workload through its mapping, and writing them back. The code walks the unstructured workload
  with \<open>reflect\<close>; here a \<open>reflect.Value\<close> is an \<open>rval\<close>, a position of the tree \<open>u\<close>
  with the kind it is seen at, and a function that changes the tree returns the new one.
  \<open>reflect\<close> panics where the operation does not fit the kind: those are the \<open>Panic\<close>
  outcomes.
\<close>

section \<open>The pod template\<close>

record metaContainer =
  ct_Name :: "string option"
  ct_Env :: "envVar list"
  ct_VolumeMounts :: "volumeMount list"

record 'w metaPodTemplate =
  mpt_workload :: 'w
  mpt_mapping :: mappingTemplate
  mpt_Annotations :: "string amap"
  mpt_Containers :: "metaContainer list"
  mpt_Volumes :: "volume list"

text \<open>The libraries the component calls.\<close>

record 'w lib =
  lib_jsonpath :: jsonpath
  lib_codec :: codec
  toUnstructured :: "'w \<Rightarrow> error + json"
  fromUnstructured :: "json \<Rightarrow> 'w \<Rightarrow> error + 'w"

section \<open>Reflection on trees\<close>

datatype rkind = KMap | KInterface | KSlice | KScalar | KInvalid

definition kindOf :: "json \<Rightarrow> rval \<Rightarrow> rkind" where
  "kindOf u v =
    (case v of RInvalid \<Rightarrow> KInvalid | RIface l \<Rightarrow> KInterface
     | RConc l \<Rightarrow>
         (case getLoc u l of
            Some (JObj _) \<Rightarrow> KMap | Some (JArr _) \<Rightarrow> KSlice
          | None \<Rightarrow> KInvalid | Some JNull \<Rightarrow> KInvalid | Some _ \<Rightarrow> KScalar))"

lemma kindOf_KInterface: "kindOf u v = KInterface \<longleftrightarrow> (\<exists>l. v = RIface l)"
  by (auto simp: kindOf_def split: rval.splits option.splits json.splits)

text \<open>\<open>!value.IsValid() || value.IsNil()\<close>; \<open>IsNil\<close> panics on a scalar.\<close>

definition isAbsent :: "json \<Rightarrow> rval \<Rightarrow> bool outcome" where
  "isAbsent u v =
    (case kindOf u v of
       KInvalid \<Rightarrow> Ok True
     | KScalar \<Rightarrow> Panic
     | KInterface \<Rightarrow> (case v of RIface l \<Rightarrow> Ok (getLoc u l = None \<or> getLoc u l = Some JNull) | _ \<Rightarrow> Panic)
     | _ \<Rightarrow> Ok False)"

definition mapIndex :: "json \<Rightarrow> rval \<Rightarrow> string \<Rightarrow> rval" where
  "mapIndex u v k =
    (case v of
       RConc l \<Rightarrow> (if getLoc u (l @ [Key k]) = None then RInvalid else RIface (l @ [Key k]))
     | _ \<Rightarrow> RInvalid)"

definition setMapIndex :: "json \<Rightarrow> rval \<Rightarrow> string \<Rightarrow> json \<Rightarrow> json outcome" where
  "setMapIndex u v k x =
    (case v of
       RConc l \<Rightarrow>
         (case getLoc u l of
            Some (JObj kvs) \<Rightarrow> Ok (putLoc u l (JObj (AList.update k x kvs)))
          | _ \<Rightarrow> Panic)
     | _ \<Rightarrow> Panic)"

definition elemOf :: "rval \<Rightarrow> rval" where
  "elemOf v = (case v of RIface l \<Rightarrow> RConc l | _ \<Rightarrow> RInvalid)"

text \<open>The new map stored below \<open>k\<close>, as the value that was stored.\<close>

definition belowKey :: "rval \<Rightarrow> string \<Rightarrow> rval" where
  "belowKey v k = (case v of RConc l \<Rightarrow> RConc (l @ [Key k]) | _ \<Rightarrow> RInvalid)"

section \<open>Finding a position\<close>

function find :: "json \<Rightarrow> rval \<Rightarrow> rval \<Rightarrow> string list \<Rightarrow> string \<Rightarrow> bool \<Rightarrow>
    (json \<times> rval \<times> rval \<times> string) outcome" where
  "find u value parent ks lastKey createIfNil =
    and_then (isAbsent u value) (\<lambda>absent.
      if absent \<and> \<not> createIfNil then Ok (u, RInvalid, RInvalid, '''')
      else and_then
        (if absent
         then map_ok (\<lambda>u'. (u', belowKey parent lastKey)) (setMapIndex u parent lastKey (JObj []))
         else Ok (u, value))
        (\<lambda>(u', value').
          (case ks of
             [] \<Rightarrow> Ok (u', value', parent, lastKey)
           | k # ks' \<Rightarrow>
               (case kindOf u' value' of
                  KMap \<Rightarrow> find u' (mapIndex u' value' k) value' ks' k createIfNil
                | KInterface \<Rightarrow> find u' (elemOf value') value' (k # ks') lastKey createIfNil
                | _ \<Rightarrow> Fail (Error (''unhandled kind '' @ [CHR 0x22] @ ''slice'' @ [CHR 0x22]))))))"
  by pat_completeness auto
termination
  by (relation "measure (\<lambda>(u, v, p, ks, lk, c). 2 * length ks + (case v of RIface _ \<Rightarrow> 1 | _ \<Rightarrow> 0))")
    (auto simp: kindOf_KInterface elemOf_def belowKey_def outcome_simps split: rval.splits if_splits)

declare find.simps [simp del]

section \<open>Keys of a Restricted JSONPath\<close>

fun fieldKeys :: "node \<Rightarrow> string list outcome"
  and fieldKeysList :: "node list \<Rightarrow> string list outcome" where
  "fieldKeys (NodeList ns) = fieldKeysList ns"
| "fieldKeys (NodeField f) = Ok [f]"
| "fieldKeys (NodeOther t s) = Fail (Error (''unsupported node type '' @ t))"
| "fieldKeysList [] = Ok []"
| "fieldKeysList (n # ns) =
     and_then (fieldKeys n) (\<lambda>ks. map_ok (\<lambda>ks'. ks @ ks') (fieldKeysList ns))"

definition keys :: "jsonpath \<Rightarrow> string \<Rightarrow> string list outcome" where
  "keys J ptr =
     and_then (from_result (jpParse J (braced ptr))) (\<lambda>nodes. fieldKeys (NodeList nodes))"

section \<open>Reading and writing at a pointer\<close>

text \<open>
  \<open>dec\<close> is \<open>json.Unmarshal\<close> into the type of the target; a missing or nil value leaves the
  target as it is.
\<close>

definition getAt ::
  "jsonpath \<Rightarrow> (json \<Rightarrow> error + 'a) \<Rightarrow> string \<Rightarrow> json \<Rightarrow> rval \<Rightarrow> 'a \<Rightarrow> 'a outcome" where
  "getAt J dec ptr u source target =
    and_then (keys J ptr) (\<lambda>ks.
    and_then (find u source RInvalid ks '''' False) (\<lambda>(u, v, _, _).
    and_then (isAbsent u v) (\<lambda>absent.
      if absent then Ok target
      else (case v of
              RIface l \<Rightarrow> (case getLoc u l of Some x \<Rightarrow> from_result (dec x) | None \<Rightarrow> Panic)
            | RConc l \<Rightarrow> (case getLoc u l of Some x \<Rightarrow> from_result (dec x) | None \<Rightarrow> Panic)
            | RInvalid \<Rightarrow> Panic))))"

text \<open>\<open>out\<close> is the value after \<open>json.Marshal\<close> and \<open>json.Unmarshal\<close>.\<close>

definition setAt :: "jsonpath \<Rightarrow> string \<Rightarrow> json \<Rightarrow> json \<Rightarrow> rval \<Rightarrow> json outcome" where
  "setAt J ptr out u target =
    and_then (keys J ptr) (\<lambda>ks.
    and_then (find u target RInvalid ks '''' True) (\<lambda>(u, _, vp, lk).
      setMapIndex u vp lk out))"

section \<open>What a pointer reads and writes\<close>

text \<open>
  The effect of the two walks on the value they start from: \<open>readKeys\<close> and \<open>writeKeys\<close>
  follow the keys through objects, fail on an array and panic on a scalar in the way.
\<close>

fun readKeys :: "json \<Rightarrow> string list \<Rightarrow> json option outcome" where
  "readKeys JNull ks = Ok None"
| "readKeys j [] = Ok (Some j)"
| "readKeys (JObj kvs) (k # ks) =
     (case map_of kvs k of None \<Rightarrow> Ok None | Some c \<Rightarrow> readKeys c ks)"
| "readKeys (JArr xs) (k # ks) = Fail (Error (''unhandled kind '' @ [CHR 0x22] @ ''slice'' @ [CHR 0x22]))"
| "readKeys j (k # ks) = Panic"

fun writeKeys :: "json \<Rightarrow> string list \<Rightarrow> json \<Rightarrow> json outcome" where
  "writeKeys j [] v = Panic"
| "writeKeys (JObj kvs) (k # ks) v =
     (if ks = [] then Ok (JObj (AList.update k v kvs))
      else map_ok (\<lambda>c. JObj (AList.update k c kvs)) (writeKeys (orEmpty (map_of kvs k)) ks v))"
| "writeKeys (JArr xs) (k # ks) v =
     Fail (Error (''unhandled kind '' @ [CHR 0x22] @ ''slice'' @ [CHR 0x22]))"
| "writeKeys j (k # ks) v = Panic"

lemma writeKeys_objSet: "objWritable j ks \<Longrightarrow> writeKeys j ks v = Ok (objSet j ks v)"
  by (induction j ks v rule: objSet.induct) (auto simp: isObj_iff)

lemma writeKeys_ok_iff: "is_ok (writeKeys j ks v) \<longleftrightarrow> objWritable j ks"
proof (induction j ks rule: objWritable.induct)
  case (2 j k)
  then show ?case by (cases j) auto
next
  case (3 j k k' ks)
  then show ?case by (cases j) (auto simp: is_ok_iff outcome_simps)
qed simp

lemma readKeys_objGet: "objWritable j ks \<Longrightarrow> readKeys j ks = Ok (objGet j ks)"
proof (induction j ks rule: objWritable.induct)
  case (2 j k)
  then obtain kvs where j: "j = JObj kvs" by (auto simp: isObj_iff)
  show ?case
  proof (cases "map_of kvs k")
    case (Some c)
    with j show ?thesis by (cases c) simp_all
  qed (simp add: j)
next
  case (3 j k k' ks)
  then obtain kvs where j: "j = JObj kvs" by (auto simp: isObj_iff)
  show ?case
  proof (cases "map_of kvs k")
    case (Some c)
    with 3 j show ?thesis by (cases "c = JNull") (auto simp: orEmpty_def split: json.splits)
  qed (simp add: j)
qed simp

subsection \<open>The walk of \<open>find\<close>\<close>

lemma isAbsent_RConc_JObj [simp]: "getLoc u l = Some (JObj kvs) \<Longrightarrow> isAbsent u (RConc l) = Ok False"
  by (simp add: isAbsent_def kindOf_def)

lemma kindOf_RConc_JObj [simp]: "getLoc u l = Some (JObj kvs) \<Longrightarrow> kindOf u (RConc l) = KMap"
  by (simp add: kindOf_def)

lemma isAbsent_RIface [simp]:
  "isAbsent u (RIface l) = Ok (getLoc u l = None \<or> getLoc u l = Some JNull)"
  by (simp add: isAbsent_def kindOf_def)

lemma isAbsent_RInvalid [simp]: "isAbsent u RInvalid = Ok True"
  by (simp add: isAbsent_def kindOf_def)

lemma kindOf_RIface [simp]: "kindOf u (RIface l) = KInterface"
  by (simp add: kindOf_def)

lemma elemOf_RIface [simp]: "elemOf (RIface l) = RConc l"
  by (simp add: elemOf_def)

lemma belowKey_RConc [simp]: "belowKey (RConc l) k = RConc (l @ [Key k])"
  by (simp add: belowKey_def)

lemma mapIndex_RConc:
  "getLoc u l = Some (JObj kvs) \<Longrightarrow>
   mapIndex u (RConc l) k = (if map_of kvs k = None then RInvalid else RIface (l @ [Key k]))"
  by (auto simp: mapIndex_def getLoc_append split: option.splits)

lemma setMapIndex_RConc:
  "getLoc u l = Some (JObj kvs) \<Longrightarrow>
   setMapIndex u (RConc l) k x = Ok (putLoc u l (JObj (AList.update k x kvs)))"
  by (simp add: setMapIndex_def)

text \<open>One step of the walk, by the kind of the value.\<close>

lemma find_map:
  assumes "getLoc u l = Some (JObj kvs)"
  shows "find u (RConc l) p (k # ks) lk c =
    find u (if map_of kvs k = None then RInvalid else RIface (l @ [Key k])) (RConc l) ks k c"
  using assms by (subst find.simps) (simp add: mapIndex_RConc)

lemma find_iface:
  assumes "getLoc u l = Some j" and "j \<noteq> JNull"
  shows "find u (RIface l) p (k # ks) lk c = find u (RConc l) (RIface l) (k # ks) lk c"
  using assms by (subst find.simps) simp

lemma find_iface_Nil:
  assumes "getLoc u l = Some j" and "j \<noteq> JNull"
  shows "find u (RIface l) p [] lk c = Ok (u, RIface l, p, lk)"
  using assms by (subst find.simps) simp

lemma find_absent_read:
  assumes "isAbsent u v = Ok True"
  shows "find u v p ks lk False = Ok (u, RInvalid, RInvalid, '''')"
  using assms by (subst find.simps) simp

lemma find_scalar:
  assumes "getLoc u l = Some j" and "\<not> isObj j" and "j \<noteq> JNull"
  shows "find u (RConc l) p (k # ks) lk c =
    (case j of JArr _ \<Rightarrow> Fail (Error (''unhandled kind '' @ [CHR 0x22] @ ''slice'' @ [CHR 0x22]))
     | _ \<Rightarrow> Panic)"
  using assms by (subst find.simps) (auto simp: isAbsent_def kindOf_def split: json.splits)

lemma find_create:
  assumes "getLoc u l = Some (JObj kvs)" and "isAbsent u v = Ok True"
    and u': "u' = putLoc u l (JObj (AList.update k (JObj []) kvs))"
  shows "find u v (RConc l) ks k True =
    (if ks = [] then Ok (u', RConc (l @ [Key k]), RConc l, k)
     else find u' (RConc (l @ [Key k])) (RConc l) ks k True)"
proof -
  have below: "getLoc u' (l @ [Key k]) = Some (JObj [])"
    using assms(1) by (simp add: u' getLoc_putLoc_below amap_simps)
  show ?thesis
  proof (cases ks)
    case Nil
    with assms show ?thesis by (subst find.simps) (simp add: setMapIndex_RConc)
  next
    case (Cons k2 ks2)
    with assms below show ?thesis
      by (subst (1 2) find.simps) (simp add: setMapIndex_RConc)
  qed
qed

subsection \<open>Reading\<close>

definition finishRead :: "(json \<Rightarrow> error + 'a) \<Rightarrow> 'a \<Rightarrow> json option \<Rightarrow> 'a outcome" where
  "finishRead dec target v = (case v of None \<Rightarrow> Ok target | Some x \<Rightarrow> from_result (dec x))"

definition readRval ::
  "(json \<Rightarrow> error + 'a) \<Rightarrow> 'a \<Rightarrow> json \<times> rval \<times> rval \<times> string \<Rightarrow> 'a outcome" where
  "readRval dec target = (\<lambda>(u, v, _, _).
    and_then (isAbsent u v) (\<lambda>absent.
      if absent then Ok target
      else (case v of
              RIface l \<Rightarrow> (case getLoc u l of Some x \<Rightarrow> from_result (dec x) | None \<Rightarrow> Panic)
            | RConc l \<Rightarrow> (case getLoc u l of Some x \<Rightarrow> from_result (dec x) | None \<Rightarrow> Panic)
            | RInvalid \<Rightarrow> Panic)))"

lemma find_read_iface:
  assumes "getLoc u l = Some j"
  shows "and_then (find u (RIface l) p ks lk False) (readRval dec target) =
    and_then (readKeys j ks) (finishRead dec target)"
  using assms
proof (induction ks arbitrary: l j p lk)
  case Nil
  then show ?case
    by (cases j) (simp_all add: find_absent_read find_iface_Nil readRval_def finishRead_def)
next
  case (Cons k ks)
  show ?case
  proof (cases "isObj j")
    case True
    then obtain kvs where j: "j = JObj kvs" by (auto simp: isObj_iff)
    show ?thesis
    proof (cases "map_of kvs k")
      case None
      with Cons.prems j show ?thesis
        by (simp add: find_iface find_map find_absent_read readRval_def finishRead_def)
    next
      case (Some c)
      with Cons.prems j have "getLoc u (l @ [Key k]) = Some c" by (simp add: getLoc_append)
      from Cons.IH [OF this] Some Cons.prems j show ?thesis by (simp add: find_iface find_map)
    qed
  next
    case False
    with Cons.prems show ?thesis
      by (cases "j = JNull")
        (auto simp: find_absent_read find_iface find_scalar readRval_def finishRead_def
          split: json.splits)
  qed
qed

lemma find_read_object:
  assumes "getLoc u l = Some (JObj kvs)"
  shows "and_then (find u (RConc l) p ks lk False) (readRval dec target) =
    and_then (readKeys (JObj kvs) ks) (finishRead dec target)"
proof (cases ks)
  case Nil
  with assms show ?thesis
    by (subst find.simps) (simp add: readRval_def finishRead_def)
next
  case (Cons k ks')
  show ?thesis
  proof (cases "map_of kvs k")
    case None
    with Cons assms show ?thesis
      by (simp add: find_map find_absent_read readRval_def finishRead_def)
  next
    case (Some c)
    with assms have "getLoc u (l @ [Key k]) = Some c" by (simp add: getLoc_append)
    from find_read_iface [OF this] Some Cons assms show ?thesis by (simp add: find_map)
  qed
qed

text \<open>A container found by the JSONPath library is an element; the root is the object itself.\<close>

fun denotes :: "json \<Rightarrow> rval \<Rightarrow> loc \<Rightarrow> json \<Rightarrow> bool" where
  "denotes u (RIface m) l j \<longleftrightarrow> m = l \<and> getLoc u l = Some j"
| "denotes u (RConc m) l j \<longleftrightarrow> m = l \<and> getLoc u l = Some j \<and> isObj j"
| "denotes u RInvalid l j \<longleftrightarrow> False"

lemma getAt_eq_readKeys:
  assumes "denotes u v l j"
  shows "getAt J dec ptr u v target =
    and_then (keys J ptr) (\<lambda>ks. and_then (readKeys j ks) (finishRead dec target))"
proof -
  have "getAt J dec ptr u v target =
      and_then (keys J ptr) (\<lambda>ks. and_then (find u v RInvalid ks '''' False) (readRval dec target))"
    by (simp add: getAt_def readRval_def)
  also have "\<dots> = and_then (keys J ptr) (\<lambda>ks. and_then (readKeys j ks) (finishRead dec target))"
    using assms by (cases v) (auto simp: find_read_iface find_read_object isObj_iff)
  finally show ?thesis .
qed

subsection \<open>Writing\<close>

definition storeRval :: "json \<Rightarrow> json \<times> rval \<times> rval \<times> string \<Rightarrow> json outcome" where
  "storeRval out = (\<lambda>(u, _, vp, lk). setMapIndex u vp lk out)"

lemma find_write_object:
  assumes "getLoc u l = Some (JObj kvs)" and "ks \<noteq> []"
  shows "and_then (find u (RConc l) p ks lk True) (storeRval out) =
    map_ok (putLoc u l) (writeKeys (JObj kvs) ks out)"
  using assms
proof (induction ks arbitrary: u l kvs p lk)
  case Nil
  then show ?case by simp
next
  case (Cons k ks)
  let ?u = "putLoc u l (JObj (AList.update k (JObj []) kvs))"
  note at = \<open>getLoc u l = Some (JObj kvs)\<close>
  have at': "getLoc ?u l = Some (JObj (AList.update k (JObj []) kvs))"
    using at by (rule getLoc_putLoc_same)
  have below: "getLoc ?u (l @ [Key k]) = Some (JObj [])"
    using at by (simp add: getLoc_putLoc_below amap_simps)
  have put_below: "putLoc ?u (l @ [Key k]) x = putLoc u l (JObj (AList.update k x kvs))" for x
    using at at' by (simp add: putLoc_append putLoc_putLoc amap_simps)
  have create: "and_then (find u v (RConc l) ks k True) (storeRval out) =
      map_ok (putLoc u l) (writeKeys (JObj kvs) (k # ks) out)"
    if "isAbsent u v = Ok True" and "orEmpty (map_of kvs k) = JObj []" for v
  proof (cases "ks = []")
    case True
    with that at at' show ?thesis
      by (simp add: find_create [OF at that(1) refl] storeRval_def setMapIndex_RConc putLoc_putLoc)
  next
    case False
    have "map_ok (putLoc ?u (l @ [Key k])) r =
        map_ok (putLoc u l) (map_ok (\<lambda>c. JObj (AList.update k c kvs)) r)" for r
      by (cases r) (simp_all add: put_below)
    with False that Cons.IH [OF below False] show ?thesis
      by (simp add: find_create [OF at that(1) refl])
  qed
  show ?case
  proof (cases "map_of kvs k")
    case None
    with at create [of RInvalid] show ?thesis by (simp add: find_map)
  next
    case (Some c)
    have child: "getLoc u (l @ [Key k]) = Some c" using at Some by (simp add: getLoc_append)
    have put_child: "putLoc u (l @ [Key k]) x = putLoc u l (JObj (AList.update k x kvs))" for x
      using at Some by (simp add: putLoc_append)
    consider "c = JNull" | "c \<noteq> JNull" "ks = []" | "c \<noteq> JNull" "ks \<noteq> []" by blast
    then show ?thesis
    proof cases
      case 1
      with at Some child create [of "RIface (l @ [Key k])"] show ?thesis by (simp add: find_map)
    next
      case 2
      with at Some child show ?thesis
        by (simp add: find_map find_iface_Nil storeRval_def setMapIndex_RConc)
    next
      case 3
      then obtain k2 ks2 where ks: "ks = k2 # ks2" by (cases ks) auto
      show ?thesis
      proof (cases "isObj c")
        case True
        then obtain kvs2 where c: "c = JObj kvs2" by (auto simp: isObj_iff)
        have "map_ok (putLoc u (l @ [Key k])) r =
            map_ok (putLoc u l) (map_ok (\<lambda>c. JObj (AList.update k c kvs)) r)" for r
          by (cases r) (simp_all add: put_child)
        with 3 c at Some child ks Cons.IH [OF child [unfolded c]] show ?thesis
          by (simp add: find_map find_iface)
      next
        case False
        with 3 at Some child ks show ?thesis
          by (cases c) (simp_all add: find_map find_iface find_scalar orEmpty_def)
      qed
    qed
  qed
qed

lemma find_Nil_Panic:
  assumes "denotes u v l j"
  shows "and_then (find u v RInvalid [] '''' True) (storeRval out) = Panic"
  using assms
  by (cases v; subst find.simps) (auto simp: storeRval_def setMapIndex_def isObj_iff)

lemma find_write_denotes:
  assumes "denotes u v l j"
  shows "and_then (find u v RInvalid ks '''' True) (storeRval out) =
    map_ok (putLoc u l) (writeKeys j ks out)"
proof (cases ks)
  case Nil
  then show ?thesis by (simp add: find_Nil_Panic [OF assms])
next
  case (Cons k ks')
  show ?thesis
  proof (cases v)
    case RInvalid
    with assms show ?thesis by simp
  next
    case (RIface m)
    with assms have at: "m = l" "getLoc u l = Some j" by auto
    show ?thesis
    proof (cases "j = JNull")
      case True
      with at RIface Cons show ?thesis by (subst find.simps) (simp add: setMapIndex_def)
    next
      case False
      with at RIface Cons show ?thesis
        by (cases j) (simp_all add: find_iface find_scalar find_write_object)
    qed
  next
    case (RConc m)
    with assms Cons show ?thesis by (auto simp: isObj_iff find_write_object)
  qed
qed

lemma setAt_eq_writeKeys:
  assumes "denotes u v l j"
  shows "setAt J ptr out u v =
    and_then (keys J ptr) (\<lambda>ks. map_ok (putLoc u l) (writeKeys j ks out))"
  using find_write_denotes [OF assms]
  by (simp add: setAt_def storeRval_def [symmetric])

section \<open>Converting from and to the workload\<close>

text \<open>
  The parts of the template as JSON. \<open>json.Unmarshal\<close> into a \<open>map[string]string\<close> reads a
  null value as the empty string and reports any other value that is not a string.
\<close>

definition encAnnotations :: "string amap \<Rightarrow> json" where
  "encAnnotations m = JObj (map (\<lambda>(k, v). (k, JStr v)) m)"

fun decEntries :: "(string \<times> json) list \<Rightarrow> error + string amap" where
  "decEntries [] = Inr []"
| "decEntries ((k, v) # kvs) =
     (case decEntries kvs of
        Inl e \<Rightarrow> Inl e
      | Inr m \<Rightarrow>
          (case v of
             JStr s \<Rightarrow> Inr ((k, s) # m)
           | JNull \<Rightarrow> Inr ((k, '''') # m)
           | _ \<Rightarrow> Inl (Error ''json: cannot unmarshal into Go value of type string'')))"

definition decAnnotations :: "json \<Rightarrow> error + string amap" where
  "decAnnotations j =
    (case j of
       JObj kvs \<Rightarrow> decEntries kvs
     | _ \<Rightarrow> Inl (Error ''json: cannot unmarshal into Go value of type map[string]string''))"

definition decName :: "json \<Rightarrow> error + string" where
  "decName j =
    (case j of
       JStr s \<Rightarrow> Inr s
     | _ \<Rightarrow> Inl (Error ''json: cannot unmarshal into Go value of type string''))"

lemma decAnnotations_encAnnotations [simp]: "decAnnotations (encAnnotations m) = Inr m"
proof -
  have "decEntries (map (\<lambda>(k, v). (k, JStr v)) m) = Inr m"
    by (induction m) auto
  then show ?thesis by (simp add: decAnnotations_def encAnnotations_def)
qed

definition readContainer ::
  "'w lib \<Rightarrow> mappingContainer \<Rightarrow> json \<Rightarrow> rval \<Rightarrow> metaContainer outcome" where
  "readContainer L c u cv =
    and_then (if mc_Name c \<noteq> ''''
              then map_ok Some (getAt (lib_jsonpath L) decName (mc_Name c) u cv '''')
              else Ok None) (\<lambda>name.
    and_then (getAt (lib_jsonpath L) (decEnv (lib_codec L)) (mc_Env c) u cv []) (\<lambda>env.
    and_then (getAt (lib_jsonpath L) (decMounts (lib_codec L)) (mc_VolumeMounts c) u cv []) (\<lambda>mounts.
      Ok \<lparr>ct_Name = name, ct_Env = env, ct_VolumeMounts = mounts\<rparr>)))"

text \<open>
  The values one container mapping matches: none when the path is not found; the code takes
  the first result list without checking that there is one.
\<close>

definition findContainers :: "'w lib \<Rightarrow> mappingContainer \<Rightarrow> json \<Rightarrow> rval list outcome" where
  "findContainers L c u =
    and_then (from_result (jpParse (lib_jsonpath L) (braced (mc_Path c)))) (\<lambda>_.
      (case jpFind (lib_jsonpath L) (braced (mc_Path c)) u of
         Inl err \<Rightarrow> Ok []
       | Inr [] \<Rightarrow> Panic
       | Inr (cr # _) \<Rightarrow> Ok cr))"

definition readContainers ::
  "'w lib \<Rightarrow> json \<Rightarrow> mappingContainer \<Rightarrow> metaContainer list \<Rightarrow> metaContainer list outcome" where
  "readContainers L u c acc =
    and_then (findContainers L c u) (\<lambda>cr.
      map_ok (\<lambda>mcs. acc @ mcs) (map_ok_list (readContainer L c u) cr))"

definition newMetaPodTemplate ::
  "'w lib \<Rightarrow> 'w \<Rightarrow> mappingTemplate \<Rightarrow> 'w metaPodTemplate outcome" where
  "newMetaPodTemplate L workload mapping =
    and_then (from_result (toUnstructured L workload)) (\<lambda>u.
    and_then (getAt (lib_jsonpath L) decAnnotations (mt_Annotations mapping) u (RConc []) []) (\<lambda>annotations.
    and_then (fold_ok (readContainers L u) (mt_Containers mapping) []) (\<lambda>containers.
    and_then (getAt (lib_jsonpath L) (decVolumes (lib_codec L)) (mt_Volumes mapping) u (RConc []) []) (\<lambda>volumes.
      Ok \<lparr>mpt_workload = workload, mpt_mapping = mapping, mpt_Annotations = annotations,
          mpt_Containers = containers, mpt_Volumes = volumes\<rparr>))))"

text \<open>
  Writing one matched value: \<open>ci\<close> counts the values over all container mappings, and indexing
  \<open>Containers\<close> with it panics when it is out of range.
\<close>

definition writeContainer ::
  "'w lib \<Rightarrow> mappingContainer \<Rightarrow> metaContainer list \<Rightarrow> rval \<Rightarrow> json \<times> nat \<Rightarrow> (json \<times> nat) outcome" where
  "writeContainer L c mcs cv = (\<lambda>(u, ci).
    if \<not> ci < length mcs then Panic
    else
      and_then (case ct_Name (mcs ! ci) of
                  Some name \<Rightarrow>
                    (if mc_Name c \<noteq> '''' then setAt (lib_jsonpath L) (mc_Name c) (JStr name) u cv
                     else Ok u)
                | None \<Rightarrow> Ok u) (\<lambda>u.
      and_then (setAt (lib_jsonpath L) (mc_Env c) (encEnv (lib_codec L) (ct_Env (mcs ! ci))) u cv) (\<lambda>u.
      and_then (setAt (lib_jsonpath L) (mc_VolumeMounts c)
                  (encMounts (lib_codec L) (ct_VolumeMounts (mcs ! ci))) u cv) (\<lambda>u.
        Ok (u, Suc ci)))))"

definition writeContainers ::
  "'w lib \<Rightarrow> metaContainer list \<Rightarrow> mappingContainer \<Rightarrow> json \<times> nat \<Rightarrow> (json \<times> nat) outcome" where
  "writeContainers L mcs c = (\<lambda>(u, ci).
    and_then (findContainers L c u) (\<lambda>cr. fold_ok (writeContainer L c mcs) cr (u, ci)))"

definition writeToWorkload :: "'w lib \<Rightarrow> 'w metaPodTemplate \<Rightarrow> 'w outcome" where
  "writeToWorkload L mpt =
    and_then (from_result (toUnstructured L (mpt_workload mpt))) (\<lambda>u.
    and_then (setAt (lib_jsonpath L) (mt_Annotations (mpt_mapping mpt))
                (encAnnotations (mpt_Annotations mpt)) u (RConc [])) (\<lambda>u.
    and_then (fold_ok (writeContainers L (mpt_Containers mpt)) (mt_Containers (mpt_mapping mpt)) (u, 0)) (\<lambda>(u, _).
    and_then (setAt (lib_jsonpath L) (mt_Volumes (mpt_mapping mpt))
                (encVolumes (lib_codec L) (mpt_Volumes mpt)) u (RConc [])) (\<lambda>u.
      from_result (fromUnstructured L u (mpt_workload mpt))))))"

end
