(* ===== verification/Api_Properties.thy ===== *)
theory Api_Properties
  imports Binding_Api Meta_Pod_Template "HOL-Library.Multiset"
begin

text \<open>
  The properties of the two API types: what admission accepts, what it reports, and what an
  accepted mapping guarantees to \<open>projector/metapodtemplate.go\<close>.
\<close>

section \<open>Nodes a Restricted JSONPath may not have\<close>

fun unsupported :: "node \<Rightarrow> string list" where
  "unsupported (NodeList ns) = concat (map unsupported ns)"
| "unsupported (NodeField f) = []"
| "unsupported (NodeOther t s) = [s]"

lemma onlyFields_unsupported: "onlyFields n \<longleftrightarrow> unsupported n = []"
  by (induction n) (auto simp: list_all_iff)

lemma fieldKeys_ok:
  "is_ok (fieldKeys n) \<longleftrightarrow> onlyFields n"
  "is_ok (fieldKeysList ns) \<longleftrightarrow> list_all onlyFields ns"
  by (induction n and ns rule: fieldKeys_fieldKeysList.induct) (auto simp: is_ok_iff outcome_simps)

lemma fieldKeys_no_panic: "fieldKeys n \<noteq> Panic" "fieldKeysList ns \<noteq> Panic"
  by (induction n and ns rule: fieldKeys_fieldKeysList.induct) (auto simp: outcome_simps)

lemma keys_no_panic: "keys J ptr \<noteq> Panic"
  by (auto simp: keys_def outcome_simps fieldKeys_no_panic)

section \<open>Mappings\<close>

text \<open>
  C32. Creating a mapping stores the defaulted resource and accepts it exactly when it meets the
  contract of the resource: versions are named and unique, container paths are JSONPaths, all
  other pointers are Restricted JSONPaths, and nothing the projector needs is left empty. An
  update is judged like a creation.
\<close>

theorem mapping_admission:
  "(mappingValidateCreate J r = (r', None) \<longleftrightarrow>
      r' = defaultMapping r \<and> mappingOk J r' \<and> list_all defaultedTemplate (rm_Versions r')) \<and>
   mappingValidateUpdate J old r = mappingValidateCreate J r \<and> mappingValidateDelete r = None"
  by (auto simp: mappingValidateCreate_def mappingValidateUpdate_def
      mappingValidateDelete_def toAggregate_def Let_def
      validateMapping_eq_Nil defaultMapping_def list_all_iff defaultTemplate_defaulted)

text \<open>
  Defaulting a mapping is idempotent, keeps the metadata and the versions in their order, and
  leaves alone every template that has all its fields.
\<close>

lemma mapping_default:
  "defaultMapping (defaultMapping r) = defaultMapping r \<and>
   rm_meta (defaultMapping r) = rm_meta r \<and>
   map mt_Version (rm_Versions (defaultMapping r)) = map mt_Version (rm_Versions r) \<and>
   map defaultTemplate (filter defaultedTemplate (rm_Versions r)) = filter defaultedTemplate (rm_Versions r)"
  by (auto simp: defaultMapping_def defaultTemplate_id defaultTemplate_defaulted intro!: map_idI)

text \<open>
  C33. Validation of a Restricted JSONPath is exact for the projector: the pointer is accepted if
  and only if it has one root node and the projector can turn it into keys.
\<close>

theorem restricted_path_exact:
  "validateRestrictedJsonPath J e p = [] \<longleftrightarrow>
     is_ok (keys J e) \<and> (\<exists>node. jpParse J (braced e) = Inr [node])"
  by (cases "jpParse J (braced e)")
    (auto simp: validateRestrictedJsonPath_eq_Nil restrictedJsonPathOk_def keys_def fieldKeys_ok
      length_Suc_conv)

text \<open>
  The traversal of the parsed nodes, which appends the children of a list to the nodes still
  to visit, ends and reports each node that is not a field exactly once.
\<close>

lemma restrictedNodes_reports:
  "mset (restrictedNodes e p ns) =
   image_mset (\<lambda>s. ErrInvalid p (JStr e) (''unsupported node: '' @ s)) (mset (concat (map unsupported ns)))"
  by (induction e p ns rule: restrictedNodes.induct) simp_all

fun isDuplicate :: "fieldError \<Rightarrow> bool" where
  "isDuplicate (ErrDuplicate _ _) = True"
| "isDuplicate _ = False"

lemma no_duplicates_below:
  "filter isDuplicate (validateTemplate J r p) = []"
proof -
  have nodes: "filter isDuplicate (restrictedNodes e q ns) = []" for e q ns
    by (induction e q ns rule: restrictedNodes.induct) simp_all
  have path: "filter isDuplicate (validateJsonPath J e q) = []" for e q
    by (simp add: validateJsonPath_def split: sum.split)
  have restricted: "filter isDuplicate (validateRestrictedJsonPath J e q) = []" for e q
    by (simp add: validateRestrictedJsonPath_def nodes split: sum.split)
  have containers: "filter isDuplicate (errsFrom i (\<lambda>c i. validateContainer J c (p @ [Child ''containers'', Index i])) cs) = []"
    for i cs
    by (induction cs arbitrary: i) (simp_all add: validateContainer_def path restricted)
  show ?thesis by (simp add: validateTemplate_def restricted containers)
qed

lemma duplicates_from:
  "finite (dom seen) \<Longrightarrow> length (filter isDuplicate (validateVersions J i seen vs)) + card (dom seen \<union> mt_Version ` set vs) =
   length vs + card (dom seen)"
proof (induction vs arbitrary: i seen)
  case Nil
  then show ?case by simp
next
  case (Cons v vs)
  let ?seen = "seen(mt_Version v \<mapsto> i)"
  have IH: "length (filter isDuplicate (validateVersions J (Suc i) ?seen vs)) +
      card (insert (mt_Version v) (dom seen) \<union> mt_Version ` set vs) =
      length vs + card (insert (mt_Version v) (dom seen))"
    using Cons.IH [of ?seen "Suc i"] Cons.prems by (simp only: dom_fun_upd option.simps if_False finite_insert)
  show ?case
  proof (cases "seen (mt_Version v)")
    case None
    with Cons.prems IH show ?thesis by (simp add: no_duplicates_below card_insert_if domIff)
  next
    case (Some n)
    then have "insert (mt_Version v) (dom seen) = dom seen"
      and "insert (mt_Version v) (dom seen \<union> mt_Version ` set vs) = dom seen \<union> mt_Version ` set vs"
      by auto
    with Some IH show ?thesis by (simp add: no_duplicates_below)
  qed
qed

text \<open>
  Every repetition of a version is reported, and nothing else is: the number of duplicate
  errors is the number of entries less the number of different versions.
\<close>

lemma duplicate_versions_reported:
  "length (filter isDuplicate (validateMapping J r)) + card (mt_Version ` set (rm_Versions r)) =
   length (rm_Versions r)"
  using duplicates_from [of Map.empty J 0 "rm_Versions r"] by (simp add: validateMapping_def)

section \<open>Bindings\<close>

text \<open>
  C35. Creating a binding names it after the resource when no name is given, and accepts it
  exactly when name, service and environment are complete and the workload is given by a name
  or by a selector that parses, not both. An update is judged like a creation; deletion always
  passes.
\<close>

theorem binding_admission:
  "(bindingValidateCreate asSel r = (r', None) \<longleftrightarrow>
      r' = bindingDefault r \<and> specOk asSel (sb_Spec r')) \<and>
   bindingValidateUpdate asSel old r = bindingValidateCreate asSel r \<and> bindingValidateDelete r = None"
  by (auto simp: bindingValidateCreate_def bindingValidateUpdate_def bindingValidateDelete_def
      toAggregate_def Let_def validateBinding_eq_Nil)

end
