(* ===== verification/Meta_Properties.thy ===== *)
theory Meta_Properties
  imports Meta_Pod_Template
begin

text \<open>
  The properties of the pointer access of \<open>projector/metapodtemplate.go\<close>: what a write can be
  read back as, what it leaves alone, and when it is possible.
\<close>

section \<open>Reading beside a write\<close>

lemma readKeys_objSet_same:
  "objWritable j ks \<Longrightarrow> v \<noteq> JNull \<Longrightarrow> readKeys (objSet j ks v) ks = Ok (Some v)"
proof (induction j ks v rule: objSet.induct)
  case (2 j k v)
  then show ?case by (cases v) (auto simp: isObj_iff amap_simps)
next
  case (3 j k k' ks v)
  then show ?case by (auto simp: isObj_iff amap_simps)
qed simp

lemma readKeys_orEmpty:
  "ms \<noteq> [] \<Longrightarrow> readKeys (orEmpty v) ms = (case v of None \<Rightarrow> Ok None | Some c \<Rightarrow> readKeys c ms)"
  by (cases v rule: option.exhaust; cases "the v"; cases ms) (auto simp: orEmpty_def)

lemma readKeys_objSet_diverge:
  "objWritable j ks \<Longrightarrow> divergeKeys ks ms \<Longrightarrow> readKeys (objSet j ks v) ms = readKeys j ms"
proof (induction j ks v arbitrary: ms rule: objSet.induct)
  case (2 j k v)
  then show ?case by (cases ms) (auto simp: isObj_iff amap_simps)
next
  case (3 j k k' ks v)
  then obtain m ms' where ms: "ms = m # ms'" by (cases ms) auto
  from 3(2) obtain kvs where j: "j = JObj kvs" by (auto simp: isObj_iff)
  show ?case
  proof (cases "m = k")
    case True
    with 3(3) ms have div: "divergeKeys (k' # ks) ms'" by simp
    with 3(1) [of ms'] 3(2) have
      "readKeys (objSet (orEmpty (childAt (Key k) j)) (k' # ks) v) ms' =
       readKeys (orEmpty (childAt (Key k) j)) ms'"
      by simp
    with True ms j divergeKeys_nonempty [OF div] show ?thesis
      by (simp add: amap_simps readKeys_orEmpty split: option.splits)
  next
    case False
    with ms j show ?thesis by (simp add: amap_simps)
  qed
qed simp

text \<open>A successful write through a value: where it goes and what the value denotes after it.\<close>

lemma setAt_Ok:
  assumes "denotes u v l j" and "keys J ptr = Ok ks"
  shows "setAt J ptr out u v = Ok u' \<longleftrightarrow> objWritable j ks \<and> u' = putLoc u l (objSet j ks out)"
proof (cases "objWritable j ks")
  case True
  then show ?thesis by (auto simp: setAt_eq_writeKeys [OF assms(1)] assms(2) writeKeys_objSet)
next
  case False
  then have "\<not> is_ok (writeKeys j ks out)" by (simp add: writeKeys_ok_iff)
  with False show ?thesis
    by (cases "writeKeys j ks out") (simp_all add: setAt_eq_writeKeys [OF assms(1)] assms(2))
qed

lemma isAbsent_no_Fail [simp]: "isAbsent u v \<noteq> Fail e"
  by (auto simp: isAbsent_def split: rkind.split rval.split)

lemma denotes_putLoc:
  "denotes u v l j \<Longrightarrow> isObj x \<Longrightarrow> denotes (putLoc u l x) v l x"
  by (cases v) (auto simp: getLoc_putLoc_same)

lemma denotes_diverge:
  "denotes u v l j \<Longrightarrow> diverge m l \<Longrightarrow> denotes (putLoc u m x) v l j"
  by (cases v) (auto simp: getLoc_putLoc_diverge)

section \<open>Properties\<close>

definition exampleJsonpath :: jsonpath where
  "exampleJsonpath =
    \<lparr>jpParse = (\<lambda>s. if s = braced ''.a.b'' then Inr [NodeList [NodeField ''a'', NodeField ''b'']]
        else if s = braced ''.a.c'' then Inr [NodeList [NodeField ''a'', NodeField ''c'']]
        else if s = braced ''$'' then Inr [NodeList []] else Inl (Error s)),
     jpFind = (\<lambda>s u. Inl (Error s))\<rparr>"

lemma exampleJsonpath_keys:
  "keys exampleJsonpath ''.a.b'' = Ok [''a'', ''b'']"
  "keys exampleJsonpath ''.a.c'' = Ok [''a'', ''c'']"
  by (simp_all add: keys_def exampleJsonpath_def braced_def)

text \<open>
  What is written at a pointer is what is read at it: after a successful \<open>setAt\<close>, \<open>getAt\<close>
  with the same pointer and value decodes exactly the value that was written, also where
  \<open>setAt\<close> had to make the objects on the way.
\<close>

lemma setAt_getAt:
  assumes "denotes u v l j" and "setAt J ptr out u v = Ok u'" and "out \<noteq> JNull"
  shows "getAt J dec ptr u' v target = from_result (dec out)"
proof -
  from assms(1,2) obtain ks where ks: "keys J ptr = Ok ks"
    by (auto simp: setAt_eq_writeKeys outcome_simps)
  with assms(1,2) have w: "objWritable j ks" "u' = putLoc u l (objSet j ks out)"
    by (simp_all add: setAt_Ok)
  with assms(1) have "denotes u' v l (objSet j ks out)"
    by (simp add: denotes_putLoc objSet_isObj)
  with ks w(1) assms(3) show ?thesis
    by (simp add: getAt_eq_readKeys [where l = l] readKeys_objSet_same finishRead_def)
qed

text \<open>
  A write is local: after a successful \<open>setAt\<close>, every pointer whose keys part from the
  written ones reads as before, from the same value, and every pointer at all reads as before
  from a value at a position beside it, such as another container.
\<close>

lemma setAt_frame:
  assumes "denotes u v l j" and "setAt J ptr out u v = Ok u'" and "keys J ptr = Ok ks"
  shows "(\<forall>q ms. keys J q = Ok ms \<longrightarrow> divergeKeys ks ms \<longrightarrow>
           getAt J dec q u' v target = getAt J dec q u v target) \<and>
         (\<forall>q v' l' j'. denotes u v' l' j' \<longrightarrow> diverge l l' \<longrightarrow>
           getAt J dec q u' v' target = getAt J dec q u v' target)"
proof -
  from assms have w: "objWritable j ks" "u' = putLoc u l (objSet j ks out)"
    by (simp_all add: setAt_Ok)
  have d: "denotes u' v l (objSet j ks out)"
    using assms(1) w by (simp add: denotes_putLoc objSet_isObj)
  show ?thesis
  proof (intro conjI allI impI)
    fix q ms
    assume "keys J q = Ok ms" and "divergeKeys ks ms"
    with w(1) show "getAt J dec q u' v target = getAt J dec q u v target"
      by (simp add: getAt_eq_readKeys [OF d] getAt_eq_readKeys [OF assms(1)] readKeys_objSet_diverge)
  next
    fix q v' l' j'
    assume *: "denotes u v' l' j'" "diverge l l'"
    then have d': "denotes u' v' l' j'" by (simp add: w(2) denotes_diverge)
    show "getAt J dec q u' v' target = getAt J dec q u v' target"
      by (simp add: getAt_eq_readKeys [OF d'] getAt_eq_readKeys [OF *(1)])
  qed
qed

text \<open>The value in the way of a write, if there is one.\<close>

fun blocker :: "json \<Rightarrow> string list \<Rightarrow> json option" where
  "blocker (JObj kvs) [] = None"
| "blocker (JObj kvs) (k # ks) = (if ks = [] then None else blocker (orEmpty (map_of kvs k)) ks)"
| "blocker j ks = Some j"

text \<open>How a blocked write ends.\<close>

definition blockedBy :: "json \<Rightarrow> json outcome" where
  "blockedBy b = (case b of
     JArr _ \<Rightarrow> Fail (Error (''unhandled kind '' @ [CHR 0x22] @ ''slice'' @ [CHR 0x22])) | _ \<Rightarrow> Panic)"

lemma writeKeys_blocker:
  "ks \<noteq> [] \<Longrightarrow> writeKeys j ks v =
    (case blocker j ks of None \<Rightarrow> Ok (objSet j ks v) | Some b \<Rightarrow> blockedBy b)"
proof (induction j ks v rule: writeKeys.induct)
  case (2 kvs k ks v)
  then show ?case by (auto simp: blockedBy_def split: option.splits json.splits)
qed (auto simp: blockedBy_def)

text \<open>
  How a write ends depends only on what lies on the way: it succeeds through objects, nulls
  and gaps; an array on the way is reported as an error; a string, number or boolean on the way
  makes \<open>reflect\<close> panic instead of giving the error the code has for an unhandled kind; and a
  pointer without fields always panics.
\<close>

lemma setAt_outcome:
  assumes "denotes u v l j" and "keys J ptr = Ok ks"
  shows "setAt J ptr out u v =
    (if ks = [] then Panic
     else (case blocker j ks of
             None \<Rightarrow> Ok (putLoc u l (objSet j ks out))
           | Some (JArr _) \<Rightarrow> Fail (Error (''unhandled kind '' @ [CHR 0x22] @ ''slice'' @ [CHR 0x22]))
           | Some _ \<Rightarrow> Panic))"
  by (auto simp: setAt_eq_writeKeys [OF assms(1)] assms(2) writeKeys_blocker blockedBy_def
      split: option.splits json.splits)

text \<open>
  Validation lets a pointer pass that the projector cannot write: an expression that parses
  to a root node without fields is a valid Restricted JSONPath, and writing at it panics.
\<close>

lemma fieldless_pointer_panics:
  assumes "jpParse J (braced ptr) = Inr [NodeList []]"
  shows "validateRestrictedJsonPath J ptr p = [] \<and> setAt J ptr out u (RConc l) = Panic"
proof -
  have "keys J ptr = Ok []" using assms by (simp add: keys_def)
  then have "setAt J ptr out u (RConc l) = and_then (find u (RConc l) RInvalid [] '''' True) (storeRval out)"
    by (simp add: setAt_def storeRval_def)
  also have "\<dots> = Panic"
    by (subst find.simps, cases "isAbsent u (RConc l)") (simp_all add: storeRval_def setMapIndex_def)
  finally show ?thesis using assms by (simp add: validateRestrictedJsonPath_def)
qed

lemma fieldless_pointer_panics_witness:
  "validateRestrictedJsonPath exampleJsonpath ''$'' [] = [] \<and>
   setAt exampleJsonpath ''$'' (JStr ''x'') (JObj []) (RConc []) = Panic"
  by (rule fieldless_pointer_panics) (simp add: exampleJsonpath_def braced_def)

end
