(* ===== verification/Go_Sort.thy ===== *)
theory Go_Sort
  imports SB_Prelude "HOL-Library.Multiset"
begin

text \<open>
  Go's \<open>sort.SliceStable\<close>: the insertion pass of the standard library, its contract as the
  locale \<open>stable_sorter\<close>, and what the contract gives for a \<open>less\<close> function that
  compares a key. The projector calls it with one comparison for volumes, volume mounts and
  environment variables; the key of that comparison is \<open>(projected, name if projected)\<close>.
\<close>

section \<open>The insertion pass\<close>

text \<open>
  \<open>ins_rev lt x rs\<close> moves \<open>x\<close> left past the elements it is less than; \<open>rs\<close> is the
  sorted part of the slice read from the right. The slice is sorted from the left, one element
  at a time.
\<close>

fun ins_rev :: "('a \<Rightarrow> 'a \<Rightarrow> bool) \<Rightarrow> 'a \<Rightarrow> 'a list \<Rightarrow> 'a list" where
  "ins_rev lt x [] = [x]"
| "ins_rev lt x (y # ys) = (if lt x y then y # ins_rev lt x ys else x # y # ys)"

definition sliceStable :: "('a \<Rightarrow> 'a \<Rightarrow> bool) \<Rightarrow> 'a list \<Rightarrow> 'a list" where
  "sliceStable lt xs = rev (fold (ins_rev lt) xs [])"

lemma mset_ins_rev: "mset (ins_rev lt x ys) = add_mset x (mset ys)"
  by (induction ys) auto

lemma mset_fold_ins_rev: "mset (fold (ins_rev lt) xs ys) = mset xs + mset ys"
  by (induction xs arbitrary: ys) (auto simp: mset_ins_rev)

lemma mset_sliceStable: "mset (sliceStable lt xs) = mset xs"
  by (simp add: sliceStable_def mset_fold_ins_rev)

section \<open>Sorting by a key\<close>

definition less_by :: "('a \<Rightarrow> 'k::linorder) \<Rightarrow> 'a \<Rightarrow> 'a \<Rightarrow> bool" where
  "less_by key x y \<longleftrightarrow> key x < key y"

lemma set_ins_rev [simp]: "set (ins_rev lt x ys) = insert x (set ys)"
  by (metis mset_ins_rev set_mset_add_mset_insert set_mset_mset)

lemma sorted_ins_rev:
  "sorted_wrt (\<lambda>a b. key b \<le> key a) ys \<Longrightarrow>
   sorted_wrt (\<lambda>a b. key b \<le> key a) (ins_rev (less_by key) x ys)"
  by (induction ys) (auto simp: less_by_def)

lemma sorted_fold_ins_rev:
  "sorted_wrt (\<lambda>a b. key b \<le> key a) ys \<Longrightarrow>
   sorted_wrt (\<lambda>a b. key b \<le> key a) (fold (ins_rev (less_by key)) xs ys)"
  by (induction xs arbitrary: ys) (auto simp: sorted_ins_rev)

lemma sorted_sliceStable: "sorted (map key (sliceStable (less_by key) xs))"
proof -
  have "sorted_wrt (\<lambda>a b. key b \<le> key a) (fold (ins_rev (less_by key)) xs [])"
    by (rule sorted_fold_ins_rev) simp
  then show ?thesis
    by (simp add: sliceStable_def sorted_map sorted_wrt_rev)
qed

lemma filter_ins_rev:
  assumes "sorted_wrt (\<lambda>a b. key b \<le> key a) ys"
  shows "filter (\<lambda>y. key y = k) (ins_rev (less_by key) x ys) =
    (if key x = k then x # filter (\<lambda>y. key y = k) ys else filter (\<lambda>y. key y = k) ys)"
  using assms
proof (induction ys)
  case Nil
  show ?case by simp
next
  case (Cons y ys)
  then show ?case by (auto simp: less_by_def)
qed

lemma filter_fold_ins_rev:
  "sorted_wrt (\<lambda>a b. key b \<le> key a) ys \<Longrightarrow>
   filter (\<lambda>y. key y = k) (fold (ins_rev (less_by key)) xs ys) =
   rev (filter (\<lambda>y. key y = k) xs) @ filter (\<lambda>y. key y = k) ys"
  by (induction xs arbitrary: ys) (auto simp: sorted_ins_rev filter_ins_rev)

lemma stable_sliceStable:
  "filter (\<lambda>x. key x = k) (sliceStable (less_by key) xs) = filter (\<lambda>x. key x = k) xs"
proof -
  have "filter (\<lambda>x. key x = k) (fold (ins_rev (less_by key)) xs []) =
      rev (filter (\<lambda>x. key x = k) xs)"
    by (simp add: filter_fold_ins_rev)
  then show ?thesis
    by (simp add: sliceStable_def flip: rev_filter)
qed

section \<open>The contract of a stable sort\<close>

text \<open>
  What the projector relies on: the result is a permutation, it is ordered by the key, and
  elements with the same key keep their order. These three laws determine the result.
\<close>

locale stable_sorter =
  fixes sort_by :: "('a \<Rightarrow> 'a \<Rightarrow> bool) \<Rightarrow> 'a list \<Rightarrow> 'a list"
  assumes perm: "mset (sort_by lt xs) = mset xs"
    and ordered: "\<And>key :: 'a \<Rightarrow> bool \<times> string. sorted (map key (sort_by (less_by key) xs))"
    and stable: "\<And>key :: 'a \<Rightarrow> bool \<times> string.
      filter (\<lambda>x. key x = k) (sort_by (less_by key) xs) = filter (\<lambda>x. key x = k) xs"
begin

lemma eq_sort_key:
  fixes key :: "'a \<Rightarrow> bool \<times> string"
  shows "sort_by (less_by key) xs = sort_key key xs"
proof -
  have "filter (\<lambda>x. key k = key x) (sort_by (less_by key) xs) = filter (\<lambda>x. key k = key x) xs" for k
    using stable [of key "key k" xs] by (simp add: eq_commute [of "key k"])
  then show ?thesis
    by (intro properties_for_sort_key [symmetric]) (auto simp: perm ordered)
qed

lemma set_eq: "set (sort_by lt xs) = set xs"
  by (metis perm set_mset_mset)

lemma length_eq: "length (sort_by lt xs) = length xs"
  by (metis perm size_mset)

end

interpretation go_sort: stable_sorter sliceStable
  by unfold_locales (rule mset_sliceStable sorted_sliceStable stable_sliceStable)+

end
