(* ===== verification/Go_Path.thy ===== *)
theory Go_Path
  imports SB_Prelude
begin

text \<open>
  Go's \<open>path.Join\<close> and \<open>path.Clean\<close>, which build the mount path of a binding. The
  lexical rules of \<open>Clean\<close> are applied to the elements between the slashes: empty elements
  and \<open>.\<close> are dropped, \<open>..\<close> removes the element before it, and leads nowhere at the
  root of a rooted path.
\<close>

section \<open>Elements of a path\<close>

fun splitSlash :: "string \<Rightarrow> string list" where
  "splitSlash [] = [[]]"
| "splitSlash (c # cs) =
     (if c = CHR ''/'' then [] # splitSlash cs
      else (case splitSlash cs of [] \<Rightarrow> [[c]] | e # es \<Rightarrow> (c # e) # es))"

fun joinSlash :: "string list \<Rightarrow> string" where
  "joinSlash [] = []"
| "joinSlash [e] = e"
| "joinSlash (e # es) = e @ ''/'' @ joinSlash es"

text \<open>The output of \<open>Clean\<close> so far, read from the right (the buffer it backs up in).\<close>

fun cleanStep :: "bool \<Rightarrow> string \<Rightarrow> string list \<Rightarrow> string list" where
  "cleanStep rooted e out =
     (if e = '''' \<or> e = ''.'' then out
      else if e = ''..'' then
        (case out of
           [] \<Rightarrow> (if rooted then [] else [''..''])
         | p # ps \<Rightarrow> (if p = ''..'' then ''..'' # out else ps))
      else e # out)"

definition rootedPath :: "string \<Rightarrow> bool" where
  "rootedPath p \<longleftrightarrow> (case p of [] \<Rightarrow> False | c # _ \<Rightarrow> c = CHR ''/'')"

definition cleanElems :: "string \<Rightarrow> string list" where
  "cleanElems p = rev (fold (cleanStep (rootedPath p)) (splitSlash p) [])"

definition pathClean :: "string \<Rightarrow> string" where
  "pathClean p =
     (if p = '''' then ''.''
      else if rootedPath p then ''/'' @ joinSlash (cleanElems p)
      else if cleanElems p = [] then ''.''
      else joinSlash (cleanElems p))"

text \<open>\<open>Join\<close> ignores leading empty elements and is empty when all are.\<close>

definition pathJoin :: "string \<Rightarrow> string \<Rightarrow> string" where
  "pathJoin a b =
     (if a = '''' then (if b = '''' then '''' else pathClean b)
      else pathClean (a @ ''/'' @ b))"

section \<open>Lemmas\<close>

lemma splitSlash_nonempty [simp]: "splitSlash s \<noteq> []"
  by (induction s) (auto split: list.splits)

lemma splitSlash_no_slash: "CHR ''/'' \<notin> set s \<Longrightarrow> splitSlash s = [s]"
  by (induction s) auto

lemma splitSlash_append: "splitSlash (a @ ''/'' @ b) = splitSlash a @ splitSlash b"
proof (induction a)
  case Nil
  show ?case by simp
next
  case (Cons c a)
  then show ?case by (cases "splitSlash a") auto
qed

lemma rootedPath_append: "a \<noteq> [] \<Longrightarrow> rootedPath (a @ b) = rootedPath a"
  by (cases a) (simp_all add: rootedPath_def)

text \<open>A plain element: what a directory entry can be called.\<close>

definition plainElem :: "string \<Rightarrow> bool" where
  "plainElem e \<longleftrightarrow> e \<noteq> '''' \<and> e \<noteq> ''.'' \<and> e \<noteq> ''..'' \<and> CHR ''/'' \<notin> set e"

lemma cleanElems_join:
  assumes "a \<noteq> ''''" and "plainElem b"
  shows "cleanElems (a @ ''/'' @ b) = cleanElems a @ [b]"
  using assms
  by (simp add: cleanElems_def rootedPath_append splitSlash_append [simplified]
      splitSlash_no_slash plainElem_def)

lemma joinSlash_snoc: "es \<noteq> [] \<Longrightarrow> joinSlash (es @ [e]) = joinSlash es @ ''/'' @ e"
  by (induction es rule: joinSlash.induct) auto

text \<open>Joining a plain element stays directly below the cleaned root.\<close>

lemma pathJoin_plain:
  assumes "rootedPath a" and "plainElem b"
  shows "pathJoin a b =
    (if cleanElems a = [] then ''/'' @ b else pathClean a @ ''/'' @ b)"
proof -
  from assms(1) have ne: "a \<noteq> ''''" by (auto simp: rootedPath_def)
  show ?thesis
    using assms ne
    by (simp add: pathJoin_def pathClean_def rootedPath_append cleanElems_join [simplified]
        joinSlash_snoc [simplified])
qed

end
