(* ===== verification/Projector_Binding.thy ===== *)
theory Projector_Binding
  imports Meta_Pod_Template Binding_Api Go_Sort Go_Path
begin

text \<open>
  \<open>projector/binding.go\<close>: projecting a service binding into a pod template and removing it
  again. A method that changes \<open>mpt\<close> or a container returns the changed value; a container
  method that also records annotations is given the annotations and returns them.
\<close>

section \<open>Names\<close>

definition ServiceBindingRootEnv :: string where
  "ServiceBindingRootEnv = ''SERVICE_BINDING_ROOT''"

definition Group :: string where "Group = ''projector.servicebinding.io''"

definition VolumePrefix :: string where "VolumePrefix = ''servicebinding-''"

definition SecretAnnotationPrefix :: string where "SecretAnnotationPrefix = Group @ ''/secret-''"

definition TypeAnnotationPrefix :: string where "TypeAnnotationPrefix = Group @ ''/type-''"

definition ProviderAnnotationPrefix :: string where
  "ProviderAnnotationPrefix = Group @ ''/provider-''"

abbreviation bindingUID :: "serviceBinding \<Rightarrow> string" where
  "bindingUID b \<equiv> om_UID (sb_meta b)"

definition secretAnnotationName :: "serviceBinding \<Rightarrow> string" where
  "secretAnnotationName b = SecretAnnotationPrefix @ bindingUID b"

definition volumeName :: "serviceBinding \<Rightarrow> string" where
  "volumeName b = VolumePrefix @ bindingUID b"

definition typeAnnotationName :: "serviceBinding \<Rightarrow> string" where
  "typeAnnotationName b = TypeAnnotationPrefix @ bindingUID b"

definition providerAnnotationName :: "serviceBinding \<Rightarrow> string" where
  "providerAnnotationName b = ProviderAnnotationPrefix @ bindingUID b"

text \<open>\<open>fmt.Sprintf("metadata.annotations['%s']", name)\<close>\<close>

definition annotationPath :: "string \<Rightarrow> string" where
  "annotationPath n = ''metadata.annotations['' @ [CHR 0x27] @ n @ [CHR 0x27] @ '']''"

section \<open>Annotations\<close>

definition secretName :: "serviceBinding \<Rightarrow> string" where
  "secretName b = (case st_Binding (sb_Status b) of None \<Rightarrow> '''' | Some r \<Rightarrow> sec_Name r)"

definition secretAnnotation :: "serviceBinding \<Rightarrow> string amap \<Rightarrow> string \<times> string amap" where
  "secretAnnotation b ann =
    (let key = secretAnnotationName b; secret = secretName b
     in if secret = '''' then ('''', ann) else (secret, AList.update key secret ann))"

definition typeAnnotation :: "serviceBinding \<Rightarrow> string amap \<Rightarrow> string \<times> string amap" where
  "typeAnnotation b ann =
    (let key = typeAnnotationName b in (key, AList.update key (bs_Type (sb_Spec b)) ann))"

definition providerAnnotation :: "serviceBinding \<Rightarrow> string amap \<Rightarrow> string \<times> string amap" where
  "providerAnnotation b ann =
    (let key = providerAnnotationName b in (key, AList.update key (bs_Provider (sb_Spec b)) ann))"

definition knownProjectedSecrets :: "string amap \<Rightarrow> string set" where
  "knownProjectedSecrets ann =
     set (map snd (filter (\<lambda>(k, v). hasPrefix k SecretAnnotationPrefix) ann))"

definition isProjectedEnv :: "envVar \<Rightarrow> string set \<Rightarrow> bool" where
  "isProjectedEnv e secrets =
    (case ev_ValueFrom e of
       None \<Rightarrow> False
     | Some src \<Rightarrow>
         (case evs_SecretKeyRef src of Some s \<Rightarrow> sks_Name s \<in> secrets | None \<Rightarrow> False) \<or>
         (case evs_FieldRef src of
            Some f \<Rightarrow> hasPrefix (ofs_FieldPath f) (''metadata.annotations['' @ [CHR 0x27] @ Group)
          | None \<Rightarrow> False))"

section \<open>Sorting projected items\<close>

text \<open>
  The comparison given to \<open>sort.SliceStable\<close>, the same for volumes, volume mounts and
  environment variables up to what counts as projected.
\<close>

definition projectedLess :: "('a \<Rightarrow> bool) \<Rightarrow> ('a \<Rightarrow> string) \<Rightarrow> 'a \<Rightarrow> 'a \<Rightarrow> bool" where
  "projectedLess isProjected name ii jj =
    (let ip = isProjected ii; jp = isProjected jj
     in if ip \<and> jp then name ii < name jj
        else if jp then \<not> ip
        else False)"

definition sortProjected :: "('a \<Rightarrow> bool) \<Rightarrow> ('a \<Rightarrow> string) \<Rightarrow> 'a list \<Rightarrow> 'a list" where
  "sortProjected isProjected name xs = sliceStable (projectedLess isProjected name) xs"

section \<open>Volumes\<close>

definition annotationItem :: "string \<Rightarrow> string \<Rightarrow> volumeProjection" where
  "annotationItem path key =
    \<lparr>vp_Secret = None,
     vp_DownwardAPI = Some \<lparr>dap_Items =
       [\<lparr>daf_Path = path,
         daf_FieldRef = Some \<lparr>ofs_FieldPath = annotationPath key, ofs_rest = []\<rparr>, daf_rest = []\<rparr>]\<rparr>,
     vp_rest = []\<rparr>"

definition projectVolume :: "serviceBinding \<Rightarrow> 'w metaPodTemplate \<Rightarrow> 'w metaPodTemplate" where
  "projectVolume b mpt =
    (let (secret, ann) = secretAnnotation b (mpt_Annotations mpt);
         sources = [\<lparr>vp_Secret = Some \<lparr>sp_Name = secret, sp_rest = []\<rparr>, vp_DownwardAPI = None, vp_rest = []\<rparr>];
         (sources, ann) =
           (if bs_Type (sb_Spec b) \<noteq> ''''
            then (let (key, ann) = typeAnnotation b ann in (sources @ [annotationItem ''type'' key], ann))
            else (sources, ann));
         (sources, ann) =
           (if bs_Provider (sb_Spec b) \<noteq> ''''
            then (let (key, ann) = providerAnnotation b ann in (sources @ [annotationItem ''provider'' key], ann))
            else (sources, ann));
         volume = \<lparr>v_Name = volumeName b,
           v_Projected = Some \<lparr>pvs_Sources = sources, pvs_rest = []\<rparr>, v_rest = []\<rparr>
     in mpt\<lparr>mpt_Annotations := ann,
            mpt_Volumes := sortProjected (\<lambda>v. hasPrefix (v_Name v) VolumePrefix) v_Name
              (mpt_Volumes mpt @ [volume])\<rparr>)"

definition unprojectVolume :: "serviceBinding \<Rightarrow> 'w metaPodTemplate \<Rightarrow> 'w metaPodTemplate" where
  "unprojectVolume b mpt =
     mpt\<lparr>mpt_Volumes := filter (\<lambda>v. v_Name v \<noteq> volumeName b) (mpt_Volumes mpt)\<rparr>"

section \<open>Containers\<close>

definition isContainerBindable :: "serviceBinding \<Rightarrow> metaContainer \<Rightarrow> bool" where
  "isContainerBindable b mc =
    (let names = wr_Containers (bs_Workload (sb_Spec b))
     in if length names = 0 then True
        else (case ct_Name mc of None \<Rightarrow> True | Some n \<Rightarrow> n \<in> set names))"

definition defaultRootEnv :: envVar where
  "defaultRootEnv = \<lparr>ev_Name = ServiceBindingRootEnv, ev_Value = ''/bindings'', ev_ValueFrom = None\<rparr>"

definition serviceBindingRoot :: "metaContainer \<Rightarrow> string \<times> metaContainer" where
  "serviceBindingRoot mc =
    (case List.find (\<lambda>e. ev_Name e = ServiceBindingRootEnv) (ct_Env mc) of
       Some e \<Rightarrow> (ev_Value e, mc)
     | None \<Rightarrow> (ev_Value defaultRootEnv, mc\<lparr>ct_Env := ct_Env mc @ [defaultRootEnv]\<rparr>))"

definition projectVolumeMount :: "serviceBinding \<Rightarrow> metaContainer \<Rightarrow> metaContainer" where
  "projectVolumeMount b mc =
    (let (root, mc) = serviceBindingRoot mc;
         mount = \<lparr>vm_Name = volumeName b, vm_ReadOnly = True,
                  vm_MountPath = pathJoin root (bs_Name (sb_Spec b)), vm_rest = []\<rparr>
     in mc\<lparr>ct_VolumeMounts := sortProjected (\<lambda>m. hasPrefix (vm_Name m) VolumePrefix) vm_Name
            (ct_VolumeMounts mc @ [mount])\<rparr>)"

definition unprojectVolumeMount :: "serviceBinding \<Rightarrow> metaContainer \<Rightarrow> metaContainer" where
  "unprojectVolumeMount b mc =
     mc\<lparr>ct_VolumeMounts := filter (\<lambda>m. vm_Name m \<noteq> volumeName b) (ct_VolumeMounts mc)\<rparr>"

definition annotationEnv :: "string \<Rightarrow> string \<Rightarrow> envVar" where
  "annotationEnv name key =
    \<lparr>ev_Name = name, ev_Value = '''',
     ev_ValueFrom = Some \<lparr>evs_FieldRef = Some \<lparr>ofs_FieldPath = annotationPath key, ofs_rest = []\<rparr>,
       evs_SecretKeyRef = None, evs_rest = []\<rparr>\<rparr>"

definition secretEnv :: "string \<Rightarrow> string \<Rightarrow> string \<Rightarrow> envVar" where
  "secretEnv name secret key =
    \<lparr>ev_Name = name, ev_Value = '''',
     ev_ValueFrom = Some \<lparr>evs_FieldRef = None,
       evs_SecretKeyRef = Some \<lparr>sks_Name = secret, sks_Key = key, sks_rest = []\<rparr>, evs_rest = []\<rparr>\<rparr>"

definition projectEnvMapping ::
  "serviceBinding \<Rightarrow> envMapping \<Rightarrow> string amap \<times> envVar list \<Rightarrow> string amap \<times> envVar list" where
  "projectEnvMapping b e = (\<lambda>(ann, env).
    if em_Key e = ''type'' \<and> bs_Type (sb_Spec b) \<noteq> '''' then
      (let (key, ann) = typeAnnotation b ann in (ann, env @ [annotationEnv (em_Name e) key]))
    else if em_Key e = ''provider'' \<and> bs_Provider (sb_Spec b) \<noteq> '''' then
      (let (key, ann) = providerAnnotation b ann in (ann, env @ [annotationEnv (em_Name e) key]))
    else
      (let (secret, ann) = secretAnnotation b ann
       in (ann, env @ [secretEnv (em_Name e) secret (em_Key e)])))"

definition projectEnv ::
  "serviceBinding \<Rightarrow> string amap \<times> metaContainer \<Rightarrow> string amap \<times> metaContainer" where
  "projectEnv b = (\<lambda>(ann, mc).
    let (ann, env) = fold (projectEnvMapping b) (bs_Env (sb_Spec b)) (ann, ct_Env mc);
        secrets = knownProjectedSecrets ann
    in (ann, mc\<lparr>ct_Env := sortProjected (\<lambda>e. isProjectedEnv e secrets) ev_Name env\<rparr>))"

text \<open>The environment variables that \<open>unprojectEnv\<close> takes for those of the binding.\<close>

definition removesEnv :: "serviceBinding \<Rightarrow> string \<Rightarrow> envVar \<Rightarrow> bool" where
  "removesEnv b secret e =
    (case ev_ValueFrom e of
       None \<Rightarrow> False
     | Some src \<Rightarrow>
         (case evs_SecretKeyRef src of Some s \<Rightarrow> sks_Name s = secret | None \<Rightarrow> False) \<or>
         (case evs_FieldRef src of
            Some f \<Rightarrow> ofs_FieldPath f = annotationPath (typeAnnotationName b) \<or>
                      ofs_FieldPath f = annotationPath (providerAnnotationName b)
          | None \<Rightarrow> False))"

definition unprojectEnv :: "serviceBinding \<Rightarrow> string amap \<Rightarrow> metaContainer \<Rightarrow> metaContainer" where
  "unprojectEnv b ann mc =
    (let secret = amap_str ann (secretAnnotationName b)
     in mc\<lparr>ct_Env := filter (\<lambda>e. \<not> removesEnv b secret e) (ct_Env mc)\<rparr>)"

definition projectContainer ::
  "serviceBinding \<Rightarrow> string amap \<times> metaContainer \<Rightarrow> string amap \<times> metaContainer" where
  "projectContainer b = (\<lambda>(ann, mc).
    if \<not> isContainerBindable b mc then (ann, mc)
    else projectEnv b (ann, projectVolumeMount b mc))"

definition unprojectContainer :: "serviceBinding \<Rightarrow> string amap \<Rightarrow> metaContainer \<Rightarrow> metaContainer" where
  "unprojectContainer b ann mc = unprojectEnv b ann (unprojectVolumeMount b mc)"

section \<open>Project and unproject\<close>

definition unproject :: "serviceBinding \<Rightarrow> 'w metaPodTemplate \<Rightarrow> 'w metaPodTemplate" where
  "unproject b mpt =
    (let mpt = unprojectVolume b mpt;
         mpt = mpt\<lparr>mpt_Containers :=
           map (unprojectContainer b (mpt_Annotations mpt)) (mpt_Containers mpt)\<rparr>
     in mpt\<lparr>mpt_Annotations :=
          AList.delete (providerAnnotationName b)
            (AList.delete (typeAnnotationName b)
              (AList.delete (secretAnnotationName b) (mpt_Annotations mpt)))\<rparr>)"

text \<open>The loop over the containers, which threads the annotations.\<close>

fun projectContainers ::
  "serviceBinding \<Rightarrow> string amap \<Rightarrow> metaContainer list \<Rightarrow> string amap \<times> metaContainer list" where
  "projectContainers b ann [] = (ann, [])"
| "projectContainers b ann (mc # mcs) =
     (let (ann, mc) = projectContainer b (ann, mc);
          (ann, mcs) = projectContainers b ann mcs
      in (ann, mc # mcs))"

definition project :: "serviceBinding \<Rightarrow> 'w metaPodTemplate \<Rightarrow> 'w metaPodTemplate" where
  "project b mpt =
    (let mpt = unproject b mpt
     in if secretName b = '''' then mpt
        else
          (let mpt = projectVolume b mpt;
               (ann, mcs) = projectContainers b (mpt_Annotations mpt) (mpt_Containers mpt)
           in mpt\<lparr>mpt_Annotations := ann, mpt_Containers := mcs\<rparr>))"

end
