(* ===== verification/Projector_Facts.thy ===== *)
theory Projector_Facts
  imports Projector_Binding
begin

text \<open>
  The lemmas behind the properties of \<open>projector/binding.go\<close>: the projected part of a list
  after sorting, the functional form of \<open>project\<close> (\<open>project_eq\<close>), and what removing and
  adding a binding's items does to each list.
\<close>

section \<open>The canonical order\<close>

definition projectedKey :: "('a \<Rightarrow> bool) \<Rightarrow> ('a \<Rightarrow> string) \<Rightarrow> 'a \<Rightarrow> bool \<times> string" where
  "projectedKey p name x = (p x, if p x then name x else '''')"

lemma projectedLess_eq: "projectedLess p name = less_by (projectedKey p name)"
  by (intro ext) (auto simp: projectedLess_def less_by_def projectedKey_def Let_def)

lemma sortProjected_sort_key: "sortProjected p name xs = sort_key (projectedKey p name) xs"
  by (simp add: sortProjected_def projectedLess_eq go_sort.eq_sort_key)

lemma mset_sortProjected [simp]: "mset (sortProjected p name xs) = mset xs"
  by (simp add: sortProjected_def go_sort.perm)

lemma set_sortProjected [simp]: "set (sortProjected p name xs) = set xs"
  by (simp add: sortProjected_def go_sort.set_eq)

lemma length_sortProjected [simp]: "length (sortProjected p name xs) = length xs"
  by (simp add: sortProjected_def go_sort.length_eq)

lemma filter_sortProjected: "filter Q (sortProjected p name xs) = sortProjected p name (filter Q xs)"
  by (simp add: sortProjected_sort_key filter_sort)

text \<open>Sorting again after appending gives the same as appending and sorting once.\<close>

lemma sort_key_stable_left:
  "filter (\<lambda>x. f k = f x) (sort_key f xs) = filter (\<lambda>x. f k = f x) xs"
proof -
  have "(\<lambda>x. f k = f x) = (\<lambda>x. f x = f k)" by (rule ext) (rule eq_commute)
  then show ?thesis by (simp only: sort_key_stable)
qed

lemma sort_key_absorb: "sort_key f (sort_key f xs @ ys) = sort_key f (xs @ ys)"
proof (rule properties_for_sort_key)
  fix k
  show "filter (\<lambda>x. f k = f x) (sort_key f (xs @ ys)) =
      filter (\<lambda>x. f k = f x) (sort_key f xs @ ys)"
    by (simp only: filter_append sort_key_stable_left)
qed simp_all

lemma sortProjected_absorb:
  "sortProjected p name (sortProjected p name xs @ ys) = sortProjected p name (xs @ ys)"
  by (simp add: sortProjected_sort_key sort_key_absorb)

text \<open>
  The shape of the result: the other items in their order, then the projected items by name.
\<close>

lemma sortProjected_split:
  "sortProjected p name xs = filter (\<lambda>x. \<not> p x) xs @ sort_key name (filter p xs)"
proof -
  let ?ys = "filter (\<lambda>x. \<not> p x) xs @ sort_key name (filter p xs)"
  have "sort_key (projectedKey p name) xs = ?ys"
  proof (rule properties_for_sort_key)
    show "mset ?ys = mset xs"
      by (simp add: multiset_partition [symmetric] union_commute)
    show "sorted (map (projectedKey p name) ?ys)"
    proof -
      have "sorted (map name (sort_key name (filter p xs)))" by simp
      then have "sorted (map (projectedKey p name) (sort_key name (filter p xs)))"
        unfolding sorted_map
        by (rule sorted_wrt_mono_rel [rotated]) (auto simp: projectedKey_def)
      moreover have "sorted (map (projectedKey p name) (filter (\<lambda>x. \<not> p x) xs))"
        by (induction xs) (auto simp: projectedKey_def)
      ultimately show ?thesis
        by (auto simp: sorted_append projectedKey_def)
    qed
  next
    fix x
    assume "x \<in> set ?ys"
    show "filter (\<lambda>y. projectedKey p name x = projectedKey p name y) ?ys =
        filter (\<lambda>y. projectedKey p name x = projectedKey p name y) xs"
    proof (cases "p x")
      case True
      then have "filter (\<lambda>y. projectedKey p name x = projectedKey p name y) ?ys =
          filter p (filter (\<lambda>y. name y = name x) (sort_key name (filter p xs)))"
        by (auto simp: projectedKey_def intro!: filter_eq_Nil filter_cong)
      also have "\<dots> = filter p (filter (\<lambda>y. name y = name x) (filter p xs))"
        by (simp only: sort_key_stable)
      also have "\<dots> = filter (\<lambda>y. projectedKey p name x = projectedKey p name y) xs"
        using True by (auto simp: projectedKey_def intro!: filter_cong)
      finally show ?thesis .
    next
      case False
      then show ?thesis
        by (auto simp: projectedKey_def intro!: filter_eq_Nil filter_cong)
    qed
  qed
  then show ?thesis by (simp add: sortProjected_sort_key)
qed

section \<open>The annotations of a binding\<close>

lemmas name_defs = secretAnnotationName_def typeAnnotationName_def providerAnnotationName_def
  SecretAnnotationPrefix_def TypeAnnotationPrefix_def ProviderAnnotationPrefix_def Group_def

lemma annotation_names_distinct [simp]:
  "secretAnnotationName b \<noteq> typeAnnotationName c" "typeAnnotationName c \<noteq> secretAnnotationName b"
  "secretAnnotationName b \<noteq> providerAnnotationName c" "providerAnnotationName c \<noteq> secretAnnotationName b"
  "typeAnnotationName b \<noteq> providerAnnotationName c" "providerAnnotationName c \<noteq> typeAnnotationName b"
  by (simp_all add: name_defs)

lemma binding_names_inj [simp]:
  "secretAnnotationName b = secretAnnotationName c \<longleftrightarrow> bindingUID b = bindingUID c"
  "typeAnnotationName b = typeAnnotationName c \<longleftrightarrow> bindingUID b = bindingUID c"
  "providerAnnotationName b = providerAnnotationName c \<longleftrightarrow> bindingUID b = bindingUID c"
  "volumeName b = volumeName c \<longleftrightarrow> bindingUID b = bindingUID c"
  by (simp_all add: name_defs volumeName_def)

lemma volumeName_projected [simp]: "hasPrefix (volumeName b) VolumePrefix"
  by (simp add: volumeName_def)

lemma secretAnnotationName_prefix [simp]: "hasPrefix (secretAnnotationName b) SecretAnnotationPrefix"
  by (simp add: secretAnnotationName_def)

text \<open>The keys a binding owns, and the annotations after it has been projected.\<close>

definition ownKeys :: "serviceBinding \<Rightarrow> string set" where
  "ownKeys b = {secretAnnotationName b, typeAnnotationName b, providerAnnotationName b}"

definition clearAnnotations :: "serviceBinding \<Rightarrow> string amap \<Rightarrow> string amap" where
  "clearAnnotations b ann =
     AList.delete (providerAnnotationName b)
       (AList.delete (typeAnnotationName b)
         (AList.delete (secretAnnotationName b) ann))"

definition bindAnnotations :: "serviceBinding \<Rightarrow> string amap \<Rightarrow> string amap" where
  "bindAnnotations b ann =
    (let ann = AList.update (secretAnnotationName b) (secretName b) ann;
         ann = (if bs_Type (sb_Spec b) \<noteq> ''''
                then AList.update (typeAnnotationName b) (bs_Type (sb_Spec b)) ann else ann)
     in if bs_Provider (sb_Spec b) \<noteq> ''''
        then AList.update (providerAnnotationName b) (bs_Provider (sb_Spec b)) ann else ann)"

definition annotated :: "serviceBinding \<Rightarrow> string amap \<Rightarrow> bool" where
  "annotated b ann \<longleftrightarrow> map_of ann (secretAnnotationName b) = Some (secretName b) \<and>
     (bs_Type (sb_Spec b) \<noteq> '''' \<longrightarrow>
        map_of ann (typeAnnotationName b) = Some (bs_Type (sb_Spec b))) \<and>
     (bs_Provider (sb_Spec b) \<noteq> '''' \<longrightarrow>
        map_of ann (providerAnnotationName b) = Some (bs_Provider (sb_Spec b)))"

lemma annotated_bindAnnotations [simp]: "annotated b (bindAnnotations b ann)"
  by (simp add: annotated_def bindAnnotations_def Let_def amap_simps)

lemma map_of_clearAnnotations:
  "map_of (clearAnnotations b ann) k = (if k \<in> ownKeys b then None else map_of ann k)"
  by (simp add: clearAnnotations_def ownKeys_def amap_simps)

lemma map_of_bindAnnotations_other:
  "k \<notin> ownKeys b \<Longrightarrow> map_of (bindAnnotations b ann) k = map_of ann k"
  by (simp add: bindAnnotations_def ownKeys_def Let_def amap_simps)

lemma ownKeys_disjoint: "bindingUID b \<noteq> bindingUID c \<Longrightarrow> ownKeys b \<inter> ownKeys c = {}"
  by (auto simp: ownKeys_def)

lemma clear_bindAnnotations:
  "clearAnnotations b (bindAnnotations b (clearAnnotations b ann)) = clearAnnotations b ann"
proof -
  let ?ann = "clearAnnotations b ann"
  have none: "map_of ?ann (secretAnnotationName b) = None" "map_of ?ann (typeAnnotationName b) = None"
    "map_of ?ann (providerAnnotationName b) = None"
    by (simp_all add: map_of_clearAnnotations ownKeys_def)
  show ?thesis
    by (subst clearAnnotations_def)
      (simp add: bindAnnotations_def Let_def amap_delete_update_other amap_delete_update_same
        amap_delete_idem none)
qed

lemma secretAnnotation_annotated:
  "secretName b \<noteq> '''' \<Longrightarrow> annotated b ann \<Longrightarrow> secretAnnotation b ann = (secretName b, ann)"
  by (simp add: secretAnnotation_def annotated_def amap_simps Let_def)

lemma typeAnnotation_annotated:
  "bs_Type (sb_Spec b) \<noteq> '''' \<Longrightarrow> annotated b ann \<Longrightarrow>
   typeAnnotation b ann = (typeAnnotationName b, ann)"
  by (simp add: typeAnnotation_def annotated_def amap_simps Let_def)

lemma providerAnnotation_annotated:
  "bs_Provider (sb_Spec b) \<noteq> '''' \<Longrightarrow> annotated b ann \<Longrightarrow>
   providerAnnotation b ann = (providerAnnotationName b, ann)"
  by (simp add: providerAnnotation_def annotated_def amap_simps Let_def)

section \<open>The functional form of projection\<close>

definition bindingVolume :: "serviceBinding \<Rightarrow> volume" where
  "bindingVolume b =
    \<lparr>v_Name = volumeName b,
     v_Projected = Some \<lparr>pvs_Sources =
       [\<lparr>vp_Secret = Some \<lparr>sp_Name = secretName b, sp_rest = []\<rparr>, vp_DownwardAPI = None, vp_rest = []\<rparr>] @
       (if bs_Type (sb_Spec b) \<noteq> '''' then [annotationItem ''type'' (typeAnnotationName b)] else []) @
       (if bs_Provider (sb_Spec b) \<noteq> ''''
        then [annotationItem ''provider'' (providerAnnotationName b)] else []),
       pvs_rest = []\<rparr>,
     v_rest = []\<rparr>"

definition bindingEnv :: "serviceBinding \<Rightarrow> envMapping \<Rightarrow> envVar" where
  "bindingEnv b e =
    (if em_Key e = ''type'' \<and> bs_Type (sb_Spec b) \<noteq> ''''
     then annotationEnv (em_Name e) (typeAnnotationName b)
     else if em_Key e = ''provider'' \<and> bs_Provider (sb_Spec b) \<noteq> ''''
     then annotationEnv (em_Name e) (providerAnnotationName b)
     else secretEnv (em_Name e) (secretName b) (em_Key e))"

abbreviation sortVolumes :: "volume list \<Rightarrow> volume list" where
  "sortVolumes \<equiv> sortProjected (\<lambda>v. hasPrefix (v_Name v) VolumePrefix) v_Name"

abbreviation sortMounts :: "volumeMount list \<Rightarrow> volumeMount list" where
  "sortMounts \<equiv> sortProjected (\<lambda>m. hasPrefix (vm_Name m) VolumePrefix) vm_Name"

abbreviation sortEnv :: "string amap \<Rightarrow> envVar list \<Rightarrow> envVar list" where
  "sortEnv ann \<equiv> sortProjected (\<lambda>e. isProjectedEnv e (knownProjectedSecrets ann)) ev_Name"

lemma projectVolume_eq:
  "secretName b \<noteq> '''' \<Longrightarrow> projectVolume b mpt =
     mpt\<lparr>mpt_Annotations := bindAnnotations b (mpt_Annotations mpt),
         mpt_Volumes := sortVolumes (mpt_Volumes mpt @ [bindingVolume b])\<rparr>"
  by (simp add: projectVolume_def bindAnnotations_def bindingVolume_def secretAnnotation_def
      typeAnnotation_def providerAnnotation_def Let_def)

lemma fold_projectEnvMapping:
  assumes "secretName b \<noteq> ''''" and "annotated b ann"
  shows "fold (projectEnvMapping b) es (ann, env) = (ann, env @ map (bindingEnv b) es)"
  using assms
  by (induction es arbitrary: env)
    (simp_all add: projectEnvMapping_def bindingEnv_def secretAnnotation_annotated
      typeAnnotation_annotated providerAnnotation_annotated)

definition rootContainer :: "metaContainer \<Rightarrow> metaContainer" where
  "rootContainer mc = snd (serviceBindingRoot mc)"

definition bindingMount :: "serviceBinding \<Rightarrow> metaContainer \<Rightarrow> volumeMount" where
  "bindingMount b mc =
    \<lparr>vm_Name = volumeName b, vm_ReadOnly = True,
     vm_MountPath = pathJoin (fst (serviceBindingRoot mc)) (bs_Name (sb_Spec b)), vm_rest = []\<rparr>"

definition boundContainer ::
  "serviceBinding \<Rightarrow> string amap \<Rightarrow> metaContainer \<Rightarrow> metaContainer" where
  "boundContainer b ann mc =
    (if \<not> isContainerBindable b mc then mc
     else \<lparr>ct_Name = ct_Name mc,
           ct_Env = sortEnv ann (ct_Env (rootContainer mc) @ map (bindingEnv b) (bs_Env (sb_Spec b))),
           ct_VolumeMounts = sortMounts (ct_VolumeMounts mc @ [bindingMount b mc])\<rparr>)"

lemma rootContainer_simps [simp]:
  "ct_Name (rootContainer mc) = ct_Name mc"
  "ct_VolumeMounts (rootContainer mc) = ct_VolumeMounts mc"
  by (auto simp: rootContainer_def serviceBindingRoot_def split: option.splits)

lemma projectContainer_eq:
  assumes "secretName b \<noteq> ''''" and "annotated b ann"
  shows "projectContainer b (ann, mc) = (ann, boundContainer b ann mc)"
proof -
  obtain root mc' where r: "serviceBindingRoot mc = (root, mc')" by force
  then have "mc' = rootContainer mc" by (simp add: rootContainer_def)
  with r assms show ?thesis
    by (simp add: projectContainer_def boundContainer_def projectVolumeMount_def projectEnv_def
        fold_projectEnvMapping bindingMount_def)
qed

lemma projectContainers_eq:
  assumes "secretName b \<noteq> ''''" and "annotated b ann"
  shows "projectContainers b ann mcs = (ann, map (boundContainer b ann) mcs)"
  using assms by (induction mcs) (simp_all add: projectContainer_eq)

lemma unproject_simps [simp]:
  "mpt_workload (unproject b m) = mpt_workload m"
  "mpt_mapping (unproject b m) = mpt_mapping m"
  "mpt_Annotations (unproject b m) = clearAnnotations b (mpt_Annotations m)"
  "mpt_Containers (unproject b m) = map (unprojectContainer b (mpt_Annotations m)) (mpt_Containers m)"
  "mpt_Volumes (unproject b m) = filter (\<lambda>v. v_Name v \<noteq> volumeName b) (mpt_Volumes m)"
  by (simp_all add: unproject_def unprojectVolume_def clearAnnotations_def Let_def)

lemma project_simps:
  assumes "secretName b \<noteq> ''''"
  defines "ann \<equiv> \<lambda>m. bindAnnotations b (clearAnnotations b (mpt_Annotations m))"
  shows "mpt_workload (project b m) = mpt_workload m"
    and "mpt_mapping (project b m) = mpt_mapping m"
    and "mpt_Annotations (project b m) = ann m"
    and "mpt_Containers (project b m) =
      map (boundContainer b (ann m) \<circ> unprojectContainer b (mpt_Annotations m)) (mpt_Containers m)"
    and "mpt_Volumes (project b m) =
      sortVolumes (filter (\<lambda>v. v_Name v \<noteq> volumeName b) (mpt_Volumes m) @ [bindingVolume b])"
  using assms(1)
  by (simp_all add: project_def projectVolume_eq projectContainers_eq ann_def Let_def)

lemma project_no_secret: "secretName b = '''' \<Longrightarrow> project b m = unproject b m"
  by (simp add: project_def)

section \<open>Removing and adding the items of a binding\<close>

text \<open>
  A reference to the secret of a binding by another environment variable: \<open>unprojectEnv\<close>
  cannot tell it from the binding's own.
\<close>

definition refersToSecret :: "string \<Rightarrow> envVar \<Rightarrow> bool" where
  "refersToSecret secret e =
    (case ev_ValueFrom e of
       None \<Rightarrow> False
     | Some src \<Rightarrow>
         (case evs_SecretKeyRef src of Some s \<Rightarrow> sks_Name s = secret | None \<Rightarrow> False))"

definition refersToOwnField :: "serviceBinding \<Rightarrow> envVar \<Rightarrow> bool" where
  "refersToOwnField b e =
    (case ev_ValueFrom e of
       None \<Rightarrow> False
     | Some src \<Rightarrow>
         (case evs_FieldRef src of
            Some f \<Rightarrow> ofs_FieldPath f = annotationPath (typeAnnotationName b) \<or>
                      ofs_FieldPath f = annotationPath (providerAnnotationName b)
          | None \<Rightarrow> False))"

lemma removesEnv_iff: "removesEnv b secret e \<longleftrightarrow> refersToSecret secret e \<or> refersToOwnField b e"
  by (auto simp: removesEnv_def refersToSecret_def refersToOwnField_def split: option.splits)

lemma removesEnv_bindingEnv [simp]: "removesEnv b (secretName b) (bindingEnv b e)"
  by (simp add: removesEnv_def bindingEnv_def annotationEnv_def secretEnv_def)

lemma removesEnv_defaultRootEnv [simp]: "\<not> removesEnv b secret defaultRootEnv"
  by (simp add: removesEnv_def defaultRootEnv_def)

lemma isProjectedEnv_defaultRootEnv [simp]: "\<not> isProjectedEnv defaultRootEnv secrets"
  by (simp add: isProjectedEnv_def defaultRootEnv_def)

lemma annotated_amap_str: "annotated b ann \<Longrightarrow> amap_str ann (secretAnnotationName b) = secretName b"
  by (simp add: annotated_def amap_str_def)

lemma annotated_knownSecret:
  "annotated b ann \<Longrightarrow> secretName b \<in> knownProjectedSecrets ann"
  unfolding annotated_def knownProjectedSecrets_def
  by (auto dest!: map_of_SomeD intro!: image_eqI [where x = "(secretAnnotationName b, secretName b)"])

lemma annotationPath_projected:
  "hasPrefix (annotationPath (Group @ n)) (''metadata.annotations['' @ [CHR 0x27] @ Group)"
  by (simp add: annotationPath_def hasPrefix_iff)

lemma isProjectedEnv_bindingEnv:
  assumes "annotated b ann"
  shows "isProjectedEnv (bindingEnv b e) (knownProjectedSecrets ann)"
  using annotated_knownSecret [OF assms]
    annotationPath_projected [of "''/type-'' @ bindingUID b"]
    annotationPath_projected [of "''/provider-'' @ bindingUID b"]
  by (simp add: isProjectedEnv_def bindingEnv_def annotationEnv_def secretEnv_def
      typeAnnotationName_def providerAnnotationName_def TypeAnnotationPrefix_def
      ProviderAnnotationPrefix_def)

subsection \<open>The root directory\<close>

text \<open>The root is given as a literal value, as the specification asks.\<close>

definition literalRoot :: "metaContainer \<Rightarrow> bool" where
  "literalRoot mc \<longleftrightarrow>
     (\<forall>e \<in> set (ct_Env mc). ev_Name e = ServiceBindingRootEnv \<longrightarrow> ev_ValueFrom e = None)"

lemma find_filter_implied:
  "(\<And>x. x \<in> set xs \<Longrightarrow> P x \<Longrightarrow> Q x) \<Longrightarrow> List.find P (filter Q xs) = List.find P xs"
  by (induction xs) auto

lemma find_append_Some: "List.find P xs = Some x \<Longrightarrow> List.find P (xs @ ys) = Some x"
  by (induction xs) auto

lemma find_sortProjected:
  assumes "List.find P xs = Some x" and "\<And>x. x \<in> set xs \<Longrightarrow> P x \<Longrightarrow> \<not> p x"
  shows "List.find P (sortProjected p name xs) = Some x"
  using assms by (simp add: sortProjected_split find_append_Some find_filter_implied)

lemma find_root_rootContainer:
  "\<exists>e. List.find (\<lambda>e. ev_Name e = ServiceBindingRootEnv) (ct_Env (rootContainer mc)) = Some e \<and>
       ev_Value e = fst (serviceBindingRoot mc)"
proof (cases "List.find (\<lambda>e. ev_Name e = ServiceBindingRootEnv) (ct_Env mc)")
  case None
  then have "List.find (\<lambda>e. ev_Name e = ServiceBindingRootEnv) (ct_Env mc @ [defaultRootEnv]) =
      Some defaultRootEnv"
    by (induction "ct_Env mc" arbitrary: mc) (auto simp: find_None_iff find_Some_iff defaultRootEnv_def nth_append)
  with None show ?thesis by (simp add: rootContainer_def serviceBindingRoot_def)
next
  case (Some e)
  then show ?thesis by (simp add: rootContainer_def serviceBindingRoot_def)
qed

lemma set_rootContainer:
  "set (ct_Env (rootContainer mc)) \<subseteq> insert defaultRootEnv (set (ct_Env mc))"
  by (auto simp: rootContainer_def serviceBindingRoot_def split: option.splits)

lemma literalRoot_rootContainer: "literalRoot mc \<Longrightarrow> literalRoot (rootContainer mc)"
  using set_rootContainer [of mc] by (auto simp: literalRoot_def defaultRootEnv_def)

text \<open>Sorting the variables of a container with a literal root does not change its root.\<close>

lemma serviceBindingRoot_sorted:
  assumes "literalRoot mc" and env: "ct_Env mc' = sortEnv ann (ct_Env (rootContainer mc))"
  shows "fst (serviceBindingRoot mc') = fst (serviceBindingRoot mc)" and "rootContainer mc' = mc'"
proof -
  obtain e where e: "List.find (\<lambda>e. ev_Name e = ServiceBindingRootEnv) (ct_Env (rootContainer mc)) = Some e"
    "ev_Value e = fst (serviceBindingRoot mc)"
    using find_root_rootContainer by blast
  have "List.find (\<lambda>e. ev_Name e = ServiceBindingRootEnv) (ct_Env mc') = Some e"
    unfolding env using literalRoot_rootContainer [OF assms(1)]
    by (intro find_sortProjected [OF e(1)]) (auto simp: literalRoot_def isProjectedEnv_def)
  with e(2) show "fst (serviceBindingRoot mc') = fst (serviceBindingRoot mc)"
    and "rootContainer mc' = mc'"
    by (simp_all add: serviceBindingRoot_def rootContainer_def)
qed

subsection \<open>One container\<close>

lemma unprojectContainer_simps [simp]:
  "ct_Name (unprojectContainer b ann mc) = ct_Name mc"
  "ct_Env (unprojectContainer b ann mc) =
     filter (\<lambda>e. \<not> removesEnv b (amap_str ann (secretAnnotationName b)) e) (ct_Env mc)"
  "ct_VolumeMounts (unprojectContainer b ann mc) =
     filter (\<lambda>m. vm_Name m \<noteq> volumeName b) (ct_VolumeMounts mc)"
  by (simp_all add: unprojectContainer_def unprojectEnv_def unprojectVolumeMount_def Let_def)

lemma isContainerBindable_cong: "ct_Name mc = ct_Name mc' \<Longrightarrow>
   isContainerBindable b mc = isContainerBindable b mc'"
  by (simp add: isContainerBindable_def)

text \<open>A container without items of the binding and without references to its secret.\<close>

definition unbound :: "serviceBinding \<Rightarrow> metaContainer \<Rightarrow> bool" where
  "unbound b mc \<longleftrightarrow> (\<forall>m \<in> set (ct_VolumeMounts mc). vm_Name m \<noteq> volumeName b) \<and>
     (\<forall>e \<in> set (ct_Env mc). \<not> removesEnv b (secretName b) e)"

text \<open>What is left of a bound container when the binding is removed from it.\<close>

definition tidyContainer :: "serviceBinding \<Rightarrow> string amap \<Rightarrow> metaContainer \<Rightarrow> metaContainer" where
  "tidyContainer b ann mc =
    (if \<not> isContainerBindable b mc then mc
     else \<lparr>ct_Name = ct_Name mc, ct_Env = sortEnv ann (ct_Env (rootContainer mc)),
           ct_VolumeMounts = sortMounts (ct_VolumeMounts mc)\<rparr>)"

lemma unproject_boundContainer:
  assumes "annotated b ann" and "unbound b mc"
  shows "unprojectContainer b ann (boundContainer b ann mc) = tidyContainer b ann mc"
proof (rule metaContainer.equality)
  show "ct_Name (unprojectContainer b ann (boundContainer b ann mc)) = ct_Name (tidyContainer b ann mc)"
    by (simp add: boundContainer_def tidyContainer_def)
next
  have "\<forall>e \<in> set (ct_Env (rootContainer mc)). \<not> removesEnv b (secretName b) e"
    using assms(2) set_rootContainer [of mc] by (auto simp: unbound_def)
  then have "filter (\<lambda>e. \<not> removesEnv b (secretName b) e) (ct_Env (rootContainer mc)) =
      ct_Env (rootContainer mc)"
    by (auto intro: filter_eq_self)
  moreover have "filter (\<lambda>e. \<not> removesEnv b (secretName b) e) (ct_Env mc) = ct_Env mc"
    using assms(2) by (auto simp: unbound_def intro: filter_eq_self)
  moreover have "filter (\<lambda>e. \<not> removesEnv b (secretName b) e) (map (bindingEnv b) es) = []" for es
    by (auto intro: filter_eq_Nil)
  ultimately show "ct_Env (unprojectContainer b ann (boundContainer b ann mc)) =
      ct_Env (tidyContainer b ann mc)"
    by (simp add: boundContainer_def tidyContainer_def annotated_amap_str [OF assms(1)]
        filter_sortProjected)
next
  have "filter (\<lambda>m. vm_Name m \<noteq> volumeName b) (ct_VolumeMounts mc) = ct_VolumeMounts mc"
    using assms(2) by (auto simp: unbound_def intro: filter_eq_self)
  then show "ct_VolumeMounts (unprojectContainer b ann (boundContainer b ann mc)) =
      ct_VolumeMounts (tidyContainer b ann mc)"
    by (simp add: boundContainer_def tidyContainer_def bindingMount_def filter_sortProjected)
qed simp

lemma boundContainer_tidyContainer:
  assumes "literalRoot mc"
  shows "boundContainer b ann (tidyContainer b ann mc) = boundContainer b ann mc"
proof (cases "isContainerBindable b mc")
  case False
  then show ?thesis by (simp add: tidyContainer_def)
next
  case True
  let ?t = "tidyContainer b ann mc"
  have t: "ct_Name ?t = ct_Name mc" "ct_Env ?t = sortEnv ann (ct_Env (rootContainer mc))"
    "ct_VolumeMounts ?t = sortMounts (ct_VolumeMounts mc)"
    using True by (simp_all add: tidyContainer_def)
  have "isContainerBindable b ?t" using True t(1) isContainerBindable_cong by blast
  moreover have "bindingMount b ?t = bindingMount b mc"
    by (simp add: bindingMount_def serviceBindingRoot_sorted(1) [OF assms t(2)])
  moreover have "rootContainer ?t = ?t" by (rule serviceBindingRoot_sorted(2) [OF assms t(2)])
  ultimately show ?thesis
    using True by (simp add: boundContainer_def t sortProjected_absorb)
qed

end
