(* ===== verification/Projector_Properties.thy ===== *)
theory Projector_Properties
  imports Projector_Facts
begin

text \<open>
  The properties of \<open>projector/binding.go\<close> on pod templates, each with a concrete instance:
  two bindings to different secrets, and a workload with a container that names its own root.
\<close>

section \<open>Concrete data for the instances\<close>

definition exampleBinding :: "string \<Rightarrow> string \<Rightarrow> serviceBinding" where
  "exampleBinding uid secret =
    \<lparr>sb_meta = \<lparr>om_Name = ''db'', om_Namespace = ''ns'', om_UID = uid, om_ResourceVersion = ''1'',
       om_Labels = [], om_DeletionTimestamp = None\<rparr>,
     sb_Spec = \<lparr>bs_Name = ''db'', bs_Type = ''mysql'', bs_Provider = '''',
       bs_Workload = \<lparr>wr_APIVersion = ''apps/v1'', wr_Kind = ''Deployment'', wr_Name = ''app'',
         wr_Selector = None, wr_Containers = [''main'']\<rparr>,
       bs_Service = \<lparr>sr_APIVersion = ''v1'', sr_Kind = ''Secret'', sr_Name = secret\<rparr>,
       bs_Env = [\<lparr>em_Name = ''DB_USER'', em_Key = ''user''\<rparr>, \<lparr>em_Name = ''DB_TYPE'', em_Key = ''type''\<rparr>]\<rparr>,
     sb_Status = \<lparr>st_ObservedGeneration = 1, st_Conditions = [],
       st_Binding = Some \<lparr>sec_Name = secret\<rparr>\<rparr>\<rparr>"

definition exampleContainer :: "string \<Rightarrow> metaContainer" where
  "exampleContainer n =
    \<lparr>ct_Name = Some n,
     ct_Env = [\<lparr>ev_Name = ''PATH'', ev_Value = ''/bin'', ev_ValueFrom = None\<rparr>],
     ct_VolumeMounts = [\<lparr>vm_Name = ''tmp'', vm_ReadOnly = False, vm_MountPath = ''/tmp'', vm_rest = []\<rparr>]\<rparr>"

definition exampleTemplate :: "unit metaPodTemplate" where
  "exampleTemplate =
    \<lparr>mpt_workload = (),
     mpt_mapping = \<lparr>mt_Version = ''*'', mt_Annotations = ''.a'', mt_Containers = [], mt_Volumes = ''.v''\<rparr>,
     mpt_Annotations = [(''note'', ''kept'')],
     mpt_Containers = [exampleContainer ''main'', exampleContainer ''sidecar''],
     mpt_Volumes = [\<lparr>v_Name = ''tmp'', v_Projected = None, v_rest = []\<rparr>]\<rparr>"

lemma secretName_exampleBinding [simp]: "secretName (exampleBinding uid s) = s"
  by (simp add: secretName_def exampleBinding_def)

lemma UID_exampleBinding [simp]: "bindingUID (exampleBinding uid s) = uid"
  by (simp add: exampleBinding_def)

section \<open>Projecting twice\<close>

definition noOtherReference :: "serviceBinding \<Rightarrow> 'w metaPodTemplate \<Rightarrow> bool" where
  "noOtherReference b m \<longleftrightarrow> (\<forall>mc \<in> set (mpt_Containers (unproject b m)).
     \<forall>e \<in> set (ct_Env mc). \<not> refersToSecret (secretName b) e)"

definition literalRoots :: "'w metaPodTemplate \<Rightarrow> bool" where
  "literalRoots m \<longleftrightarrow> (\<forall>mc \<in> set (mpt_Containers m). literalRoot mc)"

lemma unbound_unprojectContainer:
  assumes "noOtherReference b m" and "mc \<in> set (mpt_Containers m)"
  shows "unbound b (unprojectContainer b (mpt_Annotations m) mc)"
  using assms by (fastforce simp: noOtherReference_def unbound_def removesEnv_iff)

lemma literalRoot_unprojectContainer:
  "literalRoots m \<Longrightarrow> mc \<in> set (mpt_Containers m) \<Longrightarrow> literalRoot (unprojectContainer b ann mc)"
  by (auto simp: literalRoots_def literalRoot_def)

lemma project_twice:
  assumes "secretName b \<noteq> ''''" and "noOtherReference b m" and "literalRoots m"
  shows "project b (project b m) = project b m"
proof -
  let ?ann = "bindAnnotations b (clearAnnotations b (mpt_Annotations m))"
  have ann: "bindAnnotations b (clearAnnotations b ?ann) = ?ann"
    by (simp add: clear_bindAnnotations)
  have "boundContainer b ?ann (unprojectContainer b ?ann
      (boundContainer b ?ann (unprojectContainer b (mpt_Annotations m) mc))) =
    boundContainer b ?ann (unprojectContainer b (mpt_Annotations m) mc)"
    if "mc \<in> set (mpt_Containers m)" for mc
    using unbound_unprojectContainer [OF assms(2) that] literalRoot_unprojectContainer [OF assms(3) that]
    by (simp add: unproject_boundContainer boundContainer_tidyContainer)
  moreover have "v_Name (bindingVolume b) = volumeName b" by (simp add: bindingVolume_def)
  ultimately show ?thesis
    using assms(1)
    by (intro metaPodTemplate.equality)
      (simp_all add: project_simps ann filter_sortProjected sortProjected_absorb)
qed

text \<open>
  Reconciling a binding again is stable: when no other variable refers to the binding's
  secret and the containers give their root literally, projecting an already projected binding
  changes nothing at all, not even the order of volumes, mounts, variables or annotations.
\<close>

lemma project_idempotent:
  assumes "secretName b \<noteq> ''''" and "noOtherReference b m" and "literalRoots m"
  shows "project b (project b m) = project b m"
  using assms by (rule project_twice)

lemma project_idempotent_witness:
  "project (exampleBinding ''u1'' ''s1'') (project (exampleBinding ''u1'' ''s1'') exampleTemplate) =
   project (exampleBinding ''u1'' ''s1'') exampleTemplate"
  by (rule project_idempotent)
    (simp_all add: noOtherReference_def literalRoots_def literalRoot_def refersToSecret_def
      exampleTemplate_def exampleContainer_def)

section \<open>Removing what was projected\<close>

lemma unproject_after_project:
  assumes "secretName b \<noteq> ''''" and "noOtherReference b m"
  shows "unproject b (project b m) =
    (unproject b m)\<lparr>
      mpt_Containers := map (tidyContainer b (mpt_Annotations (project b m)))
        (mpt_Containers (unproject b m)),
      mpt_Volumes := sortVolumes (mpt_Volumes (unproject b m))\<rparr>"
proof -
  let ?ann = "bindAnnotations b (clearAnnotations b (mpt_Annotations m))"
  have "unprojectContainer b ?ann (boundContainer b ?ann (unprojectContainer b (mpt_Annotations m) mc)) =
    tidyContainer b ?ann (unprojectContainer b (mpt_Annotations m) mc)"
    if "mc \<in> set (mpt_Containers m)" for mc
    using unbound_unprojectContainer [OF assms(2) that] by (simp add: unproject_boundContainer)
  moreover have "v_Name (bindingVolume b) = volumeName b" by (simp add: bindingVolume_def)
  ultimately show ?thesis
    using assms(1)
    by (intro metaPodTemplate.equality)
      (simp_all add: project_simps clear_bindAnnotations filter_sortProjected)
qed

text \<open>
  Unprojecting takes back what projecting did: what remains is the template as it was
  without the binding, up to the canonical order of its lists and the default root variable,
  which is kept for whoever else depends on it.
\<close>

lemma unproject_project:
  assumes "secretName b \<noteq> ''''" and "noOtherReference b m"
  shows "unproject b (project b m) =
    (unproject b m)\<lparr>
      mpt_Containers := map (tidyContainer b (mpt_Annotations (project b m)))
        (mpt_Containers (unproject b m)),
      mpt_Volumes := sortVolumes (mpt_Volumes (unproject b m))\<rparr>"
  using assms by (rule unproject_after_project)

lemma unproject_project_witness:
  "mpt_Volumes (unproject (exampleBinding ''u1'' ''s1'') (project (exampleBinding ''u1'' ''s1'') exampleTemplate)) =
   mpt_Volumes exampleTemplate"
proof -
  let ?b = "exampleBinding ''u1'' ''s1''"
  have h: "secretName ?b \<noteq> ''''" "noOtherReference ?b exampleTemplate"
    by (simp_all add: noOtherReference_def refersToSecret_def exampleTemplate_def exampleContainer_def)
  show ?thesis
    unfolding unproject_project [OF h]
    by (simp add: exampleTemplate_def sortProjected_split volumeName_def VolumePrefix_def hasPrefix_def)
qed

section \<open>What a projected template contains\<close>

text \<open>
  C11. After projection the template has exactly one volume with the binding's name: a projected
  volume of its secret, with a downward-API item for a type and for a provider when the binding
  sets them, each reading the annotation recorded for it.
\<close>

theorem project_volume:
  assumes "secretName b \<noteq> ''''"
  shows "filter (\<lambda>v. v_Name v = volumeName b) (mpt_Volumes (project b m)) = [bindingVolume b] \<and>
    annotated b (mpt_Annotations (project b m))"
proof -
  have "v_Name (bindingVolume b) = volumeName b" by (simp add: bindingVolume_def)
  then show ?thesis
    using assms by (simp add: project_simps filter_sortProjected) (simp add: sortProjected_split bindingVolume_def)
qed

theorem project_volume_witness:
  "filter (\<lambda>v. v_Name v = ''servicebinding-u1'') (mpt_Volumes (project (exampleBinding ''u1'' ''s1'') exampleTemplate)) =
   [bindingVolume (exampleBinding ''u1'' ''s1'')]"
  using project_volume [of "exampleBinding ''u1'' ''s1''" exampleTemplate]
  by (simp add: volumeName_def VolumePrefix_def)

text \<open>
  C10. Every container the binding selects gets exactly one read-only mount of the binding's
  volume, below its root, and one variable for each entry of \<open>env\<close> beside the variables it
  keeps; a container the binding does not select has no mount of it and gains nothing.
\<close>

theorem project_container:
  assumes "secretName b \<noteq> ''''" and "i < length (mpt_Containers m)"
  defines "old \<equiv> mpt_Containers (unproject b m) ! i" and "new \<equiv> mpt_Containers (project b m) ! i"
  shows "ct_Name new = ct_Name (mpt_Containers m ! i) \<and>
    (if isContainerBindable b (mpt_Containers m ! i)
     then filter (\<lambda>v. vm_Name v = volumeName b) (ct_VolumeMounts new) = [bindingMount b old] \<and>
       mset (ct_Env new) =
         mset (ct_Env (rootContainer old)) + mset (map (bindingEnv b) (bs_Env (sb_Spec b)))
     else new = old \<and> filter (\<lambda>v. vm_Name v = volumeName b) (ct_VolumeMounts new) = [])"
proof -
  let ?mc = "mpt_Containers m ! i"
  let ?ann = "bindAnnotations b (clearAnnotations b (mpt_Annotations m))"
  have old: "old = unprojectContainer b (mpt_Annotations m) ?mc"
    using assms(2) by (simp add: old_def)
  have new: "new = boundContainer b ?ann old"
    using assms(1,2) by (simp add: new_def old project_simps)
  have bind: "isContainerBindable b old = isContainerBindable b ?mc"
    by (rule isContainerBindable_cong) (simp add: old)
  have "filter (\<lambda>v. vm_Name v = volumeName b) (ct_VolumeMounts old) = []"
    by (auto simp: old intro: filter_eq_Nil)
  moreover have "sortMounts [x] = [x]" for x by (simp add: sortProjected_split)
  ultimately show ?thesis
    using bind by (simp add: new boundContainer_def filter_sortProjected bindingMount_def)
      (simp add: old)
qed

theorem project_container_witness:
  "map vm_Name (ct_VolumeMounts (mpt_Containers (project (exampleBinding ''u1'' ''s1'') exampleTemplate) ! 1)) = [''tmp'']"
proof -
  let ?b = "exampleBinding ''u1'' ''s1''"
  have h: "secretName ?b \<noteq> ''''" "1 < length (mpt_Containers exampleTemplate)"
    by (simp_all add: exampleTemplate_def)
  have nb: "\<not> isContainerBindable ?b (mpt_Containers exampleTemplate ! 1)"
    by (simp add: isContainerBindable_def exampleBinding_def exampleTemplate_def exampleContainer_def)
  from project_container [OF h] nb show ?thesis
    by (simp add: exampleTemplate_def exampleContainer_def volumeName_def VolumePrefix_def)
qed

text \<open>
  The order of a projected template is canonical: the volumes that are not projected come
  first, in their original order, then all projected volumes sorted by name.
\<close>

lemma project_volumes_canonical:
  assumes "secretName b \<noteq> ''''"
  shows "\<exists>ps. mpt_Volumes (project b m) =
      filter (\<lambda>v. \<not> hasPrefix (v_Name v) VolumePrefix) (mpt_Volumes m) @ ps \<and>
    (\<forall>v \<in> set ps. hasPrefix (v_Name v) VolumePrefix) \<and> sorted (map v_Name ps)"
proof -
  let ?vs = "filter (\<lambda>v. v_Name v \<noteq> volumeName b) (mpt_Volumes m) @ [bindingVolume b]"
  have "filter (\<lambda>v. \<not> hasPrefix (v_Name v) VolumePrefix) ?vs =
      filter (\<lambda>v. \<not> hasPrefix (v_Name v) VolumePrefix) (mpt_Volumes m)"
    by (auto simp: bindingVolume_def intro!: filter_cong)
  then show ?thesis
    using assms
    by (intro exI [of _ "sort_key v_Name (filter (\<lambda>v. hasPrefix (v_Name v) VolumePrefix) ?vs)"])
      (simp add: project_simps sortProjected_split)
qed

section \<open>What projection leaves alone\<close>

text \<open>
  C12. Projecting a binding touches nothing that belongs to another binding or to the user: the
  annotations outside its own three keys, the volumes and mounts with other names and the
  container names are those of the template before.
\<close>

theorem project_frame:
  assumes "k \<notin> ownKeys b" and "name \<noteq> volumeName b"
  shows "map_of (mpt_Annotations (project b m)) k = map_of (mpt_Annotations m) k \<and>
    filter (\<lambda>v. v_Name v = name) (mpt_Volumes (project b m)) =
      filter (\<lambda>v. v_Name v = name) (mpt_Volumes m) \<and>
    map ct_Name (mpt_Containers (project b m)) = map ct_Name (mpt_Containers m) \<and>
    map (\<lambda>mc. filter (\<lambda>v. vm_Name v = name) (ct_VolumeMounts mc)) (mpt_Containers (project b m)) =
      map (\<lambda>mc. filter (\<lambda>v. vm_Name v = name) (ct_VolumeMounts mc)) (mpt_Containers m)"
proof -
  have same: "sortProjected (\<lambda>x. q (f x)) f (filter (\<lambda>x. f x = name) xs) = filter (\<lambda>x. f x = name) xs"
    for q and f :: "'b \<Rightarrow> string" and xs
  proof -
    have "sorted (map (projectedKey (\<lambda>x. q (f x)) f) (filter (\<lambda>x. f x = name) xs))"
      by (induction xs) (auto simp: projectedKey_def)
    then show ?thesis by (simp add: sortProjected_sort_key sort_key_id_if_sorted)
  qed
  have other: "filter (\<lambda>x. f x \<noteq> volumeName b \<and> f x = name) xs = filter (\<lambda>x. f x = name) xs"
    for f :: "'b \<Rightarrow> string" and xs
    using assms(2) by (auto intro: filter_cong)
  have vol: "v_Name (bindingVolume b) \<noteq> name" using assms(2) by (simp add: bindingVolume_def)
  have mount: "vm_Name (bindingMount b mc) \<noteq> name" for mc
    using assms(2) by (simp add: bindingMount_def)
  show ?thesis
  proof (cases "secretName b = ''''")
    case True
    then show ?thesis
      using assms by (simp add: project_no_secret map_of_clearAnnotations other)
  next
    case False
    show ?thesis
      using assms vol mount
      by (simp add: project_simps [OF False] map_of_bindAnnotations_other map_of_clearAnnotations
          filter_sortProjected other boundContainer_def
          same [of "\<lambda>n. hasPrefix n VolumePrefix" v_Name]
          same [of "\<lambda>n. hasPrefix n VolumePrefix" vm_Name])
  qed
qed

theorem project_frame_witness:
  "map_of (mpt_Annotations (project (exampleBinding ''u1'' ''s1'') exampleTemplate)) ''note'' = Some ''kept''"
proof -
  have "''note'' \<notin> ownKeys (exampleBinding ''u1'' ''s1'')"
    "''tmp'' \<noteq> volumeName (exampleBinding ''u1'' ''s1'')"
    by (simp_all add: ownKeys_def name_defs volumeName_def VolumePrefix_def)
  from project_frame [OF this, of exampleTemplate] show ?thesis
    by (simp add: exampleTemplate_def)
qed

text \<open>
  A binding without a secret (its service has none yet, or the secret went away) is removed:
  no volume, mount or annotation of the binding is left in the template.
\<close>

lemma project_without_secret:
  assumes "secretName b = ''''"
  shows "(\<forall>v \<in> set (mpt_Volumes (project b m)). v_Name v \<noteq> volumeName b) \<and>
    (\<forall>k \<in> ownKeys b. map_of (mpt_Annotations (project b m)) k = None) \<and>
    (\<forall>mc \<in> set (mpt_Containers (project b m)).
       \<forall>v \<in> set (ct_VolumeMounts mc). vm_Name v \<noteq> volumeName b)"
  using assms by (auto simp: project_no_secret map_of_clearAnnotations)

text \<open>
  Unprojecting a binding removes every variable that refers to the secret recorded for it,
  whoever added the variable: the code decides by the secret's name alone.
\<close>

lemma unproject_removes_references:
  "\<forall>mc \<in> set (mpt_Containers (unproject b m)). \<forall>e \<in> set (ct_Env mc).
     \<not> refersToSecret (amap_str (mpt_Annotations m) (secretAnnotationName b)) e \<and>
     \<not> refersToOwnField b e"
  by (auto simp: removesEnv_iff)

lemma unproject_removes_references_witness:
  "list_all (\<lambda>e. \<not> refersToSecret ''s1'' e)
     (ct_Env (mpt_Containers (unproject (exampleBinding ''u1'' ''s1'')
       (project (exampleBinding ''u1'' ''s1'') exampleTemplate)) ! 0))"
proof -
  let ?b = "exampleBinding ''u1'' ''s1''" and ?m = "project (exampleBinding ''u1'' ''s1'') exampleTemplate"
  have "mpt_Containers (unproject ?b ?m) ! 0 \<in> set (mpt_Containers (unproject ?b ?m))"
    by (intro nth_mem) (simp add: project_simps exampleTemplate_def)
  moreover have "amap_str (mpt_Annotations ?m) (secretAnnotationName ?b) = ''s1''"
    by (simp add: project_simps annotated_amap_str)
  ultimately show ?thesis
    using unproject_removes_references [of ?b ?m] unfolding list_all_iff by metis
qed

text \<open>
  Two bindings to the same secret are therefore not independent: once both are projected,
  unprojecting the first takes the variables of the second with it, although the second is
  still bound (its volume and annotation stay).
\<close>

lemma unproject_takes_variables_of_shared_secret:
  fixes m :: "'w metaPodTemplate"
  assumes "secretName b \<noteq> ''''" and "secretName c = secretName b" and "bindingUID b \<noteq> bindingUID c"
  defines "m' \<equiv> unproject b (project c (project b m))"
  shows "map_of (mpt_Annotations m') (secretAnnotationName c) = Some (secretName c) \<and>
    bindingVolume c \<in> set (mpt_Volumes m') \<and>
    (\<forall>mc \<in> set (mpt_Containers m'). \<forall>e \<in> set (ct_Env mc). \<not> refersToSecret (secretName c) e)"
proof -
  have c: "secretName c \<noteq> ''''" using assms by simp
  let ?m = "project c (project b m)"
  have disj: "secretAnnotationName b \<notin> ownKeys c" "secretAnnotationName c \<notin> ownKeys b"
    using assms(3) by (auto simp: ownKeys_def)
  have b_ann: "amap_str (mpt_Annotations ?m) (secretAnnotationName b) = secretName c"
    using annotated_bindAnnotations [of b "clearAnnotations b (mpt_Annotations m)"] disj(1) assms(2)
    by (simp add: amap_str_def project_simps [OF c] project_simps [OF assms(1)] annotated_def
        map_of_bindAnnotations_other map_of_clearAnnotations)
  have "annotated c (mpt_Annotations ?m)" by (simp add: project_simps [OF c])
  then have "map_of (mpt_Annotations m') (secretAnnotationName c) = Some (secretName c)"
    using disj(2) by (simp add: m'_def map_of_clearAnnotations annotated_def)
  moreover have "bindingVolume c \<in> set (mpt_Volumes m')"
    using assms(3) by (auto simp: m'_def project_simps [OF c] bindingVolume_def)
  ultimately show ?thesis
    using b_ann by (auto simp: m'_def removesEnv_iff)
qed

lemma unproject_takes_variables_of_shared_secret_witness:
  "\<exists>e \<in> set (ct_Env (mpt_Containers (project (exampleBinding ''u2'' ''s'') (project (exampleBinding ''u1'' ''s'') exampleTemplate)) ! 0)).
     refersToSecret ''s'' e \<and>
     e \<notin> set (ct_Env (mpt_Containers (unproject (exampleBinding ''u1'' ''s'')
       (project (exampleBinding ''u2'' ''s'') (project (exampleBinding ''u1'' ''s'') exampleTemplate))) ! 0))"
proof -
  let ?b = "exampleBinding ''u1'' ''s''" and ?c = "exampleBinding ''u2'' ''s''"
  let ?m = "project ?c (project ?b exampleTemplate)"
  have h: "secretName ?b \<noteq> ''''" "secretName ?c = secretName ?b" "bindingUID ?b \<noteq> bindingUID ?c"
    by simp_all
  let ?e = "bindingEnv ?c \<lparr>em_Name = ''DB_USER'', em_Key = ''user''\<rparr>"
  have ref: "refersToSecret ''s'' ?e"
    by (simp add: bindingEnv_def secretEnv_def refersToSecret_def)
  have len: "0 < length (mpt_Containers ?m)"
    by (simp add: project_simps exampleTemplate_def)
  have "?e \<in> set (ct_Env (mpt_Containers ?m ! 0))"
    by (simp add: project_simps exampleTemplate_def boundContainer_def isContainerBindable_def
        exampleContainer_def) (simp add: exampleBinding_def)
  moreover have "?e \<notin> set (ct_Env (mpt_Containers (unproject ?b ?m) ! 0))"
    using unproject_takes_variables_of_shared_secret [OF h, of exampleTemplate] ref len
    by (metis length_map nth_mem secretName_exampleBinding unproject_simps(4))
  ultimately show ?thesis using ref by blast
qed

section \<open>Two bindings\<close>

lemma sort_key_swap:
  assumes "f x \<noteq> f y"
  shows "sort_key f (xs @ [x, y]) = sort_key f (xs @ [y, x])"
proof (rule properties_for_sort_key)
  fix k
  have "filter (\<lambda>z. f k = f z) [x, y] = filter (\<lambda>z. f k = f z) [y, x]"
    using assms by auto
  then show "filter (\<lambda>z. f k = f z) (sort_key f (xs @ [y, x])) = filter (\<lambda>z. f k = f z) (xs @ [x, y])"
    by (simp only: filter_append sort_key_stable_left)
qed simp_all

lemma sortVolumes_swap:
  "v_Name v \<noteq> v_Name w \<Longrightarrow> hasPrefix (v_Name v) VolumePrefix \<Longrightarrow>
   sortVolumes (vs @ [v, w]) = sortVolumes (vs @ [w, v])"
  by (simp add: sortProjected_sort_key sort_key_swap projectedKey_def)

text \<open>
  The order in which two bindings reach a workload does not matter: projecting them either
  way round gives the same volumes in the same order and the same annotations.
\<close>

lemma projections_commute:
  assumes "secretName b \<noteq> ''''" and "secretName c \<noteq> ''''" and "bindingUID b \<noteq> bindingUID c"
  shows "mpt_Volumes (project b (project c m)) = mpt_Volumes (project c (project b m)) \<and>
    map_of (mpt_Annotations (project b (project c m))) = map_of (mpt_Annotations (project c (project b m)))"
proof
  have name: "v_Name (bindingVolume x) = volumeName x" for x by (simp add: bindingVolume_def)
  have vol: "mpt_Volumes (project x (project y m)) =
      sortVolumes (filter (\<lambda>v. v_Name v \<noteq> volumeName x) (filter (\<lambda>v. v_Name v \<noteq> volumeName y) (mpt_Volumes m)) @
        [bindingVolume y, bindingVolume x])"
    if "secretName x \<noteq> ''''" "secretName y \<noteq> ''''" "bindingUID x \<noteq> bindingUID y" for x y
    using that
    by (simp add: project_simps filter_sortProjected sortProjected_absorb name)
  show "mpt_Volumes (project b (project c m)) = mpt_Volumes (project c (project b m))"
    using assms vol [of b c] vol [of c b] sortVolumes_swap [of "bindingVolume b" "bindingVolume c"]
    by (simp add: name conj_commute)
  show "map_of (mpt_Annotations (project b (project c m))) = map_of (mpt_Annotations (project c (project b m)))"
  proof
    fix k
    have ann: "mpt_Annotations (project x n) = bindAnnotations x (clearAnnotations x (mpt_Annotations n))"
      if "secretName x \<noteq> ''''" for x and n :: "'a metaPodTemplate"
      using that by (simp add: project_simps)
    have own: "map_of (bindAnnotations x (clearAnnotations x a)) k =
        map_of (bindAnnotations x (clearAnnotations x a')) k" if "k \<in> ownKeys x" for x a a'
      using that
      by (auto simp: bindAnnotations_def Let_def amap_simps map_of_clearAnnotations ownKeys_def)
    consider "k \<in> ownKeys b" "k \<notin> ownKeys c" | "k \<notin> ownKeys b"
      using ownKeys_disjoint [OF assms(3)] by blast
    then show "map_of (mpt_Annotations (project b (project c m))) k =
        map_of (mpt_Annotations (project c (project b m))) k"
    proof cases
      case 1
      then show ?thesis
        using own [of b] by (simp add: ann assms map_of_bindAnnotations_other map_of_clearAnnotations)
    next
      case 2
      then show ?thesis
        using own [of c]
        by (cases "k \<in> ownKeys c") (simp_all add: ann assms map_of_bindAnnotations_other map_of_clearAnnotations)
    qed
  qed
qed

lemma projections_commute_witness:
  "mpt_Volumes (project (exampleBinding ''u1'' ''s1'') (project (exampleBinding ''u2'' ''s2'') exampleTemplate)) =
   mpt_Volumes (project (exampleBinding ''u2'' ''s2'') (project (exampleBinding ''u1'' ''s1'') exampleTemplate))"
  using projections_commute [of "exampleBinding ''u1'' ''s1''" "exampleBinding ''u2'' ''s2''" exampleTemplate]
  by simp

section \<open>Where the secret is mounted\<close>

text \<open>
  In a bound container the secret is mounted read-only directly below the container's root,
  under the name of the binding, and the container is told the root: a root variable it had is
  kept, and one that gives \<open>/bindings\<close> is added where there was none.
\<close>

lemma project_mount_path:
  assumes "secretName b \<noteq> ''''" and "i < length (mpt_Containers m)"
    and "isContainerBindable b (mpt_Containers m ! i)" and "plainElem (bs_Name (sb_Spec b))"
    and "fst (serviceBindingRoot (mpt_Containers (unproject b m) ! i)) = root"
    and "rootedPath root" and "pathClean root \<noteq> ''/''"
  shows "(\<exists>v \<in> set (ct_VolumeMounts (mpt_Containers (project b m) ! i)).
      vm_Name v = volumeName b \<and> vm_ReadOnly v \<and>
      vm_MountPath v = pathClean root @ ''/'' @ bs_Name (sb_Spec b)) \<and>
    (\<exists>e \<in> set (ct_Env (mpt_Containers (project b m) ! i)).
      ev_Name e = ''SERVICE_BINDING_ROOT'' \<and> ev_Value e = root)"
proof -
  let ?old = "unprojectContainer b (mpt_Annotations m) (mpt_Containers m ! i)"
  let ?ann = "bindAnnotations b (clearAnnotations b (mpt_Annotations m))"
  have new: "mpt_Containers (project b m) ! i = boundContainer b ?ann ?old"
    using assms(1,2) by (simp add: project_simps)
  have root: "fst (serviceBindingRoot ?old) = root" using assms(2,5) by simp
  have "isContainerBindable b ?old" using assms(3) by (simp add: isContainerBindable_def Let_def)
  moreover have "cleanElems root \<noteq> []" using assms(6,7) by (auto simp: pathClean_def rootedPath_def split: if_splits)
  then have "vm_MountPath (bindingMount b ?old) = pathClean root @ ''/'' @ bs_Name (sb_Spec b)"
    using assms(4,6) by (simp add: bindingMount_def root pathJoin_plain [simplified])
  moreover obtain e where "List.find (\<lambda>e. ev_Name e = ServiceBindingRootEnv) (ct_Env (rootContainer ?old)) = Some e"
    "ev_Value e = root"
    using find_root_rootContainer [of ?old] root by auto
  then have "e \<in> set (ct_Env (rootContainer ?old)) \<and> ev_Name e = ''SERVICE_BINDING_ROOT'' \<and> ev_Value e = root"
    by (auto simp: find_Some_iff ServiceBindingRootEnv_def)
  ultimately show ?thesis
    by (auto simp: new boundContainer_def bindingMount_def)
qed

lemma project_mount_path_witness:
  "\<exists>v \<in> set (ct_VolumeMounts (mpt_Containers (project (exampleBinding ''u1'' ''s1'') exampleTemplate) ! 0)).
     vm_MountPath v = ''/bindings/db''"
proof -
  let ?b = "exampleBinding ''u1'' ''s1''"
  have bindable: "isContainerBindable ?b (mpt_Containers exampleTemplate ! 0)"
    by (simp add: isContainerBindable_def exampleBinding_def exampleTemplate_def exampleContainer_def)
  have name: "bs_Name (sb_Spec ?b) = ''db''" by (simp add: exampleBinding_def)
  have root: "fst (serviceBindingRoot (mpt_Containers (unproject ?b exampleTemplate) ! 0)) = ''/bindings''"
    by (simp add: serviceBindingRoot_def exampleTemplate_def exampleContainer_def ServiceBindingRootEnv_def
        defaultRootEnv_def)
  have path: "rootedPath ''/bindings''" "pathClean ''/bindings'' = ''/bindings''" "plainElem ''db''"
    by (simp_all add: rootedPath_def pathClean_def cleanElems_def plainElem_def)
  have len: "0 < length (mpt_Containers exampleTemplate)" by (simp add: exampleTemplate_def)
  have secret: "secretName ?b \<noteq> ''''" and plain: "plainElem (bs_Name (sb_Spec ?b))"
    and ne: "pathClean ''/bindings'' \<noteq> ''/''"
    by (simp_all add: path name)
  note p = project_mount_path [OF secret len bindable plain root path(1) ne]
  then obtain v where "v \<in> set (ct_VolumeMounts (mpt_Containers (project ?b exampleTemplate) ! 0))"
    "vm_MountPath v = pathClean ''/bindings'' @ ''/'' @ bs_Name (sb_Spec ?b)" by blast
  then show ?thesis by (intro bexI [of _ v]) (simp_all add: path name)
qed

end
