(* ===== verification/Projector.thy ===== *)
theory Projector
  imports Projector_Binding
begin

text \<open>
  \<open>projector/interface.go\<close>, \<open>projector/mapping.go\<close> and the entry points of
  \<open>projector/binding.go\<close>: projecting a binding into a workload object. The interface
  \<open>MappingSource\<close> is the locale \<open>mapping_source\<close>, the interface
  \<open>ServiceBindingProjector\<close> the locale \<open>binding_projector\<close>.
\<close>

section \<open>The projector\<close>

text \<open>\<open>lookup\<close> is the \<open>LookupMapping\<close> of the projector's mapping source.\<close>

definition Project ::
  "('w \<Rightarrow> mappingTemplate outcome) \<Rightarrow> 'w lib \<Rightarrow> serviceBinding \<Rightarrow> 'w \<Rightarrow> 'w outcome" where
  "Project lookup L binding workload =
    and_then (lookup workload) (\<lambda>mapping.
    and_then (newMetaPodTemplate L workload mapping) (\<lambda>mpt.
      writeToWorkload L (project binding mpt)))"

definition Unproject ::
  "('w \<Rightarrow> mappingTemplate outcome) \<Rightarrow> 'w lib \<Rightarrow> serviceBinding \<Rightarrow> 'w \<Rightarrow> 'w outcome" where
  "Unproject lookup L binding workload =
    and_then (lookup workload) (\<lambda>mapping.
    and_then (newMetaPodTemplate L workload mapping) (\<lambda>mpt.
      writeToWorkload L (unproject binding mpt)))"

section \<open>Mapping sources\<close>

text \<open>
  What the projector relies on: a template that was found has its defaults, so none of the
  pointers it reads and writes is empty and there is a container mapping.
\<close>

locale mapping_source =
  fixes lookup :: "'w \<Rightarrow> mappingTemplate outcome"
  assumes lookup_defaulted: "lookup w = Ok t \<Longrightarrow> defaultedTemplate t"
begin

lemma Project_template:
  assumes "Project lookup L b w = Ok w'"
  shows "\<exists>t mpt. lookup w = Ok t \<and> defaultedTemplate t \<and>
    newMetaPodTemplate L w t = Ok mpt \<and> writeToWorkload L (project b mpt) = Ok w'"
  using assms lookup_defaulted by (auto simp: Project_def outcome_simps)

lemma Unproject_template:
  assumes "Unproject lookup L b w = Ok w'"
  shows "\<exists>t mpt. lookup w = Ok t \<and> defaultedTemplate t \<and>
    newMetaPodTemplate L w t = Ok mpt \<and> writeToWorkload L (unproject b mpt) = Ok w'"
  using assms lookup_defaulted by (auto simp: Unproject_def outcome_simps)

lemma lookup_default_id: "lookup w = Ok t \<Longrightarrow> defaultTemplate t = t"
  by (rule defaultTemplate_id) (rule lookup_defaulted)

end

text \<open>The static source keeps a defaulted copy of its template.\<close>

definition newStaticMapping :: "mappingTemplate \<Rightarrow> mappingTemplate" where
  "newStaticMapping mapping = defaultTemplate mapping"

definition staticLookup :: "mappingTemplate \<Rightarrow> 'w \<Rightarrow> mappingTemplate outcome" where
  "staticLookup m workload = Ok m"

interpretation static_source: mapping_source "staticLookup (newStaticMapping m)" for m
  by unfold_locales (auto simp: staticLookup_def newStaticMapping_def defaultTemplate_defaulted)

section \<open>The projector interface\<close>

text \<open>
  What the controllers rely on: without a secret projecting is unprojecting, and a binding that
  cannot be unprojected (no mapping, unreadable workload) cannot be projected either.
\<close>

locale binding_projector =
  fixes proj :: "serviceBinding \<Rightarrow> 'w \<Rightarrow> 'w outcome"
    and unproj :: "serviceBinding \<Rightarrow> 'w \<Rightarrow> 'w outcome"
  assumes proj_no_secret: "secretName b = '''' \<Longrightarrow> proj b w = unproj b w"
begin

lemma proj_all_no_secret:
  assumes "secretName b = ''''"
  shows "map_ok_list (proj b) ws = map_ok_list (unproj b) ws"
proof -
  have "proj b = unproj b" using assms by (intro ext) (rule proj_no_secret)
  then show ?thesis by simp
qed

end

interpretation model_projector: binding_projector "Project lookup L" "Unproject lookup L"
  for lookup :: "'w \<Rightarrow> mappingTemplate outcome" and L :: "'w lib"
  by unfold_locales (simp add: Project_def Unproject_def project_def)

end
