(* ===== verification/Workload_Lens.thy ===== *)
theory Workload_Lens
  imports Meta_Properties Projector
begin

text \<open>
  Writing a pod template into a workload and reading it back, through a mapping whose pointers
  do not overlap. Pointers, elements of a container list, container mappings and the whole
  template are taken in turn; each level has what a write can be read back as and what it leaves
  alone.
\<close>

section \<open>Pointers\<close>

definition readPtr :: "jsonpath \<Rightarrow> (json \<Rightarrow> error + 'a) \<Rightarrow> string \<Rightarrow> json \<Rightarrow> 'a \<Rightarrow> 'a outcome" where
  "readPtr J dec ptr j target =
    and_then (keys J ptr) (\<lambda>ks. and_then (readKeys j ks) (finishRead dec target))"

definition writePtr :: "jsonpath \<Rightarrow> string \<Rightarrow> json \<Rightarrow> json \<Rightarrow> json outcome" where
  "writePtr J ptr out j = and_then (keys J ptr) (\<lambda>ks. writeKeys j ks out)"

definition ptrKeys :: "jsonpath \<Rightarrow> string \<Rightarrow> string list" where
  "ptrKeys J ptr = (case keys J ptr of Ok ks \<Rightarrow> ks | _ \<Rightarrow> [])"

lemma getAt_readPtr: "denotes u v l j \<Longrightarrow> getAt J dec ptr u v target = readPtr J dec ptr j target"
  by (simp add: getAt_eq_readKeys readPtr_def)

lemma setAt_writePtr:
  "denotes u v l j \<Longrightarrow> setAt J ptr out u v = map_ok (putLoc u l) (writePtr J ptr out j)"
  by (cases "keys J ptr") (simp_all add: setAt_eq_writeKeys writePtr_def)

lemma writePtr_Ok:
  "writePtr J ptr out j = Ok j' \<longleftrightarrow>
    keys J ptr = Ok (ptrKeys J ptr) \<and> objWritable j (ptrKeys J ptr) \<and> j' = objSet j (ptrKeys J ptr) out"
proof (cases "keys J ptr")
  case (Ok ks)
  show ?thesis
  proof (cases "objWritable j ks")
    case True
    with Ok show ?thesis by (auto simp: writePtr_def ptrKeys_def writeKeys_objSet)
  next
    case False
    with writeKeys_ok_iff [of j ks out] Ok show ?thesis
      by (auto simp: writePtr_def ptrKeys_def is_ok_iff)
  qed
qed (simp_all add: writePtr_def)

lemma readPtr_same:
  "writePtr J ptr out j = Ok j' \<Longrightarrow> out \<noteq> JNull \<Longrightarrow> readPtr J dec ptr j' target = from_result (dec out)"
  by (auto simp: writePtr_Ok readPtr_def readKeys_objSet_same finishRead_def)

lemma readPtr_beside:
  "writePtr J ptr out j = Ok j' \<Longrightarrow> divergeKeys (ptrKeys J ptr) (ptrKeys J q) \<Longrightarrow>
   readPtr J dec q j' target = readPtr J dec q j target"
  by (cases "keys J q") (auto simp: writePtr_Ok readPtr_def readKeys_objSet_diverge ptrKeys_def)

lemma writePtr_isObj: "writePtr J ptr out j = Ok j' \<Longrightarrow> isObj j'"
  by (auto simp: writePtr_Ok objSet_isObj)

text \<open>Where a write is possible; it stays possible after writing there or beside.\<close>

definition canWrite :: "jsonpath \<Rightarrow> string \<Rightarrow> json \<Rightarrow> bool" where
  "canWrite J ptr j \<longleftrightarrow> keys J ptr = Ok (ptrKeys J ptr) \<and> objWritable j (ptrKeys J ptr)"

lemma writePtr_succeeds: "canWrite J ptr j \<Longrightarrow> \<exists>j'. writePtr J ptr out j = Ok j'"
  by (simp add: writePtr_Ok canWrite_def)

lemma objWritable_objSet_same: "objWritable j ks \<Longrightarrow> objWritable (objSet j ks v) ks"
proof (induction j ks v rule: objSet.induct)
  case (2 j k v)
  then show ?case by (auto simp: isObj_iff)
next
  case (3 j k k' ks v)
  then obtain kvs where j: "j = JObj kvs" by (auto simp: isObj_iff)
  with 3(2) have "isObj (objSet (orEmpty (map_of kvs k)) (k' # ks) v)" by (intro objSet_isObj) simp
  then have "orEmpty (Some (objSet (orEmpty (map_of kvs k)) (k' # ks) v)) =
      objSet (orEmpty (map_of kvs k)) (k' # ks) v"
    by (auto simp: isObj_iff)
  with 3 j show ?case by (simp add: amap_simps)
qed simp

lemma canWrite_same: "writePtr J ptr out j = Ok j' \<Longrightarrow> canWrite J ptr j'"
  by (auto simp: writePtr_Ok canWrite_def objWritable_objSet_same)

lemma canWrite_beside:
  "writePtr J ptr out j = Ok j' \<Longrightarrow> canWrite J q j \<Longrightarrow> divergeKeys (ptrKeys J ptr) (ptrKeys J q) \<Longrightarrow>
   canWrite J q j'"
  by (auto simp: writePtr_Ok canWrite_def objWritable_objSet_diverge)

section \<open>Positions below diverging keys\<close>

lemma divergeKeys_sym: "divergeKeys ks ms \<longleftrightarrow> divergeKeys ms ks"
  by (induction ks ms rule: divergeKeys.induct) auto

lemma diverge_keys: "divergeKeys ks ms \<Longrightarrow> diverge (map Key ks) (map Key ms)"
  by (induction ks ms rule: divergeKeys.induct) auto

lemma getLoc_objSet_beside:
  "objWritable j ks \<Longrightarrow> divergeKeys ks ms \<Longrightarrow> getLoc (objSet j ks v) (map Key ms) = getLoc j (map Key ms)"
proof (induction j ks v arbitrary: ms rule: objSet.induct)
  case (2 j k v)
  then show ?case by (cases ms) (auto simp: isObj_iff amap_simps)
next
  case (3 j k k' ks v)
  then obtain m ms' where ms: "ms = m # ms'" by (cases ms) auto
  from 3(2) obtain kvs where j: "j = JObj kvs" by (auto simp: isObj_iff)
  show ?case
  proof (cases "m = k")
    case True
    with 3(3) ms have div: "divergeKeys (k' # ks) ms'" by simp
    then obtain m2 ms2 where ms': "ms' = m2 # ms2" by (cases ms') auto
    have "getLoc (orEmpty (map_of kvs k)) (map Key ms') =
        (case map_of kvs k of None \<Rightarrow> None | Some c \<Rightarrow> getLoc c (map Key ms'))"
      by (cases "map_of kvs k" rule: option.exhaust; cases "the (map_of kvs k)")
        (auto simp: orEmpty_def ms')
    with True ms j 3(1) [OF _ div] 3(2) show ?thesis by (simp add: amap_simps)
  next
    case False
    with ms j show ?thesis by (simp add: amap_simps)
  qed
qed simp

lemma readKeys_putLoc_beside:
  "divergeKeys ks ms \<Longrightarrow> readKeys (putLoc j (map Key ks @ l) v) ms = readKeys j ms"
proof (induction ks ms arbitrary: j rule: divergeKeys.induct)
  case (1 k ks m ms)
  show ?case
  proof (cases j)
    case (JObj kvs)
    with 1 show ?thesis by (cases "map_of kvs k") (auto simp: amap_simps)
  qed (simp_all)
qed auto

lemma isObj_putLoc: "isObj j \<Longrightarrow> ks \<noteq> [] \<Longrightarrow> isObj (putLoc j (map Key ks @ l) v)"
  by (cases ks) (auto simp: isObj_iff split: option.split)

lemma objWritable_isObj: "objWritable j ks \<Longrightarrow> isObj j"
  by (induction j ks rule: objWritable.induct) auto

lemma orEmpty_isObj: "isObj j \<Longrightarrow> orEmpty (Some j) = j"
  by (cases j) simp_all

lemma objWritable_putLoc_beside:
  "divergeKeys ks ms \<Longrightarrow> objWritable j ms \<Longrightarrow> objWritable (putLoc j (map Key ks @ l) v) ms"
proof (induction ks ms arbitrary: j rule: divergeKeys.induct)
  case (1 k ks m ms)
  then obtain kvs where j: "j = JObj kvs" by (metis objWritable_isObj isObj_iff)
  show ?case
  proof (cases "ms = [] \<or> map_of kvs k = None \<or> m \<noteq> k")
    case True
    with 1 j show ?thesis by (cases "ms = []") (auto simp: amap_simps split: option.split)
  next
    case False
    then obtain c where c: "map_of kvs k = Some c" and ne: "ms \<noteq> []" and mk: "m = k" by auto
    with 1 j have w: "objWritable (orEmpty (Some c)) ms" "divergeKeys ks ms" by simp_all
    let ?c = "putLoc c (map Key ks @ l) v"
    have "objWritable (orEmpty (Some ?c)) ms"
    proof (cases "c = JNull")
      case True
      with w divergeKeys_nonempty [OF w(2)] show ?thesis by (cases ks) simp_all
    next
      case False
      with objWritable_isObj [OF w(1)] have obj: "isObj c" by (cases c) (simp_all add: orEmpty_def)
      with w divergeKeys_nonempty [OF w(2)] have "isObj ?c" by (intro isObj_putLoc) simp_all
      with obj 1(1) [of c] mk w show ?thesis by (simp add: orEmpty_isObj)
    qed
    with ne mk j c show ?thesis by (simp add: amap_simps)
  qed
qed simp_all

section \<open>One container\<close>

definition readElem :: "'w lib \<Rightarrow> mappingContainer \<Rightarrow> json \<Rightarrow> metaContainer outcome" where
  "readElem L c x =
    and_then (if mc_Name c \<noteq> '''' then map_ok Some (readPtr (lib_jsonpath L) decName (mc_Name c) x '''')
              else Ok None) (\<lambda>name.
    and_then (readPtr (lib_jsonpath L) (decEnv (lib_codec L)) (mc_Env c) x []) (\<lambda>env.
    and_then (readPtr (lib_jsonpath L) (decMounts (lib_codec L)) (mc_VolumeMounts c) x []) (\<lambda>mounts.
      Ok \<lparr>ct_Name = name, ct_Env = env, ct_VolumeMounts = mounts\<rparr>)))"

definition writeElem :: "'w lib \<Rightarrow> mappingContainer \<Rightarrow> metaContainer \<Rightarrow> json \<Rightarrow> json outcome" where
  "writeElem L c mc x =
    and_then (case ct_Name mc of
                Some name \<Rightarrow>
                  (if mc_Name c \<noteq> '''' then writePtr (lib_jsonpath L) (mc_Name c) (JStr name) x else Ok x)
              | None \<Rightarrow> Ok x) (\<lambda>x.
    and_then (writePtr (lib_jsonpath L) (mc_Env c) (encEnv (lib_codec L) (ct_Env mc)) x)
      (writePtr (lib_jsonpath L) (mc_VolumeMounts c) (encMounts (lib_codec L) (ct_VolumeMounts mc))))"

lemma readContainer_readElem:
  "getLoc u l = Some x \<Longrightarrow> readContainer L c u (RIface l) = readElem L c x"
  by (simp add: readContainer_def readElem_def getAt_readPtr [where l = l])

text \<open>Writes one after the other at the same position.\<close>

lemma setAt_again:
  assumes "getLoc u l = Some x"
  shows "setAt J ptr out (putLoc u l y) (RIface l) = map_ok (putLoc u l) (writePtr J ptr out y)"
proof -
  from assms have "denotes (putLoc u l y) (RIface l) l y" by (simp add: getLoc_putLoc_same)
  from setAt_writePtr [OF this, of J ptr out] assms show ?thesis
    by (cases "writePtr J ptr out y") (simp_all add: putLoc_putLoc)
qed

lemma writeContainer_writeElem:
  assumes "getLoc u l = Some x" and "ci < length mcs"
  shows "writeContainer L c mcs (RIface l) (u, ci) =
    map_ok (\<lambda>y. (putLoc u l y, Suc ci)) (writeElem L c (mcs ! ci) x)"
proof -
  have u: "u = putLoc u l x" using assms(1) by (simp add: putLoc_self)
  have bind: "and_then (map_ok (putLoc u l) r) f = and_then r (\<lambda>y. f (putLoc u l y))"
    for r and f :: "json \<Rightarrow> (json \<times> nat) outcome"
    by (cases r) simp_all
  have name: "(case ct_Name (mcs ! ci) of
        Some name \<Rightarrow> (if mc_Name c \<noteq> '''' then setAt (lib_jsonpath L) (mc_Name c) (JStr name) u (RIface l) else Ok u)
      | None \<Rightarrow> Ok u) =
    map_ok (putLoc u l) (case ct_Name (mcs ! ci) of
        Some name \<Rightarrow> (if mc_Name c \<noteq> '''' then writePtr (lib_jsonpath L) (mc_Name c) (JStr name) x else Ok x)
      | None \<Rightarrow> Ok x)"
    using setAt_again [OF assms(1), of _ _ _ x] u by (auto split: option.split)
  have map_bind: "map_ok g (and_then r f) = and_then r (\<lambda>y. map_ok g (f y))"
    for g :: "json \<Rightarrow> json \<times> nat" and r :: "json outcome" and f
    by (cases r) simp_all
  have map_self: "and_then r (\<lambda>y. Ok (putLoc u l y, Suc ci)) = map_ok (\<lambda>y. (putLoc u l y, Suc ci)) r" for r
    by (cases r) simp_all
  show ?thesis
    using assms(2)
    by (simp add: writeContainer_def name bind setAt_again [OF assms(1)] writeElem_def map_bind map_self)
qed

text \<open>The pointers of a container do not overlap.\<close>

definition separateElem :: "jsonpath \<Rightarrow> mappingContainer \<Rightarrow> bool" where
  "separateElem J c \<longleftrightarrow>
    divergeKeys (ptrKeys J (mc_Env c)) (ptrKeys J (mc_VolumeMounts c)) \<and>
    (mc_Name c \<noteq> '''' \<longrightarrow>
       divergeKeys (ptrKeys J (mc_Env c)) (ptrKeys J (mc_Name c)) \<and>
       divergeKeys (ptrKeys J (mc_VolumeMounts c)) (ptrKeys J (mc_Name c)))"

definition nameFits :: "mappingContainer \<Rightarrow> metaContainer \<Rightarrow> bool" where
  "nameFits c mc \<longleftrightarrow> (ct_Name mc = None \<longleftrightarrow> mc_Name c = '''')"

lemma readElem_nameFits: "readElem L c x = Ok mc \<Longrightarrow> nameFits c mc"
  by (auto simp: readElem_def nameFits_def outcome_simps split: if_splits)

lemma readElem_writeElem:
  assumes "codec_ok (lib_codec L)" and "separateElem (lib_jsonpath L) c" and "nameFits c mc"
    and "writeElem L c mc x = Ok x'"
  shows "readElem L c x' = Ok mc"
proof -
  let ?J = "lib_jsonpath L"
  from assms(4) obtain x1 x2 where
    w: "writePtr ?J (mc_Env c) (encEnv (lib_codec L) (ct_Env mc)) x1 = Ok x2"
       "writePtr ?J (mc_VolumeMounts c) (encMounts (lib_codec L) (ct_VolumeMounts mc)) x2 = Ok x'"
    and n: "mc_Name c \<noteq> '''' \<Longrightarrow> \<exists>n. ct_Name mc = Some n \<and> writePtr ?J (mc_Name c) (JStr n) x = Ok x1"
    using assms(3) by (auto simp: writeElem_def outcome_simps nameFits_def split: option.splits if_splits)
  have enc: "decEnv (lib_codec L) (encEnv (lib_codec L) (ct_Env mc)) = Inr (ct_Env mc)"
      "encEnv (lib_codec L) (ct_Env mc) \<noteq> JNull"
      "decMounts (lib_codec L) (encMounts (lib_codec L) (ct_VolumeMounts mc)) = Inr (ct_VolumeMounts mc)"
      "encMounts (lib_codec L) (ct_VolumeMounts mc) \<noteq> JNull"
    using assms(1) by (auto simp: codec_ok_def) (metis json.distinct)+
  have "readPtr ?J (decMounts (lib_codec L)) (mc_VolumeMounts c) x' [] = Ok (ct_VolumeMounts mc)"
    using readPtr_same [OF w(2) enc(4), of "decMounts (lib_codec L)" "[]"] enc(3) by simp
  moreover have "readPtr ?J (decEnv (lib_codec L)) (mc_Env c) x' [] = Ok (ct_Env mc)"
    using readPtr_same [OF w(1) enc(2), of "decEnv (lib_codec L)" "[]"] enc(1) assms(2)
    by (simp add: readPtr_beside [OF w(2)] separateElem_def divergeKeys_sym)
  moreover have "map_ok Some (readPtr ?J decName (mc_Name c) x' '''') = Ok (ct_Name mc)" if "mc_Name c \<noteq> ''''"
  proof -
    from n [OF that] obtain name where "ct_Name mc = Some name" "writePtr ?J (mc_Name c) (JStr name) x = Ok x1"
      by blast
    with that assms(2) readPtr_same [OF this(2), of decName "''''"] show ?thesis
      by (simp add: readPtr_beside [OF w(2)] readPtr_beside [OF w(1)] separateElem_def decName_def)
  qed
  ultimately show ?thesis
    using assms(3) by (cases "mc_Name c = ''''") (simp_all add: readElem_def nameFits_def)
qed

text \<open>Containers that can be written, and stay so.\<close>

definition canWriteElem :: "'w lib \<Rightarrow> mappingContainer \<Rightarrow> json \<Rightarrow> bool" where
  "canWriteElem L c x \<longleftrightarrow>
    canWrite (lib_jsonpath L) (mc_Env c) x \<and> canWrite (lib_jsonpath L) (mc_VolumeMounts c) x \<and>
    (mc_Name c \<noteq> '''' \<longrightarrow> canWrite (lib_jsonpath L) (mc_Name c) x)"

lemma writeElem_succeeds:
  assumes "separateElem (lib_jsonpath L) c" and "canWriteElem L c x"
  shows "\<exists>x'. writeElem L c mc x = Ok x'"
proof -
  let ?J = "lib_jsonpath L"
  obtain x1 where x1: "(case ct_Name mc of
        Some name \<Rightarrow> (if mc_Name c \<noteq> '''' then writePtr ?J (mc_Name c) (JStr name) x else Ok x)
      | None \<Rightarrow> Ok x) = Ok x1"
    "canWrite ?J (mc_Env c) x1" "canWrite ?J (mc_VolumeMounts c) x1"
  proof (cases "ct_Name mc = None \<or> mc_Name c = ''''")
    case True
    then have "(case ct_Name mc of
        Some name \<Rightarrow> (if mc_Name c \<noteq> [] then writePtr ?J (mc_Name c) (JStr name) x else Ok x)
      | None \<Rightarrow> Ok x) = Ok x"
      by (auto split: option.split)
    with assms(2) that [of x] show ?thesis by (simp add: canWriteElem_def)
  next
    case False
    then obtain n where n: "ct_Name mc = Some n" "mc_Name c \<noteq> ''''" by auto
    with assms(2) writePtr_succeeds [of ?J "mc_Name c" x "JStr n"] obtain y where
      y: "writePtr ?J (mc_Name c) (JStr n) x = Ok y" by (auto simp: canWriteElem_def)
    with assms n that [of y] canWrite_beside [OF y] show ?thesis
      by (simp add: canWriteElem_def separateElem_def divergeKeys_sym)
  qed
  from writePtr_succeeds [OF x1(2)] obtain x2 where
    x2: "writePtr ?J (mc_Env c) (encEnv (lib_codec L) (ct_Env mc)) x1 = Ok x2" by blast
  have "canWrite ?J (mc_VolumeMounts c) x2"
    using canWrite_beside [OF x2 x1(3)] assms(1) by (simp add: separateElem_def)
  from writePtr_succeeds [OF this] x1(1) x2 show ?thesis by (simp add: writeElem_def)
qed

lemma writeElem_canWrite:
  assumes "separateElem (lib_jsonpath L) c" and "nameFits c mc" and "writeElem L c mc x = Ok x'"
  shows "canWriteElem L c x'"
proof -
  let ?J = "lib_jsonpath L"
  from assms(3) obtain x1 x2 where
    w: "writePtr ?J (mc_Env c) (encEnv (lib_codec L) (ct_Env mc)) x1 = Ok x2"
       "writePtr ?J (mc_VolumeMounts c) (encMounts (lib_codec L) (ct_VolumeMounts mc)) x2 = Ok x'"
    and n: "mc_Name c \<noteq> '''' \<Longrightarrow> \<exists>n. writePtr ?J (mc_Name c) (JStr n) x = Ok x1"
    using assms(2) by (auto simp: writeElem_def outcome_simps nameFits_def split: option.splits if_splits)
  have "canWrite ?J (mc_Env c) x'"
    using canWrite_beside [OF w(2) canWrite_same [OF w(1)]] assms(1) by (simp add: separateElem_def divergeKeys_sym)
  moreover have "canWrite ?J (mc_Name c) x'" if "mc_Name c \<noteq> ''''"
  proof -
    from n [OF that] obtain name where "writePtr ?J (mc_Name c) (JStr name) x = Ok x1" by blast
    from canWrite_beside [OF w(2) canWrite_beside [OF w(1) canWrite_same [OF this]]] assms(1) that
    show ?thesis by (simp add: separateElem_def)
  qed
  ultimately show ?thesis using canWrite_same [OF w(2)] by (simp add: canWriteElem_def)
qed

section \<open>The elements of one container list\<close>

definition itemLoc :: "string list \<Rightarrow> nat \<Rightarrow> loc" where
  "itemLoc ks i = map Key ks @ [Idx i]"

definition arrayAt :: "json \<Rightarrow> string list \<Rightarrow> json list option" where
  "arrayAt u ks = (case getLoc u (map Key ks) of Some (JArr xs) \<Rightarrow> Some xs | _ \<Rightarrow> None)"

lemma arrayAt_Some: "arrayAt u ks = Some xs \<longleftrightarrow> getLoc u (map Key ks) = Some (JArr xs)"
  by (auto simp: arrayAt_def split: option.splits json.splits)

lemma getLoc_itemLoc:
  "arrayAt u ks = Some xs \<Longrightarrow> i < length xs \<Longrightarrow> getLoc u (itemLoc ks i) = Some (xs ! i)"
  by (simp add: arrayAt_Some itemLoc_def getLoc_append)

lemma putLoc_itemLoc:
  "arrayAt u ks = Some xs \<Longrightarrow> i < length xs \<Longrightarrow>
   putLoc u (itemLoc ks i) x = putLoc u (map Key ks) (JArr (xs[i := x]))"
  by (simp add: arrayAt_Some itemLoc_def putLoc_append)

lemma arrayAt_putLoc:
  "arrayAt u ks = Some xs \<Longrightarrow> arrayAt (putLoc u (map Key ks) (JArr ys)) ks = Some ys"
  by (simp add: arrayAt_Some getLoc_putLoc_same)

text \<open>The loop over the matched values, from the element \<open>n\<close> on.\<close>

lemma write_items:
  assumes "arrayAt u ks = Some xs" and "n \<le> length xs"
    and "fold_ok (writeContainer L c mcs) (map (\<lambda>i. RIface (itemLoc ks i)) [n..<length xs]) (u, ci) = Ok (u', ci')"
  shows "\<exists>ys. u' = putLoc u (map Key ks) (JArr ys) \<and> length ys = length xs \<and>
    take n ys = take n xs \<and> ci' = ci + (length xs - n) \<and>
    (n < length xs \<longrightarrow> ci' \<le> length mcs) \<and>
    (\<forall>i. n \<le> i \<longrightarrow> i < length xs \<longrightarrow> writeElem L c (mcs ! (ci + (i - n))) (xs ! i) = Ok (ys ! i))"
  using assms
proof (induction "length xs - n" arbitrary: n u xs ci)
  case 0
  then show ?case by (intro exI [of _ xs]) (auto simp: arrayAt_Some putLoc_self)
next
  case (Suc k)
  then have n: "n < length xs" by simp
  have item: "getLoc u (itemLoc ks n) = Some (xs ! n)" using Suc.prems(1) n by (rule getLoc_itemLoc)
  have ci: "ci < length mcs"
  proof (rule ccontr)
    assume "\<not> ci < length mcs"
    then have "writeContainer L c mcs (RIface (itemLoc ks n)) (u, ci) = Panic"
      by (simp add: writeContainer_def)
    with Suc.prems(3) n show False by (simp add: upt_rec)
  qed
  with Suc.prems(3) n item obtain y where y: "writeElem L c (mcs ! ci) (xs ! n) = Ok y"
    and rest: "fold_ok (writeContainer L c mcs) (map (\<lambda>i. RIface (itemLoc ks i)) [Suc n..<length xs])
      (putLoc u (itemLoc ks n) y, Suc ci) = Ok (u', ci')"
    by (auto simp: upt_rec writeContainer_writeElem and_then_eq_Ok map_ok_eq_Ok)
  let ?xs = "xs[n := y]" and ?u = "putLoc u (map Key ks) (JArr (xs[n := y]))"
  have u: "putLoc u (itemLoc ks n) y = ?u" using Suc.prems(1) n by (rule putLoc_itemLoc)
  have k: "k = length ?xs - Suc n" and len: "Suc n \<le> length ?xs" using Suc.hyps(2) n by simp_all
  have "fold_ok (writeContainer L c mcs) (map (\<lambda>i. RIface (itemLoc ks i)) [Suc n..<length ?xs]) (?u, Suc ci) = Ok (u', ci')"
    using rest by (simp add: u)
  from Suc.hyps(1) [OF k arrayAt_putLoc [OF Suc.prems(1)] len this]
  obtain ys where ys: "u' = putLoc ?u (map Key ks) (JArr ys)" "length ys = length ?xs"
      "take (Suc n) ys = take (Suc n) ?xs" "ci' = Suc ci + (length ?xs - Suc n)"
      "Suc n < length ?xs \<longrightarrow> ci' \<le> length mcs"
      "\<forall>i. Suc n \<le> i \<longrightarrow> i < length ?xs \<longrightarrow>
         writeElem L c (mcs ! (Suc ci + (i - Suc n))) (?xs ! i) = Ok (ys ! i)"
    by (elim exE conjE) (rule that)
  have "u' = putLoc u (map Key ks) (JArr ys)"
    using ys(1) Suc.prems(1) by (simp add: arrayAt_Some putLoc_putLoc)
  moreover have "take n ys = take n xs"
  proof -
    have "take n (take (Suc n) ys) = take n (take (Suc n) ?xs)" by (simp only: ys(3))
    then show ?thesis by (simp add: min_def)
  qed
  moreover have "ys ! n = y"
  proof -
    have "take (Suc n) ys ! n = take (Suc n) ?xs ! n" by (simp only: ys(3))
    then show ?thesis using n by simp
  qed
  moreover have "writeElem L c (mcs ! (ci + (i - n))) (xs ! i) = Ok (ys ! i)" if "n \<le> i" "i < length xs" for i
  proof (cases "i = n")
    case True
    then show ?thesis using y \<open>ys ! n = y\<close> by simp
  next
    case False
    with that have "Suc n \<le> i" "i < length ?xs" and eq: "Suc ci + (i - Suc n) = ci + (i - n)" by simp_all
    with ys(6) False show ?thesis unfolding eq [symmetric] by simp
  qed
  moreover have "ci' = ci + (length xs - n)" and "length ys = length xs" using ys(2,4) n by simp_all
  moreover have "ci' \<le> length mcs"
    using ys(4,5) ci n by (cases "Suc n < length xs") simp_all
  ultimately show ?case by blast
qed

lemma write_items_succeeds:
  assumes "arrayAt u ks = Some xs" and "n \<le> length xs" and "ci + (length xs - n) \<le> length mcs"
    and "separateElem (lib_jsonpath L) c" and "\<forall>i. n \<le> i \<longrightarrow> i < length xs \<longrightarrow> canWriteElem L c (xs ! i)"
  shows "\<exists>r. fold_ok (writeContainer L c mcs) (map (\<lambda>i. RIface (itemLoc ks i)) [n..<length xs]) (u, ci) = Ok r"
  using assms
proof (induction "length xs - n" arbitrary: n u xs ci)
  case 0
  then show ?case by simp
next
  case (Suc k)
  then have n: "n < length xs" and ci: "ci < length mcs" by simp_all
  have item: "getLoc u (itemLoc ks n) = Some (xs ! n)" using Suc.prems(1) n by (rule getLoc_itemLoc)
  from Suc.prems(5) n writeElem_succeeds [OF assms(4), of "xs ! n" "mcs ! ci"]
  obtain y where y: "writeElem L c (mcs ! ci) (xs ! n) = Ok y" by auto
  let ?xs = "xs[n := y]" and ?u = "putLoc u (map Key ks) (JArr (xs[n := y]))"
  have k: "k = length ?xs - Suc n" and len: "Suc n \<le> length ?xs"
    and room: "Suc ci + (length ?xs - Suc n) \<le> length mcs"
    using Suc.hyps(2) Suc.prems(3) n by simp_all
  have rest: "\<forall>i. Suc n \<le> i \<longrightarrow> i < length ?xs \<longrightarrow> canWriteElem L c (?xs ! i)"
    using Suc.prems(5) by simp
  from Suc.hyps(1) [OF k arrayAt_putLoc [OF Suc.prems(1)] len room assms(4) rest] n y
  show ?case
    by (simp add: upt_rec writeContainer_writeElem [OF item ci] putLoc_itemLoc [OF Suc.prems(1) n])
qed

end
