(* ===== verification/Workload_Roundtrip.thy ===== *)
theory Workload_Roundtrip
  imports Workload_Lens Projector_Facts
begin

text \<open>
  Whole templates: what \<open>writeToWorkload\<close> stores, \<open>newMetaPodTemplate\<close> reads back. The
  mapping has container paths of the form fields then \<open>[*]\<close>, and pointers that do not overlap,
  as the default mapping does.
\<close>

section \<open>Container paths\<close>

text \<open>
  The documented meaning of a JSONPath of fields \<open>ks\<close> followed by \<open>[*]\<close>: the elements of the
  array below the fields, an error when there is nothing there.
\<close>

definition elementsPath :: "jsonpath \<Rightarrow> string \<Rightarrow> string list \<Rightarrow> bool" where
  "elementsPath J p ks \<longleftrightarrow> \<not> isl (jpParse J (braced p)) \<and>
    (\<forall>u xs. getLoc u (map Key ks) = Some (JArr xs) \<longrightarrow>
       jpFind J (braced p) u = Inr [map (\<lambda>i. RIface (map Key ks @ [Idx i])) [0..<length xs]]) \<and>
    (\<forall>u. getLoc u (map Key ks) = None \<longrightarrow> isl (jpFind J (braced p) u))"

definition listed :: "json \<Rightarrow> string list \<Rightarrow> bool" where
  "listed u ks \<longleftrightarrow> getLoc u (map Key ks) = None \<or> arrayAt u ks \<noteq> None"

definition elemsAt :: "json \<Rightarrow> string list \<Rightarrow> json list" where
  "elemsAt u ks = (case arrayAt u ks of None \<Rightarrow> [] | Some xs \<Rightarrow> xs)"

lemma findContainers_listed:
  assumes "elementsPath (lib_jsonpath L) (mc_Path c) ks" and "listed u ks"
  shows "findContainers L c u = Ok (map (\<lambda>i. RIface (itemLoc ks i)) [0..<length (elemsAt u ks)])"
proof (cases "arrayAt u ks")
  case None
  with assms(2) have "getLoc u (map Key ks) = None" by (simp add: listed_def)
  with assms(1) have "isl (jpFind (lib_jsonpath L) (braced (mc_Path c)) u)" "\<not> isl (jpParse (lib_jsonpath L) (braced (mc_Path c)))"
    by (simp_all add: elementsPath_def)
  with None show ?thesis
    by (cases "jpParse (lib_jsonpath L) (braced (mc_Path c))"; cases "jpFind (lib_jsonpath L) (braced (mc_Path c)) u")
      (simp_all add: findContainers_def elemsAt_def)
next
  case (Some xs)
  with assms(1) have "jpFind (lib_jsonpath L) (braced (mc_Path c)) u =
      Inr [map (\<lambda>i. RIface (map Key ks @ [Idx i])) [0..<length xs]]"
    "\<not> isl (jpParse (lib_jsonpath L) (braced (mc_Path c)))"
    by (simp_all add: elementsPath_def arrayAt_Some)
  with Some show ?thesis
    by (cases "jpParse (lib_jsonpath L) (braced (mc_Path c))") (simp_all add: findContainers_def elemsAt_def itemLoc_def)
qed

lemma readContainers_listed:
  assumes "elementsPath (lib_jsonpath L) (mc_Path c) ks" and "listed u ks"
  shows "readContainers L u c acc = map_ok (\<lambda>mcs. acc @ mcs) (map_ok_list (readElem L c) (elemsAt u ks))"
proof -
  have "map_ok_list (readContainer L c u) (map (\<lambda>i. RIface (itemLoc ks i)) is) =
      map_ok_list (readElem L c) (map ((!) (elemsAt u ks)) is)"
    if "set is \<subseteq> {0..<length (elemsAt u ks)}" for "is"
    using that
    by (induction "is")
      (auto simp: elemsAt_def getLoc_itemLoc readContainer_readElem split: option.splits)
  from this [of "[0..<length (elemsAt u ks)]"] show ?thesis
    by (simp add: readContainers_def findContainers_listed [OF assms] map_nth)
qed

section \<open>Frames\<close>

text \<open>Two trees that agree wherever a pointer parts from all the keys of \<open>K\<close>.\<close>

definition agreeBeside :: "string list set \<Rightarrow> json \<Rightarrow> json \<Rightarrow> bool" where
  "agreeBeside K u u' \<longleftrightarrow> (\<forall>ms. (\<forall>ks \<in> K. divergeKeys ks ms) \<longrightarrow>
     readKeys u' ms = readKeys u ms \<and> getLoc u' (map Key ms) = getLoc u (map Key ms) \<and>
     (objWritable u ms \<longrightarrow> objWritable u' ms))"

lemma agreeBeside_refl [simp]: "agreeBeside K u u"
  by (simp add: agreeBeside_def)

lemma agreeBeside_trans:
  "agreeBeside K u v \<Longrightarrow> agreeBeside M v w \<Longrightarrow> agreeBeside (K \<union> M) u w"
  by (simp add: agreeBeside_def)

lemma agreeBeside_elems:
  "agreeBeside K u u' \<Longrightarrow> \<forall>ks \<in> K. divergeKeys ks ms \<Longrightarrow>
   elemsAt u' ms = elemsAt u ms \<and> (listed u' ms \<longleftrightarrow> listed u ms)"
  by (simp add: agreeBeside_def elemsAt_def listed_def arrayAt_def)

lemma agreeBeside_readPtr:
  "agreeBeside K u u' \<Longrightarrow> \<forall>ks \<in> K. divergeKeys ks (ptrKeys J q) \<Longrightarrow>
   readPtr J dec q u' target = readPtr J dec q u target"
  by (cases "keys J q") (simp_all add: agreeBeside_def readPtr_def ptrKeys_def)

lemma agreeBeside_canWrite:
  "agreeBeside K u u' \<Longrightarrow> \<forall>ks \<in> K. divergeKeys ks (ptrKeys J q) \<Longrightarrow> canWrite J q u \<Longrightarrow> canWrite J q u'"
  by (simp add: agreeBeside_def canWrite_def)

lemma agreeBeside_writePtr: "writePtr J ptr out u = Ok u' \<Longrightarrow> agreeBeside {ptrKeys J ptr} u u'"
  by (auto simp: writePtr_Ok agreeBeside_def readKeys_objSet_diverge getLoc_objSet_beside
      objWritable_objSet_diverge)

lemma agreeBeside_putLoc: "agreeBeside {ks} u (putLoc u (map Key ks) v)"
  using readKeys_putLoc_beside [of ks _ u "[]" v] objWritable_putLoc_beside [of ks _ u "[]" v]
  by (auto simp: agreeBeside_def diverge_keys getLoc_putLoc_diverge)

section \<open>One container mapping\<close>

lemma map_ok_list_elems:
  assumes "length ys = length xs" and "length zs = length xs"
    and "\<And>i. i < length xs \<Longrightarrow> f (ys ! i) = Ok (zs ! i)"
  shows "map_ok_list f ys = Ok zs"
  using assms by (simp add: map_ok_list_eq_Ok list_all2_conv_all_nth)

lemma writeContainers_listed:
  assumes path: "elementsPath (lib_jsonpath L) (mc_Path c) ks" and "listed u ks" and "ks \<noteq> []"
    and codec: "codec_ok (lib_codec L)" and sep: "separateElem (lib_jsonpath L) c"
    and fits: "\<forall>mc \<in> set (take (length (elemsAt u ks)) (drop ci mcs)). nameFits c mc"
    and enough: "length (take (length (elemsAt u ks)) (drop ci mcs)) = length (elemsAt u ks)"
    and wr: "writeContainers L mcs c (u, ci) = Ok (u', ci')"
  shows "ci' = ci + length (elemsAt u ks) \<and> listed u' ks \<and>
    map_ok_list (readElem L c) (elemsAt u' ks) = Ok (take (length (elemsAt u ks)) (drop ci mcs)) \<and>
    list_all (canWriteElem L c) (elemsAt u' ks) \<and>
    agreeBeside {ks} u u' \<and> (isObj u \<longrightarrow> isObj u')"
proof -
  have fold: "fold_ok (writeContainer L c mcs) (map (\<lambda>i. RIface (itemLoc ks i)) [0..<length (elemsAt u ks)]) (u, ci) =
      Ok (u', ci')"
    using wr by (simp add: writeContainers_def findContainers_listed [OF path assms(2)])
  show ?thesis
  proof (cases "arrayAt u ks")
    case None
    with fold assms(2) show ?thesis by (simp add: elemsAt_def)
  next
    case (Some xs)
    then have elems: "elemsAt u ks = xs" by (simp add: elemsAt_def)
    from write_items [OF Some _ fold [unfolded elems]] obtain ys where
      ys: "u' = putLoc u (map Key ks) (JArr ys)" "length ys = length xs" "ci' = ci + length xs"
        "\<And>i. i < length xs \<Longrightarrow> writeElem L c (mcs ! (ci + i)) (xs ! i) = Ok (ys ! i)"
      by auto
    have each: "readElem L c (ys ! i) = Ok (take (length xs) (drop ci mcs) ! i) \<and> canWriteElem L c (ys ! i)"
      if "i < length xs" for i
    proof -
      from that enough elems have nth: "take (length xs) (drop ci mcs) ! i = mcs ! (ci + i)"
        "i < length (take (length xs) (drop ci mcs))"
        by simp_all
      then have "nameFits c (mcs ! (ci + i))" using fits elems by (metis nth_mem)
      from readElem_writeElem [OF codec sep this ys(4) [OF that]] writeElem_canWrite [OF sep this ys(4) [OF that]]
      show ?thesis using nth by simp
    qed
    have "length (take (length xs) (drop ci mcs)) = length xs" using enough elems by simp
    then have "map_ok_list (readElem L c) ys = Ok (take (length xs) (drop ci mcs))"
      using ys(2) each by (intro map_ok_list_elems [where xs = xs]) simp_all
    moreover have "list_all (canWriteElem L c) ys" using each ys(2) by (simp add: list_all_length)
    moreover have at: "arrayAt u' ks = Some ys" using arrayAt_putLoc [OF Some] ys(1) by simp
    moreover have "isObj u \<Longrightarrow> isObj u'"
      using isObj_putLoc [of u ks "[]"] assms(3) by (simp add: ys(1))
    ultimately show ?thesis
      using ys(1,3) elems by (simp add: elemsAt_def listed_def agreeBeside_putLoc)
  qed
qed

lemma writeContainers_succeeds:
  assumes "elementsPath (lib_jsonpath L) (mc_Path c) ks" and "listed u ks"
    and "separateElem (lib_jsonpath L) c" and "list_all (canWriteElem L c) (elemsAt u ks)"
    and "length (take (length (elemsAt u ks)) (drop ci mcs)) = length (elemsAt u ks)"
  shows "\<exists>r. writeContainers L mcs c (u, ci) = Ok r"
proof (cases "elemsAt u ks = []")
  case True
  then show ?thesis by (simp add: writeContainers_def findContainers_listed [OF assms(1,2)])
next
  case False
  then obtain xs where xs: "arrayAt u ks = Some xs" "elemsAt u ks = xs"
    by (cases "arrayAt u ks") (simp_all add: elemsAt_def)
  have "ci + (length xs - 0) \<le> length mcs" using assms(5) False xs(2) by (cases xs) auto
  from write_items_succeeds [OF xs(1) _ this assms(3)] assms(4) xs(2) show ?thesis
    by (simp add: writeContainers_def findContainers_listed [OF assms(1,2)] list_all_length)
qed

section \<open>All container mappings\<close>

text \<open>For each container of the template, the container mapping it comes from.\<close>

definition slots :: "(mappingContainer \<Rightarrow> string list) \<Rightarrow> mappingContainer list \<Rightarrow> json \<Rightarrow> mappingContainer list" where
  "slots pk cs u = concat (map (\<lambda>c. replicate (length (elemsAt u (pk c))) c) cs)"

definition separateContainers :: "'w lib \<Rightarrow> (mappingContainer \<Rightarrow> string list) \<Rightarrow> mappingContainer list \<Rightarrow> bool" where
  "separateContainers L pk cs \<longleftrightarrow>
    (\<forall>c \<in> set cs. elementsPath (lib_jsonpath L) (mc_Path c) (pk c) \<and> pk c \<noteq> [] \<and>
       separateElem (lib_jsonpath L) c) \<and>
    sorted_wrt (\<lambda>c d. divergeKeys (pk c) (pk d)) cs"

lemma read_slots:
  assumes "fold_ok (readContainers L u) cs acc = Ok mcs" and "separateContainers L pk cs"
    and "\<forall>c \<in> set cs. listed u (pk c)"
  shows "\<exists>new. mcs = acc @ new \<and> list_all2 nameFits (slots pk cs u) new"
  using assms
proof (induction cs arbitrary: acc)
  case Nil
  then show ?case by (simp add: slots_def)
next
  case (Cons c cs)
  then obtain here where here: "map_ok_list (readElem L c) (elemsAt u (pk c)) = Ok here"
      "fold_ok (readContainers L u) cs (acc @ here) = Ok mcs"
    by (auto simp: separateContainers_def readContainers_listed and_then_eq_Ok map_ok_eq_Ok)
  from Cons.IH [OF this(2)] Cons.prems(2,3) obtain new where
    new: "mcs = (acc @ here) @ new" "list_all2 nameFits (slots pk cs u) new"
    by (auto simp: separateContainers_def)
  have "list_all2 nameFits (replicate (length (elemsAt u (pk c))) c) here"
    using here(1) by (auto simp: map_ok_list_eq_Ok list_all2_conv_all_nth intro: readElem_nameFits)
  with new show ?case
    by (intro exI [of _ "here @ new"]) (simp add: slots_def list_all2_appendI)
qed

lemma slots_cong: "\<forall>c \<in> set cs. elemsAt u' (pk c) = elemsAt u (pk c) \<Longrightarrow> slots pk cs u' = slots pk cs u"
  by (simp add: slots_def cong: map_cong)

lemma list_all2_replicate_set: "list_all2 P (replicate n c) ys \<Longrightarrow> \<forall>y \<in> set ys. P c y"
  by (metis in_set_conv_nth length_replicate list_all2_conv_all_nth nth_replicate)

text \<open>The first container mapping, and what the others find afterwards.\<close>

lemma write_slots_step:
  assumes sep: "separateContainers L pk (c # cs)" and codec: "codec_ok (lib_codec L)"
    and lists: "\<forall>d \<in> set (c # cs). listed u (pk d)"
    and names: "list_all2 nameFits (slots pk (c # cs) u) (drop ci mcs)"
    and w: "writeContainers L mcs c (u, ci) = Ok (u1, ci1)"
  shows "elementsPath (lib_jsonpath L) (mc_Path c) (pk c) \<and> separateElem (lib_jsonpath L) c"
    and "separateContainers L pk cs"
    and "\<exists>here. drop ci mcs = here @ drop ci1 mcs \<and> map_ok_list (readElem L c) (elemsAt u1 (pk c)) = Ok here"
    and "\<forall>d \<in> set cs. listed u1 (pk d)"
    and "list_all2 nameFits (slots pk cs u1) (drop ci1 mcs)"
    and "\<forall>ks \<in> pk ` set cs. divergeKeys ks (pk c)"
    and "listed u1 (pk c)" and "list_all (canWriteElem L c) (elemsAt u1 (pk c))"
    and "agreeBeside {pk c} u u1" and "isObj u \<longrightarrow> isObj u1"
proof -
  let ?n = "length (elemsAt u (pk c))"
  from sep have c: "elementsPath (lib_jsonpath L) (mc_Path c) (pk c)" "pk c \<noteq> []"
      "separateElem (lib_jsonpath L) c" and apart: "\<forall>d \<in> set cs. divergeKeys (pk c) (pk d)"
    by (auto simp: separateContainers_def)
  then show "elementsPath (lib_jsonpath L) (mc_Path c) (pk c) \<and> separateElem (lib_jsonpath L) c"
    "\<forall>ks \<in> pk ` set cs. divergeKeys ks (pk c)" by (auto simp: divergeKeys_sym)
  show "separateContainers L pk cs" using sep by (auto simp: separateContainers_def)
  from names obtain here there where
    split: "drop ci mcs = here @ there" "length here = ?n" "list_all2 nameFits (replicate ?n c) here"
      "list_all2 nameFits (slots pk cs u) there"
    by (auto simp: slots_def list_all2_append1)
  have "drop (ci + ?n) mcs = drop ?n (drop ci mcs)" by (simp add: add.commute)
  with split(1,2) have here: "take ?n (drop ci mcs) = here" "there = drop (ci + ?n) mcs" by simp_all
  have len: "length (take ?n (drop ci mcs)) = ?n" and fits: "\<forall>mc \<in> set (take ?n (drop ci mcs)). nameFits c mc"
    using split(2) list_all2_replicate_set [OF split(3)] here(1) by simp_all
  have listed: "listed u (pk c)" using lists by simp
  from writeContainers_listed [OF c(1) listed c(2) codec c(3) fits len w]
  have one: "ci1 = ci + ?n" "map_ok_list (readElem L c) (elemsAt u1 (pk c)) = Ok here"
    "agreeBeside {pk c} u u1" "listed u1 (pk c)" "isObj u \<longrightarrow> isObj u1"
    "list_all (canWriteElem L c) (elemsAt u1 (pk c))"
    by (simp_all add: here(1))
  then show "agreeBeside {pk c} u u1" "listed u1 (pk c)" "isObj u \<longrightarrow> isObj u1"
    "list_all (canWriteElem L c) (elemsAt u1 (pk c))" by blast+
  show "\<exists>here. drop ci mcs = here @ drop ci1 mcs \<and> map_ok_list (readElem L c) (elemsAt u1 (pk c)) = Ok here"
    using one(1,2) split(1) here(2) by blast
  have kept: "elemsAt u1 (pk d) = elemsAt u (pk d) \<and> (listed u1 (pk d) \<longleftrightarrow> listed u (pk d))" if "d \<in> set cs" for d
    using apart that by (intro agreeBeside_elems [OF one(3)]) simp
  then show "\<forall>d \<in> set cs. listed u1 (pk d)" using lists by simp
  show "list_all2 nameFits (slots pk cs u1) (drop ci1 mcs)"
    using split(4) here(2) kept one(1) by (simp add: slots_cong [of cs u1 pk u])
qed

lemma write_slots:
  assumes "fold_ok (writeContainers L mcs) cs (u, ci) = Ok (u', ci')"
    and "separateContainers L pk cs" and "codec_ok (lib_codec L)"
    and "\<forall>c \<in> set cs. listed u (pk c)"
    and "list_all2 nameFits (slots pk cs u) (drop ci mcs)"
  shows "agreeBeside (pk ` set cs) u u' \<and> (isObj u \<longrightarrow> isObj u') \<and>
    (\<forall>c \<in> set cs. listed u' (pk c) \<and> list_all (canWriteElem L c) (elemsAt u' (pk c))) \<and>
    (\<forall>acc. fold_ok (readContainers L u') cs acc = Ok (acc @ drop ci mcs))"
  using assms
proof (induction cs arbitrary: u ci)
  case Nil
  then show ?case by (simp add: slots_def)
next
  case (Cons c cs)
  from Cons.prems(1) obtain u1 ci1 where w: "writeContainers L mcs c (u, ci) = Ok (u1, ci1)"
      "fold_ok (writeContainers L mcs) cs (u1, ci1) = Ok (u', ci')"
    by (auto simp: and_then_eq_Ok)
  note step = write_slots_step [OF Cons.prems(2-5) w(1)]
  note IH = Cons.IH [OF w(2) step(2) Cons.prems(3) step(4,5)]
  have later: "elemsAt u' (pk c) = elemsAt u1 (pk c) \<and> (listed u' (pk c) \<longleftrightarrow> listed u1 (pk c))"
    using step(6) IH by (intro agreeBeside_elems [of "pk ` set cs"]) auto
  from step(3) obtain here where "drop ci mcs = here @ drop ci1 mcs"
      "map_ok_list (readElem L c) (elemsAt u1 (pk c)) = Ok here" by blast
  then have "fold_ok (readContainers L u') (c # cs) acc = Ok (acc @ drop ci mcs)" for acc
    using later step(1,7) IH by (simp add: readContainers_listed [where ks = "pk c"])
  moreover have "agreeBeside (pk ` set (c # cs)) u u'"
    using agreeBeside_trans [OF step(9), of "pk ` set cs" u'] IH by simp
  ultimately show ?case using IH step(7,8,10) later by auto
qed

lemma write_slots_succeeds:
  assumes "separateContainers L pk cs" and "codec_ok (lib_codec L)"
    and "\<forall>c \<in> set cs. listed u (pk c) \<and> list_all (canWriteElem L c) (elemsAt u (pk c))"
    and "list_all2 nameFits (slots pk cs u) (drop ci mcs)"
  shows "\<exists>r. fold_ok (writeContainers L mcs) cs (u, ci) = Ok r"
  using assms
proof (induction cs arbitrary: u ci)
  case Nil
  then show ?case by simp
next
  case (Cons c cs)
  have lists: "\<forall>d \<in> set (c # cs). listed u (pk d)" using Cons.prems(3) by simp
  have c: "elementsPath (lib_jsonpath L) (mc_Path c) (pk c)" "separateElem (lib_jsonpath L) c"
    and apart: "\<forall>d \<in> set cs. divergeKeys (pk c) (pk d)"
    using Cons.prems(1) by (auto simp: separateContainers_def)
  have "length (elemsAt u (pk c)) \<le> length (drop ci mcs)"
    using list_all2_lengthD [OF Cons.prems(4)] by (simp add: slots_def)
  then have "length (take (length (elemsAt u (pk c))) (drop ci mcs)) = length (elemsAt u (pk c))" by simp
  with writeContainers_succeeds [OF c(1) _ c(2)] Cons.prems(3) obtain u1 ci1 where
    w: "writeContainers L mcs c (u, ci) = Ok (u1, ci1)" by fastforce
  note step = write_slots_step [OF Cons.prems(1,2) lists Cons.prems(4) w]
  have "elemsAt u1 (pk d) = elemsAt u (pk d)" if "d \<in> set cs" for d
    using agreeBeside_elems [OF step(9)] apart that by simp
  then have "\<forall>d \<in> set cs. listed u1 (pk d) \<and> list_all (canWriteElem L d) (elemsAt u1 (pk d))"
    using Cons.prems(3) step(4) by simp
  from Cons.IH [OF step(2) Cons.prems(2) this step(5)] w show ?case by simp
qed

lemma nameFits_names:
  assumes "map ct_Name mcs' = map ct_Name mcs" and "list_all2 nameFits cs mcs"
  shows "list_all2 nameFits cs mcs'"
proof -
  have len: "length mcs' = length mcs" using assms(1) by (metis length_map)
  moreover have "ct_Name (mcs' ! i) = ct_Name (mcs ! i)" if "i < length mcs" for i
    using that assms(1) len by (metis nth_map)
  ultimately show ?thesis using assms(2) by (auto simp: list_all2_conv_all_nth nameFits_def)
qed

section \<open>Templates\<close>

text \<open>
  A mapping without overlap: the keys of the annotations, of the volumes and of the container
  paths part from each other, and so do the pointers inside a container.
\<close>

definition separateMapping :: "'w lib \<Rightarrow> (mappingContainer \<Rightarrow> string list) \<Rightarrow> mappingTemplate \<Rightarrow> bool" where
  "separateMapping L pk t \<longleftrightarrow>
    (let ann = ptrKeys (lib_jsonpath L) (mt_Annotations t); vol = ptrKeys (lib_jsonpath L) (mt_Volumes t)
     in separateContainers L pk (mt_Containers t) \<and> divergeKeys ann vol \<and>
        (\<forall>c \<in> set (mt_Containers t). divergeKeys ann (pk c) \<and> divergeKeys vol (pk c)))"

text \<open>
  The documented behaviour of the converter: objects on the unstructured side, every object can
  be stored, and what is stored is what is loaded. A typed object without a field for a written key would lose it;
  the controller and the webhook hand over unstructured objects, which keep every field.
\<close>

definition converter_ok :: "'w lib \<Rightarrow> bool" where
  "converter_ok L \<longleftrightarrow>
    (\<forall>w u. toUnstructured L w = Inr u \<longrightarrow> isObj u) \<and>
    (\<forall>u w. isObj u \<longrightarrow> (\<exists>w'. fromUnstructured L u w = Inr w' \<and> toUnstructured L w' = Inr u))"

text \<open>
  The workload has the shape the mapping speaks of: every container path leads to an array or to
  nothing, and nothing but objects, nulls and gaps is in the way of the pointers.
\<close>

definition writable :: "'w lib \<Rightarrow> (mappingContainer \<Rightarrow> string list) \<Rightarrow> mappingTemplate \<Rightarrow> json \<Rightarrow> bool" where
  "writable L pk t u \<longleftrightarrow>
    canWrite (lib_jsonpath L) (mt_Annotations t) u \<and> canWrite (lib_jsonpath L) (mt_Volumes t) u \<and>
    (\<forall>c \<in> set (mt_Containers t). listed u (pk c) \<and> list_all (canWriteElem L c) (elemsAt u (pk c)))"

lemma newMetaPodTemplate_eq:
  assumes "toUnstructured L w = Inr u" and "isObj u"
  shows "newMetaPodTemplate L w t =
    and_then (readPtr (lib_jsonpath L) decAnnotations (mt_Annotations t) u []) (\<lambda>annotations.
    and_then (fold_ok (readContainers L u) (mt_Containers t) []) (\<lambda>containers.
    and_then (readPtr (lib_jsonpath L) (decVolumes (lib_codec L)) (mt_Volumes t) u []) (\<lambda>volumes.
      Ok \<lparr>mpt_workload = w, mpt_mapping = t, mpt_Annotations = annotations,
          mpt_Containers = containers, mpt_Volumes = volumes\<rparr>)))"
proof -
  have d: "denotes u (RConc []) [] u" using assms(2) by simp
  show ?thesis by (simp add: newMetaPodTemplate_def assms(1) getAt_readPtr [OF d])
qed

lemma setAt_root: "isObj u \<Longrightarrow> setAt J ptr out u (RConc []) = writePtr J ptr out u"
  by (cases "writePtr J ptr out u") (simp_all add: setAt_writePtr [where l = "[]" and j = u])

text \<open>The containers of a template with the names of the workload fit the elements of the tree.\<close>

lemma read_names:
  assumes u: "toUnstructured L w = Inr u" "isObj u" and read: "newMetaPodTemplate L w t = Ok m"
    and sep: "separateContainers L pk (mt_Containers t)" and lists: "\<forall>c \<in> set (mt_Containers t). listed u (pk c)"
    and same: "map ct_Name (mpt_Containers m') = map ct_Name (mpt_Containers m)"
  shows "list_all2 nameFits (slots pk (mt_Containers t) u) (mpt_Containers m')"
proof -
  from read have "fold_ok (readContainers L u) (mt_Containers t) [] = Ok (mpt_Containers m)"
    by (auto simp: newMetaPodTemplate_eq [OF u] and_then_eq_Ok)
  from read_slots [OF this sep lists] have "list_all2 nameFits (slots pk (mt_Containers t) u) (mpt_Containers m)" by auto
  with same show ?thesis by (rule nameFits_names)
qed

text \<open>
  A template with the container names of the workload can be written, the result is read back as
  that template, and can be written again.
\<close>

lemma write_read_template:
  assumes laws: "codec_ok (lib_codec L)" "converter_ok L" and sep: "separateMapping L pk t"
    and u: "toUnstructured L w = Inr u" and wr: "writable L pk t u"
    and read: "newMetaPodTemplate L w t = Ok m"
    and same: "mpt_workload m' = w" "mpt_mapping m' = t"
      "map ct_Name (mpt_Containers m') = map ct_Name (mpt_Containers m)"
  shows "\<exists>w' u'. writeToWorkload L m' = Ok w' \<and> newMetaPodTemplate L w' t = Ok (m'\<lparr>mpt_workload := w'\<rparr>) \<and>
    toUnstructured L w' = Inr u' \<and> writable L pk t u'"
proof -
  let ?J = "lib_jsonpath L" and ?cs = "mt_Containers t"
  have obj: "isObj u" using laws(2) u unfolding converter_ok_def by blast
  from sep have apart: "separateContainers L pk ?cs" "divergeKeys (ptrKeys ?J (mt_Annotations t)) (ptrKeys ?J (mt_Volumes t))"
    "\<forall>c \<in> set ?cs. divergeKeys (ptrKeys ?J (mt_Annotations t)) (pk c) \<and> divergeKeys (ptrKeys ?J (mt_Volumes t)) (pk c)"
    by (simp_all add: separateMapping_def Let_def)
  from wr have can: "canWrite ?J (mt_Annotations t) u" "canWrite ?J (mt_Volumes t) u"
    "\<forall>c \<in> set ?cs. listed u (pk c) \<and> list_all (canWriteElem L c) (elemsAt u (pk c))"
    by (simp_all add: writable_def)
  have names: "list_all2 nameFits (slots pk ?cs u) (mpt_Containers m')"
    by (rule read_names [OF u obj read apart(1) _ same(3)]) (simp add: can(3))
  from writePtr_succeeds [OF can(1)] obtain u1 where
    w1: "writePtr ?J (mt_Annotations t) (encAnnotations (mpt_Annotations m')) u = Ok u1" by blast
  note a1 = agreeBeside_writePtr [OF w1]
  have kept: "elemsAt u1 (pk c) = elemsAt u (pk c) \<and> (listed u1 (pk c) \<longleftrightarrow> listed u (pk c))" if "c \<in> set ?cs" for c
    using that apart(3) by (intro agreeBeside_elems [OF a1]) simp
  have can1: "\<forall>c \<in> set ?cs. listed u1 (pk c) \<and> list_all (canWriteElem L c) (elemsAt u1 (pk c))"
    using kept can(3) by simp
  have names1: "list_all2 nameFits (slots pk ?cs u1) (drop 0 (mpt_Containers m'))"
    using names kept by (simp add: slots_cong [of ?cs u1 pk u])
  from write_slots_succeeds [OF apart(1) laws(1) can1 names1] obtain u2 ci where
    w2: "fold_ok (writeContainers L (mpt_Containers m')) ?cs (u1, 0) = Ok (u2, ci)" by auto
  have listed1: "\<forall>c \<in> set ?cs. listed u1 (pk c)" using can1 by simp
  note ws = write_slots [OF w2 apart(1) laws(1) listed1 names1]
  have obj2: "isObj u2" using ws writePtr_isObj [OF w1] by simp
  have ann_apart: "\<forall>ks \<in> pk ` set ?cs. divergeKeys ks (ptrKeys ?J (mt_Annotations t))"
    and vol_apart: "\<forall>ks \<in> pk ` set ?cs. divergeKeys ks (ptrKeys ?J (mt_Volumes t))"
    using apart(3) by (auto simp: divergeKeys_sym)
  have "canWrite ?J (mt_Volumes t) u2"
    using can(2) apart(2) vol_apart agreeBeside_canWrite [OF a1, of ?J "mt_Volumes t"]
      agreeBeside_canWrite [OF conjunct1 [OF ws], of ?J "mt_Volumes t"] by simp
  from writePtr_succeeds [OF this] obtain u3 where
    w3: "writePtr ?J (mt_Volumes t) (encVolumes (lib_codec L) (mpt_Volumes m')) u2 = Ok u3" by blast
  note a3 = agreeBeside_writePtr [OF w3]
  have obj3: "isObj u3" by (rule writePtr_isObj [OF w3])
  then obtain w' where w4: "fromUnstructured L u3 w = Inr w'" and reload: "toUnstructured L w' = Inr u3"
    using laws(2) unfolding converter_ok_def by blast
  have written: "writeToWorkload L m' = Ok w'"
    using u obj same(1,2) w1 w2 w3 w4 obj2 by (simp add: writeToWorkload_def setAt_root)
  have "readPtr ?J decAnnotations (mt_Annotations t) u1 [] = Ok (mpt_Annotations m')"
    using readPtr_same [OF w1, of decAnnotations "[]"] by (simp add: encAnnotations_def [symmetric]) (simp add: encAnnotations_def)
  then have ann: "readPtr ?J decAnnotations (mt_Annotations t) u3 [] = Ok (mpt_Annotations m')"
    using agreeBeside_readPtr [OF a3, of ?J "mt_Annotations t" decAnnotations "[]"] ann_apart apart(2)
      agreeBeside_readPtr [OF conjunct1 [OF ws], of ?J "mt_Annotations t" decAnnotations "[]"]
    by (simp add: divergeKeys_sym)
  have vol: "readPtr ?J (decVolumes (lib_codec L)) (mt_Volumes t) u3 [] = Ok (mpt_Volumes m')"
    using readPtr_same [OF w3, of "decVolumes (lib_codec L)" "[]"] laws(1)
    by (auto simp: codec_ok_def) (metis json.distinct from_result.simps(2))
  have kept3: "elemsAt u3 (pk c) = elemsAt u2 (pk c) \<and> (listed u3 (pk c) \<longleftrightarrow> listed u2 (pk c))"
    if "c \<in> set ?cs" for c
    using that apart(3) by (intro agreeBeside_elems [OF a3]) simp
  have "readContainers L u3 c acc = readContainers L u2 c acc" if "c \<in> set ?cs" for c acc
    using that kept3 ws apart(1) by (simp add: separateContainers_def readContainers_listed [where ks = "pk c"])
  then have "fold_ok (readContainers L u3) cs acc = fold_ok (readContainers L u2) cs acc" if "set cs \<subseteq> set ?cs" for cs acc
    using that by (induction cs arbitrary: acc) (auto intro!: and_then_cong)
  then have "fold_ok (readContainers L u3) ?cs [] = Ok (mpt_Containers m')" using ws by simp
  with ann vol have "newMetaPodTemplate L w' t = Ok (m'\<lparr>mpt_workload := w'\<rparr>)"
    using same(2) by (simp add: newMetaPodTemplate_eq [OF reload obj3])
  moreover have "canWrite ?J (mt_Annotations t) u3"
    using canWrite_same [OF w1] ann_apart apart(2) agreeBeside_canWrite [OF a3, of ?J "mt_Annotations t"]
      agreeBeside_canWrite [OF conjunct1 [OF ws], of ?J "mt_Annotations t"]
    by (simp add: divergeKeys_sym)
  then have "writable L pk t u3"
    using kept3 ws canWrite_same [OF w3] by (simp add: writable_def)
  ultimately show ?thesis using reload written by blast
qed

text \<open>Projecting and unprojecting look at the parts of the template, not at the workload.\<close>

lemma project_kept:
  "mpt_workload (project b m) = mpt_workload m"
  "mpt_mapping (project b m) = mpt_mapping m"
  "map ct_Name (mpt_Containers (project b m)) = map ct_Name (mpt_Containers m)"
  by (cases "secretName b = []"; simp add: project_no_secret project_simps comp_def boundContainer_def)+

lemma unproject_workload: "unproject b (m\<lparr>mpt_workload := w\<rparr>) = (unproject b m)\<lparr>mpt_workload := w\<rparr>"
  by (intro metaPodTemplate.equality) simp_all

lemma project_workload: "project b (m\<lparr>mpt_workload := w\<rparr>) = (project b m)\<lparr>mpt_workload := w\<rparr>"
  by (cases "secretName b = []")
    (simp_all add: project_no_secret unproject_workload, intro metaPodTemplate.equality, simp_all add: project_simps)

section \<open>The workload as a store of its template\<close>

text \<open>
  What projecting relies on when it goes through a workload: a template with the container names
  of the workload can be stored, and is loaded again.
\<close>

locale template_store =
  fixes load :: "'w \<Rightarrow> 'w metaPodTemplate outcome"
    and store :: "'w metaPodTemplate \<Rightarrow> 'w outcome"
    and fits :: "'w \<Rightarrow> bool"
  assumes load_workload: "load w = Ok m \<Longrightarrow> mpt_workload m = w"
    and store_load: "fits w \<Longrightarrow> load w = Ok m \<Longrightarrow> mpt_workload m' = w \<Longrightarrow> mpt_mapping m' = mpt_mapping m \<Longrightarrow>
      map ct_Name (mpt_Containers m') = map ct_Name (mpt_Containers m) \<Longrightarrow>
      \<exists>w'. store m' = Ok w' \<and> fits w' \<and> load w' = Ok (m'\<lparr>mpt_workload := w'\<rparr>)"
begin

lemma project_stored:
  assumes "fits w" and "load w = Ok m"
  obtains w' where "store (project b m) = Ok w'" "fits w'" "load w' = Ok ((project b m)\<lparr>mpt_workload := w'\<rparr>)"
  using store_load [OF assms, of "project b m"] load_workload [OF assms(2)] by (auto simp: project_kept)

lemma unproject_stored:
  assumes "fits w" and "load w = Ok m"
  obtains w' where "store (unproject b m) = Ok w'" "fits w'" "load w' = Ok ((unproject b m)\<lparr>mpt_workload := w'\<rparr>)"
  using store_load [OF assms, of "unproject b m"] load_workload [OF assms(2)] by (auto simp: comp_def)

text \<open>A second change works on what the first has stored.\<close>

lemma project_again_stored:
  assumes "fits w" and "load w = Ok ((project b m)\<lparr>mpt_workload := w\<rparr>)"
  obtains w' where "store (project c ((project b m)\<lparr>mpt_workload := w\<rparr>)) = Ok w'" "fits w'"
    "load w' = Ok ((project c (project b m))\<lparr>mpt_workload := w'\<rparr>)"
  by (rule project_stored [OF assms, of c]) (simp add: project_workload that)

lemma unproject_then_stored:
  assumes "fits w" and "load w = Ok ((project b m)\<lparr>mpt_workload := w\<rparr>)"
  obtains w' where "store (unproject c ((project b m)\<lparr>mpt_workload := w\<rparr>)) = Ok w'" "fits w'"
    "load w' = Ok ((unproject c (project b m))\<lparr>mpt_workload := w'\<rparr>)"
  by (rule unproject_stored [OF assms, of c]) (simp add: unproject_workload that)

end

text \<open>The libraries, the mapping and the workload fit together.\<close>

definition fitsMapping :: "'w lib \<Rightarrow> (mappingContainer \<Rightarrow> string list) \<Rightarrow> mappingTemplate \<Rightarrow> 'w \<Rightarrow> bool" where
  "fitsMapping L pk t w \<longleftrightarrow> codec_ok (lib_codec L) \<and> converter_ok L \<and> separateMapping L pk t \<and>
    (\<exists>u. toUnstructured L w = Inr u \<and> writable L pk t u)"

interpretation workload: template_store "\<lambda>w. newMetaPodTemplate L w t" "writeToWorkload L" "fitsMapping L pk t"
  for L :: "'w lib" and pk t
proof
  fix w m
  assume "newMetaPodTemplate L w t = Ok m"
  then show "mpt_workload m = w" by (auto simp: newMetaPodTemplate_def outcome_simps)
next
  fix w and m m' :: "'w metaPodTemplate"
  assume fits: "fitsMapping L pk t w" and read: "newMetaPodTemplate L w t = Ok m"
    and m': "mpt_workload m' = w" "mpt_mapping m' = mpt_mapping m"
      "map ct_Name (mpt_Containers m') = map ct_Name (mpt_Containers m)"
  from read have "mpt_mapping m = t" by (auto simp: newMetaPodTemplate_def outcome_simps)
  with m'(2) have t: "mpt_mapping m' = t" by simp
  from fits obtain u where u: "codec_ok (lib_codec L)" "converter_ok L" "separateMapping L pk t"
    "toUnstructured L w = Inr u" "writable L pk t u"
    by (auto simp: fitsMapping_def)
  from write_read_template [OF u read m'(1) t m'(3)] u(1-3)
  show "\<exists>w'. writeToWorkload L m' = Ok w' \<and> fitsMapping L pk t w' \<and>
    newMetaPodTemplate L w' t = Ok (m'\<lparr>mpt_workload := w'\<rparr>)"
    by (auto simp: fitsMapping_def)
qed

end
