(* ===== verification/Plain_Codec.thy ===== *)
theory Plain_Codec
  imports Core_Types
begin

text \<open>
  A concrete \<open>codec\<close> that writes every field by position, which shows that the documented
  behaviour \<open>codec_ok\<close> can hold. The instances of the workload properties use it.
\<close>

section \<open>Encoding and decoding by position\<close>

fun encOpt :: "('a \<Rightarrow> json) \<Rightarrow> 'a option \<Rightarrow> json" where
  "encOpt f None = JNull"
| "encOpt f (Some x) = JArr [f x]"

fun decOpt :: "(json \<Rightarrow> 'a option) \<Rightarrow> json \<Rightarrow> 'a option option" where
  "decOpt g JNull = Some None"
| "decOpt g (JArr [j]) = map_option Some (g j)"
| "decOpt g _ = None"

definition encMany :: "('a \<Rightarrow> json) \<Rightarrow> 'a list \<Rightarrow> json" where
  "encMany f xs = JArr (map f xs)"

definition decMany :: "(json \<Rightarrow> 'a option) \<Rightarrow> json \<Rightarrow> 'a list option" where
  "decMany g j = (case j of
     JArr js \<Rightarrow> if list_all (\<lambda>j. g j \<noteq> None) js then Some (map (the \<circ> g) js) else None | _ \<Rightarrow> None)"

lemma decOpt_encOpt: "(\<And>x. g (f x) = Some x) \<Longrightarrow> decOpt g (encOpt f v) = Some v"
  by (cases v) simp_all

lemma decMany_encMany: "(\<And>x. g (f x) = Some x) \<Longrightarrow> decMany g (encMany f xs) = Some xs"
  by (simp add: decMany_def encMany_def list_all_iff comp_def)

definition encFieldSel :: "objectFieldSelector \<Rightarrow> json" where
  "encFieldSel s = JArr [JStr (ofs_FieldPath s), JObj (ofs_rest s)]"

fun decFieldSel :: "json \<Rightarrow> objectFieldSelector option" where
  "decFieldSel (JArr [JStr p, JObj r]) = Some \<lparr>ofs_FieldPath = p, ofs_rest = r\<rparr>"
| "decFieldSel _ = None"

definition encKeySel :: "secretKeySelector \<Rightarrow> json" where
  "encKeySel s = JArr [JStr (sks_Name s), JStr (sks_Key s), JObj (sks_rest s)]"

fun decKeySel :: "json \<Rightarrow> secretKeySelector option" where
  "decKeySel (JArr [JStr n, JStr k, JObj r]) = Some \<lparr>sks_Name = n, sks_Key = k, sks_rest = r\<rparr>"
| "decKeySel _ = None"

definition encSource :: "envVarSource \<Rightarrow> json" where
  "encSource s = JArr [encOpt encFieldSel (evs_FieldRef s), encOpt encKeySel (evs_SecretKeyRef s), JObj (evs_rest s)]"

fun decSource :: "json \<Rightarrow> envVarSource option" where
  "decSource (JArr [f, k, JObj r]) =
     (case (decOpt decFieldSel f, decOpt decKeySel k) of
        (Some f, Some k) \<Rightarrow> Some \<lparr>evs_FieldRef = f, evs_SecretKeyRef = k, evs_rest = r\<rparr> | _ \<Rightarrow> None)"
| "decSource _ = None"

definition encVar :: "envVar \<Rightarrow> json" where
  "encVar e = JArr [JStr (ev_Name e), JStr (ev_Value e), encOpt encSource (ev_ValueFrom e)]"

fun decVar :: "json \<Rightarrow> envVar option" where
  "decVar (JArr [JStr n, JStr v, s]) =
     map_option (\<lambda>s. \<lparr>ev_Name = n, ev_Value = v, ev_ValueFrom = s\<rparr>) (decOpt decSource s)"
| "decVar _ = None"

definition encMount :: "volumeMount \<Rightarrow> json" where
  "encMount m = JArr [JStr (vm_Name m), JBool (vm_ReadOnly m), JStr (vm_MountPath m), JObj (vm_rest m)]"

fun decMount :: "json \<Rightarrow> volumeMount option" where
  "decMount (JArr [JStr n, JBool r, JStr p, JObj q]) =
     Some \<lparr>vm_Name = n, vm_ReadOnly = r, vm_MountPath = p, vm_rest = q\<rparr>"
| "decMount _ = None"

definition encSecret :: "secretProjection \<Rightarrow> json" where
  "encSecret s = JArr [JStr (sp_Name s), JObj (sp_rest s)]"

fun decSecret :: "json \<Rightarrow> secretProjection option" where
  "decSecret (JArr [JStr n, JObj r]) = Some \<lparr>sp_Name = n, sp_rest = r\<rparr>"
| "decSecret _ = None"

definition encFile :: "downwardAPIVolumeFile \<Rightarrow> json" where
  "encFile f = JArr [JStr (daf_Path f), encOpt encFieldSel (daf_FieldRef f), JObj (daf_rest f)]"

fun decFile :: "json \<Rightarrow> downwardAPIVolumeFile option" where
  "decFile (JArr [JStr p, s, JObj r]) =
     map_option (\<lambda>s. \<lparr>daf_Path = p, daf_FieldRef = s, daf_rest = r\<rparr>) (decOpt decFieldSel s)"
| "decFile _ = None"

definition encDownward :: "downwardAPIProjection \<Rightarrow> json" where
  "encDownward d = encMany encFile (dap_Items d)"

definition decDownward :: "json \<Rightarrow> downwardAPIProjection option" where
  "decDownward j = map_option (\<lambda>fs. \<lparr>dap_Items = fs\<rparr>) (decMany decFile j)"

definition encProjection :: "volumeProjection \<Rightarrow> json" where
  "encProjection p = JArr [encOpt encSecret (vp_Secret p), encOpt encDownward (vp_DownwardAPI p), JObj (vp_rest p)]"

fun decProjection :: "json \<Rightarrow> volumeProjection option" where
  "decProjection (JArr [s, d, JObj r]) =
     (case (decOpt decSecret s, decOpt decDownward d) of
        (Some s, Some d) \<Rightarrow> Some \<lparr>vp_Secret = s, vp_DownwardAPI = d, vp_rest = r\<rparr> | _ \<Rightarrow> None)"
| "decProjection _ = None"

definition encProjected :: "projectedVolumeSource \<Rightarrow> json" where
  "encProjected p = JArr [encMany encProjection (pvs_Sources p), JObj (pvs_rest p)]"

fun decProjected :: "json \<Rightarrow> projectedVolumeSource option" where
  "decProjected (JArr [s, JObj r]) =
     map_option (\<lambda>s. \<lparr>pvs_Sources = s, pvs_rest = r\<rparr>) (decMany decProjection s)"
| "decProjected _ = None"

definition encVolume :: "volume \<Rightarrow> json" where
  "encVolume v = JArr [JStr (v_Name v), encOpt encProjected (v_Projected v), JObj (v_rest v)]"

fun decVolume :: "json \<Rightarrow> volume option" where
  "decVolume (JArr [JStr n, p, JObj r]) =
     map_option (\<lambda>p. \<lparr>v_Name = n, v_Projected = p, v_rest = r\<rparr>) (decOpt decProjected p)"
| "decVolume _ = None"

lemma codec_items [simp]:
  "decFieldSel (encFieldSel a) = Some a" "decKeySel (encKeySel b) = Some b"
  "decSecret (encSecret c) = Some c" "decMount (encMount d) = Some d"
  by (simp_all add: encFieldSel_def encKeySel_def encSecret_def encMount_def)

lemma codec_source [simp]: "decSource (encSource s) = Some s"
  by (simp add: encSource_def decOpt_encOpt)

lemma codec_var [simp]: "decVar (encVar e) = Some e"
  by (simp add: encVar_def decOpt_encOpt)

lemma codec_file [simp]: "decFile (encFile f) = Some f"
  by (simp add: encFile_def decOpt_encOpt)

lemma codec_downward [simp]: "decDownward (encDownward d) = Some d"
  by (simp add: encDownward_def decDownward_def decMany_encMany)

lemma codec_projection [simp]: "decProjection (encProjection p) = Some p"
  by (simp add: encProjection_def decOpt_encOpt)

lemma codec_projected [simp]: "decProjected (encProjected p) = Some p"
  by (simp add: encProjected_def decMany_encMany)

lemma codec_volume [simp]: "decVolume (encVolume v) = Some v"
  by (simp add: encVolume_def decOpt_encOpt)

definition orError :: "'a option \<Rightarrow> error + 'a" where
  "orError v = (case v of None \<Rightarrow> Inl (Error ''json'') | Some x \<Rightarrow> Inr x)"

definition plainCodec :: codec where
  "plainCodec =
    \<lparr>encEnv = encMany encVar, decEnv = (\<lambda>j. orError (decMany decVar j)),
     encMounts = encMany encMount, decMounts = (\<lambda>j. orError (decMany decMount j)),
     encVolumes = encMany encVolume, decVolumes = (\<lambda>j. orError (decMany decVolume j))\<rparr>"

lemma plainCodec_ok: "codec_ok plainCodec"
  by (simp add: codec_ok_def plainCodec_def orError_def decMany_encMany) (simp add: encMany_def)

end
