(* ===== verification/Workload_Properties.thy ===== *)
theory Workload_Properties
  imports Workload_Roundtrip Projector_Properties Plain_Codec
begin

text \<open>
  The properties of projection on whole workloads, with an instance: the PodSpecable mapping, a
  JSONPath library that knows its paths, objects as their own unstructured form, and a
  deployment with two containers.
\<close>

section \<open>The instance\<close>

definition pointerTable :: "(string \<times> string list) list" where
  "pointerTable =
    [(braced ''.spec.template.metadata.annotations'', [''spec'', ''template'', ''metadata'', ''annotations'']),
     (braced ''.spec.template.spec.volumes'', [''spec'', ''template'', ''spec'', ''volumes'']),
     (braced ''.name'', [''name'']), (braced ''.env'', [''env'']), (braced ''.volumeMounts'', [''volumeMounts''])]"

definition pathTable :: "(string \<times> string list) list" where
  "pathTable =
    [(braced ''.spec.template.spec.initContainers[*]'', [''spec'', ''template'', ''spec'', ''initContainers'']),
     (braced ''.spec.template.spec.containers[*]'', [''spec'', ''template'', ''spec'', ''containers''])]"

definition podJsonpath :: jsonpath where
  "podJsonpath =
    \<lparr>jpParse = (\<lambda>s. case map_of pointerTable s of
        Some ks \<Rightarrow> Inr [NodeList (map NodeField ks)]
      | None \<Rightarrow> (case map_of pathTable s of
          Some ks \<Rightarrow> Inr [NodeList (map NodeField ks @ [NodeOther ''NodeArray'' ''[*]''])]
        | None \<Rightarrow> Inl (Error ''parse''))),
     jpFind = (\<lambda>s u. case map_of pathTable s of
        Some ks \<Rightarrow> (case getLoc u (map Key ks) of
            Some (JArr xs) \<Rightarrow> Inr [map (\<lambda>i. RIface (map Key ks @ [Idx i])) [0..<length xs]]
          | _ \<Rightarrow> Inl (Error ''not found''))
      | None \<Rightarrow> Inl (Error ''parse''))\<rparr>"

definition podLib :: "json lib" where
  "podLib =
    \<lparr>lib_jsonpath = podJsonpath, lib_codec = plainCodec,
     toUnstructured = (\<lambda>w. if isObj w then Inr w else Inl (Error ''not an object'')),
     fromUnstructured = (\<lambda>u w. Inr u)\<rparr>"

definition podMapping :: mappingTemplate where
  "podMapping = newStaticMapping \<lparr>mt_Version = ''*'', mt_Annotations = '''', mt_Containers = [], mt_Volumes = ''''\<rparr>"

definition podPath :: "mappingContainer \<Rightarrow> string list" where
  "podPath c = (case map_of pathTable (braced (mc_Path c)) of Some ks \<Rightarrow> ks | None \<Rightarrow> [])"

definition deployment :: json where
  "deployment =
    JObj [(''spec'', JObj [(''template'', JObj
      [(''metadata'', JObj [(''annotations'', JObj [(''note'', JStr ''kept'')])]),
       (''spec'', JObj [(''containers'', JArr
          [JObj [(''name'', JStr ''main''), (''image'', JStr ''app'')],
           JObj [(''name'', JStr ''sidecar'')]])])])])]"

lemma podLib_simps [simp]:
  "lib_jsonpath podLib = podJsonpath" "lib_codec podLib = plainCodec"
  "toUnstructured podLib w = (if isObj w then Inr w else Inl (Error ''not an object''))"
  "fromUnstructured podLib u w = Inr u"
  by (simp_all add: podLib_def)

lemma pod_keys:
  "ptrKeys podJsonpath ''.spec.template.metadata.annotations'' = [''spec'', ''template'', ''metadata'', ''annotations'']"
  "ptrKeys podJsonpath ''.spec.template.spec.volumes'' = [''spec'', ''template'', ''spec'', ''volumes'']"
  "ptrKeys podJsonpath ''.name'' = [''name'']" "ptrKeys podJsonpath ''.env'' = [''env'']"
  "ptrKeys podJsonpath ''.volumeMounts'' = [''volumeMounts'']"
  by (simp_all add: ptrKeys_def keys_def podJsonpath_def pointerTable_def braced_def)

lemma pod_keys_Ok:
  "keys podJsonpath ''.spec.template.metadata.annotations'' = Ok [''spec'', ''template'', ''metadata'', ''annotations'']"
  "keys podJsonpath ''.spec.template.spec.volumes'' = Ok [''spec'', ''template'', ''spec'', ''volumes'']"
  "keys podJsonpath ''.name'' = Ok [''name'']" "keys podJsonpath ''.env'' = Ok [''env'']"
  "keys podJsonpath ''.volumeMounts'' = Ok [''volumeMounts'']"
  by (simp_all add: keys_def podJsonpath_def pointerTable_def braced_def)

lemma pod_elementsPath:
  "map_of pathTable (braced p) = Some ks \<Longrightarrow> map_of pointerTable (braced p) = None \<Longrightarrow> elementsPath podJsonpath p ks"
  by (auto simp: elementsPath_def podJsonpath_def split: option.split json.split)

lemma podMapping_simps:
  "mt_Annotations podMapping = ''.spec.template.metadata.annotations''"
  "mt_Volumes podMapping = ''.spec.template.spec.volumes''"
  "mt_Containers podMapping = map defaultContainer podSpecableContainers"
  by (simp_all add: podMapping_def newStaticMapping_def defaultTemplate_def)

lemma podMapping_separate: "separateMapping podLib podPath podMapping"
  by (simp add: separateMapping_def separateContainers_def podMapping_simps podSpecableContainers_def
      defaultContainer_def pod_keys separateElem_def pod_elementsPath podPath_def pathTable_def pointerTable_def
      braced_def)

lemma podLib_converter: "converter_ok podLib"
  by (simp add: converter_ok_def split: if_splits)

lemma deployment_fits: "fitsMapping podLib podPath podMapping deployment"
  by (simp add: fitsMapping_def plainCodec_ok podLib_converter podMapping_separate       podMapping_simps podSpecableContainers_def defaultContainer_def podPath_def pathTable_def braced_def
      deployment_def listed_def arrayAt_def writable_def canWrite_def pod_keys pod_keys_Ok elemsAt_def
      canWriteElem_def)

lemma deployment_template:
  "newMetaPodTemplate podLib deployment podMapping =
    Ok \<lparr>mpt_workload = deployment, mpt_mapping = podMapping, mpt_Annotations = [(''note'', ''kept'')],
       mpt_Containers = [\<lparr>ct_Name = Some ''main'', ct_Env = [], ct_VolumeMounts = []\<rparr>,
         \<lparr>ct_Name = Some ''sidecar'', ct_Env = [], ct_VolumeMounts = []\<rparr>],
       mpt_Volumes = []\<rparr>"
  by code_simp

text \<open>A second projection of the same binding.\<close>

lemma Project_again:
  assumes "fitsMapping L pk t w" and "\<And>w. lookup w = Ok t" and "newMetaPodTemplate L w t = Ok m"
    and "secretName b \<noteq> ''''" and "noOtherReference b m" and "literalRoots m"
  shows "\<exists>w1 m1 w2. Project lookup L b w = Ok w1 \<and> newMetaPodTemplate L w1 t = Ok m1 \<and>
    Project lookup L b w1 = Ok w2 \<and> newMetaPodTemplate L w2 t = Ok (m1\<lparr>mpt_workload := w2\<rparr>)"
proof -
  obtain w1 where w1: "writeToWorkload L (project b m) = Ok w1" "fitsMapping L pk t w1"
      "newMetaPodTemplate L w1 t = Ok ((project b m)\<lparr>mpt_workload := w1\<rparr>)"
    using workload.project_stored [OF assms(1,3), of b] by blast
  obtain w2 where w2: "writeToWorkload L (project b ((project b m)\<lparr>mpt_workload := w1\<rparr>)) = Ok w2"
      "newMetaPodTemplate L w2 t = Ok ((project b (project b m))\<lparr>mpt_workload := w2\<rparr>)"
    using workload.project_again_stored [OF w1(2,3), of b] by blast
  show ?thesis
    using w1 w2 assms(2,3) by (simp add: Project_def project_twice [OF assms(4-6)])
qed

section \<open>Properties\<close>

text \<open>
  C1. Projecting a workload succeeds and does to its pod template exactly what projecting the
  template does: when the pointers of the mapping do not overlap and nothing is in their way, the
  workload that \<open>Project\<close> returns, read through the same mapping, has the projected template,
  every annotation, container and volume in its place, and is again one that can be projected.
\<close>

theorem project_workload_template:
  assumes "fitsMapping L pk t w" and "lookup w = Ok t" and "newMetaPodTemplate L w t = Ok m"
  shows "\<exists>w'. Project lookup L b w = Ok w' \<and> fitsMapping L pk t w' \<and>
    newMetaPodTemplate L w' t = Ok ((project b m)\<lparr>mpt_workload := w'\<rparr>)"
  by (rule workload.project_stored [OF assms(1,3), of b]) (auto simp: Project_def assms(2,3))

theorem project_workload_template_witness:
  "\<exists>w' m'. Project (staticLookup podMapping) podLib (exampleBinding ''u1'' ''s1'') deployment = Ok w' \<and>
     newMetaPodTemplate podLib w' podMapping = Ok m' \<and>
     map_of (mpt_Annotations m') ''projector.servicebinding.io/secret-u1'' = Some ''s1''"
proof -
  have lookup: "staticLookup podMapping deployment = Ok podMapping" by (simp add: staticLookup_def)
  from project_workload_template [where lookup = "staticLookup podMapping", OF deployment_fits lookup deployment_template, of "exampleBinding ''u1'' ''s1''"]
  show ?thesis
    by (auto simp: project_simps bindAnnotations_def Let_def exampleBinding_def amap_simps name_defs
        secretName_def SecretAnnotationPrefix_def TypeAnnotationPrefix_def)
qed

text \<open>
  Reconciling a workload twice is stable: a second projection of the same binding succeeds and
  leaves the annotations, containers and volumes of the workload as the first left them, in
  content and in order, when no other variable refers to the secret and the roots are literal.
\<close>

lemma project_workload_twice:
  assumes "fitsMapping L pk t w" and "\<And>w. lookup w = Ok t" and "newMetaPodTemplate L w t = Ok m"
    and "secretName b \<noteq> ''''" and "noOtherReference b m" and "literalRoots m"
  shows "\<exists>w1 m1 w2. Project lookup L b w = Ok w1 \<and> newMetaPodTemplate L w1 t = Ok m1 \<and>
    Project lookup L b w1 = Ok w2 \<and> newMetaPodTemplate L w2 t = Ok (m1\<lparr>mpt_workload := w2\<rparr>)"
  using assms by (rule Project_again)

lemma project_workload_twice_witness:
  "\<exists>w1 m1 w2. Project (staticLookup podMapping) podLib (exampleBinding ''u1'' ''s1'') deployment = Ok w1 \<and>
     newMetaPodTemplate podLib w1 podMapping = Ok m1 \<and>
     Project (staticLookup podMapping) podLib (exampleBinding ''u1'' ''s1'') w1 = Ok w2 \<and>
     newMetaPodTemplate podLib w2 podMapping = Ok (m1\<lparr>mpt_workload := w2\<rparr>)"
  by (rule project_workload_twice [where lookup = "staticLookup podMapping", OF deployment_fits _ deployment_template])
    (simp_all add: staticLookup_def noOtherReference_def literalRoots_def literalRoot_def)

text \<open>
  C3. Deleting a binding undoes its projection in the workload: unprojecting the projected
  workload succeeds, and gives one whose template is that of the original without the binding, up
  to the canonical order of volumes, mounts and variables and the default root variable.
\<close>

theorem unproject_projected_workload:
  assumes "fitsMapping L pk t w" and "\<And>w. lookup w = Ok t" and "newMetaPodTemplate L w t = Ok m"
    and "secretName b \<noteq> ''''" and "noOtherReference b m"
  shows "\<exists>w1 w2. Project lookup L b w = Ok w1 \<and> Unproject lookup L b w1 = Ok w2 \<and>
    newMetaPodTemplate L w2 t = Ok ((unproject b m)\<lparr>
      mpt_workload := w2,
      mpt_Containers := map (tidyContainer b (mpt_Annotations (project b m))) (mpt_Containers (unproject b m)),
      mpt_Volumes := sortVolumes (mpt_Volumes (unproject b m))\<rparr>)"
proof -
  obtain w1 where w1: "writeToWorkload L (project b m) = Ok w1" "fitsMapping L pk t w1"
      "newMetaPodTemplate L w1 t = Ok ((project b m)\<lparr>mpt_workload := w1\<rparr>)"
    using workload.project_stored [OF assms(1,3), of b] by blast
  obtain w2 where w2: "writeToWorkload L (unproject b ((project b m)\<lparr>mpt_workload := w1\<rparr>)) = Ok w2"
      "newMetaPodTemplate L w2 t = Ok ((unproject b (project b m))\<lparr>mpt_workload := w2\<rparr>)"
    using workload.unproject_then_stored [OF w1(2,3), of b] by blast
  show ?thesis
    using w1 w2 assms(2,3)
    by (intro exI [of _ w1] exI [of _ w2])
      (simp add: Project_def Unproject_def unproject_after_project [OF assms(4,5)])
qed

theorem unproject_projected_workload_witness:
  "\<exists>w1 w2 m2. Project (staticLookup podMapping) podLib (exampleBinding ''u1'' ''s1'') deployment = Ok w1 \<and>
     Unproject (staticLookup podMapping) podLib (exampleBinding ''u1'' ''s1'') w1 = Ok w2 \<and>
     newMetaPodTemplate podLib w2 podMapping = Ok m2 \<and> mpt_Volumes m2 = [] \<and>
     map_of (mpt_Annotations m2) ''note'' = Some ''kept''"
proof -
  let ?b = "exampleBinding ''u1'' ''s1''"
  have h: "secretName ?b \<noteq> ''''" by simp
  have kept: "''note'' \<notin> ownKeys ?b" by (simp add: ownKeys_def name_defs)
  have one: "staticLookup podMapping x = Ok podMapping" for x :: json by (simp add: staticLookup_def)
  from unproject_projected_workload [where lookup = "staticLookup podMapping", OF deployment_fits one deployment_template h] kept
  show ?thesis
    by (auto simp: noOtherReference_def sortProjected_split map_of_clearAnnotations)
qed

end
