(* ===== verification/Resolver_Cluster.thy ===== *)
theory Resolver_Cluster
  imports Projector
begin

text \<open>
  \<open>resolver/cluster.go\<close>: looking up the mapping of a workload, the secret of a service and
  the workloads of a binding in the cluster. The cluster is reached through the
  reconciler-runtime \<open>Config\<close>, whose calls are the fields of \<open>config\<close>. The calls that also
  track the object they get are returned as the list of tracked references.
\<close>

section \<open>The cluster\<close>

record objectReference =
  or_APIVersion :: string
  or_Kind :: string
  or_Namespace :: string
  or_Name :: string

text \<open>
  \<open>cfg_nestedString\<close> is \<open>unstructured.NestedString\<close>: none when a field is missing, an error
  when a value on the way has the wrong type.
\<close>

record 'w config =
  cfg_gvkForObject :: "'w \<Rightarrow> error + groupVersionKind"
  cfg_restMapping :: "groupVersionKind \<Rightarrow> error + string \<times> string"
  cfg_getMapping :: "string \<Rightarrow> error + resourceMapping"
  cfg_getObject :: "objectReference \<Rightarrow> error + 'w"
  cfg_listObjects :: "objectReference \<Rightarrow> selector \<Rightarrow> error + 'w list"
  cfg_nestedString :: "'w \<Rightarrow> string list \<Rightarrow> error + string option"
  cfg_asSelector :: "asSelector"

section \<open>Mapping lookup\<close>

text \<open>
  The loop \<open>for _, v := range wrm.Spec.Versions\<close> has one variable \<open>v\<close> for all its
  iterations (the module declares Go 1.18), and \<open>mapping = &v\<close> keeps its address. The
  variables are cells, \<open>mapping\<close> is a pointer to one of them or nil.
\<close>

record versionCells =
  cell_v :: "mappingTemplate option"
  cell_wildcard :: mappingTemplate

datatype templatePtr = AddrV | AddrWildcard

fun scanVersions ::
  "string \<Rightarrow> mappingTemplate list \<Rightarrow> versionCells \<times> templatePtr option \<Rightarrow>
   versionCells \<times> templatePtr option" where
  "scanVersions ver [] s = s"
| "scanVersions ver (x # xs) (cells, mapping) =
     (let cells = cells\<lparr>cell_v := Some x\<rparr>
      in scanVersions ver xs
           (if mt_Version x = ver then (cells, Some AddrV)
            else if mt_Version x = ''*'' then (cells\<lparr>cell_wildcard := x\<rparr>, mapping)
            else (cells, mapping)))"

definition derefTemplate :: "versionCells \<Rightarrow> templatePtr \<Rightarrow> mappingTemplate outcome" where
  "derefTemplate cells p =
    (case p of
       AddrWildcard \<Rightarrow> Ok (cell_wildcard cells)
     | AddrV \<Rightarrow> (case cell_v cells of Some t \<Rightarrow> Ok t | None \<Rightarrow> Panic))"

definition emptyTemplate :: "string \<Rightarrow> mappingTemplate" where
  "emptyTemplate ver = \<lparr>mt_Version = ver, mt_Annotations = '''', mt_Containers = [], mt_Volumes = ''''\<rparr>"

definition emptyMapping :: resourceMapping where
  "emptyMapping = \<lparr>rm_meta = \<lparr>om_Name = '''', om_Namespace = '''', om_UID = '''', om_ResourceVersion = '''',
     om_Labels = [], om_DeletionTimestamp = None\<rparr>, rm_Versions = []\<rparr>"

definition selectVersion :: "string \<Rightarrow> mappingTemplate list \<Rightarrow> mappingTemplate outcome" where
  "selectVersion ver versions =
    (let (cells, mapping) = scanVersions ver versions
           (\<lparr>cell_v = None, cell_wildcard = emptyTemplate ''*''\<rparr>, None);
         mapping = (case mapping of None \<Rightarrow> AddrWildcard | Some p \<Rightarrow> p)
     in map_ok defaultTemplate (derefTemplate cells mapping))"

definition lookupMapping :: "'w config \<Rightarrow> 'w \<Rightarrow> mappingTemplate outcome" where
  "lookupMapping C workload =
    and_then (from_result (cfg_gvkForObject C workload)) (\<lambda>gvk.
    and_then (from_result (cfg_restMapping C gvk)) (\<lambda>(group, resource).
    and_then (case cfg_getMapping C (resource @ ''.'' @ group) of
                Inr wrm \<Rightarrow> Ok wrm
              | Inl err \<Rightarrow> (if err \<noteq> NotFound then Fail err else Ok emptyMapping)) (\<lambda>wrm.
      selectVersion (gvk_Version gvk) (rm_Versions wrm))))"

section \<open>Service and workload lookup\<close>

definition lookupBindingSecret ::
  "'w config \<Rightarrow> objectReference \<Rightarrow> string outcome \<times> objectReference list" where
  "lookupBindingSecret C ref =
    (if or_APIVersion ref = ''v1'' \<and> or_Kind ref = ''Secret'' then (Ok (or_Name ref), [])
     else
       (and_then (from_result (cfg_getObject C ref)) (\<lambda>service.
        and_then (from_result (cfg_nestedString C service [''status'', ''binding'', ''name''])) (\<lambda>s.
          Ok (case s of None \<Rightarrow> '''' | Some n \<Rightarrow> n))), [ref]))"

definition lookupWorkload ::
  "'w config \<Rightarrow> objectReference \<Rightarrow> 'w outcome \<times> objectReference list" where
  "lookupWorkload C ref = (from_result (cfg_getObject C ref), [ref])"

definition listWorkloads ::
  "'w config \<Rightarrow> objectReference \<Rightarrow> labelSelector option \<Rightarrow> 'w list outcome \<times> objectReference list" where
  "listWorkloads C ref sel =
    (and_then (from_result (cfg_asSelector C sel)) (\<lambda>ls.
       from_result (cfg_listObjects C (ref\<lparr>or_Kind := or_Kind ref @ ''List'', or_Name := ''''\<rparr>) ls)), [])"

definition lookupWorkloads ::
  "'w config \<Rightarrow> objectReference \<Rightarrow> labelSelector option \<Rightarrow> 'w list outcome \<times> objectReference list" where
  "lookupWorkloads C ref sel =
    (if or_Name ref \<noteq> '''' then
       (let (r, tracked) = lookupWorkload C ref in (map_ok (\<lambda>w. [w]) r, tracked))
     else listWorkloads C ref sel)"

section \<open>The resolver interface\<close>

text \<open>
  \<open>resolver/interface.go\<close>: a mapping source that also finds secrets and workloads. A direct
  reference to a secret is answered without a lookup; a workload given by name is a single one.
\<close>

locale resolver = mapping_source lookup
  for lookup :: "'w \<Rightarrow> mappingTemplate outcome" +
  fixes bindingSecret :: "objectReference \<Rightarrow> string outcome \<times> objectReference list"
    and workloads :: "objectReference \<Rightarrow> labelSelector option \<Rightarrow> 'w list outcome \<times> objectReference list"
  assumes direct_secret:
      "or_APIVersion ref = ''v1'' \<Longrightarrow> or_Kind ref = ''Secret'' \<Longrightarrow> bindingSecret ref = (Ok (or_Name ref), [])"
    and named_workload:
      "or_Name ref \<noteq> '''' \<Longrightarrow> fst (workloads ref sel) = Ok ws \<Longrightarrow> length ws = 1"
    and named_tracked:
      "or_Name ref \<noteq> '''' \<Longrightarrow> ref \<in> set (snd (workloads ref sel))"
begin

lemma named_workload_singleton:
  assumes "or_Name ref \<noteq> ''''" and "fst (workloads ref sel) = Ok ws"
  obtains w where "ws = [w]"
  using named_workload [OF assms] by (cases ws) auto

end

section \<open>What the scan selects\<close>

lemma scanVersions_cell_v:
  "cell_v (fst (scanVersions ver xs (cells, p))) = (if xs = [] then cell_v cells else Some (last xs))"
  by (induction ver xs "(cells, p)" arbitrary: cells p rule: scanVersions.induct) (auto simp: Let_def)

lemma scanVersions_pointer:
  "snd (scanVersions ver xs (cells, p)) =
    (if \<exists>x \<in> set xs. mt_Version x = ver then Some AddrV else p)"
  by (induction ver xs "(cells, p)" arbitrary: cells p rule: scanVersions.induct) (auto simp: Let_def)

lemma scanVersions_wildcard:
  "ver \<noteq> ''*'' \<Longrightarrow> cell_wildcard (fst (scanVersions ver xs (cells, p))) =
    (case filter (\<lambda>x. mt_Version x = ''*'') xs of [] \<Rightarrow> cell_wildcard cells
     | ys \<Rightarrow> last ys)"
  by (induction ver xs "(cells, p)" arbitrary: cells p rule: scanVersions.induct)
    (auto simp: Let_def split: list.splits)

lemma selectVersion_match:
  assumes "\<exists>x \<in> set versions. mt_Version x = ver"
  shows "selectVersion ver versions = Ok (defaultTemplate (last versions))"
proof -
  let ?s = "scanVersions ver versions (\<lparr>cell_v = None, cell_wildcard = emptyTemplate ''*''\<rparr>, None)"
  from assms have ne: "versions \<noteq> []" by auto
  have "cell_v (fst ?s) = Some (last versions)" "snd ?s = Some AddrV"
    using assms ne by (simp_all add: scanVersions_cell_v scanVersions_pointer)
  then show ?thesis
    by (simp add: selectVersion_def derefTemplate_def case_prod_unfold Let_def)
qed

lemma selectVersion_wildcard:
  assumes "\<not> (\<exists>x \<in> set versions. mt_Version x = ver)" and "ver \<noteq> ''*''"
  shows "selectVersion ver versions =
    Ok (defaultTemplate (case filter (\<lambda>x. mt_Version x = ''*'') versions of
          [] \<Rightarrow> emptyTemplate ''*'' | ys \<Rightarrow> last ys))"
proof -
  let ?c = "\<lparr>cell_v = None, cell_wildcard = emptyTemplate ''*''\<rparr>"
  have "snd (scanVersions ver versions (?c, None)) = None"
    using assms(1) by (simp add: scanVersions_pointer)
  moreover have "cell_wildcard (fst (scanVersions ver versions (?c, None))) =
      (case filter (\<lambda>x. mt_Version x = ''*'') versions of [] \<Rightarrow> emptyTemplate ''*'' | ys \<Rightarrow> last ys)"
    using scanVersions_wildcard [OF assms(2), of versions ?c None] by (simp split: list.splits)
  ultimately show ?thesis
    by (simp add: selectVersion_def derefTemplate_def case_prod_unfold Let_def)
qed

lemma selectVersion_defaulted: "selectVersion ver versions = Ok t \<Longrightarrow> defaultedTemplate t"
  by (auto simp: selectVersion_def outcome_simps defaultTemplate_defaulted split: prod.splits)

lemma lookupMapping_defaulted: "lookupMapping C w = Ok t \<Longrightarrow> defaultedTemplate t"
  by (auto simp: lookupMapping_def outcome_simps selectVersion_defaulted)

interpretation cluster: resolver "lookupMapping C" "lookupBindingSecret C" "lookupWorkloads C" for C
  by unfold_locales
    (auto simp: lookupMapping_defaulted lookupBindingSecret_def lookupWorkloads_def lookupWorkload_def
      outcome_simps)

end
