(* ===== verification/Resolver_Properties.thy ===== *)
theory Resolver_Properties
  imports Resolver_Cluster
begin

text \<open>
  The properties of \<open>resolver/cluster.go\<close>: which template a workload is projected with, and
  what finding secrets and workloads gives.
\<close>

section \<open>The template of a workload\<close>

text \<open>
  What the scan of the versions ends with: the last entry when some entry has the workload's
  version, otherwise the last wildcard entry, otherwise the empty template that defaults to the
  PodSpecable shape.
\<close>

definition chosenTemplate :: "string \<Rightarrow> mappingTemplate list \<Rightarrow> mappingTemplate" where
  "chosenTemplate ver versions =
    (if ver \<in> mt_Version ` set versions then last versions
     else (case filter (\<lambda>x. mt_Version x = ''*'') versions of
             [] \<Rightarrow> emptyTemplate ''*'' | ys \<Rightarrow> last ys))"

lemma selectVersion_no_star:
  assumes "''*'' \<notin> mt_Version ` set versions"
  shows "selectVersion ''*'' versions = Ok (defaultTemplate (emptyTemplate ''*''))"
proof -
  have "scanVersions ''*'' xs (c, p) = (c\<lparr>cell_v := cell_v (fst (scanVersions ''*'' xs (c, p)))\<rparr>, p)"
    if "''*'' \<notin> mt_Version ` set xs" for xs c p
    using that by (induction "''*''" xs "(c, p)" arbitrary: c p rule: scanVersions.induct) (auto simp: Let_def)
  from this [OF assms, of "\<lparr>cell_v = None, cell_wildcard = emptyTemplate ''*''\<rparr>" None]
  obtain v where "scanVersions ''*'' versions (\<lparr>cell_v = None, cell_wildcard = emptyTemplate ''*''\<rparr>, None) =
      (\<lparr>cell_v = v, cell_wildcard = emptyTemplate ''*''\<rparr>, None)"
    by (metis versionCells.update_convs(1))
  then show ?thesis by (simp add: selectVersion_def derefTemplate_def)
qed

lemma selectVersion_eq: "selectVersion ver versions = Ok (defaultTemplate (chosenTemplate ver versions))"
proof (cases "ver \<in> mt_Version ` set versions")
  case True
  then have "\<exists>x \<in> set versions. mt_Version x = ver" by auto
  from selectVersion_match [OF this] True show ?thesis by (simp add: chosenTemplate_def)
next
  case False
  then have no: "\<not> (\<exists>x \<in> set versions. mt_Version x = ver)" by auto
  show ?thesis
  proof (cases "ver = ''*''")
    case True
    with False have "filter (\<lambda>x. mt_Version x = ''*'') versions = []" by (force simp: filter_empty_conv)
    with True False selectVersion_no_star [of versions] show ?thesis by (simp add: chosenTemplate_def)
  next
    case star: False
    from selectVersion_wildcard [OF no star] False show ?thesis by (simp add: chosenTemplate_def)
  qed
qed

text \<open>
  Looking up a mapping ends in a template or a returned error, never in a panic: an error of
  the scheme, of the REST mapper or of the API server other than not-found is passed on, a
  missing mapping resource means the PodSpecable template, and otherwise the scan chooses among
  the versions of the resource found under \<open>resource.group\<close>.
\<close>

lemma lookupMapping_eq:
  "lookupMapping C w =
    (case cfg_gvkForObject C w of
       Inl e \<Rightarrow> Fail e
     | Inr gvk \<Rightarrow>
         (case cfg_restMapping C gvk of
            Inl e \<Rightarrow> Fail e
          | Inr (grp, res) \<Rightarrow>
              (case cfg_getMapping C (res @ ''.'' @ grp) of
                 Inl e \<Rightarrow> if e = NotFound then Ok (defaultTemplate (emptyTemplate ''*'')) else Fail e
               | Inr m \<Rightarrow> Ok (defaultTemplate (chosenTemplate (gvk_Version gvk) (rm_Versions m))))))"
  by (auto simp: lookupMapping_def selectVersion_eq chosenTemplate_def emptyMapping_def split: sum.split)

text \<open>A cluster whose mapping resource has the given versions.\<close>

definition exampleVersion :: "string \<Rightarrow> string \<Rightarrow> mappingTemplate" where
  "exampleVersion ver ann =
    \<lparr>mt_Version = ver, mt_Annotations = ann, mt_Containers = [], mt_Volumes = ''.v''\<rparr>"

definition mappingCluster :: "string \<Rightarrow> mappingTemplate list \<Rightarrow> unit config" where
  "mappingCluster ver versions =
    \<lparr>cfg_gvkForObject = (\<lambda>w. Inr \<lparr>gvk_Group = ''apps'', gvk_Version = ver, gvk_Kind = ''Thing''\<rparr>),
     cfg_restMapping = (\<lambda>gvk. Inr (''apps'', ''things'')),
     cfg_getMapping = (\<lambda>n. Inr (emptyMapping\<lparr>rm_Versions := versions\<rparr>)),
     cfg_getObject = (\<lambda>ref. Inl NotFound), cfg_listObjects = (\<lambda>ref sel. Inr []),
     cfg_nestedString = (\<lambda>w p. Inr None), cfg_asSelector = (\<lambda>s. Inr (\<lambda>ls. True))\<rparr>"

lemma filter_unique: "t \<in> set xs \<Longrightarrow> f t = k \<Longrightarrow> distinct (map f xs) \<Longrightarrow> filter (\<lambda>x. f x = k) xs = [t]"
proof (induction xs)
  case (Cons x xs)
  show ?case
  proof (cases "t = x")
    case True
    with Cons.prems have "filter (\<lambda>x. f x = k) xs = []" by (auto simp: filter_empty_conv rev_image_eqI)
    with True Cons.prems show ?thesis by simp
  next
    case False
    with Cons show ?thesis by force
  qed
qed simp

lemma default_emptyTemplate:
  "map mc_Path (mt_Containers (defaultTemplate (emptyTemplate v))) =
     [''.spec.template.spec.initContainers[*]'', ''.spec.template.spec.containers[*]'']"
  "mt_Annotations (defaultTemplate (emptyTemplate v)) = ''.spec.template.metadata.annotations''"
  "mt_Volumes (defaultTemplate (emptyTemplate v)) = ''.spec.template.spec.volumes''"
  by (simp_all add: defaultTemplate_def emptyTemplate_def podSpecableContainers_def defaultContainer_def)

text \<open>
  A workload whose version the mapping does not list is projected with the wildcard template
  of the mapping, defaulted; without a wildcard entry, with the PodSpecable shape.
\<close>

lemma lookupMapping_without_match:
  assumes "cfg_gvkForObject C w = Inr gvk" and "cfg_restMapping C gvk = Inr (grp, res)"
    and "cfg_getMapping C (res @ ''.'' @ grp) = Inr m"
    and "gvk_Version gvk \<notin> mt_Version ` set (rm_Versions m)"
    and "distinct (map mt_Version (rm_Versions m))"
  shows "(\<forall>t \<in> set (rm_Versions m). mt_Version t = ''*'' \<longrightarrow> lookupMapping C w = Ok (defaultTemplate t)) \<and>
    (''*'' \<notin> mt_Version ` set (rm_Versions m) \<longrightarrow> (\<exists>t. lookupMapping C w = Ok t \<and>
       map mc_Path (mt_Containers t) =
         [''.spec.template.spec.initContainers[*]'', ''.spec.template.spec.containers[*]''] \<and>
       mt_Annotations t = ''.spec.template.metadata.annotations'' \<and>
       mt_Volumes t = ''.spec.template.spec.volumes''))"
proof -
  let ?vs = "rm_Versions m"
  have chosen: "lookupMapping C w = Ok (defaultTemplate (case filter (\<lambda>x. mt_Version x = ''*'') ?vs of
      [] \<Rightarrow> emptyTemplate ''*'' | ys \<Rightarrow> last ys))"
    using assms(1-4) by (simp add: lookupMapping_def selectVersion_eq chosenTemplate_def)
  have one: "filter (\<lambda>x. mt_Version x = ''*'') ?vs = [t]" if "t \<in> set ?vs" "mt_Version t = ''*''" for t
    using that assms(5) by (rule filter_unique)
  have none: "filter (\<lambda>x. mt_Version x = ''*'') ?vs = []" if "''*'' \<notin> mt_Version ` set ?vs"
    using that by (force simp: filter_empty_conv)
  show ?thesis
    using chosen one none by (simp add: default_emptyTemplate)
qed

text \<open>
  C29. When an entry has exactly the workload's version, the lookup yields the last entry of the
  list, whether or not it is the one that matched: the pointer kept by the loop is the address
  of the loop variable. Only a mapping that lists the matching entry last gets the template its
  author wrote for the version.
\<close>

theorem lookupMapping_exact_match:
  assumes "cfg_gvkForObject C w = Inr gvk" and "cfg_restMapping C gvk = Inr (grp, res)"
    and "cfg_getMapping C (res @ ''.'' @ grp) = Inr m"
    and "t \<in> set (rm_Versions m)" and "mt_Version t = gvk_Version gvk"
    and "distinct (map mt_Version (rm_Versions m))"
  shows "\<exists>r. lookupMapping C w = Ok r \<and> r = defaultTemplate (last (rm_Versions m)) \<and>
    (mt_Version r = gvk_Version gvk \<longleftrightarrow> t = last (rm_Versions m))"
proof -
  let ?vs = "rm_Versions m"
  have "gvk_Version gvk \<in> mt_Version ` set ?vs" using assms(4,5) by force
  then have "lookupMapping C w = Ok (defaultTemplate (last ?vs))"
    using assms(1-3) by (simp add: lookupMapping_def selectVersion_eq chosenTemplate_def)
  moreover have "last ?vs \<in> set ?vs" using assms(4) by (intro last_in_set) auto
  then have "mt_Version (last ?vs) = mt_Version t \<longleftrightarrow> t = last ?vs"
    using assms(4,6) by (auto simp: distinct_map dest: inj_onD)
  ultimately show ?thesis using assms(5) by simp
qed

theorem lookupMapping_exact_match_witness:
  "lookupMapping (mappingCluster ''v1'' [exampleVersion ''v1'' ''.a'', exampleVersion ''v2'' ''.b'']) () =
     Ok (defaultTemplate (exampleVersion ''v2'' ''.b'')) \<and>
   mt_Version (defaultTemplate (exampleVersion ''v2'' ''.b'')) \<noteq> ''v1''"
  using lookupMapping_exact_match [of "mappingCluster ''v1'' [exampleVersion ''v1'' ''.a'', exampleVersion ''v2'' ''.b'']"
      "()" "\<lparr>gvk_Group = ''apps'', gvk_Version = ''v1'', gvk_Kind = ''Thing''\<rparr>" "''apps''" "''things''" _
      "exampleVersion ''v1'' ''.a''"]
  by (simp add: mappingCluster_def exampleVersion_def)

section \<open>Secrets and workloads\<close>

text \<open>
  The secret of a service: a direct reference to a secret answers with its name and reads
  nothing; any other service is tracked before anything can fail, and its answer is the string
  at \<open>status.binding.name\<close>, empty when the service has none.
\<close>

lemma lookupBindingSecret_spec:
  "(if or_APIVersion ref = ''v1'' \<and> or_Kind ref = ''Secret''
    then lookupBindingSecret C ref = (Ok (or_Name ref), [])
    else snd (lookupBindingSecret C ref) = [ref] \<and>
      (fst (lookupBindingSecret C ref) = Ok name \<longleftrightarrow>
        (\<exists>service. cfg_getObject C ref = Inr service \<and>
          (cfg_nestedString C service [''status'', ''binding'', ''name''] = Inr (Some name) \<or>
           name = '''' \<and> cfg_nestedString C service [''status'', ''binding'', ''name''] = Inr None)))) \<and>
   fst (lookupBindingSecret C ref) \<noteq> Panic"
  by (auto simp: lookupBindingSecret_def outcome_simps split: option.splits)

text \<open>
  The workloads of a binding: with a name, the single object of that name, tracked, and the
  selector is not looked at; without one, the objects of the list kind in the same namespace
  that the parsed selector matches, of which none is tracked.
\<close>

lemma lookupWorkloads_spec:
  "(fst (lookupWorkloads C ref sel) = Ok ws \<longleftrightarrow>
    (if or_Name ref \<noteq> '''' then \<exists>w. ws = [w] \<and> cfg_getObject C ref = Inr w
     else \<exists>ls. cfg_asSelector C sel = Inr ls \<and>
       cfg_listObjects C (ref\<lparr>or_Kind := or_Kind ref @ ''List'', or_Name := ''''\<rparr>) ls = Inr ws)) \<and>
   snd (lookupWorkloads C ref sel) = (if or_Name ref \<noteq> '''' then [ref] else [])"
  by (auto simp: lookupWorkloads_def lookupWorkload_def listWorkloads_def outcome_simps)

end
