(* ===== verification/Binding_Lifecycle.thy ===== *)
theory Binding_Lifecycle
  imports Binding_Api
begin

text \<open>
  \<open>apis/v1beta1/servicebinding_lifecycle.go\<close>: the conditions of a ServiceBinding. The
  condition manager of reconciler-runtime is the record \<open>conditionManager\<close>; what it documents
  is \<open>conditionManager_ok\<close>.
\<close>

section \<open>Conditions\<close>

definition ConditionReady :: string where "ConditionReady = ''Ready''"

definition ConditionServiceAvailable :: string where
  "ConditionServiceAvailable = ''ServiceAvailable''"

definition ConditionWorkloadProjected :: string where
  "ConditionWorkloadProjected = ''WorkloadProjected''"

record conditionManager =
  cm_InitializeConditions :: "condition list \<Rightarrow> condition list"
  cm_Mark :: "conditionStatus \<Rightarrow> string \<Rightarrow> string \<Rightarrow> string \<Rightarrow> condition list \<Rightarrow> condition list"
  cm_IsUnknown :: "condition option \<Rightarrow> bool"

definition getConditions :: "bindingStatus \<Rightarrow> condition list" where
  "getConditions s = st_Conditions s"

definition setConditions :: "bindingStatus \<Rightarrow> condition list \<Rightarrow> bindingStatus" where
  "setConditions s c = s\<lparr>st_Conditions := c\<rparr>"

fun findCondition :: "condition list \<Rightarrow> string \<Rightarrow> condition option" where
  "findCondition [] t = None"
| "findCondition (cond # cs) t = (if c_Type cond = t then Some cond else findCondition cs t)"

definition getCondition :: "bindingStatus \<Rightarrow> string \<Rightarrow> condition option" where
  "getCondition s t = findCondition (st_Conditions s) t"

text \<open>The manager reads and writes the conditions through the accessor.\<close>

definition mark ::
  "conditionManager \<Rightarrow> conditionStatus \<Rightarrow> string \<Rightarrow> string \<Rightarrow> string \<Rightarrow> bindingStatus \<Rightarrow> bindingStatus" where
  "mark M st t reason msg s = setConditions s (cm_Mark M st t reason msg (getConditions s))"

definition initializeConditions :: "conditionManager \<Rightarrow> bindingStatus \<Rightarrow> bindingStatus" where
  "initializeConditions M s =
    (let s = setConditions s (cm_InitializeConditions M (getConditions s));
         s = mark M ConditionUnknown ConditionServiceAvailable ''Initializing'' '''' s
     in mark M ConditionUnknown ConditionWorkloadProjected ''Initializing'' '''' s)"

text \<open>
  The documented behaviour of the manager: marking sets the condition of that type and may also
  recompute the happy condition \<open>Ready\<close>; the other conditions stay. A condition that is there
  is unknown when its status says so.
\<close>

definition conditionManager_ok :: "conditionManager \<Rightarrow> bool" where
  "conditionManager_ok M \<longleftrightarrow>
     (\<forall>st t reason msg cs. \<exists>c. findCondition (cm_Mark M st t reason msg cs) t = Some c \<and>
        c_Status c = st \<and> c_Reason c = reason \<and> c_Message c = msg) \<and>
     (\<forall>st t reason msg cs t'. t' \<noteq> t \<and> t' \<noteq> ConditionReady \<longrightarrow>
        findCondition (cm_Mark M st t reason msg cs) t' = findCondition cs t') \<and>
     (\<forall>c. cm_IsUnknown M (Some c) \<longleftrightarrow> c_Status c = ConditionUnknown)"

text \<open>The status of a condition and its reason, as the controller tests them.\<close>

definition conditionIs :: "bindingStatus \<Rightarrow> string \<Rightarrow> conditionStatus \<Rightarrow> string \<Rightarrow> bool" where
  "conditionIs s t st reason \<longleftrightarrow>
     (case getCondition s t of None \<Rightarrow> False | Some c \<Rightarrow> c_Status c = st \<and> c_Reason c = reason)"

lemma mark_simps [simp]:
  "st_Binding (mark M st t reason msg s) = st_Binding s"
  "st_ObservedGeneration (mark M st t reason msg s) = st_ObservedGeneration s"
  by (simp_all add: mark_def setConditions_def)

lemma conditionIs_mark_same:
  "conditionManager_ok M \<Longrightarrow> conditionIs (mark M st t reason msg s) t st reason"
  unfolding conditionManager_ok_def conditionIs_def mark_def setConditions_def getCondition_def getConditions_def
  by (auto split: option.splits) (metis option.distinct(1) option.inject)+

lemma conditionIs_mark_other:
  "conditionManager_ok M \<Longrightarrow> t' \<noteq> t \<Longrightarrow> t' \<noteq> ConditionReady \<Longrightarrow>
   conditionIs (mark M st t reason msg s) t' st' reason' = conditionIs s t' st' reason'"
  by (simp add: conditionManager_ok_def conditionIs_def mark_def setConditions_def getCondition_def
      getConditions_def)

lemma getCondition_mark_other:
  "conditionManager_ok M \<Longrightarrow> t' \<noteq> t \<Longrightarrow> t' \<noteq> ConditionReady \<Longrightarrow>
   getCondition (mark M st t reason msg s) t' = getCondition s t'"
  by (simp add: conditionManager_ok_def mark_def setConditions_def getCondition_def getConditions_def)

lemma condition_types_distinct [simp]:
  "ConditionServiceAvailable \<noteq> ConditionWorkloadProjected"
  "ConditionWorkloadProjected \<noteq> ConditionServiceAvailable"
  "ConditionServiceAvailable \<noteq> ConditionReady" "ConditionWorkloadProjected \<noteq> ConditionReady"
  by (simp_all add: ConditionServiceAvailable_def ConditionWorkloadProjected_def ConditionReady_def)

lemma initializeConditions_state:
  assumes "conditionManager_ok M"
  shows "conditionIs (initializeConditions M s) ConditionServiceAvailable ConditionUnknown ''Initializing''"
    and "conditionIs (initializeConditions M s) ConditionWorkloadProjected ConditionUnknown ''Initializing''"
  using assms by (simp_all add: initializeConditions_def Let_def conditionIs_mark_same conditionIs_mark_other)

section \<open>The condition set\<close>

text \<open>
  The arguments of \<open>apis.NewLivingConditionSetWithHappyReason\<close>. The manager of a set is built by
  the library: \<open>manage\<close> is \<open>ConditionSet.Manage\<close>, for the conditions of a status.
\<close>

record conditionSet =
  cset_HappyReason :: string
  cset_Dependents :: "string list"

definition servicebindingCondSet :: conditionSet where
  "servicebindingCondSet =
    \<lparr>cset_HappyReason = ''ServiceBound'',
     cset_Dependents = [ConditionServiceAvailable, ConditionWorkloadProjected]\<rparr>"

definition getConditionsAccessor :: "serviceBinding \<Rightarrow> bindingStatus" where
  "getConditionsAccessor b = sb_Status b"

definition getConditionSet :: "serviceBinding \<Rightarrow> conditionSet" where
  "getConditionSet b = servicebindingCondSet"

definition getConditionManager :: "(conditionSet \<Rightarrow> conditionManager) \<Rightarrow> serviceBinding \<Rightarrow> conditionManager" where
  "getConditionManager manage b = manage servicebindingCondSet"

text \<open>
  The documented behaviour of a living set: the happy condition \<open>Ready\<close> is true exactly when all
  dependent conditions are, and then gives the happy reason. It is established by marking a
  dependent condition and by initialising.
\<close>

definition isTrue :: "condition list \<Rightarrow> string \<Rightarrow> bool" where
  "isTrue cs t = (case findCondition cs t of None \<Rightarrow> False | Some c \<Rightarrow> c_Status c = ConditionTrue)"

definition summarises :: "conditionSet \<Rightarrow> condition list \<Rightarrow> bool" where
  "summarises S cs \<longleftrightarrow> (isTrue cs ConditionReady \<longleftrightarrow> list_all (isTrue cs) (cset_Dependents S)) \<and>
     (isTrue cs ConditionReady \<longrightarrow>
        map_option c_Reason (findCondition cs ConditionReady) = Some (cset_HappyReason S))"

definition livingSet_ok :: "conditionSet \<Rightarrow> conditionManager \<Rightarrow> bool" where
  "livingSet_ok S M \<longleftrightarrow> (\<forall>cs. summarises S cs \<longrightarrow> summarises S (cm_InitializeConditions M cs) \<and>
     (\<forall>t \<in> set (cset_Dependents S). \<forall>st reason msg. summarises S (cm_Mark M st t reason msg cs)))"

lemma st_Conditions_mark [simp]:
  "st_Conditions (mark M st t reason msg s) = cm_Mark M st t reason msg (st_Conditions s)"
  by (simp add: mark_def setConditions_def getConditions_def)

lemma servicebinding_marks:
  assumes "livingSet_ok servicebindingCondSet M" and "summarises servicebindingCondSet cs"
  shows "summarises servicebindingCondSet (cm_Mark M st ConditionServiceAvailable reason msg cs)"
    and "summarises servicebindingCondSet (cm_Mark M st ConditionWorkloadProjected reason msg cs)"
    and "summarises servicebindingCondSet (cm_InitializeConditions M cs)"
  using assms by (auto simp: livingSet_ok_def servicebindingCondSet_def)

lemma initializeConditions_summarises:
  assumes "livingSet_ok servicebindingCondSet M" and "summarises servicebindingCondSet (st_Conditions s)"
  shows "summarises servicebindingCondSet (st_Conditions (initializeConditions M s))"
  using servicebinding_marks [OF assms(1)] assms(2)
  by (simp add: initializeConditions_def setConditions_def getConditions_def Let_def)

text \<open>
  A manager that meets the documentation, for the concrete instances: it keeps one condition of
  each type and makes no happy condition.
\<close>

fun upsertCondition :: "condition \<Rightarrow> condition list \<Rightarrow> condition list" where
  "upsertCondition c [] = [c]"
| "upsertCondition c (d # ds) = (if c_Type d = c_Type c then c # ds else d # upsertCondition c ds)"

definition simpleManager :: conditionManager where
  "simpleManager =
    \<lparr>cm_InitializeConditions = (\<lambda>cs. cs),
     cm_Mark = (\<lambda>st t reason msg cs.
       upsertCondition \<lparr>c_Type = t, c_Status = st, c_Reason = reason, c_Message = msg\<rparr> cs),
     cm_IsUnknown = (\<lambda>c. case c of None \<Rightarrow> True | Some c \<Rightarrow> c_Status c = ConditionUnknown)\<rparr>"

lemma findCondition_upsert:
  "findCondition (upsertCondition c cs) t = (if t = c_Type c then Some c else findCondition cs t)"
  by (induction c cs rule: upsertCondition.induct) auto

lemma simpleManager_ok: "conditionManager_ok simpleManager"
  by (auto simp: conditionManager_ok_def simpleManager_def findCondition_upsert)

text \<open>A manager of a living set: after each mark it recomputes the happy condition.\<close>

definition happyCondition :: "conditionSet \<Rightarrow> condition list \<Rightarrow> condition" where
  "happyCondition S cs =
    (case List.find (\<lambda>t. \<not> isTrue cs t) (cset_Dependents S) of
       None \<Rightarrow> \<lparr>c_Type = ConditionReady, c_Status = ConditionTrue, c_Reason = cset_HappyReason S, c_Message = ''''\<rparr>
     | Some t \<Rightarrow>
         (case findCondition cs t of
            None \<Rightarrow> \<lparr>c_Type = ConditionReady, c_Status = ConditionUnknown, c_Reason = '''', c_Message = ''''\<rparr>
          | Some c \<Rightarrow> c\<lparr>c_Type := ConditionReady\<rparr>))"

definition livingManager :: "conditionSet \<Rightarrow> conditionManager" where
  "livingManager S =
    \<lparr>cm_InitializeConditions = (\<lambda>cs. cs),
     cm_Mark = (\<lambda>st t reason msg cs.
       (let cs = upsertCondition \<lparr>c_Type = t, c_Status = st, c_Reason = reason, c_Message = msg\<rparr> cs
        in upsertCondition (happyCondition S cs) cs)),
     cm_IsUnknown = (\<lambda>c. case c of None \<Rightarrow> True | Some c \<Rightarrow> c_Status c = ConditionUnknown)\<rparr>"

lemma happyCondition_type [simp]: "c_Type (happyCondition S cs) = ConditionReady"
  by (auto simp: happyCondition_def split: option.split)

lemma happyCondition_summarises:
  assumes "ConditionReady \<notin> set (cset_Dependents S)"
  shows "summarises S (upsertCondition (happyCondition S cs) cs)"
proof -
  have "isTrue (upsertCondition (happyCondition S cs) cs) t = isTrue cs t" if "t \<in> set (cset_Dependents S)" for t
    using assms that by (auto simp: isTrue_def findCondition_upsert)
  then have "list_all (isTrue (upsertCondition (happyCondition S cs) cs)) (cset_Dependents S) =
      list_all (isTrue cs) (cset_Dependents S)"
    by (simp add: list_all_iff)
  moreover have "(c_Status (happyCondition S cs) = ConditionTrue) = list_all (isTrue cs) (cset_Dependents S) \<and>
    (c_Status (happyCondition S cs) = ConditionTrue \<longrightarrow> c_Reason (happyCondition S cs) = cset_HappyReason S)"
  proof (cases "List.find (\<lambda>t. \<not> isTrue cs t) (cset_Dependents S)")
    case None
    then have "list_all (isTrue cs) (cset_Dependents S)" by (auto simp: list_all_iff find_None_iff)
    then show ?thesis by (simp add: happyCondition_def None)
  next
    case (Some t)
    then have t: "t \<in> set (cset_Dependents S)" "\<not> isTrue cs t" by (auto simp: find_Some_iff)
    then have "\<not> list_all (isTrue cs) (cset_Dependents S)" by (auto simp: list_all_iff)
    with t(2) Some show ?thesis
      by (simp add: happyCondition_def isTrue_def split: option.splits)
  qed
  ultimately show ?thesis
    by (auto simp: summarises_def isTrue_def [of _ ConditionReady] findCondition_upsert)
qed

lemma livingManager_ok: "livingSet_ok servicebindingCondSet (livingManager servicebindingCondSet)"
proof -
  have "ConditionReady \<notin> set (cset_Dependents servicebindingCondSet)"
    by (simp add: servicebindingCondSet_def ConditionReady_def ConditionServiceAvailable_def
        ConditionWorkloadProjected_def)
  then show ?thesis by (simp add: livingSet_ok_def livingManager_def Let_def happyCondition_summarises)
qed

end
