(* ===== verification/Binding_Controller.thy ===== *)
theory Binding_Controller
  imports Binding_Lifecycle Resolver_Cluster
begin

text \<open>
  \<open>controllers/servicebinding_controller.go\<close>: the sub-reconcilers of a ServiceBinding. Each
  is a function on the state of one reconciliation that returns the new state and an outcome:
  whether a requeue is asked for, an error, or a panic. The calls into reconciler-runtime and the
  cluster are fields of \<open>env\<close>.
\<close>

section \<open>The state of a reconciliation\<close>

datatype 'w stashed = WorkloadList "'w list" | OtherValue

record ('w, 'x) rstate =
  rs_resource :: serviceBinding
  rs_stash :: "string \<rightharpoonup> 'w stashed"
  rs_tracked :: "objectReference list"
  rs_cluster :: 'x

text \<open>
  \<open>env_manage\<close> is \<open>ResourceManager.Manage\<close>, given the merge and the equality the controller
  configures it with; it changes the cluster.
\<close>

record ('w, 'x) env =
  env_config :: "'w config"
  env_lib :: "'w lib"
  env_conditions :: conditionManager
  env_manage :: "('w \<Rightarrow> 'w \<Rightarrow> 'w) \<Rightarrow> ('w \<Rightarrow> 'w \<Rightarrow> bool) \<Rightarrow> serviceBinding \<Rightarrow> 'w \<Rightarrow> 'w \<Rightarrow> 'x \<Rightarrow>
    error option \<times> 'x"
  env_deepEqual :: "'w \<Rightarrow> 'w \<Rightarrow> bool"
  env_setContent :: "'w \<Rightarrow> 'w \<Rightarrow> 'w"
  env_uid :: "'w \<Rightarrow> string"
  env_resourceVersion :: "'w \<Rightarrow> string"

type_synonym ('w, 'x) syncer = "('w, 'x) rstate \<Rightarrow> bool outcome \<times> ('w, 'x) rstate"

definition onStatus ::
  "(bindingStatus \<Rightarrow> bindingStatus) \<Rightarrow> ('w, 'x) rstate \<Rightarrow> ('w, 'x) rstate" where
  "onStatus f s =
     s\<lparr>rs_resource := (rs_resource s)\<lparr>sb_Status := f (sb_Status (rs_resource s))\<rparr>\<rparr>"

definition WorkloadsStashKey :: string where
  "WorkloadsStashKey = ''servicebinding.io:workloads''"

definition ProjectedWorkloadsStashKey :: string where
  "ProjectedWorkloadsStashKey = ''servicebinding.io:projected-workloads''"

definition stashWorkloads :: "'w list \<Rightarrow> ('w, 'x) rstate \<Rightarrow> ('w, 'x) rstate" where
  "stashWorkloads ws s = s\<lparr>rs_stash := (rs_stash s)(WorkloadsStashKey \<mapsto> WorkloadList ws)\<rparr>"

definition retrieveWorkloads :: "('w, 'x) rstate \<Rightarrow> 'w list" where
  "retrieveWorkloads s =
     (case rs_stash s WorkloadsStashKey of Some (WorkloadList ws) \<Rightarrow> ws | _ \<Rightarrow> [])"

definition stashProjectedWorkloads :: "'w list \<Rightarrow> ('w, 'x) rstate \<Rightarrow> ('w, 'x) rstate" where
  "stashProjectedWorkloads ws s =
     s\<lparr>rs_stash := (rs_stash s)(ProjectedWorkloadsStashKey \<mapsto> WorkloadList ws)\<rparr>"

definition retrieveProjectedWorkloads :: "('w, 'x) rstate \<Rightarrow> 'w list" where
  "retrieveProjectedWorkloads s =
     (case rs_stash s ProjectedWorkloadsStashKey of Some (WorkloadList ws) \<Rightarrow> ws | _ \<Rightarrow> [])"

section \<open>The sub-reconcilers\<close>

definition serviceObjectRef :: "serviceBinding \<Rightarrow> objectReference" where
  "serviceObjectRef resource =
    \<lparr>or_APIVersion = sr_APIVersion (bs_Service (sb_Spec resource)),
     or_Kind = sr_Kind (bs_Service (sb_Spec resource)),
     or_Namespace = om_Namespace (sb_meta resource),
     or_Name = sr_Name (bs_Service (sb_Spec resource))\<rparr>"

definition workloadObjectRef :: "serviceBinding \<Rightarrow> objectReference" where
  "workloadObjectRef resource =
    \<lparr>or_APIVersion = wr_APIVersion (bs_Workload (sb_Spec resource)),
     or_Kind = wr_Kind (bs_Workload (sb_Spec resource)),
     or_Namespace = om_Namespace (sb_meta resource),
     or_Name = wr_Name (bs_Workload (sb_Spec resource))\<rparr>"

definition resolveBindingSecret :: "('w, 'x) env \<Rightarrow> ('w, 'x) syncer" where
  "resolveBindingSecret E s =
    (let resource = rs_resource s; M = env_conditions E;
         (r, tracked) = lookupBindingSecret (env_config E) (serviceObjectRef resource);
         s = s\<lparr>rs_tracked := rs_tracked s @ tracked\<rparr>
     in (case r of
           Fail NotFound \<Rightarrow>
             (Ok False, onStatus (mark M ConditionUnknown ConditionServiceAvailable
                ''ServiceNotFound'' ''the service was not found'') s)
         | Fail Forbidden \<Rightarrow>
             (Ok False, onStatus (mark M ConditionFalse ConditionServiceAvailable
                ''ServiceForbidden'' ''the controller does not have permission to get the service'') s)
         | Fail e \<Rightarrow> (Fail e, s)
         | Panic \<Rightarrow> (Panic, s)
         | Ok name \<Rightarrow>
             (Ok False,
              (if name \<noteq> '''' then
                 onStatus (\<lambda>st. (mark M ConditionTrue ConditionServiceAvailable
                     ''ResolvedBindingSecret'' '''' st)\<lparr>st_Binding := Some \<lparr>sec_Name = name\<rparr>\<rparr>) s
               else
                 onStatus (\<lambda>st. (mark M ConditionUnknown ConditionServiceAvailable
                     ''ServiceMissingBinding''
                     ''the service was found, but did not contain a binding secret'' st)
                   \<lparr>st_Binding := None\<rparr>) s))))"

definition resolveWorkloads :: "('w, 'x) env \<Rightarrow> ('w, 'x) syncer" where
  "resolveWorkloads E s =
    (let resource = rs_resource s; M = env_conditions E;
         workload = bs_Workload (sb_Spec resource);
         (r, tracked) = lookupWorkloads (env_config E) (workloadObjectRef resource) (wr_Selector workload);
         s = s\<lparr>rs_tracked := rs_tracked s @ tracked\<rparr>
     in (case r of
           Fail NotFound \<Rightarrow>
             (Ok True, onStatus (mark M ConditionUnknown ConditionWorkloadProjected
                ''WorkloadNotFound'' ''the workload was not found'') s)
         | Fail Forbidden \<Rightarrow>
             (Ok True, onStatus (mark M ConditionFalse ConditionWorkloadProjected ''WorkloadForbidden''
                (if wr_Name workload = ''''
                 then ''the controller does not have permission to list the workloads''
                 else ''the controller does not have permission to get the workload'')) s)
         | Fail e \<Rightarrow> (Fail e, s)
         | Panic \<Rightarrow> (Panic, s)
         | Ok workloads \<Rightarrow> (Ok False, stashWorkloads workloads s)))"

definition projectOne :: "('w, 'x) env \<Rightarrow> serviceBinding \<Rightarrow> 'w \<Rightarrow> 'w outcome" where
  "projectOne E resource workload =
    (if \<not> timeIsZero (om_DeletionTimestamp (sb_meta resource))
     then Unproject (lookupMapping (env_config E)) (env_lib E) resource workload
     else Project (lookupMapping (env_config E)) (env_lib E) resource workload)"

definition projectBinding :: "('w, 'x) env \<Rightarrow> ('w, 'x) syncer" where
  "projectBinding E s =
    (case map_ok_list (projectOne E (rs_resource s)) (retrieveWorkloads s) of
       Ok projected \<Rightarrow> (Ok False, stashProjectedWorkloads projected s)
     | Fail e \<Rightarrow> (Fail e, s)
     | Panic \<Rightarrow> (Panic, s))"

text \<open>The loop of \<open>PatchWorkloads\<close>: it ends, or the function returns from within it.\<close>

datatype loopExit = LoopDone | LoopReturn "bool outcome"

fun patchLoop :: "('w, 'x) env \<Rightarrow> ('w \<times> 'w) list \<Rightarrow> ('w, 'x) rstate \<Rightarrow> loopExit \<times> ('w, 'x) rstate" where
  "patchLoop E [] s = (LoopDone, s)"
| "patchLoop E ((workload, projected) # ps) s =
    (if env_uid E workload \<noteq> env_uid E projected \<or>
        env_resourceVersion E workload \<noteq> env_resourceVersion E projected
     then (LoopReturn Panic, s)
     else
       (let (err, x) = env_manage E (env_setContent E) (env_deepEqual E) (rs_resource s)
              workload projected (rs_cluster s);
            s = s\<lparr>rs_cluster := x\<rparr>
        in (case err of
              None \<Rightarrow> patchLoop E ps s
            | Some NotFound \<Rightarrow> patchLoop E ps s
            | Some Forbidden \<Rightarrow>
                (LoopReturn (Ok False), onStatus (mark (env_conditions E) ConditionFalse
                   ConditionWorkloadProjected ''WorkloadForbidden''
                   ''the controller does not have permission to update the workloads'') s)
            | Some e \<Rightarrow> (LoopReturn (Fail e), s))))"

definition patchWorkloads :: "('w, 'x) env \<Rightarrow> ('w, 'x) syncer" where
  "patchWorkloads E s =
    (let workloads = retrieveWorkloads s; projected = retrieveProjectedWorkloads s
     in if length workloads \<noteq> length projected then (Panic, s)
        else
          (case patchLoop E (zip workloads projected) s of
             (LoopReturn r, s) \<Rightarrow> (r, s)
           | (LoopDone, s) \<Rightarrow>
               (let cond = getCondition (sb_Status (rs_resource s)) ConditionWorkloadProjected
                in if cm_IsUnknown (env_conditions E) cond then
                     (case cond of
                        None \<Rightarrow> (Panic, s)
                      | Some c \<Rightarrow>
                          (Ok False,
                           (if c_Reason c = ''Initializing''
                            then onStatus (mark (env_conditions E) ConditionTrue
                                   ConditionWorkloadProjected ''WorkloadProjected'' '''') s
                            else s)))
                   else (Ok False, s))))"

section \<open>The reconciler of a binding\<close>

record ('w, 'x) subReconciler =
  sub_Name :: string
  sub_SyncDuringFinalization :: bool
  sub_Sync :: "('w, 'x) syncer"

definition bindingReconcilers :: "('w, 'x) env \<Rightarrow> ('w, 'x) subReconciler list" where
  "bindingReconcilers E =
    [\<lparr>sub_Name = ''ResolveBindingSecret'', sub_SyncDuringFinalization = False,
      sub_Sync = resolveBindingSecret E\<rparr>,
     \<lparr>sub_Name = ''ResolveWorkloads'', sub_SyncDuringFinalization = True,
      sub_Sync = resolveWorkloads E\<rparr>,
     \<lparr>sub_Name = ''ProjectBinding'', sub_SyncDuringFinalization = True,
      sub_Sync = projectBinding E\<rparr>,
     \<lparr>sub_Name = ''PatchWorkloads'', sub_SyncDuringFinalization = True,
      sub_Sync = patchWorkloads E\<rparr>]"

text \<open>The group and version of the API types, from \<open>apis/v1beta1/groupversion_info.go\<close>.\<close>

record groupVersion =
  gv_Group :: string
  gv_Version :: string

definition GroupVersion :: groupVersion where
  "GroupVersion = \<lparr>gv_Group = ''servicebinding.io'', gv_Version = ''v1beta1''\<rparr>"

text \<open>\<open>servicebindingv1beta1.GroupVersion.Group + "/finalizer"\<close>\<close>

definition bindingFinalizer :: string where
  "bindingFinalizer = gv_Group GroupVersion @ ''/finalizer''"

text \<open>
  \<open>seq\<close> is reconciler-runtime's \<open>Sequence\<close> of \<open>SyncReconciler\<close>s, which the controller is
  built with.
\<close>

definition serviceBindingReconciler ::
  "(('w, 'x) subReconciler list \<Rightarrow> ('w, 'x) syncer) \<Rightarrow> ('w, 'x) env \<Rightarrow> ('w, 'x) syncer" where
  "serviceBindingReconciler seq E = seq (bindingReconcilers E)"

text \<open>
  The documented behaviour of the sequence: the sub-reconcilers run in order, one that does not
  sync during finalization is skipped while the resource is being deleted, an error stops the
  sequence, and a requeue asked for by any of them is asked for in the end.
\<close>

definition finalizing :: "('w, 'x) rstate \<Rightarrow> bool" where
  "finalizing s \<longleftrightarrow> \<not> timeIsZero (om_DeletionTimestamp (sb_meta (rs_resource s)))"

fun runInOrder :: "('w, 'x) subReconciler list \<Rightarrow> ('w, 'x) syncer" where
  "runInOrder [] s = (Ok False, s)"
| "runInOrder (r # rs) s =
    (if finalizing s \<and> \<not> sub_SyncDuringFinalization r then runInOrder rs s
     else
       (case sub_Sync r s of
          (Ok requeue, s) \<Rightarrow>
            (let (r', s) = runInOrder rs s in (map_ok (\<lambda>q. requeue \<or> q) r', s))
        | (res, s) \<Rightarrow> (res, s)))"

definition sequence_ok :: "(('w, 'x) subReconciler list \<Rightarrow> ('w, 'x) syncer) \<Rightarrow> bool" where
  "sequence_ok seq \<longleftrightarrow> (\<forall>rs s. seq rs s = runInOrder rs s)"

end
