(* ===== verification/Controller_Facts.thy ===== *)
theory Controller_Facts
  imports Binding_Controller
begin

text \<open>
  What each sub-reconciler of a ServiceBinding does on each outcome of the calls it makes, and
  the effect of the patch loop.
\<close>

lemma onStatus_simps [simp]:
  "rs_stash (onStatus f s) = rs_stash s"
  "rs_tracked (onStatus f s) = rs_tracked s"
  "rs_cluster (onStatus f s) = rs_cluster s"
  "sb_Status (rs_resource (onStatus f s)) = f (sb_Status (rs_resource s))"
  "sb_Spec (rs_resource (onStatus f s)) = sb_Spec (rs_resource s)"
  "sb_meta (rs_resource (onStatus f s)) = sb_meta (rs_resource s)"
  by (simp_all add: onStatus_def)

lemma finalizing_onStatus [simp]: "finalizing (onStatus f s) = finalizing s"
  by (simp add: finalizing_def)

lemma finalizing_tracked [simp]: "finalizing (s\<lparr>rs_tracked := t\<rparr>) = finalizing s"
  by (simp add: finalizing_def)

lemma finalizing_stash [simp]:
  "finalizing (stashWorkloads ws s) = finalizing s"
  "finalizing (stashProjectedWorkloads ws s) = finalizing s"
  by (simp_all add: finalizing_def stashWorkloads_def stashProjectedWorkloads_def)

lemma workloadObjectRef_onStatus [simp]:
  "workloadObjectRef (rs_resource (onStatus f s)) = workloadObjectRef (rs_resource s)"
  by (simp add: workloadObjectRef_def)

lemma stash_keys_distinct [simp]: "WorkloadsStashKey \<noteq> ProjectedWorkloadsStashKey"
  "ProjectedWorkloadsStashKey \<noteq> WorkloadsStashKey"
  by (simp_all add: WorkloadsStashKey_def ProjectedWorkloadsStashKey_def)

lemma stash_simps [simp]:
  "retrieveWorkloads (stashWorkloads ws s) = ws"
  "retrieveWorkloads (stashProjectedWorkloads ws s) = retrieveWorkloads s"
  "retrieveProjectedWorkloads (stashProjectedWorkloads ws s) = ws"
  "rs_resource (stashWorkloads ws s) = rs_resource s"
  "rs_resource (stashProjectedWorkloads ws s) = rs_resource s"
  "rs_cluster (stashWorkloads ws s) = rs_cluster s"
  "rs_cluster (stashProjectedWorkloads ws s) = rs_cluster s"
  "rs_tracked (stashWorkloads ws s) = rs_tracked s"
  "rs_tracked (stashProjectedWorkloads ws s) = rs_tracked s"
  by (simp_all add: stashWorkloads_def stashProjectedWorkloads_def retrieveWorkloads_def
      retrieveProjectedWorkloads_def)

lemma retrieveWorkloads_onStatus [simp]: "retrieveWorkloads (onStatus f s) = retrieveWorkloads s"
  by (simp add: retrieveWorkloads_def)

lemma retrieveWorkloads_tracked [simp]:
  "retrieveWorkloads (s\<lparr>rs_tracked := t\<rparr>) = retrieveWorkloads s"
  by (simp add: retrieveWorkloads_def)

section \<open>The patch loop\<close>

text \<open>All workloads kept their identity.\<close>

definition sameIdentity :: "('w, 'x) env \<Rightarrow> 'w \<Rightarrow> 'w \<Rightarrow> bool" where
  "sameIdentity E w w' \<longleftrightarrow> env_uid E w = env_uid E w' \<and> env_resourceVersion E w = env_resourceVersion E w'"

text \<open>The cluster after the workloads have been managed in turn, ignoring their results.\<close>

definition manageOne :: "('w, 'x) env \<Rightarrow> serviceBinding \<Rightarrow> 'w \<times> 'w \<Rightarrow> 'x \<Rightarrow> error option \<times> 'x" where
  "manageOne E b = (\<lambda>(w, p) x. env_manage E (env_setContent E) (env_deepEqual E) b w p x)"

fun manageAll :: "('w, 'x) env \<Rightarrow> serviceBinding \<Rightarrow> ('w \<times> 'w) list \<Rightarrow> 'x \<Rightarrow> 'x" where
  "manageAll E b [] x = x"
| "manageAll E b (p # ps) x = manageAll E b ps (snd (manageOne E b p x))"

text \<open>No call is refused: each succeeds, or finds its workload gone.\<close>

fun managesFine :: "('w, 'x) env \<Rightarrow> serviceBinding \<Rightarrow> ('w \<times> 'w) list \<Rightarrow> 'x \<Rightarrow> bool" where
  "managesFine E b [] x = True"
| "managesFine E b (p # ps) x =
    (fst (manageOne E b p x) \<in> {None, Some NotFound} \<and>
     managesFine E b ps (snd (manageOne E b p x)))"

lemma patchLoop_fine:
  assumes "\<forall>(w, p) \<in> set ps. sameIdentity E w p"
    and "managesFine E (rs_resource s) ps (rs_cluster s)"
  shows "patchLoop E ps s =
    (LoopDone, s\<lparr>rs_cluster := manageAll E (rs_resource s) ps (rs_cluster s)\<rparr>)"
  using assms
proof (induction ps arbitrary: s)
  case Nil
  show ?case by simp
next
  case (Cons wp ps)
  obtain w p where wp: "wp = (w, p)" by force
  obtain err x where m: "manageOne E (rs_resource s) (w, p) (rs_cluster s) = (err, x)" by force
  from Cons.prems wp m have id: "sameIdentity E w p" and ps: "\<forall>(w, p) \<in> set ps. sameIdentity E w p"
    and err: "err = None \<or> err = Some NotFound" and fine: "managesFine E (rs_resource s) ps x"
    by auto
  from Cons.IH [of "s\<lparr>rs_cluster := x\<rparr>"] ps fine
  have "patchLoop E ps (s\<lparr>rs_cluster := x\<rparr>) =
      (LoopDone, s\<lparr>rs_cluster := manageAll E (rs_resource s) ps x\<rparr>)"
    by simp
  with id err m show ?case by (auto simp: wp sameIdentity_def manageOne_def)
qed

text \<open>The loop only changes the cluster and, when it is refused, the status.\<close>

lemma patchLoop_frame:
  assumes "patchLoop E ps s = (r, s')"
  shows "rs_stash s' = rs_stash s \<and> rs_tracked s' = rs_tracked s \<and>
    sb_Spec (rs_resource s') = sb_Spec (rs_resource s) \<and> sb_meta (rs_resource s') = sb_meta (rs_resource s) \<and>
    st_Binding (sb_Status (rs_resource s')) = st_Binding (sb_Status (rs_resource s))"
  using assms
  by (induction E ps s rule: patchLoop.induct)
    (auto simp: Let_def split: if_splits prod.splits option.splits error.splits)

lemma patchLoop_done:
  assumes "patchLoop E ps s = (LoopDone, s')"
  shows "rs_resource s' = rs_resource s"
  using assms
  by (induction E ps s rule: patchLoop.induct)
    (auto simp: Let_def split: if_splits prod.splits option.splits error.splits)

text \<open>Only a workload that lost its identity makes the loop panic.\<close>

lemma patchLoop_no_panic:
  assumes "\<forall>(w, p) \<in> set ps. sameIdentity E w p" and "patchLoop E ps s = (LoopReturn r, s')"
  shows "r \<noteq> Panic"
  using assms
  by (induction E ps s rule: patchLoop.induct)
    (auto simp: Let_def sameIdentity_def split: if_splits prod.splits option.splits error.splits)

section \<open>The steps on workloads that are found\<close>

text \<open>
  The three steps after the secret, from a state whose workloads are found, projected and
  patched without a refusal.
\<close>

definition foundWorkloads :: "('w, 'x) env \<Rightarrow> ('w, 'x) rstate \<Rightarrow> 'w list \<Rightarrow> 'w list \<Rightarrow> bool" where
  "foundWorkloads E s ws ps \<longleftrightarrow>
     fst (lookupWorkloads (env_config E) (workloadObjectRef (rs_resource s))
       (wr_Selector (bs_Workload (sb_Spec (rs_resource s))))) = Ok ws \<and>
     map_ok_list (projectOne E (rs_resource s)) ws = Ok ps \<and>
     (\<forall>(w, p) \<in> set (zip ws ps). sameIdentity E w p) \<and>
     managesFine E (rs_resource s) (zip ws ps) (rs_cluster s)"

lemma workload_steps:
  assumes M: "conditionManager_ok (env_conditions E)" and found: "foundWorkloads E s ws ps"
    and init: "conditionIs (sb_Status (rs_resource s)) ConditionWorkloadProjected ConditionUnknown ''Initializing''"
  shows "\<exists>s'. runInOrder (tl (bindingReconcilers E)) s = (Ok False, s') \<and>
    rs_cluster s' = manageAll E (rs_resource s) (zip ws ps) (rs_cluster s) \<and>
    sb_Status (rs_resource s') = mark (env_conditions E) ConditionTrue ConditionWorkloadProjected
      ''WorkloadProjected'' '''' (sb_Status (rs_resource s)) \<and>
    sb_Spec (rs_resource s') = sb_Spec (rs_resource s) \<and> sb_meta (rs_resource s') = sb_meta (rs_resource s)"
proof -
  let ?s2 = "stashWorkloads ws (s\<lparr>rs_tracked := rs_tracked s @ snd (lookupWorkloads (env_config E)
    (workloadObjectRef (rs_resource s)) (wr_Selector (bs_Workload (sb_Spec (rs_resource s)))))\<rparr>)"
  let ?s3 = "stashProjectedWorkloads ps ?s2"
  let ?s4 = "?s3\<lparr>rs_cluster := manageAll E (rs_resource s) (zip ws ps) (rs_cluster s)\<rparr>"
  have 2: "resolveWorkloads E s = (Ok False, ?s2)"
    using found by (auto simp: foundWorkloads_def resolveWorkloads_def Let_def case_prod_unfold)
  have 3: "projectBinding E ?s2 = (Ok False, ?s3)"
    using found by (simp add: foundWorkloads_def projectBinding_def)
  have len: "length ps = length ws"
    using found by (auto simp: foundWorkloads_def dest: map_ok_list_length)
  have "patchLoop E (zip ws ps) ?s3 = (LoopDone, ?s4)"
    using found patchLoop_fine [of "zip ws ps" E ?s3] by (simp add: foundWorkloads_def)
  moreover obtain c where c: "getCondition (sb_Status (rs_resource s)) ConditionWorkloadProjected = Some c"
    "c_Status c = ConditionUnknown" "c_Reason c = ''Initializing''"
    using init by (auto simp: conditionIs_def split: option.splits)
  moreover have "cm_IsUnknown (env_conditions E) (Some c)"
    using M c(2) by (simp add: conditionManager_ok_def)
  ultimately have 4: "patchWorkloads E ?s3 = (Ok False, onStatus (mark (env_conditions E) ConditionTrue
      ConditionWorkloadProjected ''WorkloadProjected'' '''') ?s4)"
    using len by (simp add: patchWorkloads_def Let_def)
  show ?thesis
    using 2 3 4 by (simp add: bindingReconcilers_def)
qed

end
