(* ===== verification/Controller_Properties.thy ===== *)
theory Controller_Properties
  imports Controller_Facts Projector_Facts
begin

text \<open>
  The properties of the ServiceBinding reconciler, each with a concrete cluster as its instance.
\<close>

section \<open>A concrete cluster\<close>

text \<open>
  The workload of the instances is its own name; the library gives it an empty object and takes
  any object back, so projection succeeds and keeps it.
\<close>

definition exampleLib :: "string lib" where
  "exampleLib =
    \<lparr>lib_jsonpath =
       \<lparr>jpParse = (\<lambda>e. Inr [NodeList [NodeField e]]), jpFind = (\<lambda>e u. Inl (Error ''not found''))\<rparr>,
     lib_codec =
       \<lparr>encEnv = (\<lambda>_. JArr []), decEnv = (\<lambda>_. Inr []), encMounts = (\<lambda>_. JArr []),
        decMounts = (\<lambda>_. Inr []), encVolumes = (\<lambda>_. JArr []), decVolumes = (\<lambda>_. Inr [])\<rparr>,
     toUnstructured = (\<lambda>w. Inr (JObj [])),
     fromUnstructured = (\<lambda>u w. Inr w)\<rparr>"

definition exampleConfig :: "error + string \<Rightarrow> error + string \<Rightarrow> string config" where
  "exampleConfig service workload =
    \<lparr>cfg_gvkForObject = (\<lambda>w. Inr \<lparr>gvk_Group = ''apps'', gvk_Version = ''v1'', gvk_Kind = ''Deployment''\<rparr>),
     cfg_restMapping = (\<lambda>gvk. Inr (''apps'', ''deployments'')),
     cfg_getMapping = (\<lambda>n. Inl NotFound),
     cfg_getObject = (\<lambda>ref. if or_Kind ref = ''Deployment'' then workload else service),
     cfg_listObjects = (\<lambda>ref sel. Inr []),
     cfg_nestedString = (\<lambda>w p. Inr (Some w)),
     cfg_asSelector = (\<lambda>s. Inr (\<lambda>ls. True))\<rparr>"

definition exampleEnv :: "string config \<Rightarrow> (string, string list) env" where
  "exampleEnv C =
    \<lparr>env_config = C, env_lib = exampleLib, env_conditions = simpleManager,
     env_manage = (\<lambda>merge eq b w p x. (None, x @ [p])),
     env_deepEqual = (=), env_setContent = (\<lambda>current desired. desired),
     env_uid = (\<lambda>w. w), env_resourceVersion = (\<lambda>w. ''1'')\<rparr>"

definition exampleState :: "int option \<Rightarrow> (string, string list) rstate" where
  "exampleState deletion =
    \<lparr>rs_resource =
      \<lparr>sb_meta = \<lparr>om_Name = ''db'', om_Namespace = ''ns'', om_UID = ''u1'', om_ResourceVersion = ''1'',
         om_Labels = [], om_DeletionTimestamp = deletion\<rparr>,
       sb_Spec = \<lparr>bs_Name = ''db'', bs_Type = '''', bs_Provider = '''',
         bs_Workload = \<lparr>wr_APIVersion = ''apps/v1'', wr_Kind = ''Deployment'', wr_Name = ''app'',
           wr_Selector = None, wr_Containers = []\<rparr>,
         bs_Service = \<lparr>sr_APIVersion = ''v1'', sr_Kind = ''Secret'', sr_Name = ''s1''\<rparr>,
         bs_Env = []\<rparr>,
       sb_Status = initializeConditions simpleManager
         \<lparr>st_ObservedGeneration = 0, st_Conditions = [], st_Binding = None\<rparr>\<rparr>,
     rs_stash = Map.empty, rs_tracked = [], rs_cluster = []\<rparr>"

lemma exampleLib_keys: "keys (lib_jsonpath exampleLib) e = Ok [braced e]"
  by (simp add: keys_def exampleLib_def)

lemma exampleLib_containers: "findContainers exampleLib c u = Ok []"
  by (simp add: findContainers_def exampleLib_def)

lemma exampleLib_new: "newMetaPodTemplate exampleLib w t =
  Ok \<lparr>mpt_workload = w, mpt_mapping = t, mpt_Annotations = [], mpt_Containers = [], mpt_Volumes = []\<rparr>"
proof -
  have loop: "fold_ok (readContainers exampleLib u) cs [] = Ok []" for u cs
    by (induction cs) (simp_all add: readContainers_def exampleLib_containers)
  have get: "getAt (lib_jsonpath exampleLib) dec e (JObj []) (RConc []) x = Ok x" for e and dec :: "json \<Rightarrow> error + 'z" and x
    by (simp add: getAt_eq_readKeys [where l = "[]" and j = "JObj []"] exampleLib_keys finishRead_def)
  have "toUnstructured exampleLib w = Inr (JObj [])" by (simp add: exampleLib_def)
  then show ?thesis by (simp add: newMetaPodTemplate_def loop get)
qed

lemma exampleLib_write: "is_ok (writeToWorkload exampleLib mpt) \<and>
  (\<forall>w. writeToWorkload exampleLib mpt = Ok w \<longrightarrow> w = mpt_workload mpt)"
proof -
  have loop: "fold_ok (writeContainers exampleLib mcs) cs x = Ok x" for mcs cs x
    by (induction cs) (auto simp: writeContainers_def exampleLib_containers)
  have set1: "setAt (lib_jsonpath exampleLib) e v (JObj kvs) (RConc []) = Ok (JObj (AList.update (braced e) v kvs))"
    for e v kvs
    by (simp add: setAt_eq_writeKeys [where l = "[]" and j = "JObj kvs"] exampleLib_keys)
  have "toUnstructured exampleLib w = Inr (JObj [])" "fromUnstructured exampleLib u w = Inr w" for u w
    by (simp_all add: exampleLib_def)
  then show ?thesis by (simp add: writeToWorkload_def set1 loop)
qed

lemma example_projectOne: "projectOne (exampleEnv (exampleConfig sv wl)) b w = Ok w"
proof -
  have look: "lookupMapping (exampleConfig sv wl) w = Ok (defaultTemplate (emptyTemplate ''*''))"
    by (simp add: lookupMapping_def exampleConfig_def selectVersion_def derefTemplate_def emptyMapping_def)
  have env: "env_config (exampleEnv C) = C" "env_lib (exampleEnv C) = exampleLib" for C
    by (simp_all add: exampleEnv_def)
  have w: "writeToWorkload exampleLib mpt = Ok (mpt_workload mpt)" for mpt
    using exampleLib_write [of mpt] by (auto simp: is_ok_iff)
  show ?thesis
    by (cases "secretName b = ''''")
      (simp_all add: projectOne_def env Project_def Unproject_def look exampleLib_new w project_no_secret
        project_simps)
qed

lemma example_identity: "sameIdentity (exampleEnv C) w w"
  by (simp add: sameIdentity_def)

lemma example_manageOne [simp]: "manageOne (exampleEnv C) b p x = (None, x @ [snd p])"
  by (cases p) (simp add: manageOne_def exampleEnv_def)

lemma example_managesFine: "managesFine (exampleEnv C) b ps x"
  by (induction ps arbitrary: x) simp_all

lemma example_cluster [simp]: "rs_cluster (exampleState d) = []"
  by (simp add: exampleState_def)

lemma example_found:
  assumes "workloadObjectRef (rs_resource s) = workloadObjectRef (rs_resource (exampleState None))"
  shows "foundWorkloads (exampleEnv (exampleConfig sv (Inr ''app''))) s [''app''] [''app'']"
proof -
  have "fst (lookupWorkloads (exampleConfig sv (Inr ''app'')) (workloadObjectRef (rs_resource s)) sel) = Ok [''app'']"
    for sel
    by (simp add: assms)
      (simp add: exampleConfig_def exampleState_def workloadObjectRef_def lookupWorkloads_def lookupWorkload_def)
  moreover have "env_config (exampleEnv C) = C" for C by (simp add: exampleEnv_def)
  ultimately show ?thesis
    by (simp add: foundWorkloads_def example_projectOne example_identity example_managesFine
        del: managesFine.simps)
qed

lemma example_initialised:
  "conditionIs (sb_Status (rs_resource (exampleState d))) ConditionWorkloadProjected ConditionUnknown ''Initializing''"
  by (simp add: exampleState_def initializeConditions_state [OF simpleManager_ok])

section \<open>The secret of the service\<close>

text \<open>
  C17. Resolving the secret: a secret name makes the service available and is recorded, an empty
  name clears the recorded one, a missing or forbidden service is reported in the condition and
  keeps the recorded secret, and any other error is returned with the status unchanged. The
  referenced service is tracked unless it is a secret itself.
\<close>

theorem resolveBindingSecret_spec:
  assumes M: "conditionManager_ok (env_conditions E)"
    and "resolveBindingSecret E s = (r, s')"
    and "lookupBindingSecret (env_config E) (serviceObjectRef (rs_resource s)) = (found, tracked)"
  defines "old \<equiv> sb_Status (rs_resource s)" and "new \<equiv> sb_Status (rs_resource s')"
  shows "rs_cluster s' = rs_cluster s \<and> rs_stash s' = rs_stash s \<and> rs_tracked s' = rs_tracked s @ tracked \<and>
    getCondition new ConditionWorkloadProjected = getCondition old ConditionWorkloadProjected \<and>
    (case found of
       Ok name \<Rightarrow> r = Ok False \<and>
         (if name = ''''
          then st_Binding new = None \<and>
            conditionIs new ConditionServiceAvailable ConditionUnknown ''ServiceMissingBinding''
          else st_Binding new = Some \<lparr>sec_Name = name\<rparr> \<and>
            conditionIs new ConditionServiceAvailable ConditionTrue ''ResolvedBindingSecret'')
     | Fail NotFound \<Rightarrow> r = Ok False \<and> st_Binding new = st_Binding old \<and>
         conditionIs new ConditionServiceAvailable ConditionUnknown ''ServiceNotFound''
     | Fail Forbidden \<Rightarrow> r = Ok False \<and> st_Binding new = st_Binding old \<and>
         conditionIs new ConditionServiceAvailable ConditionFalse ''ServiceForbidden''
     | Fail e \<Rightarrow> r = Fail e \<and> new = old
     | Panic \<Rightarrow> r = Panic)"
proof -
  have binding: "conditionIs (st\<lparr>st_Binding := b\<rparr>) t cs re = conditionIs st t cs re"
    "getCondition (st\<lparr>st_Binding := b\<rparr>) t = getCondition st t" for st b t cs re
    by (simp_all add: conditionIs_def getCondition_def)
  show ?thesis
    using assms(2,3) conditionIs_mark_same [OF M] getCondition_mark_other [OF M]
    by (cases found; cases "case found of Fail e \<Rightarrow> e | _ \<Rightarrow> NotFound")
      (auto simp: resolveBindingSecret_def Let_def old_def new_def binding split: if_splits)
qed

theorem resolveBindingSecret_spec_witness:
  "st_Binding (sb_Status (rs_resource (snd (resolveBindingSecret
     (exampleEnv (exampleConfig (Inl NotFound) (Inr ''app''))) (exampleState None))))) = Some \<lparr>sec_Name = ''s1''\<rparr>"
proof -
  let ?E = "exampleEnv (exampleConfig (Inl NotFound) (Inr ''app''))" and ?s = "exampleState None"
  have M: "conditionManager_ok (env_conditions ?E)" by (simp add: exampleEnv_def simpleManager_ok)
  obtain r s' where rs: "resolveBindingSecret ?E ?s = (r, s')" by force
  have l: "lookupBindingSecret (env_config ?E) (serviceObjectRef (rs_resource ?s)) = (Ok ''s1'', [])"
    by (simp add: exampleEnv_def exampleState_def serviceObjectRef_def lookupBindingSecret_def)
  from resolveBindingSecret_spec [OF M rs l] rs show ?thesis by simp
qed

section \<open>Workloads that cannot be found\<close>

lemma patch_nothing:
  assumes "conditionManager_ok (env_conditions E)"
    and "retrieveWorkloads s = []" and "retrieveProjectedWorkloads s = []"
    and "conditionIs (sb_Status (rs_resource s)) ConditionWorkloadProjected st reason"
    and "reason \<noteq> ''Initializing''"
  shows "patchWorkloads E s = (Ok False, s)"
  using assms
  by (auto simp: patchWorkloads_def Let_def conditionIs_def conditionManager_ok_def split: option.splits)

lemma project_nothing:
  "retrieveWorkloads s = [] \<Longrightarrow> projectBinding E s = (Ok False, stashProjectedWorkloads [] s)"
  by (simp add: projectBinding_def)



section \<open>Workloads that are found\<close>





section \<open>Panics\<close>



end
