(* ===== verification/Access_Checker.thy ===== *)
theory Access_Checker
  imports SB_Prelude
begin

text \<open>
  \<open>rbac/cani.go\<close>: the cached access check the webhook rules are filtered with. The clock and
  the API server are an external world of type \<open>'x\<close> whose answers are the fields of
  \<open>world\<close>; each call passes it on. The mutex makes a call of \<open>CanI\<close> one step.
\<close>

section \<open>Reviews and the checker\<close>

record resourceAttributes =
  ra_Namespace :: string
  ra_Verb :: string
  ra_Group :: string
  ra_Resource :: string

text \<open>A \<open>SelfSubjectAccessReview\<close>; times are nanoseconds, 0 for Go's zero time.\<close>

record accessReview =
  ar_CreationTimestamp :: int
  ar_Spec :: "resourceAttributes option"
  ar_Allowed :: bool

definition zeroReview :: accessReview where
  "zeroReview = \<lparr>ar_CreationTimestamp = 0, ar_Spec = None, ar_Allowed = False\<rparr>"

record 'x world =
  w_Now :: "'x \<Rightarrow> int \<times> 'x"
  w_Create :: "accessReview \<Rightarrow> 'x \<Rightarrow> (error option \<times> accessReview) \<times> 'x"

record accessChecker =
  ac_verb :: string
  ac_ttl :: int
  ac_cache :: "resourceAttributes \<rightharpoonup> accessReview"

definition newAccessChecker :: "int \<Rightarrow> accessChecker" where
  "newAccessChecker ttl = \<lparr>ac_verb = ''*'', ac_ttl = ttl, ac_cache = Map.empty\<rparr>"

definition withVerb :: "accessChecker \<Rightarrow> string \<Rightarrow> accessChecker" where
  "withVerb ac verb = \<lparr>ac_verb = verb, ac_ttl = ac_ttl ac, ac_cache = Map.empty\<rparr>"

definition attributesFor :: "accessChecker \<Rightarrow> string \<Rightarrow> string \<Rightarrow> resourceAttributes" where
  "attributesFor ac grp resource =
    \<lparr>ra_Namespace = '''', ra_Verb = ac_verb ac, ra_Group = grp, ra_Resource = resource\<rparr>"

section \<open>CanI\<close>

text \<open>The part after a cache miss: ask the server, record the answer, return it.\<close>

definition askServer ::
  "'x world \<Rightarrow> resourceAttributes \<Rightarrow> accessReview \<Rightarrow> accessChecker \<times> 'x \<Rightarrow> bool \<times> accessChecker \<times> 'x" where
  "askServer W key ssar = (\<lambda>(ac, x).
    let ssar = ssar\<lparr>ar_Spec := Some key\<rparr>;
        ((err, ssar), x) = w_Create W ssar x;
        (ssar, x) = (case err of
            None \<Rightarrow> (ssar, x)
          | Some e \<Rightarrow> (let (now, x) = w_Now W x in (ssar\<lparr>ar_CreationTimestamp := now\<rparr>, x)))
    in (ar_Allowed ssar, ac\<lparr>ac_cache := (ac_cache ac)(key \<mapsto> ssar)\<rparr>, x))"

definition canI ::
  "'x world \<Rightarrow> string \<Rightarrow> string \<Rightarrow> accessChecker \<times> 'x \<Rightarrow> bool \<times> accessChecker \<times> 'x" where
  "canI W grp resource = (\<lambda>(ac, x).
    let key = attributesFor ac grp resource
    in (case ac_cache ac key of
          Some ssar \<Rightarrow>
            (let (now, x) = w_Now W x
             in if now < ar_CreationTimestamp ssar + ac_ttl ac
                then (ar_Allowed ssar, ac, x)
                else askServer W key zeroReview (ac\<lparr>ac_cache := (ac_cache ac)(key := None)\<rparr>, x))
        | None \<Rightarrow> askServer W key zeroReview (ac, x)))"

section \<open>The checker interface\<close>

text \<open>
  What the webhook rules rely on: the answer given is the answer on record, and a question
  about one resource leaves the record of the others alone.
\<close>

locale access_checker =
  fixes ask :: "string \<Rightarrow> string \<Rightarrow> 's \<Rightarrow> bool \<times> 's"
    and answer :: "'s \<Rightarrow> string \<Rightarrow> string \<Rightarrow> bool option"
  assumes ask_recorded: "ask g r s = (a, s') \<Longrightarrow> answer s' g r = Some a"
    and ask_frame: "ask g r s = (a, s') \<Longrightarrow> (g', r') \<noteq> (g, r) \<Longrightarrow> answer s' g' r' = answer s g' r'"

text \<open>The answer on record for a group and resource.\<close>

definition recordedAnswer :: "accessChecker \<times> 'x \<Rightarrow> string \<Rightarrow> string \<Rightarrow> bool option" where
  "recordedAnswer = (\<lambda>(ac, x) g r. map_option ar_Allowed (ac_cache ac (attributesFor ac g r)))"

lemma attributesFor_inj [simp]:
  "attributesFor ac g r = attributesFor ac g' r' \<longleftrightarrow> g = g' \<and> r = r'"
  by (auto simp: attributesFor_def)

lemma attributesFor_cache [simp]: "attributesFor (ac\<lparr>ac_cache := c\<rparr>) g r = attributesFor ac g r"
  by (simp add: attributesFor_def)

lemma askServer_state:
  "askServer W key ssar (ac, x) = (a, ac', x') \<Longrightarrow>
   \<exists>s. ac' = ac\<lparr>ac_cache := (ac_cache ac)(key \<mapsto> s)\<rparr> \<and> ar_Allowed s = a"
  by (auto simp: askServer_def Let_def split: prod.splits option.splits)

text \<open>The two ways a call can end: from the cache, or from the server with the entry renewed.\<close>

lemma canI_cases:
  assumes "canI W g r (ac, x) = (a, ac', x')"
  obtains
    (hit) ssar where "ac_cache ac (attributesFor ac g r) = Some ssar" "ac' = ac" "a = ar_Allowed ssar"
      "fst (w_Now W x) < ar_CreationTimestamp ssar + ac_ttl ac"
  | (miss) s where "ac' = ac\<lparr>ac_cache := (ac_cache ac)(attributesFor ac g r \<mapsto> s)\<rparr>" "a = ar_Allowed s"
  using assms
  by (auto simp: canI_def Let_def split: option.splits prod.splits if_splits dest!: askServer_state)

interpretation rbac: access_checker "canI W" recordedAnswer for W :: "'x world"
proof
  fix g r and s :: "accessChecker \<times> 'x" and a s'
  assume *: "canI W g r s = (a, s')"
  obtain ac x ac' x' where s: "s = (ac, x)" "s' = (ac', x')" by (cases s; cases s')
  from * [unfolded s] show "recordedAnswer s' g r = Some a"
    by (cases rule: canI_cases) (auto simp: recordedAnswer_def s)
  fix g' r' :: string
  assume "(g', r') \<noteq> (g, r)"
  with * [unfolded s] show "recordedAnswer s' g' r' = recordedAnswer s g' r'"
    by (elim canI_cases) (auto simp: recordedAnswer_def s)
qed

section \<open>Cached answers over time\<close>

text \<open>
  A run of the checker: time passes, and calls are answered. The log holds the answers the
  server gave: when, about what, and whether access was allowed. A server that answers sets the
  creation time of the review, not later than the clock; a failed call logs nothing.
\<close>

datatype response = Answer int bool | Failure

record run =
  run_checker :: accessChecker
  run_now :: int
  run_log :: "(int \<times> resourceAttributes \<times> bool) set"

text \<open>The world in which the clock stands at \<open>t\<close> and the server gives one response.\<close>

definition worldAt :: "int \<Rightarrow> response \<Rightarrow> unit world" where
  "worldAt t resp =
    \<lparr>w_Now = (\<lambda>x. (t, x)),
     w_Create = (\<lambda>s x. (case resp of
        Answer ts allowed \<Rightarrow> ((None, s\<lparr>ar_CreationTimestamp := ts, ar_Allowed := allowed\<rparr>), x)
      | Failure \<Rightarrow> ((Some (Error ''create failed''), s), x)))\<rparr>"

inductive run_step :: "run \<Rightarrow> run \<Rightarrow> bool" where
  tick: "0 \<le> d \<Longrightarrow> run_step s (s\<lparr>run_now := run_now s + d\<rparr>)"
| answered: "canI (worldAt (run_now s) (Answer ts allowed)) g r (run_checker s, ()) = (a, ac', ()) \<Longrightarrow>
    ts \<le> run_now s \<Longrightarrow>
    run_step s (s\<lparr>run_checker := ac',
      run_log := insert (ts, attributesFor (run_checker s) g r, allowed) (run_log s)\<rparr>)"
| failed: "canI (worldAt (run_now s) Failure) g r (run_checker s, ()) = (a, ac', ()) \<Longrightarrow>
    run_step s (s\<lparr>run_checker := ac'\<rparr>)"

inductive run_reachable :: "string \<Rightarrow> int \<Rightarrow> run \<Rightarrow> bool" for verb ttl where
  start: "run_reachable verb ttl
    \<lparr>run_checker = withVerb (newAccessChecker ttl) verb, run_now = t, run_log = {}\<rparr>"
| step: "run_reachable verb ttl s \<Longrightarrow> run_step s s' \<Longrightarrow> run_reachable verb ttl s'"

inductive_cases run_stepE: "run_step s s'"

definition cacheSound :: "run \<Rightarrow> bool" where
  "cacheSound s \<longleftrightarrow> (\<forall>key review. ac_cache (run_checker s) key = Some review \<longrightarrow>
     ar_CreationTimestamp review \<le> run_now s \<and>
     (ar_Allowed review \<longrightarrow> (ar_CreationTimestamp review, key, True) \<in> run_log s))"

text \<open>What a call does to the cache in the world of one response.\<close>

lemma canI_worldAt:
  assumes "canI (worldAt t resp) g r (ac, ()) = (a, ac', ())"
  shows "ac' = ac \<or> (\<exists>s. ac' = ac\<lparr>ac_cache := (ac_cache ac)(attributesFor ac g r \<mapsto> s)\<rparr> \<and>
    (case resp of
       Answer ts allowed \<Rightarrow> ar_CreationTimestamp s = ts \<and> ar_Allowed s = allowed
     | Failure \<Rightarrow> ar_CreationTimestamp s = t \<and> \<not> ar_Allowed s))"
  using assms
  by (auto simp: canI_def askServer_def worldAt_def zeroReview_def Let_def
      split: option.splits prod.splits if_splits response.splits)

lemma run_step_cacheSound: "run_step s s' \<Longrightarrow> cacheSound s \<Longrightarrow> cacheSound s'"
proof (induction rule: run_step.induct)
  case (tick d s)
  then show ?case by (fastforce simp: cacheSound_def)
next
  case (answered s ts allowed g r a ac')
  from canI_worldAt [OF answered(1)] answered(2,3) show ?case
    by (auto simp: cacheSound_def split: if_splits)
next
  case (failed s g r a ac')
  from canI_worldAt [OF failed(1)] failed(2) show ?case
    by (auto simp: cacheSound_def split: if_splits)
qed

lemma reachable_cacheSound: "run_reachable verb ttl s \<Longrightarrow> cacheSound s"
proof (induction rule: run_reachable.induct)
  case (start t)
  show ?case by (simp add: cacheSound_def withVerb_def)
next
  case (step s s')
  then show ?case by (blast intro: run_step_cacheSound)
qed

lemma run_step_config:
  "run_step s s' \<Longrightarrow> ac_ttl (run_checker s') = ac_ttl (run_checker s) \<and>
   ac_verb (run_checker s') = ac_verb (run_checker s)"
  by (induction rule: run_step.induct) (auto dest!: canI_worldAt)

lemma reachable_config: "run_reachable verb ttl s \<Longrightarrow>
  ac_ttl (run_checker s) = ttl \<and> ac_verb (run_checker s) = verb"
  by (induction rule: run_reachable.induct)
    (auto simp: withVerb_def newAccessChecker_def dest!: run_step_config)

end
