(* ===== verification/Access_Properties.thy ===== *)
theory Access_Properties
  imports Access_Checker
begin

text \<open>
  The properties of \<open>rbac/cani.go\<close>: every answer goes back to the server within the time to
  live, and failures count as denials.
\<close>

section \<open>Whether an answer comes from the cache\<close>

definition freshAt :: "int \<Rightarrow> accessChecker \<Rightarrow> string \<Rightarrow> string \<Rightarrow> bool" where
  "freshAt now ac g r \<longleftrightarrow>
     (case ac_cache ac (attributesFor ac g r) of
        None \<Rightarrow> False | Some review \<Rightarrow> now < ar_CreationTimestamp review + ac_ttl ac)"

definition reviewOf :: "int \<Rightarrow> resourceAttributes \<Rightarrow> response \<Rightarrow> accessReview" where
  "reviewOf now key resp = (case resp of
     Answer ts allowed \<Rightarrow> \<lparr>ar_CreationTimestamp = ts, ar_Spec = Some key, ar_Allowed = allowed\<rparr>
   | Failure \<Rightarrow> \<lparr>ar_CreationTimestamp = now, ar_Spec = Some key, ar_Allowed = False\<rparr>)"

lemma canI_fresh:
  "freshAt now ac g r \<Longrightarrow>
   \<exists>review. ac_cache ac (attributesFor ac g r) = Some review \<and>
     canI (worldAt now resp) g r (ac, ()) = (ar_Allowed review, ac, ())"
  by (auto simp: freshAt_def canI_def worldAt_def split: option.splits)

lemma canI_asked:
  "\<not> freshAt now ac g r \<Longrightarrow>
   canI (worldAt now resp) g r (ac, ()) =
     (ar_Allowed (reviewOf now (attributesFor ac g r) resp),
      ac\<lparr>ac_cache := (ac_cache ac)(attributesFor ac g r \<mapsto> reviewOf now (attributesFor ac g r) resp)\<rparr>, ())"
  by (auto simp: freshAt_def canI_def worldAt_def askServer_def reviewOf_def zeroReview_def Let_def
      split: option.splits response.splits)

section \<open>Properties\<close>

definition exampleChecker :: accessChecker where
  "exampleChecker = withVerb (newAccessChecker 10) ''patch''"

lemma grant_source:
  assumes "run_reachable verb ttl s"
    and "canI (worldAt (run_now s) resp) g r (run_checker s, ()) = (True, ac', ())"
  shows "(\<exists>ts. resp = Answer ts True) \<or>
    (\<exists>ts. (ts, \<lparr>ra_Namespace = '''', ra_Verb = verb, ra_Group = g, ra_Resource = r\<rparr>, True) \<in> run_log s \<and>
       run_now s < ts + ttl)"
proof (cases "freshAt (run_now s) (run_checker s) g r")
  case False
  with assms(2) show ?thesis by (auto simp: canI_asked reviewOf_def split: response.splits)
next
  case True
  from canI_fresh [OF True, of resp] assms(2) obtain review where
    review: "ac_cache (run_checker s) (attributesFor (run_checker s) g r) = Some review" "ar_Allowed review"
    by auto
  with reachable_cacheSound [OF assms(1)] have
    "(ar_CreationTimestamp review, attributesFor (run_checker s) g r, True) \<in> run_log s"
    by (auto simp: cacheSound_def)
  with True review(1) reachable_config [OF assms(1)] show ?thesis
    by (auto simp: freshAt_def attributesFor_def)
qed



text \<open>
  C27. A question the server fails to answer is answered with a denial, and the denial is kept:
  until the time to live is over the same question is denied without asking the server again,
  whatever it would say; after that it is asked, and its answer is given.
\<close>

theorem failure_denies:
  assumes "\<not> freshAt now ac g r"
    and "canI (worldAt now Failure) g r (ac, ()) = (a, ac', ())"
  shows "\<not> a \<and>
    (\<forall>t resp. t < now + ac_ttl ac \<longrightarrow> canI (worldAt t resp) g r (ac', ()) = (False, ac', ())) \<and>
    (\<forall>t ts allowed. now + ac_ttl ac \<le> t \<longrightarrow>
       fst (canI (worldAt t (Answer ts allowed)) g r (ac', ())) = allowed)"
proof -
  let ?key = "attributesFor ac g r"
  from assms have ac': "ac' = ac\<lparr>ac_cache := (ac_cache ac)(?key \<mapsto> reviewOf now ?key Failure)\<rparr>" and "\<not> a"
    by (simp_all add: canI_asked reviewOf_def)
  moreover have "canI (worldAt t resp) g r (ac', ()) = (False, ac', ())" if "t < now + ac_ttl ac" for t resp
    using that by (simp add: canI_def worldAt_def ac' reviewOf_def Let_def)
  moreover have "fst (canI (worldAt t (Answer ts allowed)) g r (ac', ())) = allowed"
    if "now + ac_ttl ac \<le> t" for t ts allowed
    using that by (subst canI_asked) (simp_all add: freshAt_def ac' reviewOf_def)
  ultimately show ?thesis by blast
qed

theorem failure_denies_witness:
  "\<not> fst (canI (worldAt 3 Failure) ''apps'' ''deployments'' (exampleChecker, ()))"
proof -
  let ?w = "canI (worldAt 3 Failure) ''apps'' ''deployments'' (exampleChecker, ())"
  have "\<not> freshAt 3 exampleChecker ''apps'' ''deployments''"
    by (simp add: freshAt_def exampleChecker_def withVerb_def)
  moreover have "?w = (fst ?w, fst (snd ?w), ())" by (simp add: prod_eq_iff)
  ultimately show ?thesis using failure_denies by blast
qed

text \<open>
  A fresh answer is given without asking: the checker and its cache are unchanged, whatever
  the server would say now, and so are the answers on record for every other resource when the
  server is asked.
\<close>

lemma canI_cache:
  "(if freshAt now ac g r
    then snd (canI (worldAt now resp) g r (ac, ())) = (ac, ()) \<and>
      Some (fst (canI (worldAt now resp) g r (ac, ()))) = recordedAnswer (ac, ()) g r
    else recordedAnswer (snd (canI (worldAt now resp) g r (ac, ()))) =
      (recordedAnswer (ac, ()))(g := (recordedAnswer (ac, ()) g)
        (r \<mapsto> (case resp of Answer ts allowed \<Rightarrow> allowed | Failure \<Rightarrow> False))))"
proof (cases "freshAt now ac g r")
  case True
  from canI_fresh [OF this, of resp] True show ?thesis by (auto simp: recordedAnswer_def)
next
  case False
  then show ?thesis
    by (auto simp: canI_asked recordedAnswer_def reviewOf_def fun_eq_iff split: response.splits)
qed

end
