(* ===== verification/Webhook_Controller.thy ===== *)
theory Webhook_Controller
  imports Access_Checker Binding_Controller
begin

text \<open>
  \<open>controllers/webhook_controller.go\<close>: the reconcilers that keep the rules of the two webhook
  configurations, and the webhooks themselves. The libraries are fields of \<open>webhookEnv\<close>; the
  access checker is the state the rules are computed with.
\<close>

section \<open>Library calls\<close>

text \<open>
  \<open>we_gvk\<close> is \<open>schema.FromAPIVersionAndKind\<close>, \<open>we_groupKindString\<close> the string of a
  \<open>schema.GroupKind\<close>; \<open>we_listBindings\<close> lists the bindings of a namespace with a value of
  the workload index.
\<close>

record 'w webhookEnv =
  we_config :: "'w config"
  we_lib :: "'w lib"
  we_gvk :: "string \<Rightarrow> string \<Rightarrow> groupVersionKind"
  we_groupKindString :: "string \<Rightarrow> string \<Rightarrow> string"
  we_listAll :: "error + serviceBinding list"
  we_listBindings :: "string \<Rightarrow> string \<Rightarrow> error + serviceBinding list"
  we_apiVersion :: "'w \<Rightarrow> string"
  we_kind :: "'w \<Rightarrow> string"
  we_namespace :: "'w \<Rightarrow> string"
  we_name :: "'w \<Rightarrow> string"
  we_labels :: "'w \<Rightarrow> string amap"

section \<open>The workload index\<close>

definition workloadRefIndexValue :: "'w webhookEnv \<Rightarrow> string \<Rightarrow> string \<Rightarrow> string" where
  "workloadRefIndexValue W grp kind = we_groupKindString W grp kind"

text \<open>The index function registered in \<open>Setup\<close>.\<close>

definition workloadRefIndex :: "'w webhookEnv \<Rightarrow> serviceBinding \<Rightarrow> string list" where
  "workloadRefIndex W binding =
    (let gvk = we_gvk W (wr_APIVersion (bs_Workload (sb_Spec binding))) (wr_Kind (bs_Workload (sb_Spec binding)))
     in [workloadRefIndexValue W (gvk_Group gvk) (gvk_Kind gvk)])"

section \<open>The admission projector webhook\<close>

definition isActiveFor :: "'w webhookEnv \<Rightarrow> 'w \<Rightarrow> serviceBinding \<Rightarrow> bool" where
  "isActiveFor W workload sb =
    (if \<not> timeIsZero (om_DeletionTimestamp (sb_meta sb)) then False
     else
       (let ref = bs_Workload (sb_Spec sb)
        in if wr_Name ref = we_name W workload then True
           else
             (case wr_Selector ref of
                None \<Rightarrow> False
              | Some _ \<Rightarrow>
                  (case cfg_asSelector (we_config W) (wr_Selector ref) of
                     Inl err \<Rightarrow> False
                   | Inr sel \<Rightarrow> sel (we_labels W workload)))))"

definition admissionProjectorSync :: "'w webhookEnv \<Rightarrow> 'w \<Rightarrow> 'w outcome" where
  "admissionProjectorSync W workload =
    (let gvk = we_gvk W (we_apiVersion W workload) (we_kind W workload)
     in and_then (from_result (we_listBindings W (we_namespace W workload)
            (workloadRefIndexValue W (gvk_Group gvk) (gvk_Kind gvk)))) (\<lambda>items.
        fold_ok (\<lambda>sb w. Project (lookupMapping (we_config W)) (we_lib W) (bindingDefault sb) w)
          (filter (isActiveFor W workload) items) workload))"

section \<open>The stash\<close>

record ruleWithOperations =
  ro_Operations :: "string list"
  ro_APIGroups :: "string list"
  ro_APIVersions :: "string list"
  ro_Resources :: "string list"

datatype webhookStash =
    BindingsValue "serviceBinding list"
  | GVKsValue "groupVersionKind list"
  | RulesValue "ruleWithOperations list"

record 's wstate =
  ws_stash :: "string \<rightharpoonup> webhookStash"
  ws_access :: 's

definition ServiceBindingsStashKey :: string where
  "ServiceBindingsStashKey = ''servicebinding.io:servicebindings''"

definition ObservedGVKsStashKey :: string where
  "ObservedGVKsStashKey = ''servicebinding.io:observedgvks''"

definition WebhookRulesStashKey :: string where
  "WebhookRulesStashKey = ''servicebinding.io:webhookrules''"

definition stashServiceBindings :: "serviceBinding list \<Rightarrow> 's wstate \<Rightarrow> 's wstate" where
  "stashServiceBindings v s = s\<lparr>ws_stash := (ws_stash s)(ServiceBindingsStashKey \<mapsto> BindingsValue v)\<rparr>"

definition retrieveServiceBindings :: "'s wstate \<Rightarrow> serviceBinding list" where
  "retrieveServiceBindings s =
     (case ws_stash s ServiceBindingsStashKey of Some (BindingsValue v) \<Rightarrow> v | _ \<Rightarrow> [])"

definition stashObservedGVKs :: "groupVersionKind list \<Rightarrow> 's wstate \<Rightarrow> 's wstate" where
  "stashObservedGVKs v s = s\<lparr>ws_stash := (ws_stash s)(ObservedGVKsStashKey \<mapsto> GVKsValue v)\<rparr>"

definition retrieveObservedGVKs :: "'s wstate \<Rightarrow> groupVersionKind list" where
  "retrieveObservedGVKs s =
     (case ws_stash s ObservedGVKsStashKey of Some (GVKsValue v) \<Rightarrow> v | _ \<Rightarrow> [])"

definition stashWebhookRules :: "ruleWithOperations list \<Rightarrow> 's wstate \<Rightarrow> 's wstate" where
  "stashWebhookRules v s = s\<lparr>ws_stash := (ws_stash s)(WebhookRulesStashKey \<mapsto> RulesValue v)\<rparr>"

definition retrieveWebhookRules :: "'s wstate \<Rightarrow> ruleWithOperations list" where
  "retrieveWebhookRules s =
     (case ws_stash s WebhookRulesStashKey of Some (RulesValue v) \<Rightarrow> v | _ \<Rightarrow> [])"

section \<open>Observed kinds\<close>

type_synonym 's wsyncer = "'s wstate \<Rightarrow> unit outcome \<times> 's wstate"

definition loadServiceBindings :: "'w webhookEnv \<Rightarrow> 's wsyncer" where
  "loadServiceBindings W s =
    (case we_listAll W of
       Inl err \<Rightarrow> (Fail err, s)
     | Inr items \<Rightarrow> (Ok (), stashServiceBindings items s))"

definition workloadGVK :: "'w webhookEnv \<Rightarrow> serviceBinding \<Rightarrow> groupVersionKind" where
  "workloadGVK W b = we_gvk W (wr_APIVersion (bs_Workload (sb_Spec b))) (wr_Kind (bs_Workload (sb_Spec b)))"

definition serviceGVK :: "'w webhookEnv \<Rightarrow> serviceBinding \<Rightarrow> groupVersionKind" where
  "serviceGVK W b = we_gvk W (sr_APIVersion (bs_Service (sb_Spec b))) (sr_Kind (bs_Service (sb_Spec b)))"

definition directBinding :: "groupVersionKind \<Rightarrow> bool" where
  "directBinding gvk \<longleftrightarrow> gvk_Kind gvk = ''Secret'' \<and> (gvk_Group gvk = '''' \<or> gvk_Group gvk = ''core'')"

definition interceptGVKs :: "'w webhookEnv \<Rightarrow> 's wsyncer" where
  "interceptGVKs W s =
    (let gvks = retrieveObservedGVKs s
     in (Ok (), stashObservedGVKs (gvks @ map (workloadGVK W) (retrieveServiceBindings s)) s))"

fun appendServiceGVKs ::
  "'w webhookEnv \<Rightarrow> serviceBinding list \<Rightarrow> groupVersionKind list \<Rightarrow> groupVersionKind list" where
  "appendServiceGVKs W [] gvks = gvks"
| "appendServiceGVKs W (b # bs) gvks =
     (let gvk = serviceGVK W b
      in if directBinding gvk then appendServiceGVKs W bs gvks
         else appendServiceGVKs W bs (gvks @ [gvk]))"

definition triggerGVKs :: "'w webhookEnv \<Rightarrow> 's wsyncer" where
  "triggerGVKs W s =
     (Ok (), stashObservedGVKs (appendServiceGVKs W (retrieveServiceBindings s) (retrieveObservedGVKs s)) s)"

section \<open>Webhook rules\<close>

text \<open>The map from groups to sets of resources, in the order they were first seen.\<close>

type_synonym groupResources = "string list amap"

definition addResource :: "string \<Rightarrow> string \<Rightarrow> groupResources \<Rightarrow> groupResources" where
  "addResource grp res m =
     AList.update grp (List.insert res (case map_of m grp of None \<Rightarrow> [] | Some rs \<Rightarrow> rs)) m"

definition collectResource ::
  "'w webhookEnv \<Rightarrow> groupVersionKind \<Rightarrow> groupResources \<Rightarrow> groupResources outcome" where
  "collectResource W gvk m =
     and_then (from_result (cfg_restMapping (we_config W) gvk)) (\<lambda>(grp, res). Ok (addResource grp res m))"

text \<open>\<open>sets.String.List\<close>: the members in order.\<close>

definition sortedList :: "string list \<Rightarrow> string list" where
  "sortedList xs = sort (remdups xs)"

text \<open>Resources the controller has no access to are dropped, one question at a time.\<close>

fun filterAllowed ::
  "(string \<Rightarrow> string \<Rightarrow> 's \<Rightarrow> bool \<times> 's) \<Rightarrow> string \<Rightarrow> string list \<Rightarrow> 's \<Rightarrow> string list \<times> 's" where
  "filterAllowed ask grp [] s = ([], s)"
| "filterAllowed ask grp (r # rs) s =
     (let (ok, s) = ask grp r s; (kept, s) = filterAllowed ask grp rs s
      in (if ok then r # kept else kept, s))"

fun rulesFor ::
  "(string \<Rightarrow> string \<Rightarrow> 's \<Rightarrow> bool \<times> 's) \<Rightarrow> string list \<Rightarrow> groupResources \<Rightarrow> string list \<Rightarrow> 's \<Rightarrow>
   ruleWithOperations list \<times> 's" where
  "rulesFor ask ops m [] s = ([], s)"
| "rulesFor ask ops m (grp # grps) s =
     (let resources = sortedList (case map_of m grp of None \<Rightarrow> [] | Some rs \<Rightarrow> rs);
          (kept, s) = filterAllowed ask grp resources s;
          (rules, s) = rulesFor ask ops m grps s
      in (if length kept = 0 then rules
          else \<lparr>ro_Operations = ops, ro_APIGroups = [grp], ro_APIVersions = [''*''],
                ro_Resources = kept\<rparr> # rules, s))"

definition webhookRules ::
  "'w webhookEnv \<Rightarrow> (string \<Rightarrow> string \<Rightarrow> 's \<Rightarrow> bool \<times> 's) \<Rightarrow> string list \<Rightarrow> 's wsyncer" where
  "webhookRules W ask ops s =
    (case fold_ok (collectResource W) (retrieveObservedGVKs s) [] of
       Fail err \<Rightarrow> (Fail err, s)
     | Panic \<Rightarrow> (Panic, s)
     | Ok m \<Rightarrow>
         (let (rules, access) = rulesFor ask ops m (sortedList (map fst m)) (ws_access s)
          in (Ok (), stashWebhookRules rules (s\<lparr>ws_access := access\<rparr>))))"

section \<open>The two aggregate reconcilers\<close>

definition admissionProjectorSteps ::
  "'w webhookEnv \<Rightarrow> (string \<Rightarrow> string \<Rightarrow> 's \<Rightarrow> bool \<times> 's) \<Rightarrow> 's wsyncer list" where
  "admissionProjectorSteps W ask =
    [loadServiceBindings W, interceptGVKs W, webhookRules W ask [''CREATE'', ''UPDATE'']]"

definition triggerSteps ::
  "'w webhookEnv \<Rightarrow> (string \<Rightarrow> string \<Rightarrow> 's \<Rightarrow> bool \<times> 's) \<Rightarrow> 's wsyncer list" where
  "triggerSteps W ask =
    [loadServiceBindings W, triggerGVKs W, interceptGVKs W,
     webhookRules W ask [''CREATE'', ''UPDATE'', ''DELETE'']]"

text \<open>
  \<open>reconcilers.Sequence\<close> is the argument \<open>seq\<close>; documented is that it runs the steps in order and
  stops at the first error.
\<close>

fun runSteps :: "'s wsyncer list \<Rightarrow> 's wsyncer" where
  "runSteps [] s = (Ok (), s)"
| "runSteps (f # fs) s =
     (case f s of (Ok u, s) \<Rightarrow> runSteps fs s | (Fail e, s) \<Rightarrow> (Fail e, s) | (Panic, s) \<Rightarrow> (Panic, s))"

definition steps_ok :: "('s wsyncer list \<Rightarrow> 's wsyncer) \<Rightarrow> bool" where
  "steps_ok seq \<longleftrightarrow> (\<forall>fs s. seq fs s = runSteps fs s)"

definition admissionProjectorReconciler ::
  "('s wsyncer list \<Rightarrow> 's wsyncer) \<Rightarrow> 'w webhookEnv \<Rightarrow> (string \<Rightarrow> string \<Rightarrow> 's \<Rightarrow> bool \<times> 's) \<Rightarrow> 's wsyncer" where
  "admissionProjectorReconciler seq W ask = seq (admissionProjectorSteps W ask)"

definition triggerReconciler ::
  "('s wsyncer list \<Rightarrow> 's wsyncer) \<Rightarrow> 'w webhookEnv \<Rightarrow> (string \<Rightarrow> string \<Rightarrow> 's \<Rightarrow> bool \<times> 's) \<Rightarrow> 's wsyncer" where
  "triggerReconciler seq W ask = seq (triggerSteps W ask)"

record webhook =
  wh_Name :: string
  wh_Rules :: "ruleWithOperations list"

record webhookConfiguration =
  wc_Name :: string
  wc_Webhooks :: "webhook list"

text \<open>The same functions configure both aggregates; \<open>None\<close> is the nil resource.\<close>

definition expectedForm :: "webhookConfiguration option \<Rightarrow> bool" where
  "expectedForm r = (case r of None \<Rightarrow> False | Some c \<Rightarrow> length (wc_Webhooks c) = 1)"

definition setRules :: "ruleWithOperations list \<Rightarrow> webhookConfiguration \<Rightarrow> webhookConfiguration" where
  "setRules rules c =
     c\<lparr>wc_Webhooks := (wc_Webhooks c)[0 := (wc_Webhooks c ! 0)\<lparr>wh_Rules := rules\<rparr>]\<rparr>"

definition desiredResource :: "'s wstate \<Rightarrow> webhookConfiguration option \<Rightarrow> webhookConfiguration option" where
  "desiredResource s r =
    (if \<not> expectedForm r then r else map_option (setRules (retrieveWebhookRules s)) r)"

definition rulesOf :: "webhookConfiguration option \<Rightarrow> ruleWithOperations list" where
  "rulesOf r = (case r of None \<Rightarrow> [] | Some c \<Rightarrow> wh_Rules (wc_Webhooks c ! 0))"

text \<open>\<open>deepEqual\<close> is \<open>equality.Semantic.DeepEqual\<close> on rules.\<close>

definition webhookSemanticEquals ::
  "(ruleWithOperations list \<Rightarrow> ruleWithOperations list \<Rightarrow> bool) \<Rightarrow>
   webhookConfiguration option \<Rightarrow> webhookConfiguration option \<Rightarrow> bool" where
  "webhookSemanticEquals deepEqual a1 a2 =
    (if \<not> expectedForm a1 \<or> \<not> expectedForm a2 then True
     else deepEqual (rulesOf a1) (rulesOf a2))"

definition webhookMergeBeforeUpdate ::
  "webhookConfiguration option \<Rightarrow> webhookConfiguration option \<Rightarrow> webhookConfiguration option" where
  "webhookMergeBeforeUpdate current desired =
    (if \<not> expectedForm current \<or> \<not> expectedForm desired then current
     else map_option (setRules (rulesOf desired)) current)"

definition webhookSanitize :: "webhookConfiguration option \<Rightarrow> ruleWithOperations list" where
  "webhookSanitize r =
    (case r of None \<Rightarrow> []
     | Some c \<Rightarrow> (if length (wc_Webhooks c) = 0 then [] else wh_Rules (wc_Webhooks c ! 0)))"

section \<open>The trigger webhook\<close>

record namespacedName =
  nn_Namespace :: string
  nn_Name :: string

record trackKey =
  tk_GVK :: groupVersionKind
  tk_Name :: namespacedName

text \<open>
  \<open>queue\<close> is nil until the controller has started; \<open>lookup\<close> is the tracker's. The queue is a
  \<open>workqueue.Interface\<close> of client-go: \<open>add\<close> is its \<open>Add\<close>. A dry run adds nothing.
\<close>

definition triggerKey :: "'w webhookEnv \<Rightarrow> 'w \<Rightarrow> trackKey" where
  "triggerKey W trigger =
    \<lparr>tk_GVK = we_gvk W (we_apiVersion W trigger) (we_kind W trigger),
     tk_Name = \<lparr>nn_Namespace = we_namespace W trigger, nn_Name = we_name W trigger\<rparr>\<rparr>"

fun enqueueTracked ::
  "(namespacedName \<Rightarrow> 'q \<Rightarrow> 'q) \<Rightarrow> bool option \<Rightarrow> namespacedName list \<Rightarrow> 'q \<Rightarrow> 'q" where
  "enqueueTracked add dryRun [] queue = queue"
| "enqueueTracked add dryRun (nsn # nsns) queue =
     (if dryRun = Some True then enqueueTracked add dryRun nsns queue
      else enqueueTracked add dryRun nsns (add nsn queue))"

definition triggerSync ::
  "'w webhookEnv \<Rightarrow> (trackKey \<Rightarrow> namespacedName list) \<Rightarrow> (namespacedName \<Rightarrow> 'q \<Rightarrow> 'q) \<Rightarrow>
   bool option \<Rightarrow> 'w \<Rightarrow> 'q option \<Rightarrow> 'q option" where
  "triggerSync W lookup add dryRun trigger queue =
    (case queue of
       None \<Rightarrow> None
     | Some q \<Rightarrow> Some (enqueueTracked add dryRun (lookup (triggerKey W trigger)) q))"

text \<open>
  What client-go documents of \<open>Add\<close> on a queue that is not shut down: the item is marked as
  needing processing, and no other item loses that mark.
\<close>

definition workqueue_ok :: "('i \<Rightarrow> 'q \<Rightarrow> 'q) \<Rightarrow> ('q \<Rightarrow> 'i set) \<Rightarrow> bool" where
  "workqueue_ok add pending \<longleftrightarrow> (\<forall>i q. pending (add i q) = insert i (pending q))"

lemma enqueueTracked_pending:
  assumes "workqueue_ok add pending"
  shows "pending (enqueueTracked add dryRun nsns q) =
    pending q \<union> (if dryRun = Some True then {} else set nsns)"
  using assms
  by (induction add dryRun nsns q rule: enqueueTracked.induct) (auto simp: workqueue_ok_def)

lemma enqueueTracked_dry: "enqueueTracked add (Some True) nsns q = q"
  by (induction nsns) simp_all

end
