(* ===== verification/Webhook_Facts.thy ===== *)
theory Webhook_Facts
  imports Webhook_Controller
begin

text \<open>
  Lemmas on the webhook rules: the set of resources the observed kinds amount to, the sorted
  lists, and what a run of the access checks leaves of a group.
\<close>

section \<open>Collected resources\<close>

text \<open>The group and resource pairs of the map.\<close>

definition pairs :: "groupResources \<Rightarrow> (string \<times> string) set" where
  "pairs m = {(g, r). \<exists>rs. map_of m g = Some rs \<and> r \<in> set rs}"

lemma pairs_Nil [simp]: "pairs [] = {}"
  by (simp add: pairs_def)

lemma pairs_addResource [simp]: "pairs (addResource g r m) = insert (g, r) (pairs m)"
  by (auto simp: pairs_def addResource_def amap_simps split: option.splits if_splits)

lemma distinct_addResource: "distinct (map fst m) \<Longrightarrow> distinct (map fst (addResource g r m))"
  by (simp add: addResource_def amap_distinct_update)

lemma fst_addResource: "set (map fst (addResource g r m)) = insert g (set (map fst m))"
  by (simp add: addResource_def dom_update)

lemma insert_not_Nil [simp]: "List.insert r rs \<noteq> []"
  by (auto simp: List.insert_def)

lemma nonempty_addResource:
  "(\<And>g rs. map_of m g = Some rs \<Longrightarrow> rs \<noteq> []) \<Longrightarrow> map_of (addResource g' r m) g = Some rs \<Longrightarrow> rs \<noteq> []"
  by (auto simp: addResource_def amap_simps split: if_splits)

definition resourceOf :: "'w webhookEnv \<Rightarrow> groupVersionKind \<Rightarrow> error + string \<times> string" where
  "resourceOf W gvk = cfg_restMapping (we_config W) gvk"

definition wellKept :: "groupResources \<Rightarrow> bool" where
  "wellKept m \<longleftrightarrow> distinct (map fst m) \<and> (\<forall>g rs. map_of m g = Some rs \<longrightarrow> rs \<noteq> [])"

lemma collectResource_Ok: "collectResource W gvk m = Ok m' \<longleftrightarrow>
  (\<exists>g r. resourceOf W gvk = Inr (g, r) \<and> m' = addResource g r m)"
  by (auto simp: collectResource_def resourceOf_def outcome_simps split: prod.splits)

lemma collect_spec:
  "fold_ok (collectResource W) gvks m = Ok m' \<Longrightarrow> wellKept m \<Longrightarrow>
   wellKept m' \<and> (\<forall>gvk \<in> set gvks. \<exists>p. resourceOf W gvk = Inr p) \<and>
   pairs m' = pairs m \<union> {p. \<exists>gvk \<in> set gvks. resourceOf W gvk = Inr p}"
proof (induction gvks arbitrary: m)
  case Nil
  then show ?case by simp
next
  case (Cons gvk gvks)
  then obtain g r where gr: "resourceOf W gvk = Inr (g, r)"
      "fold_ok (collectResource W) gvks (addResource g r m) = Ok m'"
    by (auto simp: collectResource_Ok and_then_eq_Ok)
  moreover have "wellKept (addResource g r m)"
    using Cons.prems(2) nonempty_addResource [of m g r] by (auto simp: wellKept_def distinct_addResource)
  ultimately show ?case using Cons.IH [of "addResource g r m"] by auto
qed

lemma collect_no_panic: "fold_ok (collectResource W) gvks m \<noteq> Panic"
  by (induction gvks arbitrary: m) (auto simp: outcome_simps collectResource_def)

lemma keys_pairs: "wellKept m \<Longrightarrow> fst ` set m = fst ` pairs m"
proof (intro subset_antisym subsetI)
  fix g
  assume "wellKept m" "g \<in> fst ` set m"
  then obtain rs where "map_of m g = Some rs" "rs \<noteq> []"
    by (metis wellKept_def map_of_eq_None_iff not_Some_eq)
  then show "g \<in> fst ` pairs m" by (cases rs) (force simp: pairs_def)+
next
  fix g
  assume "g \<in> fst ` pairs m"
  then show "g \<in> fst ` set m" by (force simp: pairs_def dest: map_of_SomeD)
qed

section \<open>Sorted lists\<close>

lemma sortedList_simps [simp]:
  "set (sortedList xs) = set xs" "sorted (sortedList xs)" "distinct (sortedList xs)"
  by (simp_all add: sortedList_def)

lemma sortedList_cong: "set xs = set ys \<Longrightarrow> sortedList xs = sortedList ys"
  by (intro sorted_distinct_set_unique) simp_all

definition resourcesIn :: "groupResources \<Rightarrow> string \<Rightarrow> string list" where
  "resourcesIn m g = sortedList (case map_of m g of None \<Rightarrow> [] | Some rs \<Rightarrow> rs)"

lemma set_resourcesIn: "set (resourcesIn m g) = {r. (g, r) \<in> pairs m}"
  by (cases "map_of m g") (auto simp: resourcesIn_def pairs_def)

section \<open>Answers of the access checker\<close>

context access_checker
begin

text \<open>The answers given in a run are the answers on record when the run is over.\<close>

lemma filterAllowed_spec:
  assumes "filterAllowed ask g rs s = (kept, s')" and "distinct rs"
  shows "kept = filter (\<lambda>r. answer s' g r = Some True) rs \<and>
    (\<forall>r \<in> set rs. answer s' g r \<noteq> None) \<and>
    (\<forall>g' r'. g' \<noteq> g \<or> r' \<notin> set rs \<longrightarrow> answer s' g' r' = answer s g' r')"
  using assms
proof (induction rs arbitrary: s kept)
  case Nil
  then show ?case by simp
next
  case (Cons r rs)
  obtain ok s1 where ask: "ask g r s = (ok, s1)" by fastforce
  obtain kept1 s2 where rest: "filterAllowed ask g rs s1 = (kept1, s2)" by fastforce
  from ask rest Cons.prems have eqs: "s' = s2" "kept = (if ok then r # kept1 else kept1)"
    by (auto split: if_splits)
  from Cons.IH [OF rest [folded eqs(1)]] Cons.prems have IH:
    "kept1 = filter (\<lambda>r. answer s' g r = Some True) rs"
    "\<forall>r \<in> set rs. answer s' g r \<noteq> None"
    "\<forall>g' r'. g' \<noteq> g \<or> r' \<notin> set rs \<longrightarrow> answer s' g' r' = answer s1 g' r'" and "r \<notin> set rs"
    by simp_all
  moreover from this ask_recorded [OF ask] have "answer s' g r = Some ok" by simp
  moreover from ask_frame [OF ask] IH(3) have "answer s' g' r' = answer s g' r'"
    if "g' \<noteq> g \<or> r' \<notin> set (r # rs)" for g' r'
    using that by auto
  ultimately show ?case using eqs(2) by auto
qed

lemma rulesFor_spec:
  assumes "rulesFor ask ops m gs s = (rules, s')" and "distinct gs"
  shows "rules = map (\<lambda>g. \<lparr>ro_Operations = ops, ro_APIGroups = [g], ro_APIVersions = [''*''],
      ro_Resources = filter (\<lambda>r. answer s' g r = Some True) (resourcesIn m g)\<rparr>)
    (filter (\<lambda>g. \<exists>r \<in> set (resourcesIn m g). answer s' g r = Some True) gs) \<and>
    (\<forall>g \<in> set gs. \<forall>r \<in> set (resourcesIn m g). answer s' g r \<noteq> None) \<and>
    (\<forall>g' r'. g' \<notin> set gs \<longrightarrow> answer s' g' r' = answer s g' r')"
  using assms
proof (induction gs arbitrary: s rules)
  case Nil
  then show ?case by simp
next
  case (Cons g gs)
  obtain kept s1 where kept: "filterAllowed ask g (resourcesIn m g) s = (kept, s1)" by fastforce
  obtain rules1 s2 where rest: "rulesFor ask ops m gs s1 = (rules1, s2)" by fastforce
  have eqs: "s' = s2" "rules = (if kept = [] then rules1
      else \<lparr>ro_Operations = ops, ro_APIGroups = [g], ro_APIVersions = [''*''], ro_Resources = kept\<rparr> # rules1)"
    using Cons.prems(1) kept rest by (auto simp: resourcesIn_def Let_def split: if_splits)
  note IH = Cons.IH [OF rest [folded eqs(1)]]
  have "distinct (resourcesIn m g)" by (simp add: resourcesIn_def)
  from filterAllowed_spec [OF kept this] have K:
    "kept = filter (\<lambda>r. answer s1 g r = Some True) (resourcesIn m g)"
    "\<forall>r \<in> set (resourcesIn m g). answer s1 g r \<noteq> None"
    "\<forall>g' r'. g' \<noteq> g \<longrightarrow> answer s1 g' r' = answer s g' r'" by blast+
  from IH Cons.prems(2) have same: "answer s' g r = answer s1 g r" for r by simp
  with K(1) have kept': "kept = filter (\<lambda>r. answer s' g r = Some True) (resourcesIn m g)" by simp
  show ?case
  proof (intro conjI allI impI ballI)
    show "rules = map (\<lambda>g. \<lparr>ro_Operations = ops, ro_APIGroups = [g], ro_APIVersions = [''*''],
        ro_Resources = filter (\<lambda>r. answer s' g r = Some True) (resourcesIn m g)\<rparr>)
      (filter (\<lambda>g. \<exists>r \<in> set (resourcesIn m g). answer s' g r = Some True) (g # gs))"
      using eqs(2) IH Cons.prems(2) kept' by (auto simp: filter_empty_conv)
  next
    fix h r
    assume "h \<in> set (g # gs)" "r \<in> set (resourcesIn m h)"
    then show "answer s' h r \<noteq> None" using IH Cons.prems(2) K(2) same by auto
  next
    fix h r
    assume "h \<notin> set (g # gs)"
    then show "answer s' h r = answer s h r" using IH Cons.prems(2) K(3) by auto
  qed
qed

end

end
