(* ===== verification/Webhook_Properties.thy ===== *)
theory Webhook_Properties
  imports Webhook_Facts
begin

text \<open>
  The properties of \<open>controllers/webhook_controller.go\<close>: the rules of the two webhook
  configurations, the selection of bindings at admission, and the requests a trigger enqueues.
\<close>

section \<open>The canonical rules\<close>

text \<open>
  The rules for a set of group and resource pairs: one per group, groups and resources in order.
\<close>

definition canonicalRules :: "string list \<Rightarrow> (string \<times> string) set \<Rightarrow> ruleWithOperations list" where
  "canonicalRules ops A =
    map (\<lambda>g. \<lparr>ro_Operations = ops, ro_APIGroups = [g], ro_APIVersions = [''*''],
           ro_Resources = sorted_list_of_set {r. (g, r) \<in> A}\<rparr>)
      (sorted_list_of_set (fst ` A))"

definition resourcesOf :: "'w webhookEnv \<Rightarrow> groupVersionKind list \<Rightarrow> (string \<times> string) set" where
  "resourcesOf W gvks = {p. \<exists>gvk \<in> set gvks. resourceOf W gvk = Inr p}"

definition granted :: "accessChecker \<times> 'x \<Rightarrow> (string \<times> string) set \<Rightarrow> (string \<times> string) set" where
  "granted a P = {(g, r) \<in> P. recordedAnswer a g r = Some True}"

lemma sorted_filter_eq:
  "sorted xs \<Longrightarrow> distinct xs \<Longrightarrow> filter P xs = sorted_list_of_set {x \<in> set xs. P x}"
  using sorted_list_of_set.idem_if_sorted_distinct [of "filter P xs"]
  by (simp add: sorted_wrt_filter)

lemma webhookRules_Ok:
  assumes "webhookRules W (canI X) ops s = (Ok (), s')"
  shows "retrieveWebhookRules s' =
      canonicalRules ops (granted (ws_access s') (resourcesOf W (retrieveObservedGVKs s))) \<and>
    (\<forall>(g, r) \<in> resourcesOf W (retrieveObservedGVKs s). recordedAnswer (ws_access s') g r \<noteq> None) \<and>
    (\<forall>gvk \<in> set (retrieveObservedGVKs s). \<exists>p. resourceOf W gvk = Inr p) \<and>
    ws_stash s' = (ws_stash s)(WebhookRulesStashKey \<mapsto> RulesValue (retrieveWebhookRules s'))"
proof -
  let ?P = "resourcesOf W (retrieveObservedGVKs s)"
  from assms obtain m rules a where m: "fold_ok (collectResource W) (retrieveObservedGVKs s) [] = Ok m"
    and rules: "rulesFor (canI X) ops m (sortedList (map fst m)) (ws_access s) = (rules, a)"
    and s': "s' = stashWebhookRules rules (s\<lparr>ws_access := a\<rparr>)"
    by (auto simp: webhookRules_def split: outcome.splits prod.splits)
  from collect_spec [OF m] have kept: "wellKept m" and pairs: "pairs m = ?P"
    and mapped: "\<forall>gvk \<in> set (retrieveObservedGVKs s). \<exists>p. resourceOf W gvk = Inr p"
    by (auto simp: wellKept_def resourcesOf_def)
  let ?G = "\<lambda>g. \<exists>r \<in> set (resourcesIn m g). recordedAnswer a g r = Some True"
  let ?A = "granted a ?P"
  have groups: "filter ?G (sortedList (map fst m)) = sorted_list_of_set (fst ` ?A)"
  proof -
    have "{g \<in> set (sortedList (map fst m)). ?G g} = fst ` ?A"
      using keys_pairs [OF kept] pairs by (force simp: set_resourcesIn granted_def image_iff)
    then show ?thesis by (simp add: sorted_filter_eq)
  qed
  have resources: "filter (\<lambda>r. recordedAnswer a g r = Some True) (resourcesIn m g) =
      sorted_list_of_set {r. (g, r) \<in> ?A}" for g
  proof -
    have "{r \<in> set (resourcesIn m g). recordedAnswer a g r = Some True} = {r. (g, r) \<in> ?A}"
      using pairs by (auto simp: set_resourcesIn granted_def)
    then show ?thesis by (simp add: sorted_filter_eq resourcesIn_def)
  qed
  note spec = rbac.rulesFor_spec [OF rules sortedList_simps(3)]
  have "rules = canonicalRules ops ?A"
    using spec by (simp only: groups resources canonicalRules_def)
  moreover have "\<forall>(g, r) \<in> ?P. recordedAnswer a g r \<noteq> None"
    using spec keys_pairs [OF kept] by (force simp: set_resourcesIn pairs)
  ultimately show ?thesis
    using mapped by (simp add: s' stashWebhookRules_def retrieveWebhookRules_def)
qed

text \<open>A failure: some kind has no resource, and the state is as it was.\<close>

lemma collect_total:
  "\<forall>gvk \<in> set gvks. \<exists>p. resourceOf W gvk = Inr p \<Longrightarrow> \<exists>m'. fold_ok (collectResource W) gvks m = Ok m'"
  by (induction gvks arbitrary: m) (fastforce simp: and_then_eq_Ok collectResource_Ok)+

lemma webhookRules_Fail:
  assumes "fst (webhookRules W ask ops s) \<noteq> Ok ()"
  shows "(\<exists>e. webhookRules W ask ops s = (Fail e, s)) \<and>
   (\<exists>gvk \<in> set (retrieveObservedGVKs s). \<exists>e. resourceOf W gvk = Inl e)"
proof (cases "fold_ok (collectResource W) (retrieveObservedGVKs s) []")
  case (Ok m)
  with assms show ?thesis by (simp add: webhookRules_def split: prod.splits)
next
  case (Fail e)
  with collect_total [of "retrieveObservedGVKs s" W "[]"]
  obtain gvk where "gvk \<in> set (retrieveObservedGVKs s)" "\<nexists>p. resourceOf W gvk = Inr p"
    by (metis outcome.distinct(1))
  then have "\<exists>gvk \<in> set (retrieveObservedGVKs s). \<exists>e. resourceOf W gvk = Inl e" by (metis sum.exhaust)
  then show ?thesis using Fail by (simp add: webhookRules_def)
next
  case Panic
  then show ?thesis by (simp add: collect_no_panic)
qed

section \<open>Rules of the two configurations\<close>

text \<open>The kinds of the bindings: their workloads, and their services other than secrets.\<close>

definition boundKinds :: "'w webhookEnv \<Rightarrow> serviceBinding list \<Rightarrow> groupVersionKind list" where
  "boundKinds W bs = map (workloadGVK W) bs"

definition serviceKinds :: "'w webhookEnv \<Rightarrow> serviceBinding list \<Rightarrow> groupVersionKind list" where
  "serviceKinds W bs = filter (\<lambda>gvk. \<not> directBinding gvk) (map (serviceGVK W) bs)"

lemma appendServiceGVKs_eq: "appendServiceGVKs W bs gvks = gvks @ serviceKinds W bs"
  by (induction bs arbitrary: gvks) (auto simp: serviceKinds_def Let_def)

lemmas stash_defs =
  stashServiceBindings_def retrieveServiceBindings_def stashObservedGVKs_def retrieveObservedGVKs_def
  ServiceBindingsStashKey_def ObservedGVKsStashKey_def WebhookRulesStashKey_def

definition freshState :: "'s \<Rightarrow> 's wstate" where
  "freshState a = \<lparr>ws_stash = Map.empty, ws_access = a\<rparr>"

lemma admission_run:
  assumes "we_listAll W = Inr bs"
  shows "\<exists>s. runSteps (admissionProjectorSteps W ask) (freshState a) = webhookRules W ask [''CREATE'', ''UPDATE''] s \<and>
    retrieveObservedGVKs s = boundKinds W bs \<and> ws_access s = a \<and> retrieveWebhookRules s = []"
proof -
  let ?s = "stashObservedGVKs (boundKinds W bs) (stashServiceBindings bs (freshState a))"
  have "runSteps (admissionProjectorSteps W ask) (freshState a) = webhookRules W ask [''CREATE'', ''UPDATE''] ?s"
    using assms
    by (cases "webhookRules W ask [''CREATE'', ''UPDATE''] ?s" rule: prod.exhaust; cases "fst (webhookRules W ask [''CREATE'', ''UPDATE''] ?s)")
      (auto simp: admissionProjectorSteps_def loadServiceBindings_def interceptGVKs_def boundKinds_def
        freshState_def stash_defs Let_def)
  then show ?thesis by (intro exI [of _ ?s]) (simp add: freshState_def stash_defs retrieveWebhookRules_def)
qed

lemma trigger_run:
  assumes "we_listAll W = Inr bs"
  shows "\<exists>s. runSteps (triggerSteps W ask) (freshState a) = webhookRules W ask [''CREATE'', ''UPDATE'', ''DELETE''] s \<and>
    retrieveObservedGVKs s = serviceKinds W bs @ boundKinds W bs \<and> ws_access s = a \<and>
    retrieveWebhookRules s = []"
proof -
  let ?s = "stashObservedGVKs (serviceKinds W bs @ boundKinds W bs)
    (stashObservedGVKs (serviceKinds W bs) (stashServiceBindings bs (freshState a)))"
  have "runSteps (triggerSteps W ask) (freshState a) = webhookRules W ask [''CREATE'', ''UPDATE'', ''DELETE''] ?s"
    using assms
    by (cases "webhookRules W ask [''CREATE'', ''UPDATE'', ''DELETE''] ?s" rule: prod.exhaust; cases "fst (webhookRules W ask [''CREATE'', ''UPDATE'', ''DELETE''] ?s)")
      (auto simp: triggerSteps_def loadServiceBindings_def interceptGVKs_def triggerGVKs_def boundKinds_def
        freshState_def stash_defs appendServiceGVKs_eq Let_def)
  then show ?thesis by (intro exI [of _ ?s]) (simp add: freshState_def stash_defs retrieveWebhookRules_def)
qed

text \<open>A cluster with one binding, in which the controller may touch the workload only.\<close>

definition webhookExample :: "unit webhookEnv" where
  "webhookExample =
    \<lparr>we_config =
       \<lparr>cfg_gvkForObject = (\<lambda>w. Inl NotFound),
        cfg_restMapping = (\<lambda>gvk. Inr (gvk_Group gvk, gvk_Kind gvk @ ''s'')),
        cfg_getMapping = (\<lambda>n. Inl NotFound), cfg_getObject = (\<lambda>ref. Inl NotFound),
        cfg_listObjects = (\<lambda>ref sel. Inr []), cfg_nestedString = (\<lambda>w p. Inr None),
        cfg_asSelector = (\<lambda>s. Inr (\<lambda>ls. False))\<rparr>,
     we_lib = \<lparr>lib_jsonpath = \<lparr>jpParse = (\<lambda>e. Inr []), jpFind = (\<lambda>e u. Inr [])\<rparr>,
       lib_codec = \<lparr>encEnv = (\<lambda>_. JNull), decEnv = (\<lambda>_. Inr []), encMounts = (\<lambda>_. JNull),
         decMounts = (\<lambda>_. Inr []), encVolumes = (\<lambda>_. JNull), decVolumes = (\<lambda>_. Inr [])\<rparr>,
       toUnstructured = (\<lambda>w. Inr JNull), fromUnstructured = (\<lambda>u w. Inr w)\<rparr>,
     we_gvk = (\<lambda>v k. \<lparr>gvk_Group = v, gvk_Version = ''v1'', gvk_Kind = k\<rparr>),
     we_groupKindString = (\<lambda>g k. k @ ''.'' @ g),
     we_listAll = Inr
       [\<lparr>sb_meta = \<lparr>om_Name = ''db'', om_Namespace = ''ns'', om_UID = ''u1'', om_ResourceVersion = ''1'',
          om_Labels = [], om_DeletionTimestamp = None\<rparr>,
         sb_Spec = \<lparr>bs_Name = ''db'', bs_Type = '''', bs_Provider = '''',
           bs_Workload = \<lparr>wr_APIVersion = ''apps'', wr_Kind = ''Deployment'', wr_Name = '''',
             wr_Selector = Some JNull, wr_Containers = []\<rparr>,
           bs_Service = \<lparr>sr_APIVersion = ''db.io'', sr_Kind = ''Database'', sr_Name = ''d''\<rparr>,
           bs_Env = []\<rparr>,
         sb_Status = \<lparr>st_ObservedGeneration = 0, st_Conditions = [], st_Binding = None\<rparr>\<rparr>],
     we_listBindings = (\<lambda>ns v. Inr []),
     we_apiVersion = (\<lambda>w. ''apps''), we_kind = (\<lambda>w. ''Deployment''), we_namespace = (\<lambda>w. ''ns''),
     we_name = (\<lambda>w. ''''), we_labels = (\<lambda>w. [])\<rparr>"

text \<open>
  How a run for the kinds \<open>gvks\<close> ends: with the canonical rules for the resources that are
  granted, all of them asked about; or, if a kind has no resource, with an error and nothing
  stashed or asked.
\<close>

definition rulesRun ::
  "'w webhookEnv \<Rightarrow> string list \<Rightarrow> groupVersionKind list \<Rightarrow> accessChecker \<times> 'x \<Rightarrow>
   unit outcome \<Rightarrow> (accessChecker \<times> 'x) wstate \<Rightarrow> bool" where
  "rulesRun W ops gvks a r s' \<longleftrightarrow>
    (if \<forall>gvk \<in> set gvks. \<exists>p. resourceOf W gvk = Inr p
     then r = Ok () \<and>
       retrieveWebhookRules s' = canonicalRules ops (granted (ws_access s') (resourcesOf W gvks)) \<and>
       (\<forall>(g, res) \<in> resourcesOf W gvks. recordedAnswer (ws_access s') g res \<noteq> None)
     else (\<exists>e. r = Fail e) \<and> retrieveWebhookRules s' = [] \<and> ws_access s' = a)"

lemma rulesRun_webhookRules:
  assumes "webhookRules W (canI X) ops s = (r, s')" and "retrieveWebhookRules s = []"
  shows "rulesRun W ops (retrieveObservedGVKs s) (ws_access s) r s'"
proof (cases "r = Ok ()")
  case True
  with assms(1) webhookRules_Ok [of W X ops s s'] show ?thesis by (simp add: rulesRun_def)
next
  case False
  with assms(1) webhookRules_Fail [of W "canI X" ops s] obtain e where
    "r = Fail e" "s' = s" "\<exists>gvk \<in> set (retrieveObservedGVKs s). \<exists>e. resourceOf W gvk = Inl e"
    by auto
  then show ?thesis using assms(2) by (force simp: rulesRun_def)
qed

lemma rulesRun_admission:
  assumes "steps_ok seq" and "we_listAll W = Inr bs"
    and "admissionProjectorReconciler seq W (canI X) (freshState a) = (r, s')"
  shows "rulesRun W [''CREATE'', ''UPDATE''] (map (workloadGVK W) bs) a r s'"
proof -
  obtain s where run: "webhookRules W (canI X) [''CREATE'', ''UPDATE''] s = (r, s')"
      "retrieveObservedGVKs s = boundKinds W bs" "ws_access s = a" "retrieveWebhookRules s = []"
    using admission_run [OF assms(2), of "canI X" a] assms(1,3)
    by (auto simp: admissionProjectorReconciler_def steps_ok_def)
  from rulesRun_webhookRules [OF run(1,4)] show ?thesis by (simp add: run boundKinds_def)
qed

text \<open>
  C22. The rules of the admission webhook: a successful run stashes exactly one rule for each API
  group in which the controller is allowed a resource that some binding names as its workload,
  with those resources, groups and resources in order, whatever the order and number of the
  bindings; each resource was asked about. A run fails, and stashes no rules, exactly when the
  kind of some binding's workload is not known to the cluster.
\<close>

theorem admission_rules:
  assumes "steps_ok seq" and "we_listAll W = Inr bs"
    and "admissionProjectorReconciler seq W (canI X) (freshState a) = (r, s')"
  shows "rulesRun W [''CREATE'', ''UPDATE''] (map (workloadGVK W) bs) a r s'"
  using assms by (rule rulesRun_admission)

theorem admission_rules_witness:
  "\<exists>r s'. runSteps (admissionProjectorSteps webhookExample (canI (worldAt 0 (Answer 0 True))))
       (freshState (newAccessChecker 10, ())) = (r, s') \<and>
     rulesRun webhookExample [''CREATE'', ''UPDATE''] [\<lparr>gvk_Group = ''apps'', gvk_Version = ''v1'', gvk_Kind = ''Deployment''\<rparr>]
       (newAccessChecker 10, ()) r s'"
proof -
  let ?run = "runSteps (admissionProjectorSteps webhookExample (canI (worldAt 0 (Answer 0 True))))
    (freshState (newAccessChecker 10, ()))"
  obtain bs where bs: "we_listAll webhookExample = Inr bs"
      "map (workloadGVK webhookExample) bs = [\<lparr>gvk_Group = ''apps'', gvk_Version = ''v1'', gvk_Kind = ''Deployment''\<rparr>]"
    by (simp add: webhookExample_def workloadGVK_def)
  have "admissionProjectorReconciler runSteps webhookExample (canI (worldAt 0 (Answer 0 True)))
      (freshState (newAccessChecker 10, ())) = (fst ?run, snd ?run)"
    by (simp add: admissionProjectorReconciler_def)
  from admission_rules [OF _ bs(1) this] bs(2) show ?thesis
    by (intro exI [of _ "fst ?run"] exI [of _ "snd ?run"]) (simp add: steps_ok_def)
qed

lemma rulesRun_trigger:
  assumes "steps_ok seq" and "we_listAll W = Inr bs"
    and "triggerReconciler seq W (canI X) (freshState a) = (r, s')"
  shows "rulesRun W [''CREATE'', ''UPDATE'', ''DELETE'']
    (filter (\<lambda>gvk. \<not> directBinding gvk) (map (serviceGVK W) bs) @ map (workloadGVK W) bs) a r s'"
proof -
  obtain s where run: "webhookRules W (canI X) [''CREATE'', ''UPDATE'', ''DELETE''] s = (r, s')"
      "retrieveObservedGVKs s = serviceKinds W bs @ boundKinds W bs" "ws_access s = a"
      "retrieveWebhookRules s = []"
    using trigger_run [OF assms(2), of "canI X" a] assms(1,3)
    by (auto simp: triggerReconciler_def steps_ok_def)
  from rulesRun_webhookRules [OF run(1,4)] show ?thesis
    by (simp add: run boundKinds_def serviceKinds_def)
qed

text \<open>
  C23. The rules of the trigger webhook cover the workloads of all bindings and those of their
  services that are not secrets of the core group, for creation, update and deletion.
\<close>

theorem trigger_rules:
  assumes "steps_ok seq" and "we_listAll W = Inr bs"
    and "triggerReconciler seq W (canI X) (freshState a) = (r, s')"
  shows "rulesRun W [''CREATE'', ''UPDATE'', ''DELETE'']
    (filter (\<lambda>gvk. \<not> directBinding gvk) (map (serviceGVK W) bs) @ map (workloadGVK W) bs) a r s'"
  using assms by (rule rulesRun_trigger)

theorem trigger_rules_witness:
  "\<exists>r s'. runSteps (triggerSteps webhookExample (canI (worldAt 0 Failure)))
       (freshState (newAccessChecker 10, ())) = (r, s') \<and>
     rulesRun webhookExample [''CREATE'', ''UPDATE'', ''DELETE'']
       [\<lparr>gvk_Group = ''db.io'', gvk_Version = ''v1'', gvk_Kind = ''Database''\<rparr>,
        \<lparr>gvk_Group = ''apps'', gvk_Version = ''v1'', gvk_Kind = ''Deployment''\<rparr>]
       (newAccessChecker 10, ()) r s'"
proof -
  let ?run = "runSteps (triggerSteps webhookExample (canI (worldAt 0 Failure)))
    (freshState (newAccessChecker 10, ()))"
  obtain bs where bs: "we_listAll webhookExample = Inr bs"
      "filter (\<lambda>gvk. \<not> directBinding gvk) (map (serviceGVK webhookExample) bs) @ map (workloadGVK webhookExample) bs =
       [\<lparr>gvk_Group = ''db.io'', gvk_Version = ''v1'', gvk_Kind = ''Database''\<rparr>,
        \<lparr>gvk_Group = ''apps'', gvk_Version = ''v1'', gvk_Kind = ''Deployment''\<rparr>]"
    by (simp add: webhookExample_def workloadGVK_def serviceGVK_def directBinding_def)
  have "triggerReconciler runSteps webhookExample (canI (worldAt 0 Failure))
      (freshState (newAccessChecker 10, ())) = (fst ?run, snd ?run)"
    by (simp add: triggerReconciler_def)
  from trigger_rules [OF _ bs(1) this] bs(2) show ?thesis
    by (intro exI [of _ "fst ?run"] exI [of _ "snd ?run"]) (simp add: steps_ok_def)
qed

section \<open>Configuring the aggregates\<close>

text \<open>
  C25. Reconciling a webhook configuration changes the rules of its one webhook and nothing else,
  and settles: after the desired state is merged into the current one, the rules are the computed
  ones, name and webhook name are kept, and a further pass finds nothing to do. A configuration
  that does not have exactly one webhook is left alone and never counted as different.
\<close>

theorem configuration_settles:
  "let desired = desiredResource s current; merged = webhookMergeBeforeUpdate current desired in
   (if expectedForm current
    then rulesOf merged = retrieveWebhookRules s \<and> expectedForm merged \<and>
      map_option wc_Name merged = map_option wc_Name current \<and>
      map_option (map wh_Name \<circ> wc_Webhooks) merged = map_option (map wh_Name \<circ> wc_Webhooks) current \<and>
      webhookSanitize merged = retrieveWebhookRules s
    else merged = current) \<and>
   webhookSemanticEquals (=) merged (desiredResource s merged) \<and>
   webhookMergeBeforeUpdate merged (desiredResource s merged) = merged"
proof (cases "expectedForm current")
  case False
  then show ?thesis
    by (simp add: desiredResource_def webhookMergeBeforeUpdate_def webhookSemanticEquals_def Let_def)
next
  case True
  then obtain c w where "current = Some c" "wc_Webhooks c = [w]"
    by (auto simp: expectedForm_def length_Suc_conv split: option.splits)
  then show ?thesis
    by (simp add: desiredResource_def webhookMergeBeforeUpdate_def webhookSemanticEquals_def Let_def
        expectedForm_def setRules_def rulesOf_def webhookSanitize_def)
qed

section \<open>Bindings selected at admission\<close>

definition selects :: "'w webhookEnv \<Rightarrow> workloadReference \<Rightarrow> 'w \<Rightarrow> bool" where
  "selects W ref workload \<longleftrightarrow>
     (\<exists>sel. wr_Selector ref \<noteq> None \<and> cfg_asSelector (we_config W) (wr_Selector ref) = Inr sel \<and>
        sel (we_labels W workload))"

lemma isActiveFor_eq:
  "isActiveFor W workload sb \<longleftrightarrow> timeIsZero (om_DeletionTimestamp (sb_meta sb)) \<and>
     (wr_Name (bs_Workload (sb_Spec sb)) = we_name W workload \<or> selects W (bs_Workload (sb_Spec sb)) workload)"
  by (auto simp: isActiveFor_def selects_def Let_def split: option.splits sum.splits)

lemma isActiveFor_valid:
  assumes "workloadRefOk (cfg_asSelector (we_config W)) (bs_Workload (sb_Spec sb))"
    and "we_name W workload \<noteq> ''''"
  shows "isActiveFor W workload sb \<longleftrightarrow> timeIsZero (om_DeletionTimestamp (sb_meta sb)) \<and>
    (case wr_Selector (bs_Workload (sb_Spec sb)) of
       None \<Rightarrow> wr_Name (bs_Workload (sb_Spec sb)) = we_name W workload
     | Some _ \<Rightarrow> selects W (bs_Workload (sb_Spec sb)) workload)"
  using assms
  by (auto simp: isActiveFor_eq workloadRefOk_def selects_def split: option.splits)

text \<open>The binding of the instance, which has a selector.\<close>

definition selectorBinding :: serviceBinding where
  "selectorBinding = (case we_listAll webhookExample of Inr (b # _) \<Rightarrow> b | _ \<Rightarrow> undefined)"

text \<open>
  A workload that has no name yet when it is admitted (the API server makes one up from
  \<open>generateName\<close> later) is taken for the workload of every binding that has a selector: the
  empty name of the reference equals the empty name of the workload, and the selector, also one
  that does not match, is not looked at.
\<close>

lemma unnamed_workload_ignores_selector:
  assumes "workloadRefOk (cfg_asSelector (we_config W)) (bs_Workload (sb_Spec sb))"
    and "wr_Selector (bs_Workload (sb_Spec sb)) = Some sel"
    and "we_name W workload = ''''" and "timeIsZero (om_DeletionTimestamp (sb_meta sb))"
  shows "isActiveFor W workload sb"
  using assms by (simp add: isActiveFor_eq workloadRefOk_def)

text \<open>The bindings a workload is projected with, by the contract of the specification.\<close>

definition bindsTo :: "'w webhookEnv \<Rightarrow> 'w \<Rightarrow> serviceBinding \<Rightarrow> bool" where
  "bindsTo W workload b \<longleftrightarrow>
    (let ref = bs_Workload (sb_Spec b);
         have = we_gvk W (we_apiVersion W workload) (we_kind W workload);
         want = we_gvk W (wr_APIVersion ref) (wr_Kind ref)
     in om_Namespace (sb_meta b) = we_namespace W workload \<and>
        we_groupKindString W (gvk_Group want) (gvk_Kind want) =
          we_groupKindString W (gvk_Group have) (gvk_Kind have) \<and>
        timeIsZero (om_DeletionTimestamp (sb_meta b)) \<and>
        (case wr_Selector ref of
           None \<Rightarrow> wr_Name ref = we_name W workload
         | Some _ \<Rightarrow> selects W ref workload))"

text \<open>What listing by namespace and index value means.\<close>

definition indexed :: "'w webhookEnv \<Rightarrow> serviceBinding list \<Rightarrow> bool" where
  "indexed W bs \<longleftrightarrow> (\<forall>ns v. we_listBindings W ns v =
     Inr (filter (\<lambda>b. om_Namespace (sb_meta b) = ns \<and> v \<in> set (workloadRefIndex W b)) bs))"

lemma admission_fold:
  assumes "indexed W bs" and "we_name W workload \<noteq> ''''"
    and "\<forall>b \<in> set bs. workloadRefOk (cfg_asSelector (we_config W)) (bs_Workload (sb_Spec b))"
  shows "admissionProjectorSync W workload =
    fold_ok (\<lambda>b w. Project (lookupMapping (we_config W)) (we_lib W) (bindingDefault b) w)
      (filter (bindsTo W workload) bs) workload"
proof -
  let ?gvk = "we_gvk W (we_apiVersion W workload) (we_kind W workload)"
  have "filter (isActiveFor W workload) (filter (\<lambda>b. om_Namespace (sb_meta b) = we_namespace W workload \<and>
      workloadRefIndexValue W (gvk_Group ?gvk) (gvk_Kind ?gvk) \<in> set (workloadRefIndex W b)) bs) =
    filter (bindsTo W workload) bs"
    unfolding filter_filter
  proof (rule filter_cong [OF refl])
    fix b
    assume "b \<in> set bs"
    with assms(3) have "workloadRefOk (cfg_asSelector (we_config W)) (bs_Workload (sb_Spec b))" by blast
    from isActiveFor_valid [OF this assms(2)]
    show "(om_Namespace (sb_meta b) = we_namespace W workload \<and>
        workloadRefIndexValue W (gvk_Group ?gvk) (gvk_Kind ?gvk) \<in> set (workloadRefIndex W b)) \<and>
        isActiveFor W workload b \<longleftrightarrow> bindsTo W workload b"
      by (auto simp: bindsTo_def workloadRefIndex_def workloadRefIndexValue_def Let_def)
  qed
  with assms(1) show ?thesis by (simp add: admissionProjectorSync_def indexed_def Let_def)
qed

text \<open>
  Admission of a workload that has a name projects exactly the bindings of its namespace that
  refer to its group and kind, are not being deleted, and name it or select its labels, one after
  the other and each with its defaults; when all bindings are valid, the shortcut through the
  index and the name comparison loses and adds none.
\<close>

lemma admission_projects:
  assumes "indexed W bs" and "we_name W workload \<noteq> ''''"
    and "\<forall>b \<in> set bs. workloadRefOk (cfg_asSelector (we_config W)) (bs_Workload (sb_Spec b))"
  shows "admissionProjectorSync W workload =
    fold_ok (\<lambda>b w. Project (lookupMapping (we_config W)) (we_lib W) (bindingDefault b) w)
      (filter (bindsTo W workload) bs) workload"
  using assms by (rule admission_fold)

lemma admission_projects_witness:
  "let W = webhookExample\<lparr>we_name := (\<lambda>w. ''app''),
       we_listBindings := (\<lambda>ns v. Inr (filter (\<lambda>b. om_Namespace (sb_meta b) = ns \<and>
         v \<in> set (workloadRefIndex webhookExample b)) [selectorBinding]))\<rparr>
   in admissionProjectorSync W () = Ok ()"
proof -
  let ?W = "webhookExample\<lparr>we_name := (\<lambda>w. ''app''),
       we_listBindings := (\<lambda>ns v. Inr (filter (\<lambda>b. om_Namespace (sb_meta b) = ns \<and>
         v \<in> set (workloadRefIndex webhookExample b)) [selectorBinding]))\<rparr>"
  have "indexed ?W [selectorBinding]"
    by (simp add: indexed_def workloadRefIndex_def workloadRefIndexValue_def webhookExample_def)
  from admission_projects [OF this, of "()"] show ?thesis
    by (simp add: selectorBinding_def webhookExample_def workloadRefOk_def selects_def bindsTo_def)
qed

end
