(* ===== verification/Projection_History.thy ===== *)
theory Projection_History
  imports Projector_Properties
begin

text \<open>
  A pod template under any sequence of projections and removals of bindings. Each binding
  contributes the same items whatever else was projected before it, so the template is determined
  by the original template and the bindings that are projected now: \<open>carries m0 act m\<close>.
\<close>

section \<open>What a template carries\<close>

text \<open>The bindings of \<open>act\<close> that bind into a container, and the variables a binding adds.\<close>

definition selectedBy :: "serviceBinding list \<Rightarrow> metaContainer \<Rightarrow> serviceBinding list" where
  "selectedBy act mc = filter (\<lambda>b. isContainerBindable b mc) act"

definition bindingEnvs :: "serviceBinding \<Rightarrow> envVar list" where
  "bindingEnvs b = map (bindingEnv b) (bs_Env (sb_Spec b))"

definition rootVar :: "metaContainer \<Rightarrow> envVar option" where
  "rootVar mc = List.find (\<lambda>e. ev_Name e = ServiceBindingRootEnv) (ct_Env mc)"

text \<open>
  A container \<open>mc0\<close> that now carries the bindings \<open>act\<close>. The default root variable appears with
  the first binding and stays.
\<close>

definition carriesContainer ::
  "serviceBinding list \<Rightarrow> metaContainer \<Rightarrow> metaContainer \<Rightarrow> bool" where
  "carriesContainer act mc0 mc \<longleftrightarrow> ct_Name mc = ct_Name mc0 \<and>
     sortMounts (ct_VolumeMounts mc) =
       sortMounts (ct_VolumeMounts mc0 @ map (\<lambda>b. bindingMount b mc0) (selectedBy act mc0)) \<and>
     (selectedBy act mc0 = [] \<and> ct_Env mc = ct_Env mc0 \<or>
      mset (ct_Env mc) = mset (ct_Env (rootContainer mc0)) +
        mset (concat (map bindingEnvs (selectedBy act mc0))) \<and>
      rootVar mc = rootVar (rootContainer mc0))"

definition carries ::
  "'w metaPodTemplate \<Rightarrow> serviceBinding list \<Rightarrow> 'v metaPodTemplate \<Rightarrow> bool" where
  "carries m0 act m \<longleftrightarrow>
     (\<forall>b \<in> set act. \<forall>k \<in> ownKeys b. map_of (mpt_Annotations m) k = map_of (bindAnnotations b []) k) \<and>
     (\<forall>k. (\<forall>b \<in> set act. k \<notin> ownKeys b) \<longrightarrow>
        map_of (mpt_Annotations m) k = map_of (mpt_Annotations m0) k) \<and>
     sortVolumes (mpt_Volumes m) = sortVolumes (mpt_Volumes m0 @ map bindingVolume act) \<and>
     list_all2 (carriesContainer act) (mpt_Containers m0) (mpt_Containers m)"

text \<open>
  The original template has nothing of a binding in it: no annotation, volume or mount of its
  names, and no variable that reads its secret or its annotations, or names no secret at all.
\<close>

definition unowned :: "serviceBinding \<Rightarrow> 'w metaPodTemplate \<Rightarrow> bool" where
  "unowned b m \<longleftrightarrow> (\<forall>k \<in> ownKeys b. map_of (mpt_Annotations m) k = None) \<and>
     (\<forall>v \<in> set (mpt_Volumes m). v_Name v \<noteq> volumeName b) \<and>
     (\<forall>mc \<in> set (mpt_Containers m). (\<forall>v \<in> set (ct_VolumeMounts mc). vm_Name v \<noteq> volumeName b) \<and>
       (\<forall>e \<in> set (ct_Env mc). \<not> refersToOwnField b e \<and> \<not> refersToSecret (secretName b) e \<and>
          \<not> refersToSecret '''' e))"

text \<open>
  The bindings that are ever projected: different bindings never have the same secret, since
  removing one takes the variables of the other. The same binding may occur in several versions.
\<close>

definition compatible :: "serviceBinding set \<Rightarrow> bool" where
  "compatible B \<longleftrightarrow> (\<forall>b \<in> B. \<forall>c \<in> B. bindingUID b \<noteq> bindingUID c \<longrightarrow>
     secretName b = secretName c \<longrightarrow> secretName b = '''')"

definition activeIn :: "serviceBinding set \<Rightarrow> serviceBinding list \<Rightarrow> bool" where
  "activeIn B act \<longleftrightarrow> set act \<subseteq> B \<and> distinct (map bindingUID act) \<and>
     (\<forall>b \<in> set act. secretName b \<noteq> '''')"

definition withoutUID :: "serviceBinding \<Rightarrow> serviceBinding list \<Rightarrow> serviceBinding list" where
  "withoutUID b act = filter (\<lambda>c. bindingUID c \<noteq> bindingUID b) act"

lemma withoutUID_set [simp]: "set (withoutUID b act) = {c \<in> set act. bindingUID c \<noteq> bindingUID b}"
  by (auto simp: withoutUID_def)

lemma activeIn_withoutUID: "activeIn B act \<Longrightarrow> activeIn B (withoutUID b act)"
  by (auto simp: activeIn_def withoutUID_def distinct_map_filter)

lemma activeIn_snoc:
  "activeIn B act \<Longrightarrow> b \<in> B \<Longrightarrow> secretName b \<noteq> '''' \<Longrightarrow> activeIn B (withoutUID b act @ [b])"
  by (auto simp: activeIn_def withoutUID_def distinct_map_filter)

lemma ownKeys_UID: "bindingUID b = bindingUID c \<Longrightarrow> ownKeys b = ownKeys c"
  by (simp add: ownKeys_def name_defs)

lemma carries_start: "carries m [] m"
  by (simp add: carries_def carriesContainer_def selectedBy_def list_all2_refl)

section \<open>Removing a binding\<close>

text \<open>The secret recorded in the annotations is that of the version that was projected.\<close>

lemma recorded_secret:
  assumes "carries m0 act m" and "unowned b m0" and "activeIn B act"
  shows "(\<exists>a \<in> set act. bindingUID a = bindingUID b \<and>
       amap_str (mpt_Annotations m) (secretAnnotationName b) = secretName a) \<or>
    (\<forall>a \<in> set act. bindingUID a \<noteq> bindingUID b) \<and>
       amap_str (mpt_Annotations m) (secretAnnotationName b) = ''''"
proof (cases "\<exists>a \<in> set act. bindingUID a = bindingUID b")
  case True
  then obtain a where a: "a \<in> set act" "bindingUID a = bindingUID b" by blast
  then have key: "secretAnnotationName b = secretAnnotationName a" by simp
  have "map_of (mpt_Annotations m) (secretAnnotationName a) =
      map_of (bindAnnotations a []) (secretAnnotationName a)"
    using assms(1) a(1) by (simp add: carries_def ownKeys_def)
  also have "\<dots> = Some (secretName a)"
    using annotated_bindAnnotations [of a "[]"] by (simp add: annotated_def)
  finally show ?thesis using a by (auto simp: key amap_str_def)
next
  case False
  then have "\<forall>a \<in> set act. secretAnnotationName b \<notin> ownKeys a" by (auto simp: ownKeys_def)
  then have "map_of (mpt_Annotations m) (secretAnnotationName b) = None"
    using assms(1,2) by (simp add: carries_def unowned_def ownKeys_def)
  with False show ?thesis by (auto simp: amap_str_def)
qed

text \<open>The variables that are removed are those of the binding that had that secret.\<close>

lemma annotationPath_inj [simp]: "annotationPath x = annotationPath y \<longleftrightarrow> x = y"
  by (simp add: annotationPath_def)

lemma refersToOwnField_bindingEnv:
  "bindingUID b \<noteq> bindingUID c \<Longrightarrow> \<not> refersToOwnField b (bindingEnv c e)"
  by (auto simp: refersToOwnField_def bindingEnv_def annotationEnv_def secretEnv_def)

lemma refersToOwnField_UID: "bindingUID b = bindingUID c \<Longrightarrow> refersToOwnField b = refersToOwnField c"
  by (rule ext) (simp add: refersToOwnField_def name_defs split: option.split)

lemma refersToSecret_bindingEnv: "refersToSecret s (bindingEnv c e) \<Longrightarrow> s = secretName c"
  by (auto simp: refersToSecret_def bindingEnv_def annotationEnv_def secretEnv_def split: if_splits)

lemma removesEnv_active:
  assumes "compatible B" and "activeIn B act" and "c \<in> set act"
    and s: "(\<exists>a \<in> set act. bindingUID a = bindingUID b \<and> s = secretName a) \<or>
      (\<forall>a \<in> set act. bindingUID a \<noteq> bindingUID b) \<and> s = ''''"
  shows "removesEnv b s (bindingEnv c e) \<longleftrightarrow> bindingUID c = bindingUID b"
proof (cases "bindingUID c = bindingUID b")
  case True
  with s assms(3) obtain a where a: "a \<in> set act" "bindingUID a = bindingUID b" "s = secretName a"
    by blast
  have "a = c"
    using assms(2,3) a(1,2) True by (auto simp: activeIn_def distinct_map inj_on_def)
  with True a(3) refersToOwnField_UID [OF True] removesEnv_bindingEnv [of c e] show ?thesis
    by (simp add: removesEnv_iff)
next
  case False
  have "s \<noteq> secretName c"
    using s assms(1-3) False unfolding compatible_def activeIn_def by (metis subsetD)
  with False refersToSecret_bindingEnv [of s c e] refersToOwnField_bindingEnv [of b c e] show ?thesis
    by (auto simp: removesEnv_iff)
qed

lemma filter_bindingEnvs:
  assumes "\<And>c e. c \<in> set cs \<Longrightarrow> removesEnv b s (bindingEnv c e) \<longleftrightarrow> bindingUID c = bindingUID b"
  shows "filter (\<lambda>e. \<not> removesEnv b s e) (concat (map bindingEnvs cs)) =
    concat (map bindingEnvs (withoutUID b cs))"
  using assms
proof (induction cs)
  case Nil
  show ?case by (simp add: withoutUID_def)
next
  case (Cons c cs)
  have "filter (\<lambda>e. \<not> removesEnv b s e) (bindingEnvs c) =
      (if bindingUID c = bindingUID b then [] else bindingEnvs c)"
    using Cons.prems [of c] by (auto simp: bindingEnvs_def filter_map comp_def)
  with Cons show ?case by (simp add: withoutUID_def)
qed

lemma find_filter_kept: "List.find P xs = Some x \<Longrightarrow> Q x \<Longrightarrow> List.find P (filter Q xs) = Some x"
  by (induction xs) (auto split: if_splits)

lemma selectedBy_withoutUID: "selectedBy (withoutUID b act) mc = withoutUID b (selectedBy act mc)"
  by (simp add: selectedBy_def withoutUID_def conj_commute)

lemma filter_volumes_withoutUID:
  "filter (\<lambda>v. v_Name v \<noteq> volumeName b) (map bindingVolume act) = map bindingVolume (withoutUID b act)"
  "filter (\<lambda>m. vm_Name m \<noteq> volumeName b) (map (\<lambda>c. bindingMount c mc) act) =
     map (\<lambda>c. bindingMount c mc) (withoutUID b act)"
  by (simp_all add: withoutUID_def filter_map comp_def bindingVolume_def bindingMount_def)

lemma rootVar_rootContainer:
  assumes "literalRoot mc"
  obtains e where "rootVar (rootContainer mc) = Some e" "ev_ValueFrom e = None"
    "ev_Value e = fst (serviceBindingRoot mc)"
proof -
  obtain e where e: "rootVar (rootContainer mc) = Some e" "ev_Value e = fst (serviceBindingRoot mc)"
    using find_root_rootContainer [of mc] by (auto simp: rootVar_def)
  then have "e \<in> set (ct_Env (rootContainer mc))" "ev_Name e = ServiceBindingRootEnv"
    by (auto simp: rootVar_def find_Some_iff)
  with literalRoot_rootContainer [OF assms] have "ev_ValueFrom e = None"
    by (simp add: literalRoot_def)
  with e that show thesis by blast
qed

lemma literal_not_removed: "ev_ValueFrom e = None \<Longrightarrow> \<not> removesEnv b s e"
  by (simp add: removesEnv_def)

lemma unprojectContainer_carries:
  assumes old: "carriesContainer act mc0 mc" and lit: "literalRoot mc0"
    and mounts: "\<forall>v \<in> set (ct_VolumeMounts mc0). vm_Name v \<noteq> volumeName b"
    and envs: "\<forall>e \<in> set (ct_Env mc0). \<not> removesEnv b s e"
    and act: "\<And>c e. c \<in> set act \<Longrightarrow> removesEnv b s (bindingEnv c e) \<longleftrightarrow> bindingUID c = bindingUID b"
    and s: "s = amap_str ann (secretAnnotationName b)"
  shows "carriesContainer (withoutUID b act) mc0 (unprojectContainer b ann mc)"
proof -
  let ?Q = "\<lambda>e. \<not> removesEnv b s e" and ?sel = "selectedBy act mc0"
  have "sortMounts (filter (\<lambda>m. vm_Name m \<noteq> volumeName b) (ct_VolumeMounts mc)) =
      filter (\<lambda>m. vm_Name m \<noteq> volumeName b) (sortMounts (ct_VolumeMounts mc))"
    by (simp add: filter_sortProjected)
  also have "\<dots> = sortMounts (filter (\<lambda>m. vm_Name m \<noteq> volumeName b)
      (ct_VolumeMounts mc0 @ map (\<lambda>b. bindingMount b mc0) ?sel))"
    using old by (simp add: carriesContainer_def filter_sortProjected)
  also have "filter (\<lambda>m. vm_Name m \<noteq> volumeName b) (ct_VolumeMounts mc0) = ct_VolumeMounts mc0"
    using mounts by (simp add: filter_eq_self)
  ultimately have mount: "sortMounts (filter (\<lambda>m. vm_Name m \<noteq> volumeName b) (ct_VolumeMounts mc)) =
      sortMounts (ct_VolumeMounts mc0 @ map (\<lambda>b. bindingMount b mc0) (selectedBy (withoutUID b act) mc0))"
    by (simp add: filter_volumes_withoutUID selectedBy_withoutUID)
  have root: "filter ?Q (ct_Env (rootContainer mc0)) = ct_Env (rootContainer mc0)"
    using envs set_rootContainer [of mc0] by (intro filter_eq_self) auto
  have sel: "filter ?Q (concat (map bindingEnvs ?sel)) = concat (map bindingEnvs (withoutUID b ?sel))"
    by (rule filter_bindingEnvs) (simp add: act selectedBy_def)
  consider "?sel = []" "ct_Env mc = ct_Env mc0"
    | "mset (ct_Env mc) = mset (ct_Env (rootContainer mc0)) + mset (concat (map bindingEnvs ?sel))"
      "rootVar mc = rootVar (rootContainer mc0)"
    using old by (auto simp: carriesContainer_def)
  then show ?thesis
  proof cases
    case 1
    have "filter ?Q (ct_Env mc0) = ct_Env mc0" using envs by (simp add: filter_eq_self)
    moreover have "selectedBy (withoutUID b act) mc0 = []"
      unfolding selectedBy_withoutUID 1(1) by (simp add: withoutUID_def)
    ultimately show ?thesis
      using 1(2) mount old by (simp add: carriesContainer_def s [symmetric])
  next
    case 2
    have "mset (filter ?Q (ct_Env mc)) = filter_mset ?Q (mset (ct_Env mc))" by simp
    also have "\<dots> = mset (filter ?Q (ct_Env (rootContainer mc0))) +
        mset (filter ?Q (concat (map bindingEnvs ?sel)))"
      by (simp only: 2(1) filter_union_mset mset_filter)
    finally have env: "mset (filter ?Q (ct_Env mc)) = mset (ct_Env (rootContainer mc0)) +
        mset (concat (map bindingEnvs (selectedBy (withoutUID b act) mc0)))"
      by (simp only: root sel selectedBy_withoutUID)
    obtain e where e: "rootVar (rootContainer mc0) = Some e" "ev_ValueFrom e = None"
      by (rule rootVar_rootContainer [OF lit])
    with 2(2) have "rootVar mc = Some e" by simp
    then have "List.find (\<lambda>e. ev_Name e = ServiceBindingRootEnv) (filter ?Q (ct_Env mc)) = Some e"
      using literal_not_removed [OF e(2)] unfolding rootVar_def by (rule find_filter_kept)
    then have "rootVar (unprojectContainer b ann mc) = rootVar (rootContainer mc0)"
      by (simp add: e(1)) (simp add: rootVar_def s)
    with env mount old show ?thesis by (simp add: carriesContainer_def s [symmetric])
  qed
qed


lemma unproject_carries:
  assumes old: "carries m0 act m" and lit: "literalRoots m0" and own: "unowned b m0"
    and foreign: "\<forall>a \<in> B. unowned a m0" and B: "compatible B" "activeIn B act"
  shows "carries m0 (withoutUID b act) (unproject b m)"
proof -
  let ?s = "amap_str (mpt_Annotations m) (secretAnnotationName b)"
  note s = recorded_secret [OF old own B(2)]
  have cont: "carriesContainer (withoutUID b act) mc0 (unprojectContainer b (mpt_Annotations m) mc)"
    if mc0: "mc0 \<in> set (mpt_Containers m0)" and c: "carriesContainer act mc0 mc" for mc0 mc
  proof (rule unprojectContainer_carries [OF c])
    show "literalRoot mc0" using lit mc0 by (simp add: literalRoots_def)
    show "\<forall>v \<in> set (ct_VolumeMounts mc0). vm_Name v \<noteq> volumeName b"
      using own mc0 by (simp add: unowned_def)
    show "\<forall>e \<in> set (ct_Env mc0). \<not> removesEnv b ?s e"
    proof
      fix e
      assume e: "e \<in> set (ct_Env mc0)"
      have free: "\<not> refersToOwnField a e \<and> \<not> refersToSecret (secretName a) e \<and> \<not> refersToSecret '''' e"
        if "unowned a m0" for a
        using that mc0 e by (auto simp: unowned_def)
      from s show "\<not> removesEnv b ?s e"
      proof
        assume "\<exists>a \<in> set act. bindingUID a = bindingUID b \<and> ?s = secretName a"
        then obtain a where a: "a \<in> set act" "?s = secretName a" by blast
        then have "unowned a m0" using foreign B(2) by (auto simp: activeIn_def)
        with free [OF this] free [OF own] a(2) show ?thesis by (simp add: removesEnv_iff)
      next
        assume "(\<forall>a \<in> set act. bindingUID a \<noteq> bindingUID b) \<and> ?s = ''''"
        with free [OF own] show ?thesis by (simp add: removesEnv_iff)
      qed
    qed
    show "removesEnv b ?s (bindingEnv c e) \<longleftrightarrow> bindingUID c = bindingUID b" if "c \<in> set act" for c e
      by (rule removesEnv_active [OF B that s])
  qed simp
  have "sortVolumes (filter (\<lambda>v. v_Name v \<noteq> volumeName b) (mpt_Volumes m)) =
      filter (\<lambda>v. v_Name v \<noteq> volumeName b) (sortVolumes (mpt_Volumes m))"
    by (simp add: filter_sortProjected)
  also have "\<dots> = sortVolumes (filter (\<lambda>v. v_Name v \<noteq> volumeName b)
      (mpt_Volumes m0 @ map bindingVolume act))"
    using old by (simp add: carries_def filter_sortProjected)
  also have "filter (\<lambda>v. v_Name v \<noteq> volumeName b) (mpt_Volumes m0) = mpt_Volumes m0"
    using own by (simp add: unowned_def filter_eq_self)
  ultimately have vol: "sortVolumes (mpt_Volumes (unproject b m)) =
      sortVolumes (mpt_Volumes m0 @ map bindingVolume (withoutUID b act))"
    by (simp add: filter_volumes_withoutUID)
  have kept: "map_of (mpt_Annotations (unproject b m)) k = map_of (bindAnnotations c []) k"
    if c: "c \<in> set (withoutUID b act)" and k: "k \<in> ownKeys c" for c k
  proof -
    have "k \<notin> ownKeys b" using c k ownKeys_disjoint [of c b] by auto
    then show ?thesis using old c k by (simp add: map_of_clearAnnotations carries_def)
  qed
  have rest: "map_of (mpt_Annotations (unproject b m)) k = map_of (mpt_Annotations m0) k"
    if "\<forall>c \<in> set (withoutUID b act). k \<notin> ownKeys c" for k
  proof (cases "k \<in> ownKeys b")
    case True
    then show ?thesis using own by (simp add: map_of_clearAnnotations unowned_def)
  next
    case False
    have "k \<notin> ownKeys c" if "c \<in> set act" for c
      using \<open>\<forall>c \<in> set (withoutUID b act). k \<notin> ownKeys c\<close> that False ownKeys_UID [of c b]
      by (cases "bindingUID c = bindingUID b") simp_all
    with False old show ?thesis by (simp add: map_of_clearAnnotations carries_def)
  qed
  have "list_all2 (carriesContainer (withoutUID b act)) (mpt_Containers m0)
      (mpt_Containers (unproject b m))"
    using old cont by (auto simp: carries_def list_all2_conv_all_nth)
  with vol kept rest show ?thesis unfolding carries_def by blast
qed

section \<open>Adding a binding\<close>

lemma rootVar_rooted:
  assumes "rootVar mc = rootVar (rootContainer mc0)"
  shows "rootContainer mc = mc" and "fst (serviceBindingRoot mc) = fst (serviceBindingRoot mc0)"
proof -
  obtain e where "rootVar (rootContainer mc0) = Some e" "ev_Value e = fst (serviceBindingRoot mc0)"
    using find_root_rootContainer [of mc0] by (auto simp: rootVar_def)
  with assms show "rootContainer mc = mc" "fst (serviceBindingRoot mc) = fst (serviceBindingRoot mc0)"
    by (simp_all add: rootVar_def rootContainer_def serviceBindingRoot_def)
qed

lemma find_sortProjected_first:
  "List.find P xs = Some x \<Longrightarrow> \<not> p x \<Longrightarrow> List.find P (sortProjected p name xs) = Some x"
  by (simp add: sortProjected_split find_append_Some find_filter_kept)

lemma boundContainer_carries:
  assumes old: "carriesContainer act mc0 mc" and lit: "literalRoot mc0"
  shows "carriesContainer (act @ [b]) mc0 (boundContainer b ann mc)"
proof (cases "isContainerBindable b mc0")
  case False
  moreover have "ct_Name mc = ct_Name mc0" using old by (simp add: carriesContainer_def)
  then have "isContainerBindable b mc = isContainerBindable b mc0" by (rule isContainerBindable_cong)
  moreover have "selectedBy (act @ [b]) mc0 = selectedBy act mc0" using False by (simp add: selectedBy_def)
  ultimately show ?thesis using old by (simp add: boundContainer_def carriesContainer_def)
next
  case True
  have name: "ct_Name mc = ct_Name mc0" using old by (simp add: carriesContainer_def)
  then have bind: "isContainerBindable b mc" using True isContainerBindable_cong by blast
  have sel: "selectedBy (act @ [b]) mc0 = selectedBy act mc0 @ [b]" using True by (simp add: selectedBy_def)
  have "mset (ct_Env (rootContainer mc)) = mset (ct_Env (rootContainer mc0)) +
      mset (concat (map bindingEnvs (selectedBy act mc0))) \<and>
    rootVar (rootContainer mc) = rootVar (rootContainer mc0) \<and>
    fst (serviceBindingRoot mc) = fst (serviceBindingRoot mc0)"
  proof (cases "rootVar mc = rootVar (rootContainer mc0) \<and> mset (ct_Env mc) =
      mset (ct_Env (rootContainer mc0)) + mset (concat (map bindingEnvs (selectedBy act mc0)))")
    case True
    then show ?thesis using rootVar_rooted [of mc mc0] by simp
  next
    case False
    with old have "selectedBy act mc0 = []" and env: "ct_Env mc = ct_Env mc0"
      by (auto simp: carriesContainer_def)
    moreover have "serviceBindingRoot mc = (fst (serviceBindingRoot mc0),
        mc\<lparr>ct_Env := ct_Env (rootContainer mc0)\<rparr>)"
      by (cases mc) (use env in \<open>auto simp: serviceBindingRoot_def rootContainer_def split: option.split\<close>)
    ultimately show ?thesis by (simp add: rootContainer_def rootVar_def)
  qed
  then have env: "mset (ct_Env (rootContainer mc)) = mset (ct_Env (rootContainer mc0)) +
      mset (concat (map bindingEnvs (selectedBy act mc0)))"
    and rv: "rootVar (rootContainer mc) = rootVar (rootContainer mc0)"
    and root: "fst (serviceBindingRoot mc) = fst (serviceBindingRoot mc0)" by blast+
  obtain e where e: "rootVar (rootContainer mc0) = Some e" "ev_ValueFrom e = None"
    by (rule rootVar_rootContainer [OF lit])
  have new: "boundContainer b ann mc = \<lparr>ct_Name = ct_Name mc,
      ct_Env = sortEnv ann (ct_Env (rootContainer mc) @ bindingEnvs b),
      ct_VolumeMounts = sortMounts (ct_VolumeMounts mc @ [bindingMount b mc])\<rparr>"
    using bind by (simp add: boundContainer_def bindingEnvs_def)
  have "rootVar (boundContainer b ann mc) = Some e"
    unfolding rootVar_def new metaContainer.simps
  proof (rule find_sortProjected_first)
    show "List.find (\<lambda>e. ev_Name e = ServiceBindingRootEnv)
        (ct_Env (rootContainer mc) @ bindingEnvs b) = Some e"
      using rv e(1) by (auto simp: rootVar_def intro: find_append_Some)
    show "\<not> isProjectedEnv e (knownProjectedSecrets ann)"
      using e(2) by (simp add: isProjectedEnv_def)
  qed
  moreover have "bindingMount b mc = bindingMount b mc0" by (simp add: bindingMount_def root)
  moreover have "sortMounts (ct_VolumeMounts mc @ [bindingMount b mc0]) =
      sortMounts (sortMounts (ct_VolumeMounts mc) @ [bindingMount b mc0])"
    by (simp add: sortProjected_absorb)
  moreover have "sortMounts (sortMounts (ct_VolumeMounts mc) @ [bindingMount b mc0]) =
      sortMounts (ct_VolumeMounts mc0 @ map (\<lambda>b. bindingMount b mc0) (selectedBy act mc0 @ [b]))"
    using old sortProjected_absorb [of _ vm_Name "ct_VolumeMounts mc0 @ map (\<lambda>b. bindingMount b mc0) (selectedBy act mc0)"]
    by (simp add: carriesContainer_def)
  moreover have "sortMounts (sortMounts xs) = sortMounts xs" for xs
    using sortProjected_absorb [of _ vm_Name xs "[]"] by simp
  ultimately show ?thesis
    using name env e(1) by (simp add: carriesContainer_def sel new union_assoc)
qed

lemma project_carries:
  assumes old: "carries m0 act m" and lit: "literalRoots m0" and b: "b \<in> B" "secretName b \<noteq> ''''"
    and foreign: "\<forall>a \<in> B. unowned a m0" and B: "compatible B" "activeIn B act"
  shows "carries m0 (withoutUID b act @ [b]) (project b m)"
proof -
  let ?act = "withoutUID b act" and ?u = "unproject b m"
  from foreign b(1) have own: "unowned b m0" by blast
  have u: "carries m0 ?act ?u" by (rule unproject_carries [OF old lit own foreign B])
  have ann: "mpt_Annotations (project b m) = bindAnnotations b (mpt_Annotations ?u)"
    by (simp add: project_simps [OF b(2)])
  have kept: "map_of (mpt_Annotations (project b m)) k = map_of (bindAnnotations c []) k"
    if c: "c \<in> set (?act @ [b])" and k: "k \<in> ownKeys c" for c k
  proof (cases "c = b")
    case True
    have "map_of (bindAnnotations b (clearAnnotations b xs)) k = map_of (bindAnnotations b []) k" for xs
      using k True by (auto simp: bindAnnotations_def Let_def amap_simps map_of_clearAnnotations ownKeys_def)
    with True show ?thesis by (simp add: ann)
  next
    case False
    then have c': "c \<in> set ?act" using c by auto
    then have "k \<notin> ownKeys b" using k ownKeys_disjoint [of c b] by auto
    then show ?thesis using u c' k by (simp add: ann map_of_bindAnnotations_other carries_def)
  qed
  have rest: "map_of (mpt_Annotations (project b m)) k = map_of (mpt_Annotations m0) k"
    if "\<forall>c \<in> set (?act @ [b]). k \<notin> ownKeys c" for k
    using that u by (simp add: ann map_of_bindAnnotations_other carries_def)
  have idem: "sortVolumes (sortVolumes xs) = sortVolumes xs" for xs
    using sortProjected_absorb [of _ v_Name xs "[]"] by simp
  have "mpt_Volumes (project b m) = sortVolumes (mpt_Volumes ?u @ [bindingVolume b])"
    by (simp add: project_simps [OF b(2)])
  also have "\<dots> = sortVolumes (sortVolumes (mpt_Volumes ?u) @ [bindingVolume b])"
    by (simp add: sortProjected_absorb)
  also have "\<dots> = sortVolumes (sortVolumes (mpt_Volumes m0 @ map bindingVolume ?act) @ [bindingVolume b])"
    using u by (simp only: carries_def)
  also have "\<dots> = sortVolumes (mpt_Volumes m0 @ map bindingVolume (?act @ [b]))"
    by (simp add: sortProjected_absorb)
  finally have vol: "sortVolumes (mpt_Volumes (project b m)) =
      sortVolumes (mpt_Volumes m0 @ map bindingVolume (?act @ [b]))"
    by (simp only: idem)
  have "list_all2 (carriesContainer (?act @ [b])) (mpt_Containers m0) (mpt_Containers (project b m))"
  proof -
    have "mpt_Containers (project b m) = map (boundContainer b (mpt_Annotations (project b m))) (mpt_Containers ?u)"
      by (simp add: project_simps [OF b(2)])
    with u lit show ?thesis
      by (auto simp: carries_def list_all2_conv_all_nth literalRoots_def intro!: boundContainer_carries)
  qed
  with vol kept rest show ?thesis unfolding carries_def by blast
qed

section \<open>Independence of the order\<close>

text \<open>
  Two templates with the same content: equal annotations, volumes and mounts that are equal in
  canonical order, the same variables in each container, and the same root.
\<close>

definition sameContent :: "'w metaPodTemplate \<Rightarrow> 'v metaPodTemplate \<Rightarrow> bool" where
  "sameContent m m' \<longleftrightarrow> map_of (mpt_Annotations m) = map_of (mpt_Annotations m') \<and>
     sortVolumes (mpt_Volumes m) = sortVolumes (mpt_Volumes m') \<and>
     list_all2 (\<lambda>mc mc'. ct_Name mc = ct_Name mc' \<and>
         sortMounts (ct_VolumeMounts mc) = sortMounts (ct_VolumeMounts mc') \<and>
         mset (ct_Env (rootContainer mc)) = mset (ct_Env (rootContainer mc')))
       (mpt_Containers m) (mpt_Containers m')"

lemma filter_unique_key:
  assumes "distinct (map f xs)" and "mset xs = mset ys"
  shows "filter (\<lambda>x. k = f x) xs = filter (\<lambda>x. k = f x) ys"
proof -
  have same: "mset (filter (\<lambda>x. k = f x) xs) = mset (filter (\<lambda>x. k = f x) ys)"
    using assms(2) by simp
  have "distinct (map f (filter (\<lambda>x. k = f x) xs))" using assms(1) by (simp add: distinct_map_filter)
  then have "length (filter (\<lambda>x. k = f x) xs) \<le> 1"
    using distinct_card [of "map f (filter (\<lambda>x. k = f x) xs)"] card_mono [of "{k}" "set (map f (filter (\<lambda>x. k = f x) xs))"]
    by auto
  then consider "filter (\<lambda>x. k = f x) xs = []" | x where "filter (\<lambda>x. k = f x) xs = [x]"
    by (cases "filter (\<lambda>x. k = f x) xs") auto
  then show ?thesis
  proof cases
    case 1
    then show ?thesis using same by (metis mset_zero_iff)
  next
    case 2
    have "zs = [x]" if "mset zs = {#x#}" for zs using that by (cases zs) auto
    with 2 same show ?thesis by (metis mset_single_iff_right)
  qed
qed

lemma sortProjected_perm:
  assumes "\<forall>y \<in> set ys. p y" and "distinct (map name ys)" and "mset ys = mset ys'"
  shows "sortProjected p name (xs @ ys) = sortProjected p name (xs @ ys')"
proof -
  let ?f = "projectedKey p name"
  have "map ?f ys = map (\<lambda>n. (True, n)) (map name ys)" using assms(1) by (simp add: projectedKey_def)
  then have dist: "distinct (map ?f ys)"
    using assms(2) by (simp add: distinct_map inj_on_def)
  have "sort_key ?f (xs @ ys) = sort_key ?f (xs @ ys')"
  proof (rule properties_for_sort_key)
    fix k
    have "filter (\<lambda>z. ?f k = ?f z) (xs @ ys) = filter (\<lambda>z. ?f k = ?f z) (xs @ ys')"
      using filter_unique_key [OF dist assms(3), of "?f k"] by simp
    then show "filter (\<lambda>z. ?f k = ?f z) (sort_key ?f (xs @ ys')) = filter (\<lambda>z. ?f k = ?f z) (xs @ ys)"
      by (simp only: sort_key_stable_left)
  qed (simp_all add: assms(3))
  then show ?thesis by (simp add: sortProjected_sort_key)
qed

lemma mset_bindingEnvs:
  "mset bs = mset bs' \<Longrightarrow> mset (concat (map bindingEnvs bs)) = mset (concat (map bindingEnvs bs'))"
proof -
  have "mset (concat (map bindingEnvs cs)) = \<Sum>\<^sub># (image_mset (\<lambda>b. mset (bindingEnvs b)) (mset cs))" for cs
    by (induction cs) simp_all
  then show "mset bs = mset bs' \<Longrightarrow> ?thesis" by simp
qed

lemma carries_same:
  assumes m: "carries m0 act m" and m': "carries m0 act' m'" and "set act = set act'"
    and act: "activeIn B act" and act': "activeIn B act'"
  shows "sameContent m m'"
proof -
  have "distinct act" "distinct act'" using act act' by (auto simp: activeIn_def distinct_map)
  with assms(3) have ms: "mset act = mset act'" by (simp add: set_eq_iff_mset_eq_distinct)
  have uid: "distinct (map bindingUID act)" using act by (simp add: activeIn_def)
  have ann: "map_of (mpt_Annotations m) = map_of (mpt_Annotations m')"
  proof
    fix k
    show "map_of (mpt_Annotations m) k = map_of (mpt_Annotations m') k"
      using m m' assms(3) unfolding carries_def by (metis (full_types))
  qed
  have "map v_Name (map bindingVolume act) = map (\<lambda>u. VolumePrefix @ u) (map bindingUID act)"
    by (simp add: bindingVolume_def volumeName_def)
  then have dv: "distinct (map v_Name (map bindingVolume act))"
    using uid by (simp add: distinct_map inj_on_def)
  have vol: "sortVolumes (mpt_Volumes m) = sortVolumes (mpt_Volumes m')"
    using m m' sortProjected_perm [OF _ dv, of "\<lambda>v. hasPrefix (v_Name v) VolumePrefix"
        "map bindingVolume act'" "mpt_Volumes m0"] ms
    by (simp add: carries_def bindingVolume_def)
  have cont: "ct_Name mc = ct_Name mc' \<and>
      sortMounts (ct_VolumeMounts mc) = sortMounts (ct_VolumeMounts mc') \<and>
      mset (ct_Env (rootContainer mc)) = mset (ct_Env (rootContainer mc'))"
    if c: "carriesContainer act mc0 mc" and c': "carriesContainer act' mc0 mc'" for mc0 mc mc'
  proof -
    let ?s = "selectedBy act mc0" and ?s' = "selectedBy act' mc0"
    have sel: "mset ?s = mset ?s'" using ms by (simp add: selectedBy_def)
    have "map vm_Name (map (\<lambda>b. bindingMount b mc0) ?s) = map (\<lambda>u. VolumePrefix @ u) (map bindingUID ?s)"
      by (simp add: bindingMount_def volumeName_def)
    moreover have "distinct (map bindingUID ?s)" using uid by (simp add: selectedBy_def distinct_map_filter)
    ultimately have "distinct (map vm_Name (map (\<lambda>b. bindingMount b mc0) ?s))"
      by (simp add: distinct_map inj_on_def)
    then have mounts: "sortMounts (ct_VolumeMounts mc) = sortMounts (ct_VolumeMounts mc')"
      using c c' sel sortProjected_perm [where p = "\<lambda>m. hasPrefix (vm_Name m) VolumePrefix" and name = vm_Name
          and ys = "map (\<lambda>b. bindingMount b mc0) ?s" and ys' = "map (\<lambda>b. bindingMount b mc0) ?s'"
          and xs = "ct_VolumeMounts mc0"]
      by (simp add: carriesContainer_def bindingMount_def)
    have env: "mset (ct_Env (rootContainer x)) = mset (ct_Env (rootContainer mc0)) +
        mset (concat (map bindingEnvs (selectedBy a mc0)))" if x: "carriesContainer a mc0 x" for a x
    proof (cases "mset (ct_Env x) = mset (ct_Env (rootContainer mc0)) +
        mset (concat (map bindingEnvs (selectedBy a mc0))) \<and> rootVar x = rootVar (rootContainer mc0)")
      case True
      then show ?thesis using rootVar_rooted [of x mc0] by simp
    next
      case False
      with x have "selectedBy a mc0 = []" "ct_Env x = ct_Env mc0" by (auto simp: carriesContainer_def)
      then show ?thesis by (auto simp: rootContainer_def serviceBindingRoot_def split: option.split)
    qed
    show ?thesis
      using mounts env [OF c] env [OF c'] mset_bindingEnvs [OF sel] c c'
      by (simp add: carriesContainer_def)
  qed
  have "list_all2 (\<lambda>mc mc'. ct_Name mc = ct_Name mc' \<and>
      sortMounts (ct_VolumeMounts mc) = sortMounts (ct_VolumeMounts mc') \<and>
      mset (ct_Env (rootContainer mc)) = mset (ct_Env (rootContainer mc')))
    (mpt_Containers m) (mpt_Containers m')"
  proof (rule list_all2_all_nthI)
    have a: "list_all2 (carriesContainer act) (mpt_Containers m0) (mpt_Containers m)"
      and a': "list_all2 (carriesContainer act') (mpt_Containers m0) (mpt_Containers m')"
      using m m' by (simp_all add: carries_def)
    show len: "length (mpt_Containers m) = length (mpt_Containers m')"
      using list_all2_lengthD [OF a] list_all2_lengthD [OF a'] by simp
    fix i
    assume "i < length (mpt_Containers m)"
    then show "ct_Name (mpt_Containers m ! i) = ct_Name (mpt_Containers m' ! i) \<and>
        sortMounts (ct_VolumeMounts (mpt_Containers m ! i)) =
          sortMounts (ct_VolumeMounts (mpt_Containers m' ! i)) \<and>
        mset (ct_Env (rootContainer (mpt_Containers m ! i))) =
          mset (ct_Env (rootContainer (mpt_Containers m' ! i)))"
      using list_all2_nthD2 [OF a] list_all2_nthD2 [OF a'] len
      by (intro cont [of "mpt_Containers m0 ! i"]) auto
  qed
  with ann vol show ?thesis by (simp add: sameContent_def)
qed

end
