(* ===== verification/Workload_History.thy ===== *)
theory Workload_History
  imports Projection_History Workload_Properties Binding_Controller
begin

text \<open>
  A workload under any sequence of reconciliations. Every reconciliation reads the pod template,
  projects one binding into it or removes it, and writes it back; between them others may change
  what is not in the template. The relation \<open>managed\<close> has one rule for each.
\<close>

section \<open>Histories\<close>

text \<open>Whether reconciling a binding leaves it in the workload, and the bindings that are there then.\<close>

definition bindsNow :: "serviceBinding \<Rightarrow> bool" where
  "bindsNow b \<longleftrightarrow> timeIsZero (om_DeletionTimestamp (sb_meta b)) \<and> secretName b \<noteq> ''''"

definition actAfter :: "serviceBinding \<Rightarrow> serviceBinding list \<Rightarrow> serviceBinding list" where
  "actAfter b act = withoutUID b act @ (if bindsNow b then [b] else [])"

text \<open>What \<open>projectOne\<close> depends on: the mapping that is found and the library.\<close>

definition projectedBy ::
  "('w \<Rightarrow> mappingTemplate outcome) \<Rightarrow> 'w lib \<Rightarrow> serviceBinding \<Rightarrow> 'w \<Rightarrow> 'w outcome" where
  "projectedBy lookup L b w =
    (if \<not> timeIsZero (om_DeletionTimestamp (sb_meta b)) then Unproject lookup L b w
     else Project lookup L b w)"

lemma projectOne_projectedBy:
  "projectOne E b w = projectedBy (lookupMapping (env_config E)) (env_lib E) b w"
  by (simp add: projectOne_def projectedBy_def)

text \<open>The two workloads have the same template, and the second can be written to as well.\<close>

definition sameTemplate ::
  "'w lib \<Rightarrow> (mappingContainer \<Rightarrow> string list) \<Rightarrow> mappingTemplate \<Rightarrow> 'w \<Rightarrow> 'w \<Rightarrow> bool" where
  "sameTemplate L pk t w w' \<longleftrightarrow> (fitsMapping L pk t w \<longrightarrow> fitsMapping L pk t w') \<and>
     (\<forall>m. newMetaPodTemplate L w t = Ok m \<longrightarrow>
        newMetaPodTemplate L w' t = Ok (m\<lparr>mpt_workload := w'\<rparr>))"

inductive managed ::
  "'w lib \<Rightarrow> (mappingContainer \<Rightarrow> string list) \<Rightarrow> mappingTemplate \<Rightarrow> serviceBinding set \<Rightarrow> 'w \<Rightarrow>
   'w \<Rightarrow> serviceBinding list \<Rightarrow> bool"
  for L pk t B w0 where
  initial: "managed L pk t B w0 w0 []"
| reconciled: "managed L pk t B w0 w act \<Longrightarrow> b \<in> B \<Longrightarrow> lookup w = Ok t \<Longrightarrow>
    projectedBy lookup L b w = Ok w' \<Longrightarrow>
    managed L pk t B w0 w' (actAfter b act)"
| elsewhere: "managed L pk t B w0 w act \<Longrightarrow> sameTemplate L pk t w w' \<Longrightarrow> managed L pk t B w0 w' act"

text \<open>
  A workload to start with: the mapping fits it, its roots are literal, and it has nothing of
  the bindings that will be projected.
\<close>

definition goodStart ::
  "'w lib \<Rightarrow> (mappingContainer \<Rightarrow> string list) \<Rightarrow> mappingTemplate \<Rightarrow> serviceBinding set \<Rightarrow> 'w \<Rightarrow>
   'w metaPodTemplate \<Rightarrow> bool" where
  "goodStart L pk t B w0 m0 \<longleftrightarrow> fitsMapping L pk t w0 \<and> newMetaPodTemplate L w0 t = Ok m0 \<and>
     literalRoots m0 \<and> (\<forall>b \<in> B. unowned b m0)"

lemma carries_workload [simp]: "carries m0 act (m\<lparr>mpt_workload := w\<rparr>) = carries m0 act m"
  by (simp add: carries_def)

lemma sameContent_workload [simp]:
  "sameContent (m\<lparr>mpt_workload := w\<rparr>) m' = sameContent m m'"
  "sameContent m (m'\<lparr>mpt_workload := w\<rparr>) = sameContent m m'"
  by (simp_all add: sameContent_def)

text \<open>One reconciliation, on the template that is read.\<close>

lemma projectedBy_stored:
  assumes "fitsMapping L pk t w" and "newMetaPodTemplate L w t = Ok m" and "lookup w = Ok t"
  shows "\<exists>w'. projectedBy lookup L b w = Ok w' \<and> fitsMapping L pk t w' \<and>
    newMetaPodTemplate L w' t =
      Ok ((if bindsNow b then project b m else unproject b m)\<lparr>mpt_workload := w'\<rparr>)"
proof (cases "timeIsZero (om_DeletionTimestamp (sb_meta b))")
  case True
  obtain w' where "writeToWorkload L (project b m) = Ok w'" "fitsMapping L pk t w'"
      "newMetaPodTemplate L w' t = Ok ((project b m)\<lparr>mpt_workload := w'\<rparr>)"
    using workload.project_stored [OF assms(1,2), of b] by blast
  with True assms show ?thesis
    by (auto simp: projectedBy_def Project_def bindsNow_def project_no_secret)
next
  case False
  obtain w' where "writeToWorkload L (unproject b m) = Ok w'" "fitsMapping L pk t w'"
      "newMetaPodTemplate L w' t = Ok ((unproject b m)\<lparr>mpt_workload := w'\<rparr>)"
    using workload.unproject_stored [OF assms(1,2), of b] by blast
  with False assms show ?thesis by (auto simp: projectedBy_def Unproject_def bindsNow_def)
qed

lemma step_carries:
  assumes "carries m0 act m" and "literalRoots m0" and "b \<in> B" and "\<forall>a \<in> B. unowned a m0"
    and "compatible B" and "activeIn B act"
  shows "carries m0 (actAfter b act) (if bindsNow b then project b m else unproject b m) \<and>
    activeIn B (actAfter b act)"
proof (cases "bindsNow b")
  case True
  then have "secretName b \<noteq> ''''" by (simp add: bindsNow_def)
  with True project_carries [OF assms(1-3) this assms(4-6)] activeIn_snoc [OF assms(6,3) this]
  show ?thesis by (simp add: actAfter_def)
next
  case False
  have "unowned b m0" using assms(3,4) by blast
  with False unproject_carries [OF assms(1,2) this assms(4-6)] activeIn_withoutUID [OF assms(6)]
  show ?thesis by (simp add: actAfter_def)
qed

text \<open>The invariant of a history.\<close>

lemma managed_invariant:
  assumes "managed L pk t B w0 w act" and start: "goodStart L pk t B w0 m0" and B: "compatible B"
  shows "fitsMapping L pk t w \<and> activeIn B act \<and>
    (\<exists>m. newMetaPodTemplate L w t = Ok m \<and> carries m0 act m)"
  using assms(1)
proof (induction rule: managed.induct)
  case initial
  show ?case using start by (auto simp: goodStart_def activeIn_def carries_start)
next
  case (reconciled w act b lookup w')
  then obtain m where m: "newMetaPodTemplate L w t = Ok m" "carries m0 act m" by blast
  have lit: "literalRoots m0" and own: "\<forall>a \<in> B. unowned a m0" using start by (auto simp: goodStart_def)
  from reconciled.IH have fit: "fitsMapping L pk t w" and act: "activeIn B act" by auto
  from projectedBy_stored [OF fit m(1), of lookup b] reconciled.hyps(3,4)
  have "fitsMapping L pk t w'"
    and "newMetaPodTemplate L w' t =
      Ok ((if bindsNow b then project b m else unproject b m)\<lparr>mpt_workload := w'\<rparr>)"
    by auto
  with step_carries [OF m(2) lit reconciled.hyps(2) own B act] show ?case
    by (intro conjI exI [of _ "(if bindsNow b then project b m else unproject b m)\<lparr>mpt_workload := w'\<rparr>"]) auto
next
  case (elsewhere w act w')
  then show ?case by (force simp: sameTemplate_def)
qed

lemma managed_continues:
  assumes "managed L pk t B w0 w act" and "goodStart L pk t B w0 m0" and "compatible B"
    and "b \<in> B" and "lookup w = Ok t"
  obtains w' where "projectedBy lookup L b w = Ok w'" "managed L pk t B w0 w' (actAfter b act)"
proof -
  obtain m where "fitsMapping L pk t w" "newMetaPodTemplate L w t = Ok m"
    using managed_invariant [OF assms(1-3)] by blast
  from projectedBy_stored [where lookup = lookup, OF this assms(5), of b]
  obtain w' where "projectedBy lookup L b w = Ok w'" by blast
  with managed.reconciled [OF assms(1,4,5) this] that show thesis by blast
qed

section \<open>An instance\<close>

definition leavingBinding :: serviceBinding where
  "leavingBinding = (exampleBinding ''u1'' ''s1'')
     \<lparr>sb_meta := (sb_meta (exampleBinding ''u1'' ''s1''))\<lparr>om_DeletionTimestamp := Some 1\<rparr>\<rparr>"

definition exampleBindings :: "serviceBinding set" where
  "exampleBindings = {exampleBinding ''u1'' ''s1'', exampleBinding ''u2'' ''s2'', leavingBinding}"

lemma leavingBinding_simps [simp]:
  "bindingUID leavingBinding = ''u1''" "secretName leavingBinding = ''s1''"
  "bindsNow leavingBinding = False"
  using secretName_exampleBinding [of "''u1''" "''s1''"]
  by (simp_all add: leavingBinding_def secretName_def bindsNow_def timeIsZero_def)

lemma exampleBindings_compatible: "compatible exampleBindings"
  by (simp add: compatible_def exampleBindings_def)

definition deploymentTemplate :: "json metaPodTemplate" where
  "deploymentTemplate =
    \<lparr>mpt_workload = deployment, mpt_mapping = podMapping, mpt_Annotations = [(''note'', ''kept'')],
     mpt_Containers = [\<lparr>ct_Name = Some ''main'', ct_Env = [], ct_VolumeMounts = []\<rparr>,
       \<lparr>ct_Name = Some ''sidecar'', ct_Env = [], ct_VolumeMounts = []\<rparr>],
     mpt_Volumes = []\<rparr>"

lemma deployment_start: "goodStart podLib podPath podMapping exampleBindings deployment deploymentTemplate"
  using deployment_fits deployment_template
  by (auto simp: goodStart_def deploymentTemplate_def literalRoots_def literalRoot_def unowned_def
      ownKeys_def name_defs)

lemma podMapping_found: "staticLookup podMapping w = Ok podMapping" for w :: json
  by (simp add: staticLookup_def)

text \<open>A cluster without mappings, where a workload is found through the default of \<open>Default\<close>.\<close>

definition podConfig :: "'w config" where
  "podConfig =
    \<lparr>cfg_gvkForObject = (\<lambda>w. Inr \<lparr>gvk_Group = ''apps'', gvk_Version = ''v1'', gvk_Kind = ''Deployment''\<rparr>),
     cfg_restMapping = (\<lambda>gvk. Inr (''apps'', ''deployments'')),
     cfg_getMapping = (\<lambda>n. Inl NotFound), cfg_getObject = (\<lambda>ref. Inl NotFound),
     cfg_listObjects = (\<lambda>ref sel. Inr []), cfg_nestedString = (\<lambda>w p. Inr None),
     cfg_asSelector = (\<lambda>s. Inr (\<lambda>ls. True))\<rparr>"

lemma podConfig_lookup [simp]: "lookupMapping podConfig w = Ok podMapping"
  by (simp add: lookupMapping_def podConfig_def selectVersion_def derefTemplate_def emptyMapping_def
      podMapping_def newStaticMapping_def emptyTemplate_def)

definition podEnv :: "'w lib \<Rightarrow> ('w, 'x) env" where
  "podEnv L =
    \<lparr>env_config = podConfig, env_lib = L, env_conditions = simpleManager,
     env_manage = (\<lambda>merge eq b w p x. (None, x)), env_deepEqual = (=),
     env_setContent = (\<lambda>current desired. desired), env_uid = (\<lambda>w. ''d''),
     env_resourceVersion = (\<lambda>w. ''1'')\<rparr>"

lemma deployment_history:
  assumes "b \<in> exampleBindings" and "c \<in> exampleBindings"
  obtains w where "managed podLib podPath podMapping exampleBindings deployment w
    (actAfter c (actAfter b []))"
proof -
  note more = managed_continues [OF _ deployment_start exampleBindings_compatible]
  obtain w1 where w1: "managed podLib podPath podMapping exampleBindings deployment w1 (actAfter b [])"
    by (rule more [where lookup = "staticLookup podMapping", OF managed.initial assms(1) podMapping_found])
  show thesis
    by (rule more [where lookup = "staticLookup podMapping", OF w1 assms(2) podMapping_found]) (rule that)
qed

lemma example_actAfter:
  "actAfter (exampleBinding u s) act = withoutUID (exampleBinding u s) act @
     (if s \<noteq> '''' then [exampleBinding u s] else [])"
  by (simp add: actAfter_def bindsNow_def timeIsZero_def) (simp add: exampleBinding_def)

section \<open>Claims\<close>

text \<open>
  C4. A workload is at any time what its current bindings make of the original: after any
  reconciliations of any bindings, repeated, updated, deleted and interleaved with changes outside
  the template, the template that is read consists of the original's annotations, volumes, mounts
  and variables and, for every binding that was reconciled last without being deleted, exactly the
  items of that binding; and the next reconciliation of any binding succeeds.
\<close>

theorem workload_history:
  assumes "managed L pk t B w0 w act" and "goodStart L pk t B w0 m0" and "compatible B"
    and "env_lib E = L" and "lookupMapping (env_config E) w = Ok t"
  shows "(\<exists>m. newMetaPodTemplate L w t = Ok m \<and> carries m0 act m) \<and> (\<exists>w'. projectOne E b w = Ok w')"
proof -
  from managed_invariant [OF assms(1-3)] obtain m where
    m: "fitsMapping L pk t w" "newMetaPodTemplate L w t = Ok m" "carries m0 act m" by blast
  from projectedBy_stored [where lookup = "lookupMapping (env_config E)", OF m(1,2) assms(5), of b]
    m(2,3) assms(4)
  show ?thesis by (auto simp: projectOne_projectedBy)
qed

theorem workload_history_witness:
  "\<exists>w m w'. managed podLib podPath podMapping exampleBindings deployment w
      [exampleBinding ''u1'' ''s1'', exampleBinding ''u2'' ''s2''] \<and>
    newMetaPodTemplate podLib w podMapping = Ok m \<and>
    set (mpt_Volumes m) = {bindingVolume (exampleBinding ''u1'' ''s1''), bindingVolume (exampleBinding ''u2'' ''s2'')} \<and>
    projectOne (podEnv podLib :: (json, unit) env) leavingBinding w = Ok w'"
proof -
  let ?b = "exampleBinding ''u1'' ''s1''" and ?c = "exampleBinding ''u2'' ''s2''"
  let ?E = "podEnv podLib :: (json, unit) env"
  have B: "?b \<in> exampleBindings" "?c \<in> exampleBindings" by (simp_all add: exampleBindings_def)
  have act: "actAfter ?c (actAfter ?b []) = [?b, ?c]" by (simp add: example_actAfter withoutUID_def)
  obtain w where w: "managed podLib podPath podMapping exampleBindings deployment w [?b, ?c]"
    by (rule deployment_history [OF B]) (simp only: act)
  have E: "env_lib ?E = podLib" "lookupMapping (env_config ?E) w = Ok podMapping"
    by (simp_all add: podEnv_def)
  from workload_history [OF w deployment_start exampleBindings_compatible E, of leavingBinding]
  obtain m w' where m: "newMetaPodTemplate podLib w podMapping = Ok m"
    "carries deploymentTemplate [?b, ?c] m" "projectOne ?E leavingBinding w = Ok w'" by blast
  have "set (sortVolumes (mpt_Volumes m)) = {bindingVolume ?b, bindingVolume ?c}"
    using m(2) by (simp only: carries_def) (simp add: deploymentTemplate_def)
  with w m show ?thesis by auto
qed

text \<open>
  C7. The order of reconciliations does not matter: two histories of the same workload that leave
  the same bindings in it end with the same content, whatever else happened on the way.
\<close>

theorem histories_agree:
  assumes "managed L pk t B w0 w act" and "managed L pk t B w0 w' act'" and "set act = set act'"
    and "goodStart L pk t B w0 m0" and "compatible B"
    and "newMetaPodTemplate L w t = Ok m" and "newMetaPodTemplate L w' t = Ok m'"
  shows "sameContent m m'"
  using managed_invariant [OF assms(1,4,5)] managed_invariant [OF assms(2,4,5)] assms(3,6,7)
    carries_same by fastforce

theorem histories_agree_witness:
  "\<exists>w w' m m'. managed podLib podPath podMapping exampleBindings deployment w
      [exampleBinding ''u1'' ''s1'', exampleBinding ''u2'' ''s2''] \<and>
    managed podLib podPath podMapping exampleBindings deployment w'
      [exampleBinding ''u2'' ''s2'', exampleBinding ''u1'' ''s1''] \<and>
    newMetaPodTemplate podLib w podMapping = Ok m \<and> newMetaPodTemplate podLib w' podMapping = Ok m' \<and>
    sameContent m m'"
proof -
  let ?b = "exampleBinding ''u1'' ''s1''" and ?c = "exampleBinding ''u2'' ''s2''"
  have B: "?b \<in> exampleBindings" "?c \<in> exampleBindings" by (simp_all add: exampleBindings_def)
  have act: "actAfter ?c (actAfter ?b []) = [?b, ?c]" "actAfter ?b (actAfter ?c []) = [?c, ?b]"
    by (simp_all add: example_actAfter withoutUID_def)
  obtain w where w: "managed podLib podPath podMapping exampleBindings deployment w [?b, ?c]"
    by (rule deployment_history [OF B]) (simp only: act)
  obtain w' where w': "managed podLib podPath podMapping exampleBindings deployment w' [?c, ?b]"
    by (rule deployment_history [OF B(2,1)]) (simp only: act)
  obtain m where m: "newMetaPodTemplate podLib w podMapping = Ok m"
    using managed_invariant [OF w deployment_start exampleBindings_compatible] by blast
  obtain m' where m': "newMetaPodTemplate podLib w' podMapping = Ok m'"
    using managed_invariant [OF w' deployment_start exampleBindings_compatible] by blast
  have "set [?b, ?c] = set [?c, ?b]" by auto
  from histories_agree [OF w w' this deployment_start exampleBindings_compatible m m'] w w' m m'
  show ?thesis by blast
qed



end
