(* ===== verification/Cluster_Runs.thy ===== *)
theory Cluster_Runs
  imports Workload_History Controller_Properties
begin

text \<open>
  Reconciliations against an API server: what a reconciliation writes, whatever its outcome, and
  what becomes of the workloads of a cluster when the writes of any bindings are interleaved,
  computed from stale reads, and mixed with changes by others.
\<close>

section \<open>What a reconciliation writes\<close>

lemma patchLoop_writes:
  assumes "patchLoop E ps s = (r, s')"
  shows "\<exists>k. rs_cluster s' = manageAll E (rs_resource s) (take k ps) (rs_cluster s) \<and>
    (\<forall>(w, p) \<in> set (take k ps). sameIdentity E w p)"
  using assms
proof (induction ps arbitrary: s)
  case Nil
  then show ?case by simp
next
  case (Cons wp ps)
  obtain w p where wp: "wp = (w, p)" by force
  obtain err x where m: "env_manage E (env_setContent E) (env_deepEqual E) (rs_resource s) w p (rs_cluster s) = (err, x)"
    by force
  then have one: "manageOne E (rs_resource s) (w, p) (rs_cluster s) = (err, x)" by (simp add: manageOne_def)
  show ?case
  proof (cases "sameIdentity E w p")
    case False
    with Cons.prems have "s' = s" by (auto simp: wp sameIdentity_def)
    then show ?thesis by (intro exI [of _ 0]) simp
  next
    case True
    show ?thesis
    proof (cases "err = None \<or> err = Some NotFound")
      case True
      with Cons.prems m \<open>sameIdentity E w p\<close> have "patchLoop E ps (s\<lparr>rs_cluster := x\<rparr>) = (r, s')"
        by (auto simp: wp sameIdentity_def)
      from Cons.IH [OF this] obtain k where
        "rs_cluster s' = manageAll E (rs_resource s) (take k ps) x"
        "\<forall>(w, p) \<in> set (take k ps). sameIdentity E w p" by auto
      with one \<open>sameIdentity E w p\<close> show ?thesis
        by (intro exI [of _ "Suc k"]) (simp add: wp)
    next
      case False
      then obtain e where e: "err = Some e" "e \<noteq> NotFound" by (cases err) auto
      with Cons.prems m \<open>sameIdentity E w p\<close> have "rs_cluster s' = x"
        by (cases e) (auto simp: wp sameIdentity_def Let_def)
      with one \<open>sameIdentity E w p\<close> show ?thesis
        by (intro exI [of _ "Suc 0"]) (simp add: wp)
    qed
  qed
qed

text \<open>The binding as the later steps see it: with the secret that was resolved.\<close>

definition resolvedBinding :: "('w, 'x) env \<Rightarrow> ('w, 'x) rstate \<Rightarrow> serviceBinding" where
  "resolvedBinding E s =
     (if finalizing s then rs_resource s else rs_resource (snd (resolveBindingSecret E s)))"

lemma resolveBindingSecret_frame:
  "rs_stash (snd (resolveBindingSecret E s)) = rs_stash s"
  "rs_cluster (snd (resolveBindingSecret E s)) = rs_cluster s"
  "sb_Spec (rs_resource (snd (resolveBindingSecret E s))) = sb_Spec (rs_resource s)"
  "sb_meta (rs_resource (snd (resolveBindingSecret E s))) = sb_meta (rs_resource s)"
  by (auto simp: resolveBindingSecret_def Let_def split: prod.splits outcome.splits error.splits)

text \<open>The pairs of a workload that was found and its projection.\<close>

definition projections :: "('w, 'x) env \<Rightarrow> serviceBinding \<Rightarrow> ('w \<times> 'w) list \<Rightarrow> bool" where
  "projections E b ps \<longleftrightarrow> (\<forall>(w, p) \<in> set ps. projectOne E b w = Ok p \<and> sameIdentity E w p \<and>
     (\<exists>ws. fst (lookupWorkloads (env_config E) (workloadObjectRef b)
        (wr_Selector (bs_Workload (sb_Spec b)))) = Ok ws \<and> w \<in> set ws))"

lemma patchWorkloads_writes:
  assumes "patchWorkloads E s = (r, s')"
  shows "\<exists>k. rs_cluster s' = manageAll E (rs_resource s)
      (take k (zip (retrieveWorkloads s) (retrieveProjectedWorkloads s))) (rs_cluster s) \<and>
    (\<forall>(w, p) \<in> set (take k (zip (retrieveWorkloads s) (retrieveProjectedWorkloads s))). sameIdentity E w p)"
proof (cases "length (retrieveWorkloads s) = length (retrieveProjectedWorkloads s)")
  case False
  with assms show ?thesis by (intro exI [of _ 0]) (auto simp: patchWorkloads_def Let_def)
next
  case True
  obtain r1 s1 where l: "patchLoop E (zip (retrieveWorkloads s) (retrieveProjectedWorkloads s)) s = (r1, s1)"
    by force
  have "rs_cluster s' = rs_cluster s1"
    using assms True l
    by (auto simp: patchWorkloads_def Let_def split: loopExit.splits if_splits option.splits)
  with patchLoop_writes [OF l] show ?thesis by simp
qed

lemma workload_steps_write:
  assumes run: "runInOrder (tl (bindingReconcilers E)) s = (r, s')" and "rs_stash s = Map.empty"
  shows "\<exists>ps. projections E (rs_resource s) ps \<and>
    rs_cluster s' = manageAll E (rs_resource s) ps (rs_cluster s)"
proof -
  let ?b = "rs_resource s"
  let ?look = "fst (lookupWorkloads (env_config E) (workloadObjectRef ?b) (wr_Selector (bs_Workload (sb_Spec ?b))))"
  have empty: "retrieveWorkloads s = []" "retrieveProjectedWorkloads s = []"
    using assms(2) by (simp_all add: retrieveWorkloads_def retrieveProjectedWorkloads_def)
  obtain r1 s1 where 1: "resolveWorkloads E s = (r1, s1)" by force
  have c1: "rs_cluster s1 = rs_cluster s"
    using 1 by (auto simp: resolveWorkloads_def Let_def split: prod.splits outcome.splits error.splits)
  show ?thesis
  proof (cases "\<exists>ws. ?look = Ok ws")
    case True
    then obtain ws where ws: "?look = Ok ws" by blast
    with 1 have s1: "r1 = Ok False" "retrieveWorkloads s1 = ws" "rs_resource s1 = ?b"
      by (auto simp: resolveWorkloads_def Let_def case_prod_unfold)
    show ?thesis
    proof (cases "map_ok_list (projectOne E ?b) ws")
      case (Ok ps)
      let ?s2 = "stashProjectedWorkloads ps s1"
      have 2: "projectBinding E s1 = (Ok False, ?s2)" using s1 Ok by (simp add: projectBinding_def)
      obtain r3 s3 where 3: "patchWorkloads E ?s2 = (r3, s3)" by force
      have "s' = s3"
        using run 1 s1(1) 2 3 by (cases r3) (auto simp: bindingReconcilers_def split: prod.splits)
      moreover from patchWorkloads_writes [OF 3] s1 c1 obtain k where k:
        "rs_cluster s3 = manageAll E ?b (take k (zip ws ps)) (rs_cluster s)"
        "\<forall>(w, p) \<in> set (take k (zip ws ps)). sameIdentity E w p" by auto
      moreover have "projectOne E ?b w = Ok p \<and> w \<in> set ws" if "(w, p) \<in> set (take k (zip ws ps))" for w p
        using Ok that by (auto simp: map_ok_list_eq_Ok list_all2_iff dest!: in_set_takeD dest: set_zip_leftD)
      ultimately show ?thesis
        using ws by (intro exI [of _ "take k (zip ws ps)"]) (fastforce simp: projections_def)
    next
      case (Fail e)
      then have "s' = s1" using run 1 s1 by (auto simp: bindingReconcilers_def projectBinding_def)
      with c1 show ?thesis by (intro exI [of _ "[]"]) (simp add: projections_def)
    next
      case Panic
      then have "s' = s1" using run 1 s1 by (auto simp: bindingReconcilers_def projectBinding_def)
      with c1 show ?thesis by (intro exI [of _ "[]"]) (simp add: projections_def)
    qed
  next
    case False
    then have s1: "retrieveWorkloads s1 = []"
      using 1 empty by (auto simp: resolveWorkloads_def Let_def retrieveWorkloads_def
          split: prod.splits outcome.splits error.splits)
    let ?s2 = "stashProjectedWorkloads [] s1"
    obtain r3 s3 where 3: "patchWorkloads E ?s2 = (r3, s3)" by force
    have "s' = s1 \<or> s' = s3"
      using run 1 3 project_nothing [OF s1]
      by (cases r1; cases r3) (auto simp: bindingReconcilers_def split: prod.splits)
    moreover have "rs_cluster s3 = rs_cluster s" using patchWorkloads_writes [OF 3] s1 c1 by auto
    ultimately show ?thesis
      using c1 by (intro exI [of _ "[]"]) (auto simp: projections_def)
  qed
qed

lemma reconcile_writes:
  assumes "sequence_ok seq" and "rs_stash s = Map.empty"
    and "serviceBindingReconciler seq E s = (r, s')"
  shows "\<exists>ps. projections E (resolvedBinding E s) ps \<and>
    rs_cluster s' = manageAll E (resolvedBinding E s) ps (rs_cluster s)"
proof -
  have run: "runInOrder (bindingReconcilers E) s = (r, s')"
    using assms(1,3) by (simp add: serviceBindingReconciler_def sequence_ok_def)
  show ?thesis
  proof (cases "finalizing s")
    case True
    with run have "runInOrder (tl (bindingReconcilers E)) s = (r, s')" by (simp add: bindingReconcilers_def)
    from workload_steps_write [OF this assms(2)] True show ?thesis by (simp add: resolvedBinding_def)
  next
    case False
    obtain r1 s1 where 1: "resolveBindingSecret E s = (r1, s1)" by force
    then have s1: "rs_stash s1 = Map.empty" "rs_cluster s1 = rs_cluster s"
      and b: "resolvedBinding E s = rs_resource s1"
      using resolveBindingSecret_frame [of E s] assms(2) False by (simp_all add: resolvedBinding_def)
    obtain r2 s2 where 2: "runInOrder (tl (bindingReconcilers E)) s1 = (r2, s2)" by force
    from run 1 2 False have "s' = s1 \<or> s' = s2"
      by (cases r1) (auto simp: bindingReconcilers_def split: prod.splits)
    with workload_steps_write [OF 2 s1(1)] s1(2) show ?thesis
      by (auto simp: b intro: exI [of _ "[]"] simp: projections_def)
  qed
qed



end
