(* ===== verification/Api_Server.thy ===== *)
theory Api_Server
  imports Cluster_Runs Webhook_Properties
begin

text \<open>
  The workloads of a cluster under interleaved writes. Any reconciler may write at any time, from
  any version of a workload it has read; the API server takes a write only if that version is the
  current one. Others submit, change and delete workloads; a submitted workload goes through the
  admission projector when its webhook is in place. \<open>clusterRun\<close> has one rule for each; the state
  also records what happened, for the sake of the statements.
\<close>

section \<open>The API server\<close>

text \<open>
  What can be read of a store: the workload of each UID and the versions given out so far; and the
  UID and version of a workload.
\<close>

record ('w, 'x) server =
  sv_get :: "'x \<Rightarrow> string \<Rightarrow> 'w option"
  sv_issued :: "'x \<Rightarrow> (string \<times> string) set"
  sv_uid :: "'w \<Rightarrow> string"
  sv_version :: "'w \<Rightarrow> string"

text \<open>
  Storing \<open>v\<close> under a UID: it gets a version that was never given out for that UID, nothing else
  changes.
\<close>

definition stores :: "('w, 'x) server \<Rightarrow> string \<Rightarrow> 'w \<Rightarrow> 'x \<Rightarrow> 'x \<Rightarrow> bool" where
  "stores S u v x x' \<longleftrightarrow> sv_uid S v = u \<and> (u, sv_version S v) \<notin> sv_issued S x \<and>
     sv_get S x' = (sv_get S x)(u \<mapsto> v) \<and> sv_issued S x' = insert (u, sv_version S v) (sv_issued S x)"

text \<open>
  The documented behaviour of an update through the manager, which sends the projected workload
  with the version that was read: either the server's workloads stay as they are (nothing to
  change, the workload is gone, a conflict or any other refusal), or the workload is still at that
  version and is replaced by one with the projected template.
\<close>

definition updates ::
  "('w, 'x) server \<Rightarrow> 'w lib \<Rightarrow> (mappingContainer \<Rightarrow> string list) \<Rightarrow> mappingTemplate \<Rightarrow>
   ('w, 'x) env \<Rightarrow> bool" where
  "updates S L pk t E \<longleftrightarrow> (\<forall>b w p x x'. snd (manageOne E b (w, p) x) = x' \<longrightarrow>
     sv_get S x' = sv_get S x \<and> sv_issued S x' = sv_issued S x \<or>
     (\<exists>u v v'. sv_get S x u = Some v \<and> u = sv_uid S w \<and> sv_version S v = sv_version S w \<and>
        sameTemplate L pk t p v' \<and> stores S u v' x x'))"

section \<open>Runs of a cluster\<close>

text \<open>
  The store; every version of a workload that was ever stored; what each workload was submitted as;
  and the bindings that were admitted with it and those whose writes the server took since, in
  their order.
\<close>

record ('w, 'x) clusterState =
  cs_store :: 'x
  cs_seen :: "'w set"
  cs_first :: "string \<rightharpoonup> 'w"
  cs_log :: "string \<Rightarrow> serviceBinding list"

text \<open>The bindings in a workload after a series of writes.\<close>

definition actOf :: "serviceBinding list \<Rightarrow> serviceBinding list" where
  "actOf bs = foldl (\<lambda>act b. actAfter b act) [] bs"

text \<open>The bindings the admission projector projects into a workload that is submitted.\<close>

definition admitted :: "'w webhookEnv \<Rightarrow> 'w \<Rightarrow> serviceBinding list" where
  "admitted W w =
    (let gvk = we_gvk W (we_apiVersion W w) (we_kind W w)
     in case we_listBindings W (we_namespace W w) (workloadRefIndexValue W (gvk_Group gvk) (gvk_Kind gvk)) of
          Inl err \<Rightarrow> []
        | Inr items \<Rightarrow> map bindingDefault (filter (isActiveFor W w) items))"

lemma admission_managed:
  assumes "we_lib W = L" and lookup: "\<And>w. lookupMapping (we_config W) w = Ok t"
    and "set (admitted W w0) \<subseteq> B" and "admissionProjectorSync W w0 = Ok w1"
  shows "managed L pk t B w0 w1 (actOf (admitted W w0))"
proof -
  obtain items where items: "admitted W w0 = map bindingDefault (filter (isActiveFor W w0) items)"
    and fold: "fold_ok (\<lambda>b w. Project (lookupMapping (we_config W)) (we_lib W) (bindingDefault b) w)
      (filter (isActiveFor W w0) items) w0 = Ok w1"
    using assms(4) by (auto simp: admissionProjectorSync_def admitted_def Let_def outcome_simps)
  have run: "managed L pk t B w0 w1 (foldl (\<lambda>act b. actAfter b act) act (map bindingDefault bs))"
    if "fold_ok (\<lambda>b w. Project (lookupMapping (we_config W)) (we_lib W) (bindingDefault b) w) bs w = Ok w1"
      "managed L pk t B w0 w act" "bindingDefault ` set bs \<subseteq> B" "\<forall>b \<in> set bs. isActiveFor W w0 b" for bs w act
    using that
  proof (induction bs arbitrary: w act)
    case Nil
    then show ?case by simp
  next
    case (Cons b bs)
    from Cons.prems(1) obtain w' where
      w': "Project (lookupMapping (we_config W)) (we_lib W) (bindingDefault b) w = Ok w'"
      "fold_ok (\<lambda>b w. Project (lookupMapping (we_config W)) (we_lib W) (bindingDefault b) w) bs w' = Ok w1"
      by (auto simp: outcome_simps)
    have "sb_meta (bindingDefault b) = sb_meta b" by (simp add: bindingDefault_def)
    moreover have "timeIsZero (om_DeletionTimestamp (sb_meta b))"
      using Cons.prems(4) by (auto simp: isActiveFor_def split: if_splits)
    ultimately have "projectedBy (lookupMapping (we_config W)) L (bindingDefault b) w = Ok w'"
      using w'(1) assms(1) by (simp add: projectedBy_def)
    moreover have "bindingDefault b \<in> B" using Cons.prems(3) by simp
    ultimately have "managed L pk t B w0 w' (actAfter (bindingDefault b) act)"
      by (intro managed.reconciled [where lookup = "lookupMapping (we_config W)", OF Cons.prems(2) _ lookup])
    from Cons.IH [OF w'(2) this] Cons.prems(3,4) show ?case by simp
  qed
  have "bindingDefault ` set (filter (isActiveFor W w0) items) \<subseteq> B"
    using assms(3) unfolding items by (simp only: set_map)
  moreover have "\<forall>b \<in> set (filter (isActiveFor W w0) items). isActiveFor W w0 b" by simp
  ultimately show ?thesis unfolding items actOf_def by (rule run [OF fold managed.initial])
qed

definition recordWrite ::
  "('w, 'x) server \<Rightarrow> string \<Rightarrow> serviceBinding \<Rightarrow> 'x \<Rightarrow> ('w, 'x) clusterState \<Rightarrow> ('w, 'x) clusterState" where
  "recordWrite S u b x' c =
     (if sv_issued S x' = sv_issued S (cs_store c) then c\<lparr>cs_store := x'\<rparr>
      else c\<lparr>cs_store := x', cs_seen := cs_seen c \<union> set_option (sv_get S x' u),
             cs_log := (cs_log c)(u := cs_log c u @ [b])\<rparr>)"

inductive clusterRun ::
  "('w, 'x) server \<Rightarrow> 'w lib \<Rightarrow> (mappingContainer \<Rightarrow> string list) \<Rightarrow> mappingTemplate \<Rightarrow>
   serviceBinding set \<Rightarrow> ('w, 'x) clusterState \<Rightarrow> bool"
  for S L pk t B where
  empty: "sv_get S x = Map.empty \<Longrightarrow>
    clusterRun S L pk t B \<lparr>cs_store = x, cs_seen = {}, cs_first = Map.empty, cs_log = (\<lambda>u. [])\<rparr>"
| create: "clusterRun S L pk t B c \<Longrightarrow> goodStart L pk t B v m0 \<Longrightarrow> stores S u v (cs_store c) x' \<Longrightarrow>
    clusterRun S L pk t B (c\<lparr>cs_store := x', cs_seen := insert v (cs_seen c),
      cs_first := (cs_first c)(u \<mapsto> v), cs_log := (cs_log c)(u := [])\<rparr>)"
| submit: "clusterRun S L pk t B c \<Longrightarrow> goodStart L pk t B w0 m0 \<Longrightarrow> we_lib W = L \<Longrightarrow>
    (\<And>w. lookupMapping (we_config W) w = Ok t) \<Longrightarrow> set (admitted W w0) \<subseteq> B \<Longrightarrow>
    admissionProjectorSync W w0 = Ok w1 \<Longrightarrow> sameTemplate L pk t w1 v \<Longrightarrow>
    stores S u v (cs_store c) x' \<Longrightarrow>
    clusterRun S L pk t B (c\<lparr>cs_store := x', cs_seen := insert v (cs_seen c),
      cs_first := (cs_first c)(u \<mapsto> w0), cs_log := (cs_log c)(u := admitted W w0)\<rparr>)"
| update: "clusterRun S L pk t B c \<Longrightarrow> w \<in> cs_seen c \<Longrightarrow> b \<in> B \<Longrightarrow>
    lookupMapping (env_config E) w = Ok t \<Longrightarrow> env_lib E = L \<Longrightarrow> updates S L pk t E \<Longrightarrow>
    projectOne E b w = Ok p \<Longrightarrow>
    clusterRun S L pk t B (recordWrite S (sv_uid S w) b (snd (manageOne E b (w, p) (cs_store c))) c)"
| change: "clusterRun S L pk t B c \<Longrightarrow> sv_get S (cs_store c) u = Some v \<Longrightarrow>
    sameTemplate L pk t v v' \<Longrightarrow> stores S u v' (cs_store c) x' \<Longrightarrow>
    clusterRun S L pk t B (c\<lparr>cs_store := x', cs_seen := insert v' (cs_seen c)\<rparr>)"
| delete: "clusterRun S L pk t B c \<Longrightarrow> sv_get S x' = (sv_get S (cs_store c))(u := None) \<Longrightarrow>
    sv_issued S x' = sv_issued S (cs_store c) \<Longrightarrow>
    clusterRun S L pk t B (c\<lparr>cs_store := x'\<rparr>)"



section \<open>The invariant\<close>

text \<open>
  A version names one workload, what is stored has been seen, and what is stored has the history
  that the writes give.
\<close>

definition clusterInv ::
  "('w, 'x) server \<Rightarrow> 'w lib \<Rightarrow> (mappingContainer \<Rightarrow> string list) \<Rightarrow> mappingTemplate \<Rightarrow>
   serviceBinding set \<Rightarrow> ('w, 'x) clusterState \<Rightarrow> bool" where
  "clusterInv S L pk t B c \<longleftrightarrow>
     (\<forall>v \<in> cs_seen c. (sv_uid S v, sv_version S v) \<in> sv_issued S (cs_store c)) \<and>
     inj_on (\<lambda>v. (sv_uid S v, sv_version S v)) (cs_seen c) \<and>

     (\<forall>u v. sv_get S (cs_store c) u = Some v \<longrightarrow> v \<in> cs_seen c \<and> sv_uid S v = u \<and>
        (\<exists>w0 m0. cs_first c u = Some w0 \<and> goodStart L pk t B w0 m0 \<and>
          managed L pk t B w0 v (actOf (cs_log c u))))"

lemma clusterInvD:
  assumes "clusterInv S L pk t B c"
  shows "v \<in> cs_seen c \<Longrightarrow> (sv_uid S v, sv_version S v) \<in> sv_issued S (cs_store c)"
    and "v \<in> cs_seen c \<Longrightarrow> v' \<in> cs_seen c \<Longrightarrow> sv_uid S v = sv_uid S v' \<Longrightarrow>
      sv_version S v = sv_version S v' \<Longrightarrow> v = v'"

    and "sv_get S (cs_store c) u = Some v \<Longrightarrow> v \<in> cs_seen c"
    and "sv_get S (cs_store c) u = Some v \<Longrightarrow> sv_uid S v = u"
    and "sv_get S (cs_store c) u = Some v \<Longrightarrow> \<exists>w0 m0. cs_first c u = Some w0 \<and>
      goodStart L pk t B w0 m0 \<and> managed L pk t B w0 v (actOf (cs_log c u))"
  using assms unfolding clusterInv_def inj_on_def by simp_all

lemma clusterInv_stores:
  assumes inv: "clusterInv S L pk t B c" and st: "stores S u v (cs_store c) x'"
    and first: "first u = Some w0" "goodStart L pk t B w0 m0" "managed L pk t B w0 v (actOf (log u))"
    and same: "\<forall>u'. u' \<noteq> u \<longrightarrow> first u' = cs_first c u' \<and> log u' = cs_log c u'"
  shows "clusterInv S L pk t B \<lparr>cs_store = x', cs_seen = insert v (cs_seen c), cs_first = first, cs_log = log\<rparr>"
  unfolding clusterInv_def clusterState.simps
proof (intro conjI allI impI ballI)
  have iss: "sv_issued S x' = insert (u, sv_version S v) (sv_issued S (cs_store c))"
    and fresh: "(u, sv_version S v) \<notin> sv_issued S (cs_store c)" and uid: "sv_uid S v = u"
    and get: "sv_get S x' = (sv_get S (cs_store c))(u \<mapsto> v)"
    using st by (simp_all add: stores_def)
  have old: "(sv_uid S y, sv_version S y) \<in> sv_issued S (cs_store c)" if "y \<in> cs_seen c" for y
    by (rule clusterInvD(1) [OF inv that])
  show "(sv_uid S y, sv_version S y) \<in> sv_issued S x'" if "y \<in> insert v (cs_seen c)" for y
    using that old [of y] by (auto simp: iss uid)
  have "inj_on (\<lambda>v. (sv_uid S v, sv_version S v)) (cs_seen c)" using inv by (simp add: clusterInv_def)
  moreover have "(u, sv_version S v) \<notin> (\<lambda>v. (sv_uid S v, sv_version S v)) ` (cs_seen c)"
    using old fresh by force
  ultimately show "inj_on (\<lambda>v. (sv_uid S v, sv_version S v)) (insert v (cs_seen c))"
    using uid by auto

  fix u' y
  assume y: "sv_get S x' u' = Some y"
  show "y \<in> insert v (cs_seen c)"
    using y get clusterInvD(3) [OF inv, of u' y] by (auto split: if_splits)
  show "sv_uid S y = u'"
    using y get uid clusterInvD(4) [OF inv, of u' y] by (auto split: if_splits)
  show "\<exists>w0 m0. first u' = Some w0 \<and> goodStart L pk t B w0 m0 \<and> managed L pk t B w0 y (actOf (log u'))"
  proof (cases "u' = u")
    case True
    with y get first show ?thesis by auto
  next
    case False
    with y get same clusterInvD(5) [OF inv, of u' y] show ?thesis by simp
  qed
qed

lemma clusterInv_update:
  assumes inv: "clusterInv S L pk t B c" and w: "w \<in> cs_seen c" and b: "b \<in> B"
    and E: "lookupMapping (env_config E) w = Ok t" "env_lib E = L" "updates S L pk t E"
    and p: "projectOne E b w = Ok p"
  shows "clusterInv S L pk t B
    (recordWrite S (sv_uid S w) b (snd (manageOne E b (w, p) (cs_store c))) c)"
proof -
  let ?x = "snd (manageOne E b (w, p) (cs_store c))" and ?u = "sv_uid S w"
  from E(3) consider "sv_get S ?x = sv_get S (cs_store c)" "sv_issued S ?x = sv_issued S (cs_store c)"
    | v v' where "sv_get S (cs_store c) ?u = Some v" "sv_version S v = sv_version S w"
      "sameTemplate L pk t p v'" "stores S ?u v' (cs_store c) ?x"
    unfolding updates_def by blast
  then show ?thesis
  proof cases
    case 1
    then show ?thesis using inv by (simp add: recordWrite_def clusterInv_def)
  next
    case 2
    have "v = w"
      using clusterInvD(2) [OF inv clusterInvD(3) [OF inv 2(1)] w clusterInvD(4) [OF inv 2(1)] 2(2)] .
    with clusterInvD(5) [OF inv 2(1)] obtain w0 m0 where w0: "cs_first c ?u = Some w0"
      "goodStart L pk t B w0 m0" "managed L pk t B w0 w (actOf (cs_log c ?u))" by blast
    from p E(2) have "projectedBy (lookupMapping (env_config E)) L b w = Ok p"
      by (simp add: projectOne_projectedBy)
    from managed.elsewhere [OF managed.reconciled [where lookup = "lookupMapping (env_config E)",
        OF w0(3) b E(1) this] 2(3)]
    have m: "managed L pk t B w0 v' (actOf (cs_log c ?u @ [b]))" by (simp add: actOf_def)
    have "sv_issued S ?x \<noteq> sv_issued S (cs_store c)" "sv_get S ?x ?u = Some v'"
      using 2(4) by (auto simp: stores_def)
    then have "recordWrite S ?u b ?x c = \<lparr>cs_store = ?x, cs_seen = insert v' (cs_seen c),
        cs_first = cs_first c, cs_log = (cs_log c)(?u := cs_log c ?u @ [b])\<rparr>"
      by (cases c) (simp add: recordWrite_def)
    with clusterInv_stores [where first = "cs_first c" and log = "(cs_log c)(?u := cs_log c ?u @ [b])",
        OF inv 2(4) w0(1,2)] m
    show ?thesis by simp
  qed
qed

lemma clusterRun_inv: "clusterRun S L pk t B c \<Longrightarrow> clusterInv S L pk t B c"
proof (induction rule: clusterRun.induct)
  case (empty x)
  then show ?case by (simp add: clusterInv_def)
next
  case (create c v m0 u x')
  have "managed L pk t B v v (actOf (((cs_log c)(u := [])) u))" by (simp add: actOf_def managed.initial)
  from clusterInv_stores [where first = "(cs_first c)(u \<mapsto> v)" and log = "(cs_log c)(u := [])",
      OF create.IH create.hyps(3) _ create.hyps(2) this]
  show ?case by (cases c) simp
next
  case (submit c w0 m0 W w1 v u x')
  from managed.elsewhere [OF admission_managed [OF submit.hyps(3-6)] submit.hyps(7)]
  have "managed L pk t B w0 v (actOf (((cs_log c)(u := admitted W w0)) u))" by simp
  from clusterInv_stores [where first = "(cs_first c)(u \<mapsto> w0)" and log = "(cs_log c)(u := admitted W w0)",
      OF submit.IH submit.hyps(8) _ submit.hyps(2) this]
  show ?case by (cases c) simp
next
  case (update c w b E p)
  from clusterInv_update [OF update.IH update.hyps(2-7)] show ?case .
next
  case (change c u v v' x')
  from clusterInvD(5) [OF change.IH change.hyps(2)] obtain w0 m0 where
    w0: "cs_first c u = Some w0" "goodStart L pk t B w0 m0"
    "managed L pk t B w0 v (actOf (cs_log c u))" by blast
  from clusterInv_stores [where first = "cs_first c" and log = "cs_log c",
      OF change.IH change.hyps(4) w0(1,2) managed.elsewhere [OF w0(3) change.hyps(3)]]
  show ?case by (cases c) simp
next
  case (delete c x' u)
  have sub: "sv_get S x' u' = Some y \<Longrightarrow> sv_get S (cs_store c) u' = Some y" for u' y
    using delete.hyps(2) by (auto split: if_splits)
  note D = clusterInvD [OF delete.IH]
  have "inj_on (\<lambda>v. (sv_uid S v, sv_version S v)) (cs_seen c)"
    using delete.IH by (simp add: clusterInv_def)
  then show ?case
    unfolding clusterInv_def using D(1) D(3-5) [OF sub] delete.hyps(3)
    by (intro conjI allI impI ballI) simp_all
qed

section \<open>Reconciliations are runs\<close>

lemma recordWrite_frame:
  "cs_seen c \<subseteq> cs_seen (recordWrite S u b x c)" "cs_store (recordWrite S u b x c) = x"
  "cs_first (recordWrite S u b x c) = cs_first c"
  by (auto simp: recordWrite_def)

lemma manageAll_run:
  assumes "clusterRun S L pk t B c" and "b \<in> B" and "env_lib E = L" and "updates S L pk t E"
    and "\<forall>(w, p) \<in> set ps. w \<in> cs_seen c \<and> lookupMapping (env_config E) w = Ok t \<and> projectOne E b w = Ok p"
  shows "\<exists>c'. clusterRun S L pk t B c' \<and> cs_store c' = manageAll E b ps (cs_store c) \<and>
    cs_first c' = cs_first c"
  using assms(1,5)
proof (induction ps arbitrary: c)
  case Nil
  then show ?case by auto
next
  case (Cons wp ps)
  obtain w p where wp: "wp = (w, p)" by force
  let ?c = "recordWrite S (sv_uid S w) b (snd (manageOne E b (w, p) (cs_store c))) c"
  have run: "clusterRun S L pk t B ?c"
    using Cons.prems assms(2-4) by (intro clusterRun.update) (auto simp: wp)
  have "\<forall>(w, p) \<in> set ps. w \<in> cs_seen ?c \<and> lookupMapping (env_config E) w = Ok t \<and> projectOne E b w = Ok p"
    using Cons.prems(2) recordWrite_frame(1) by fastforce
  from Cons.IH [OF run this] show ?case by (simp add: wp recordWrite_frame)
qed

lemma set_actOf:
  "b \<in> set (actOf bs) \<longleftrightarrow> bindsNow b \<and>
     (\<exists>xs ys. bs = xs @ b # ys \<and> (\<forall>c \<in> set ys. bindingUID c \<noteq> bindingUID b))"
proof (induction bs rule: rev_induct)
  case Nil
  show ?case by (simp add: actOf_def)
next
  case (snoc x bs)
  have step: "b \<in> set (actOf (bs @ [x])) \<longleftrightarrow>
      b \<in> set (actOf bs) \<and> bindingUID b \<noteq> bindingUID x \<or> b = x \<and> bindsNow x"
    by (auto simp: actOf_def actAfter_def)
  have split: "(\<exists>xs ys. bs @ [x] = xs @ b # ys \<and> (\<forall>c \<in> set ys. bindingUID c \<noteq> bindingUID b)) \<longleftrightarrow>
      b = x \<or> bindingUID x \<noteq> bindingUID b \<and>
        (\<exists>xs ys. bs = xs @ b # ys \<and> (\<forall>c \<in> set ys. bindingUID c \<noteq> bindingUID b))" (is "?l \<longleftrightarrow> ?r")
  proof
    assume ?l
    then obtain xs ys where e: "bs @ [x] = xs @ b # ys" "\<forall>c \<in> set ys. bindingUID c \<noteq> bindingUID b" by blast
    show ?r
    proof (cases ys rule: rev_cases)
      case Nil
      with e show ?thesis by simp
    next
      case (snoc zs z)
      with e show ?thesis by auto
    qed
  next
    assume ?r
    then show ?l
    proof
      assume "b = x"
      then show ?l by (intro exI [of _ bs] exI [of _ "[]"]) simp
    next
      assume "bindingUID x \<noteq> bindingUID b \<and>
        (\<exists>xs ys. bs = xs @ b # ys \<and> (\<forall>c \<in> set ys. bindingUID c \<noteq> bindingUID b))"
      then obtain xs ys where "bs = xs @ b # ys" "\<forall>c \<in> set ys. bindingUID c \<noteq> bindingUID b"
        "bindingUID x \<noteq> bindingUID b" by blast
      then show ?l by (intro exI [of _ xs] exI [of _ "ys @ [x]"]) auto
    qed
  qed
  show ?case unfolding step split snoc.IH by auto
qed

section \<open>An instance\<close>

text \<open>
  A server for one deployment: a workload is an object and its version, a store is the workload
  that is there, if any, and the next version.
\<close>

definition versionedLib :: "(json \<times> nat) lib" where
  "versionedLib =
    \<lparr>lib_jsonpath = podJsonpath, lib_codec = plainCodec,
     toUnstructured = (\<lambda>(j, n). if isObj j then Inr j else Inl (Error ''not an object'')),
     fromUnstructured = (\<lambda>u (j, n). Inr (u, n))\<rparr>"

definition versionText :: "nat \<Rightarrow> string" where
  "versionText n = replicate n CHR ''i''"

definition oneServer :: "(json \<times> nat, (json \<times> nat) option \<times> nat) server" where
  "oneServer =
    \<lparr>sv_get = (\<lambda>(v, n) u. if u = ''d'' then v else None),
     sv_issued = (\<lambda>(v, n). (\<lambda>k. (''d'', versionText k)) ` {..<n}),
     sv_uid = (\<lambda>w. ''d''), sv_version = (\<lambda>(j, k). versionText k)\<rparr>"

definition oneEnv :: "(json \<times> nat, (json \<times> nat) option \<times> nat) env" where
  "oneEnv = podEnv versionedLib
    \<lparr>env_config := podConfig\<lparr>cfg_getObject := (\<lambda>ref. Inr (deployment, 0))\<rparr>,
     env_manage := (\<lambda>merge eq b w p (v, n). case v of
        None \<Rightarrow> (Some NotFound, (v, n))
      | Some (j, k) \<Rightarrow>
          (if k = snd w then (None, (Some (fst p, n), Suc n)) else (Some (Error ''conflict''), (v, n)))),
     env_resourceVersion := (\<lambda>(j, k). versionText k)\<rparr>"

lemma versionText_inj [simp]: "versionText k = versionText n \<longleftrightarrow> k = n"
  by (auto simp: versionText_def)

lemma versionedLib_simps [simp]:
  "lib_jsonpath versionedLib = podJsonpath" "lib_codec versionedLib = plainCodec"
  "toUnstructured versionedLib (j, n) = (if isObj j then Inr j else Inl (Error ''not an object''))"
  "fromUnstructured versionedLib u (j, n) = Inr (u, n)"
  by (simp_all add: versionedLib_def)

lemma versioned_sameTemplate: "sameTemplate versionedLib podPath podMapping (j, k) (j, n)"
  by (auto simp: sameTemplate_def fitsMapping_def newMetaPodTemplate_def outcome_simps)

lemma oneEnv_updates: "updates oneServer versionedLib podPath podMapping oneEnv"
  unfolding updates_def
proof (intro allI impI)
  fix b w p x x'
  assume x': "snd (manageOne oneEnv b (w, p) x) = x'"
  obtain v n where x: "x = (v, n)" by force
  consider "x' = x" | j k where "v = Some (j, k)" "k = snd w" "x' = (Some (fst p, n), Suc n)"
    using x' by (auto simp: x manageOne_def oneEnv_def split: option.splits if_splits)
  then show "sv_get oneServer x' = sv_get oneServer x \<and> sv_issued oneServer x' = sv_issued oneServer x \<or>
     (\<exists>u v v'. sv_get oneServer x u = Some v \<and> u = sv_uid oneServer w \<and>
        sv_version oneServer v = sv_version oneServer w \<and>
        sameTemplate versionedLib podPath podMapping p v' \<and> stores oneServer u v' x x')"
  proof cases
    case 2
    have "sameTemplate versionedLib podPath podMapping p (fst p, n)"
      using versioned_sameTemplate [of "fst p" "snd p" n] by simp
    with 2 x show ?thesis
      by (intro disjI2 exI [of _ "''d''"] exI [of _ "(j, k)"] exI [of _ "(fst p, n)"])
        (auto simp: oneServer_def stores_def lessThan_Suc split: prod.splits)
  qed simp
qed

definition versionedTemplate :: "(json \<times> nat) metaPodTemplate" where
  "versionedTemplate =
    \<lparr>mpt_workload = (deployment, 0), mpt_mapping = podMapping, mpt_Annotations = [(''note'', ''kept'')],
     mpt_Containers = [\<lparr>ct_Name = Some ''main'', ct_Env = [], ct_VolumeMounts = []\<rparr>,
       \<lparr>ct_Name = Some ''sidecar'', ct_Env = [], ct_VolumeMounts = []\<rparr>],
     mpt_Volumes = []\<rparr>"

lemma versioned_fits: "fitsMapping versionedLib podPath podMapping (deployment, 0)"
proof -
  have "converter_ok versionedLib" by (auto simp: converter_ok_def split: if_splits)
  moreover have "separateMapping versionedLib podPath podMapping"
    by (simp add: separateMapping_def separateContainers_def podMapping_simps podSpecableContainers_def
      defaultContainer_def pod_keys separateElem_def pod_elementsPath podPath_def pathTable_def pointerTable_def
      braced_def)
  ultimately show ?thesis
    by (simp add: fitsMapping_def plainCodec_ok podMapping_simps podSpecableContainers_def
      defaultContainer_def podPath_def pathTable_def braced_def
      deployment_def listed_def arrayAt_def writable_def canWrite_def pod_keys pod_keys_Ok elemsAt_def
      canWriteElem_def)
qed

lemma versioned_template: "newMetaPodTemplate versionedLib (deployment, 0) podMapping = Ok versionedTemplate"
  by code_simp

lemma versioned_start:
  assumes "\<And>b. b \<in> B \<Longrightarrow> bindingUID b = ''u1''"
  shows "goodStart versionedLib podPath podMapping B (deployment, 0) versionedTemplate"
proof -
  have "unowned b versionedTemplate" if "b \<in> B" for b
    using assms [OF that] by (auto simp: unowned_def versionedTemplate_def ownKeys_def name_defs)
  then show ?thesis
    using versioned_fits versioned_template
    by (auto simp: goodStart_def literalRoots_def literalRoot_def) (auto simp: versionedTemplate_def)
qed

text \<open>The deployment has been created.\<close>

definition createdState :: "(json \<times> nat, (json \<times> nat) option \<times> nat) clusterState" where
  "createdState = \<lparr>cs_store = (Some (deployment, 0), 1), cs_seen = {(deployment, 0)},
     cs_first = [''d'' \<mapsto> (deployment, 0)], cs_log = (\<lambda>u. [])\<rparr>"

lemma created_run:
  assumes "\<And>b. b \<in> B \<Longrightarrow> bindingUID b = ''u1''"
  shows "clusterRun oneServer versionedLib podPath podMapping B createdState"
proof -
  let ?c = "\<lparr>cs_store = (None :: (json \<times> nat) option, 0), cs_seen = {}, cs_first = Map.empty, cs_log = (\<lambda>u. [])\<rparr>"
  have run: "clusterRun oneServer versionedLib podPath podMapping B ?c"
    by (rule clusterRun.empty) (auto simp: oneServer_def)
  have st: "stores oneServer ''d'' (deployment, 0) (cs_store ?c) (Some (deployment, 0), 1)"
    by (auto simp: stores_def oneServer_def)
  have start: "goodStart versionedLib podPath podMapping B (deployment, 0) versionedTemplate"
    by (rule versioned_start) (rule assms)
  have "(\<lambda>u. [])(''d'' := []) = (\<lambda>u :: string. [] :: serviceBinding list)" by auto
  with clusterRun.create [OF run start st] show ?thesis by (simp add: createdState_def)
qed

text \<open>One write of the binding, from the version that was created.\<close>

definition oneBinding :: serviceBinding where
  "oneBinding = exampleBinding ''u1'' ''s1''"

lemma oneEnv_simps [simp]:
  "env_lib oneEnv = versionedLib" "lookupMapping (env_config oneEnv) w = Ok podMapping"
proof -
  have "lookupMapping (podConfig\<lparr>cfg_getObject := f\<rparr>) w = Ok podMapping" for f
    using podConfig_lookup [of w] by (simp add: lookupMapping_def podConfig_def)
  then show "lookupMapping (env_config oneEnv) w = Ok podMapping" by (simp add: oneEnv_def)
qed (simp add: oneEnv_def podEnv_def)

lemma written_run:
  obtains c v where "clusterRun oneServer versionedLib podPath podMapping {oneBinding} c"
    "sv_get oneServer (cs_store c) ''d'' = Some v" "cs_log c ''d'' = [oneBinding]"
proof -
  have uid: "bindingUID b = ''u1''" if "b \<in> {oneBinding}" for b using that by (simp add: oneBinding_def)
  note run = created_run [of "{oneBinding}", OF uid]
  have B: "compatible {oneBinding}" by (simp add: compatible_def)
  obtain p where "projectedBy (lookupMapping (env_config oneEnv)) versionedLib oneBinding (deployment, 0) = Ok p"
    by (rule managed_continues [where b = oneBinding and lookup = "lookupMapping (env_config oneEnv)",
        OF managed.initial versioned_start [of "{oneBinding}", OF uid] B]) auto
  then have p: "projectOne oneEnv oneBinding (deployment, 0) = Ok p" by (simp add: projectOne_projectedBy)
  let ?x = "snd (manageOne oneEnv oneBinding ((deployment, 0), p) (cs_store createdState))"
  let ?c = "recordWrite oneServer ''d'' oneBinding ?x createdState"
  have x: "?x = (Some (fst p, 1), 2)" by (simp add: manageOne_def oneEnv_def createdState_def)
  have "clusterRun oneServer versionedLib podPath podMapping {oneBinding} ?c"
    using clusterRun.update [OF run _ _ _ _ oneEnv_updates p] by (simp add: createdState_def oneServer_def)
  moreover have "(''d'', versionText 1) \<in> sv_issued oneServer ?x"
    "(''d'', versionText 1) \<notin> sv_issued oneServer (cs_store createdState)"
    unfolding x by (simp_all add: oneServer_def createdState_def image_iff)
  then have "sv_issued oneServer ?x \<noteq> sv_issued oneServer (cs_store createdState)" by metis
  then have "sv_get oneServer (cs_store ?c) ''d'' = Some (fst p, 1) \<and> cs_log ?c ''d'' = [oneBinding]"
    by (simp add: recordWrite_def x) (simp add: createdState_def oneServer_def)
  ultimately show thesis using that by blast
qed

section \<open>Claims\<close>




definition oneState :: "(json \<times> nat, (json \<times> nat) option \<times> nat) rstate" where
  "oneState = \<lparr>rs_resource = oneBinding, rs_stash = Map.empty, rs_tracked = [],
     rs_cluster = cs_store createdState\<rparr>"


end
