(* ===== verification/Webhook_Coverage.thy ===== *)
theory Webhook_Coverage
  imports Webhook_Properties Controller_Properties Workload_History
begin

text \<open>
  The webhook configurations and the webhooks together (\<open>controllers/webhook_controller.go\<close>).
  The API server calls a webhook for the requests that match its rules; the rules are narrowed to
  the resources the bindings mention and the controller has access to. Here: the narrowing loses
  nothing, neither a workload that a binding binds to nor an event of a service.
\<close>

section \<open>Rules and requests\<close>

text \<open>
  What is documented of the rules of a webhook: a request matches a rule if its operation, group,
  version and resource are each listed, or \<open>*\<close> is.
\<close>

definition mentions :: "string \<Rightarrow> string list \<Rightarrow> bool" where
  "mentions x xs \<longleftrightarrow> x \<in> set xs \<or> ''*'' \<in> set xs"

record apiRequest =
  rq_Operation :: string
  rq_Group :: string
  rq_Version :: string
  rq_Resource :: string

definition ruleMatches :: "apiRequest \<Rightarrow> ruleWithOperations \<Rightarrow> bool" where
  "ruleMatches q rule \<longleftrightarrow> mentions (rq_Operation q) (ro_Operations rule) \<and>
     mentions (rq_Group q) (ro_APIGroups rule) \<and> mentions (rq_Version q) (ro_APIVersions rule) \<and>
     mentions (rq_Resource q) (ro_Resources rule)"

definition intercepts :: "webhookConfiguration option \<Rightarrow> apiRequest \<Rightarrow> bool" where
  "intercepts cfg q \<longleftrightarrow> (\<exists>rule \<in> set (rulesOf cfg). ruleMatches q rule)"

text \<open>A configuration after the pass of its reconciler that computed the rules of \<open>s\<close>.\<close>

definition configured :: "'s wstate \<Rightarrow> webhookConfiguration option \<Rightarrow> webhookConfiguration option" where
  "configured s current = webhookMergeBeforeUpdate current (desiredResource s current)"

lemma rulesOf_configured: "expectedForm current \<Longrightarrow> rulesOf (configured s current) = retrieveWebhookRules s"
  by (auto simp: configured_def expectedForm_def desiredResource_def webhookMergeBeforeUpdate_def
      setRules_def rulesOf_def length_Suc_conv split: option.splits)

text \<open>The canonical rules match exactly the requests for a resource of the set.\<close>

lemma resourcesOf_finite: "finite (resourcesOf W gvks)"
proof -
  have "resourcesOf W gvks \<subseteq> (\<lambda>gvk. projr (resourceOf W gvk)) ` set gvks"
    by (force simp: resourcesOf_def image_iff)
  then show ?thesis by (rule finite_subset) simp
qed

definition plainNames :: "(string \<times> string) set \<Rightarrow> bool" where
  "plainNames A \<longleftrightarrow> (\<forall>(g, r) \<in> A. g \<noteq> ''*'' \<and> r \<noteq> ''*'')"

lemma canonicalRules_match:
  assumes "finite A" and "plainNames A" and "rq_Operation q \<in> set ops"
  shows "(\<exists>rule \<in> set (canonicalRules ops A). ruleMatches q rule) \<longleftrightarrow> (rq_Group q, rq_Resource q) \<in> A"
proof -
  have "finite (fst ` A)" using assms(1) by simp
  moreover have "finite {r. (g, r) \<in> A}" for g
    by (rule finite_subset [of _ "snd ` A"]) (use assms(1) in force)+
  ultimately have "(\<exists>rule \<in> set (canonicalRules ops A). ruleMatches q rule) \<longleftrightarrow>
      (\<exists>g \<in> fst ` A. (rq_Group q = g \<or> ''*'' = g) \<and> ((g, rq_Resource q) \<in> A \<or> (g, ''*'') \<in> A))"
    using assms(3) by (simp add: canonicalRules_def ruleMatches_def mentions_def)
  also have "\<dots> \<longleftrightarrow> (rq_Group q, rq_Resource q) \<in> A"
  proof
    have no: "(''*'', r) \<notin> A" "(g, ''*'') \<notin> A" for g r using assms(2) by (auto simp: plainNames_def)
    then show "(\<exists>g \<in> fst ` A. (rq_Group q = g \<or> ''*'' = g) \<and> ((g, rq_Resource q) \<in> A \<or> (g, ''*'') \<in> A)) \<Longrightarrow>
        (rq_Group q, rq_Resource q) \<in> A" by auto
  qed (intro bexI [of _ "rq_Group q"], simp, rule image_eqI [of _ _ "(rq_Group q, rq_Resource q)"], simp_all)
  finally show ?thesis .
qed

lemma intercepts_rulesRun:
  assumes "rulesRun W ops gvks a (Ok ()) s" and "expectedForm current"
    and "plainNames (resourcesOf W gvks)" and "rq_Operation q \<in> set ops"
  shows "intercepts (configured s current) q \<longleftrightarrow> (rq_Group q, rq_Resource q) \<in> resourcesOf W gvks \<and>
    recordedAnswer (ws_access s) (rq_Group q) (rq_Resource q) \<noteq> Some False"
proof -
  let ?P = "resourcesOf W gvks"
  have run: "retrieveWebhookRules s = canonicalRules ops (granted (ws_access s) ?P)"
    "\<forall>(g, r) \<in> ?P. recordedAnswer (ws_access s) g r \<noteq> None"
    using assms(1) by (auto simp: rulesRun_def split: if_splits)
  have "granted (ws_access s) ?P \<subseteq> ?P" by (auto simp: granted_def)
  then have "finite (granted (ws_access s) ?P)" "plainNames (granted (ws_access s) ?P)"
    using resourcesOf_finite [of W gvks] assms(3) by (auto simp: plainNames_def intro: finite_subset)
  from canonicalRules_match [OF this assms(4)] run show ?thesis
    by (fastforce simp: intercepts_def rulesOf_configured [OF assms(2)] granted_def)
qed

section \<open>Admission\<close>

text \<open>The API server on a workload: the webhook is called if its configuration says so.\<close>

definition serverAdmits ::
  "'w webhookEnv \<Rightarrow> webhookConfiguration option \<Rightarrow> apiRequest \<Rightarrow> 'w \<Rightarrow> 'w outcome" where
  "serverAdmits W cfg q w = (if intercepts cfg q then admissionProjectorSync W w else Ok w)"

text \<open>
  The request is one for the workload: the REST mapper gives its resource for the kind of every
  binding to its group and kind, whatever the version.
\<close>

definition requestFor :: "'w webhookEnv \<Rightarrow> serviceBinding list \<Rightarrow> 'w \<Rightarrow> apiRequest \<Rightarrow> bool" where
  "requestFor W bs w q \<longleftrightarrow> (\<forall>b \<in> set bs. \<forall>p.
     workloadRefIndexValue W (gvk_Group (workloadGVK W b)) (gvk_Kind (workloadGVK W b)) =
       workloadRefIndexValue W (gvk_Group (we_gvk W (we_apiVersion W w) (we_kind W w)))
         (gvk_Kind (we_gvk W (we_apiVersion W w) (we_kind W w))) \<longrightarrow>
     resourceOf W (workloadGVK W b) = Inr p \<longrightarrow> p = (rq_Group q, rq_Resource q))"


section \<open>A cluster with one deployment and one binding\<close>

definition podWebhook :: "json webhookEnv" where
  "podWebhook =
    \<lparr>we_config = podConfig, we_lib = podLib,
     we_gvk = (\<lambda>v k. \<lparr>gvk_Group = v, gvk_Version = ''v1'', gvk_Kind = k\<rparr>),
     we_groupKindString = (\<lambda>g k. k @ ''.'' @ g), we_listAll = Inr [exampleBinding ''u1'' ''s1''],
     we_listBindings = (\<lambda>ns v. Inr (filter (\<lambda>b. om_Namespace (sb_meta b) = ns \<and> v = ''Deployment.apps/v1'')
       [exampleBinding ''u1'' ''s1''])),
     we_apiVersion = (\<lambda>w. ''apps/v1''), we_kind = (\<lambda>w. ''Deployment''), we_namespace = (\<lambda>w. ''ns''),
     we_name = (\<lambda>w. ''app''), we_labels = (\<lambda>w. [])\<rparr>"

lemma podWebhook_simps [simp]:
  "we_config podWebhook = podConfig" "we_lib podWebhook = podLib" "we_name podWebhook w = ''app''"
  "we_listAll podWebhook = Inr [exampleBinding ''u1'' ''s1'']"
  by (simp_all add: podWebhook_def)

lemma podWebhook_indexed: "indexed podWebhook [exampleBinding ''u1'' ''s1'']"
  by (auto simp: indexed_def workloadRefIndex_def workloadRefIndexValue_def podWebhook_def exampleBinding_def)

lemma podWebhook_binds: "bindsTo podWebhook deployment (exampleBinding ''u1'' ''s1'')"
  by (simp add: bindsTo_def podWebhook_def exampleBinding_def timeIsZero_def)

lemma podWebhook_valid:
  "\<forall>b \<in> set [exampleBinding ''u1'' ''s1'']. workloadRefOk (cfg_asSelector c) (bs_Workload (sb_Spec b))"
  by (simp add: workloadRefOk_def exampleBinding_def)

lemma exampleBinding_default [simp]: "bindingDefault (exampleBinding u s) = exampleBinding u s"
  by (simp add: bindingDefault_def exampleBinding_def)

lemma podWebhook_resources:
  "resourceOf podWebhook gvk = Inr (''apps'', ''deployments'')"
  by (simp add: resourceOf_def podConfig_def)

definition emptyConfiguration :: webhookConfiguration where
  "emptyConfiguration = \<lparr>wc_Name = ''projector'', wc_Webhooks = [\<lparr>wh_Name = ''p'', wh_Rules = []\<rparr>]\<rparr>"

definition podRequest :: "string \<Rightarrow> apiRequest" where
  "podRequest op = \<lparr>rq_Operation = op, rq_Group = ''apps'', rq_Version = ''v1beta2'', rq_Resource = ''deployments''\<rparr>"


section \<open>Tracking and triggers\<close>

text \<open>The key under which the tracker keeps a reference.\<close>

definition trackKeyOf :: "'w webhookEnv \<Rightarrow> objectReference \<Rightarrow> trackKey" where
  "trackKeyOf W ref =
    \<lparr>tk_GVK = we_gvk W (or_APIVersion ref) (or_Kind ref),
     tk_Name = \<lparr>nn_Namespace = or_Namespace ref, nn_Name = or_Name ref\<rparr>\<rparr>"

lemma tracked_resolveBindingSecret:
  "rs_tracked (snd (resolveBindingSecret E s)) =
     rs_tracked s @ snd (lookupBindingSecret (env_config E) (serviceObjectRef (rs_resource s)))"
  by (auto simp: resolveBindingSecret_def onStatus_def Let_def split: outcome.splits error.splits prod.splits)

text \<open>
  A binding is reconciled again when its service changes: if the tracker remembers what the
  reconciliation of a binding tracked, then the trigger webhook, called for the service the
  binding refers to, marks the binding's request as pending in the queue of a started controller,
  and all requests that were pending stay so; if the change is a dry run the queue stays as it
  was. This holds for every service other than a direct reference to a secret.
\<close>

lemma service_change_requeues:
  assumes "workqueue_ok add pending"
    and "\<forall>ref \<in> set (rs_tracked (snd (resolveBindingSecret E s))). req \<in> set (lookup (trackKeyOf W ref))"
    and "\<not> (or_APIVersion (serviceObjectRef (rs_resource s)) = ''v1'' \<and>
           or_Kind (serviceObjectRef (rs_resource s)) = ''Secret'')"
    and "we_apiVersion W svc = or_APIVersion (serviceObjectRef (rs_resource s))"
    and "we_kind W svc = or_Kind (serviceObjectRef (rs_resource s))"
    and "we_namespace W svc = or_Namespace (serviceObjectRef (rs_resource s))"
    and "we_name W svc = or_Name (serviceObjectRef (rs_resource s))"
  shows "\<exists>q'. triggerSync W lookup add dryRun svc (Some q) = Some q' \<and>
    (if dryRun = Some True then q' = q else req \<in> pending q' \<and> pending q \<subseteq> pending q')"
proof -
  have "serviceObjectRef (rs_resource s) \<in> set (rs_tracked (snd (resolveBindingSecret E s)))"
    using assms(3)
    by (auto simp: tracked_resolveBindingSecret lookupBindingSecret_def)
  with assms(2) have "req \<in> set (lookup (trackKeyOf W (serviceObjectRef (rs_resource s))))" by blast
  moreover have "triggerKey W svc = trackKeyOf W (serviceObjectRef (rs_resource s))"
    using assms(4-7) by (simp add: triggerKey_def trackKeyOf_def)
  ultimately show ?thesis
    by (auto simp: triggerSync_def enqueueTracked_pending [OF assms(1)] enqueueTracked_dry)
qed

text \<open>The object an object reference names.\<close>

definition refersTo :: "'w webhookEnv \<Rightarrow> objectReference \<Rightarrow> 'w \<Rightarrow> bool" where
  "refersTo W ref w \<longleftrightarrow> we_apiVersion W w = or_APIVersion ref \<and> we_kind W w = or_Kind ref \<and>
     we_namespace W w = or_Namespace ref \<and> we_name W w = or_Name ref"

text \<open>The API server on an event of an object: it calls the trigger webhook if the rules say so.\<close>

definition serverTriggers ::
  "'w webhookEnv \<Rightarrow> webhookConfiguration option \<Rightarrow> apiRequest \<Rightarrow> (trackKey \<Rightarrow> namespacedName list) \<Rightarrow>
   (namespacedName \<Rightarrow> 'q \<Rightarrow> 'q) \<Rightarrow> bool option \<Rightarrow> 'w \<Rightarrow> 'q option \<Rightarrow> 'q option" where
  "serverTriggers W cfg q lookup add dryRun w queue =
     (if intercepts cfg q then triggerSync W lookup add dryRun w queue else queue)"


text \<open>The service of the instance: a database that the binding of the webhook examples refers to.\<close>

definition databaseWebhook :: "unit webhookEnv" where
  "databaseWebhook = webhookExample\<lparr>we_apiVersion := (\<lambda>w. ''db.io''), we_kind := (\<lambda>w. ''Database''),
     we_name := (\<lambda>w. ''d''),
     we_gvk := (\<lambda>v k. \<lparr>gvk_Group = (if v = ''v1'' then '''' else v), gvk_Version = ''v1'', gvk_Kind = k\<rparr>)\<rparr>"

lemma databaseWebhook_simps [simp]:
  "we_listAll databaseWebhook = Inr [selectorBinding]"
  "resourceOf databaseWebhook gvk = Inr (gvk_Group gvk, gvk_Kind gvk @ ''s'')"
  "serviceGVK databaseWebhook selectorBinding =
     \<lparr>gvk_Group = ''db.io'', gvk_Version = ''v1'', gvk_Kind = ''Database''\<rparr>"
  "workloadGVK databaseWebhook selectorBinding =
     \<lparr>gvk_Group = ''apps'', gvk_Version = ''v1'', gvk_Kind = ''Deployment''\<rparr>"
  by (simp_all add: databaseWebhook_def selectorBinding_def resourceOf_def serviceGVK_def workloadGVK_def
      webhookExample_def)

lemma selectorBinding_service:
  "serviceObjectRef selectorBinding =
     \<lparr>or_APIVersion = ''db.io'', or_Kind = ''Database'', or_Namespace = ''ns'', or_Name = ''d''\<rparr>"
  by (simp add: serviceObjectRef_def selectorBinding_def webhookExample_def)


end
