(* ===== verification/Settled_Template.thy ===== *)
theory Settled_Template
  imports Projection_History
begin

text \<open>
  When projecting a binding again changes nothing: every projection leaves volumes, mounts and
  variables in canonical order, so a template that carries a binding, with whatever other
  bindings, is a fixed point of its projection, provided that no two projected variables of a
  container have the same name. With equal names there is no fixed point.
\<close>

section \<open>Canonical order is kept\<close>

lemma sortProjected_cong:
  "(\<And>x. x \<in> set xs \<Longrightarrow> p x = q x) \<Longrightarrow> sortProjected p name xs = sortProjected q name xs"
  by (simp add: sortProjected_split cong: filter_cong)

lemma sortProjected_idem [simp]: "sortProjected p name (sortProjected p name xs) = sortProjected p name xs"
  using sortProjected_absorb [of p name xs "[]"] by simp

lemma sortProjected_unique:
  assumes xs: "sortProjected p name xs = xs" and ys: "sortProjected p name ys = ys"
    and "mset xs = mset ys" and "filter (\<lambda>x. \<not> p x) xs = filter (\<lambda>x. \<not> p x) ys"
    and dist: "distinct (map name (filter p xs))"
  shows "xs = ys"
proof -
  have ms: "mset (filter p xs) = mset (filter p ys)" using assms(3) by simp
  have "sort_key name (filter p xs) = sort_key name (filter p ys)"
  proof (rule properties_for_sort_key)
    show "mset (sort_key name (filter p ys)) = mset (filter p xs)" using ms by simp
    show "sorted (map name (sort_key name (filter p ys)))" by simp
    fix x
    show "filter (\<lambda>y. name x = name y) (sort_key name (filter p ys)) =
        filter (\<lambda>y. name x = name y) (filter p xs)"
      using filter_unique_key [OF dist ms, of "name x"] sort_key_stable_left [of name x "filter p ys"] by simp
  qed
  with xs ys assms(4) show ?thesis by (metis sortProjected_split)
qed

text \<open>
  A Go map has each key once, and the secrets it records are those it maps a secret key to.
\<close>

lemma knownSecrets_iff:
  "distinct (map fst ann) \<Longrightarrow>
   s \<in> knownProjectedSecrets ann \<longleftrightarrow> (\<exists>k. hasPrefix k SecretAnnotationPrefix \<and> map_of ann k = Some s)"
  by (force simp: knownProjectedSecrets_def)

lemma not_secret_key [simp]:
  "\<not> hasPrefix (typeAnnotationName b) SecretAnnotationPrefix"
  "\<not> hasPrefix (providerAnnotationName b) SecretAnnotationPrefix"
  by (simp_all add: name_defs hasPrefix_def)

lemma distinct_clearAnnotations: "distinct (map fst ann) \<Longrightarrow> distinct (map fst (clearAnnotations b ann))"
  by (simp add: clearAnnotations_def distinct_delete)

lemma distinct_bindAnnotations: "distinct (map fst ann) \<Longrightarrow> distinct (map fst (bindAnnotations b ann))"
  by (simp add: bindAnnotations_def Let_def distinct_update)

lemma isProjectedEnv_iff:
  "isProjectedEnv e secrets \<longleftrightarrow> (\<exists>s \<in> secrets. refersToSecret s e) \<or> isProjectedEnv e {}"
  by (auto simp: isProjectedEnv_def refersToSecret_def split: option.splits)

lemma isProjectedEnv_cleared:
  assumes "distinct (map fst ann)" and "\<not> removesEnv b (amap_str ann (secretAnnotationName b)) e"
  shows "isProjectedEnv e (knownProjectedSecrets (clearAnnotations b ann)) =
    isProjectedEnv e (knownProjectedSecrets ann)"
proof -
  have "s \<in> knownProjectedSecrets (clearAnnotations b ann) \<longleftrightarrow> s \<in> knownProjectedSecrets ann"
    if "refersToSecret s e" for s
  proof -
    have "s \<noteq> amap_str ann (secretAnnotationName b)" using assms(2) that by (auto simp: removesEnv_iff)
    then have "map_of ann (secretAnnotationName b) \<noteq> Some s" by (auto simp: amap_str_def)
    then have "k \<notin> ownKeys b" if "hasPrefix k SecretAnnotationPrefix" "map_of ann k = Some s" for k
      using that by (auto simp: ownKeys_def)
    then show ?thesis
      by (auto simp: knownSecrets_iff [OF assms(1)] knownSecrets_iff [OF distinct_clearAnnotations [OF assms(1)]]
          map_of_clearAnnotations)
  qed
  then show ?thesis by (auto simp: isProjectedEnv_iff [of e "knownProjectedSecrets _"])
qed

lemma isProjectedEnv_bound:
  assumes "distinct (map fst ann)" and "\<forall>k \<in> ownKeys b. map_of ann k = None"
    and "\<not> refersToSecret (secretName b) e"
  shows "isProjectedEnv e (knownProjectedSecrets (bindAnnotations b ann)) =
    isProjectedEnv e (knownProjectedSecrets ann)"
proof -
  have "s \<in> knownProjectedSecrets (bindAnnotations b ann) \<longleftrightarrow> s \<in> knownProjectedSecrets ann"
    if "refersToSecret s e" for s
  proof -
    have own: "map_of (bindAnnotations b ann) k = Some s \<Longrightarrow> hasPrefix k SecretAnnotationPrefix \<Longrightarrow> k \<notin> ownKeys b" for k
      using that assms(3) annotated_bindAnnotations [of b ann] by (auto simp: ownKeys_def annotated_def)
    moreover have "map_of ann k = Some s \<Longrightarrow> k \<notin> ownKeys b" for k using assms(2) by auto
    ultimately show ?thesis
      unfolding knownSecrets_iff [OF assms(1)] knownSecrets_iff [OF distinct_bindAnnotations [OF assms(1)]]
      by (metis map_of_bindAnnotations_other)
  qed
  then show ?thesis by (auto simp: isProjectedEnv_iff [of e "knownProjectedSecrets _"])
qed

text \<open>Variables of a container are its own, or of a binding that selects it.\<close>

lemma carried_env:
  assumes "carriesContainer act mc0 mc" and "e \<in> set (ct_Env mc)"
  shows "e \<in> set (ct_Env (rootContainer mc0)) \<or> (\<exists>c \<in> set (selectedBy act mc0). \<exists>x. e = bindingEnv c x)"
proof -
  consider "ct_Env mc = ct_Env mc0"
    | "mset (ct_Env mc) = mset (ct_Env (rootContainer mc0)) + mset (concat (map bindingEnvs (selectedBy act mc0)))"
    using assms(1) by (auto simp: carriesContainer_def)
  then show ?thesis
  proof cases
    case 1
    with assms(2) show ?thesis
      by (auto simp: rootContainer_def serviceBindingRoot_def split: option.split)
  next
    case 2
    then have "set (ct_Env mc) = set (ct_Env (rootContainer mc0)) \<union>
        set (concat (map bindingEnvs (selectedBy act mc0)))"
      by (metis set_mset_mset set_mset_union)
    with assms(2) show ?thesis by (auto simp: bindingEnvs_def)
  qed
qed

lemma carried_mount:
  assumes "carriesContainer act mc0 mc" and "v \<in> set (ct_VolumeMounts mc)"
  shows "v \<in> set (ct_VolumeMounts mc0) \<or> (\<exists>c \<in> set (selectedBy act mc0). vm_Name v = volumeName c)"
proof -
  have "v \<in> set (sortMounts (ct_VolumeMounts mc))" using assms(2) by simp
  also have "\<dots> = set (sortMounts (ct_VolumeMounts mc0 @ map (\<lambda>b. bindingMount b mc0) (selectedBy act mc0)))"
    using assms(1) by (simp add: carriesContainer_def)
  finally show ?thesis by (auto simp: bindingMount_def)
qed

lemma unowned_env:
  assumes "unowned b m0" and "mc0 \<in> set (mpt_Containers m0)" and "e \<in> set (ct_Env (rootContainer mc0))"
  shows "\<not> refersToSecret (secretName b) e" and "\<not> refersToOwnField b e"
  using assms set_rootContainer [of mc0]
  by (auto simp: unowned_def refersToSecret_def refersToOwnField_def defaultRootEnv_def)

section \<open>Templates in order\<close>

definition inOrder :: "serviceBinding list \<Rightarrow> 'w metaPodTemplate \<Rightarrow> bool" where
  "inOrder act m \<longleftrightarrow> distinct (map fst (mpt_Annotations m)) \<and>
     (act \<noteq> [] \<longrightarrow> sortVolumes (mpt_Volumes m) = mpt_Volumes m) \<and>
     (\<forall>mc \<in> set (mpt_Containers m). selectedBy act mc \<noteq> [] \<longrightarrow>
        sortMounts (ct_VolumeMounts mc) = ct_VolumeMounts mc \<and>
        sortEnv (mpt_Annotations m) (ct_Env mc) = ct_Env mc)"

lemma selectedBy_name: "ct_Name mc = ct_Name mc' \<Longrightarrow> selectedBy act mc = selectedBy act mc'"
  unfolding selectedBy_def by (metis isContainerBindable_cong)

lemma inOrder_unproject:
  assumes "inOrder act m"
  shows "inOrder (withoutUID b act) (unproject b m)"
proof -
  let ?ann = "mpt_Annotations m"
  have keys: "distinct (map fst ?ann)" using assms by (simp add: inOrder_def)
  have some: "withoutUID b act \<noteq> [] \<Longrightarrow> act \<noteq> []" by (auto simp: withoutUID_def)
  have vol: "act \<noteq> [] \<longrightarrow> sortVolumes (mpt_Volumes m) = mpt_Volumes m"
    using assms by (simp add: inOrder_def)
  have env: "sortEnv (clearAnnotations b ?ann) (ct_Env (unprojectContainer b ?ann mc)) =
        ct_Env (unprojectContainer b ?ann mc) \<and>
      sortMounts (ct_VolumeMounts (unprojectContainer b ?ann mc)) = ct_VolumeMounts (unprojectContainer b ?ann mc)"
    if mc: "mc \<in> set (mpt_Containers m)" and sel: "selectedBy (withoutUID b act) mc \<noteq> []" for mc
  proof -
    have "selectedBy act mc \<noteq> []" using sel unfolding selectedBy_withoutUID by (auto simp: withoutUID_def)
    with assms mc have o: "sortEnv ?ann (ct_Env mc) = ct_Env mc"
        "sortMounts (ct_VolumeMounts mc) = ct_VolumeMounts mc"
      by (simp_all add: inOrder_def)
    have "sortEnv (clearAnnotations b ?ann) (ct_Env (unprojectContainer b ?ann mc)) =
        sortEnv ?ann (ct_Env (unprojectContainer b ?ann mc))"
      by (rule sortProjected_cong) (simp add: isProjectedEnv_cleared [OF keys])
    with o show ?thesis by (simp add: filter_sortProjected [symmetric])
  qed
  have name: "selectedBy a (unprojectContainer b ?ann mc) = selectedBy a mc" for a mc
    by (rule selectedBy_name) simp
  show ?thesis
    unfolding inOrder_def
    using some vol env keys
    by (auto simp: name distinct_clearAnnotations filter_sortProjected [symmetric])
qed

lemma inOrder_project:
  assumes ord: "inOrder act m" and old: "carries m0 act m" and lit: "literalRoots m0"
    and b: "b \<in> B" "secretName b \<noteq> ''''"
    and foreign: "\<forall>a \<in> B. unowned a m0" and B: "compatible B" "activeIn B act"
  shows "inOrder (withoutUID b act @ [b]) (project b m)"
proof -
  let ?u = "unproject b m" and ?act = "withoutUID b act"
  let ?ann = "bindAnnotations b (mpt_Annotations ?u)"
  have own: "unowned b m0" using foreign b(1) by blast
  have u: "carries m0 ?act ?u" by (rule unproject_carries [OF old lit own foreign B])
  have ou: "inOrder ?act ?u" by (rule inOrder_unproject [OF ord])
  have p: "mpt_Annotations (project b m) = ?ann"
    "mpt_Containers (project b m) = map (boundContainer b ?ann) (mpt_Containers ?u)"
    "sortVolumes (mpt_Volumes (project b m)) = mpt_Volumes (project b m)"
    by (simp_all add: project_simps [OF b(2)])
  have keys: "distinct (map fst (mpt_Annotations ?u))" using ou by (simp add: inOrder_def)
  have cleared: "\<forall>k \<in> ownKeys b. map_of (mpt_Annotations ?u) k = None"
    by (simp add: map_of_clearAnnotations)
  have cont: "sortMounts (ct_VolumeMounts mc') = ct_VolumeMounts mc' \<and> sortEnv ?ann (ct_Env mc') = ct_Env mc'"
    if i: "i < length (mpt_Containers ?u)" and mc': "mc' = boundContainer b ?ann (mpt_Containers ?u ! i)"
      and sel: "selectedBy (?act @ [b]) mc' \<noteq> []" for i mc'
  proof (cases "isContainerBindable b (mpt_Containers ?u ! i)")
    case True
    then show ?thesis using mc' by (simp add: boundContainer_def)
  next
    case False
    let ?mc = "mpt_Containers ?u ! i" and ?orig = "mpt_Containers m0 ! i"
    have same: "mc' = ?mc" using False mc' by (simp add: boundContainer_def)
    with False sel have "selectedBy ?act ?mc \<noteq> []" by (simp add: selectedBy_def)
    moreover have "?mc \<in> set (mpt_Containers ?u)" using i by (rule nth_mem)
    ultimately have o: "sortMounts (ct_VolumeMounts ?mc) = ct_VolumeMounts ?mc"
        "sortEnv (mpt_Annotations ?u) (ct_Env ?mc) = ct_Env ?mc"
      using ou unfolding inOrder_def by blast+
    have c: "carriesContainer ?act ?orig ?mc" and i0: "i < length (mpt_Containers m0)"
      using u i by (auto simp: carries_def list_all2_conv_all_nth)
    have "\<not> refersToSecret (secretName b) e" if "e \<in> set (ct_Env ?mc)" for e
    proof -
      from carried_env [OF c that] show ?thesis
      proof
        assume "e \<in> set (ct_Env (rootContainer ?orig))"
        then show ?thesis by (rule unowned_env(1) [OF own nth_mem [OF i0]])
      next
        assume "\<exists>d \<in> set (selectedBy ?act ?orig). \<exists>x. e = bindingEnv d x"
        then obtain d x where d: "d \<in> set act" "bindingUID d \<noteq> bindingUID b" "e = bindingEnv d x"
          by (auto simp: selectedBy_def)
        then have "secretName b \<noteq> secretName d" using B b by (auto simp: compatible_def activeIn_def)
        with refersToSecret_bindingEnv d(3) show ?thesis by blast
      qed
    qed
    then have "sortEnv ?ann (ct_Env ?mc) = sortEnv (mpt_Annotations ?u) (ct_Env ?mc)"
      by (intro sortProjected_cong) (rule isProjectedEnv_bound [OF keys cleared])
    with o same show ?thesis by simp
  qed
  have "distinct (map fst ?ann)" by (rule distinct_bindAnnotations [OF keys])
  moreover have "sortMounts (ct_VolumeMounts mc) = ct_VolumeMounts mc \<and> sortEnv ?ann (ct_Env mc) = ct_Env mc"
    if "mc \<in> set (mpt_Containers (project b m))" "selectedBy (?act @ [b]) mc \<noteq> []" for mc
    using that cont unfolding p(2) by (auto simp: in_set_conv_nth simp del: unproject_simps)
  ultimately show ?thesis unfolding inOrder_def by (simp only: p(1,3)) blast
qed

section \<open>The fixed point\<close>

text \<open>No two variables of bindings in the same container have the same name.\<close>

definition namesDistinct :: "'w metaPodTemplate \<Rightarrow> bool" where
  "namesDistinct m \<longleftrightarrow> (\<forall>mc \<in> set (mpt_Containers m). distinct (map ev_Name
     (filter (\<lambda>e. isProjectedEnv e (knownProjectedSecrets (mpt_Annotations m))) (ct_Env mc))))"

lemma rootVar_Some: "rootVar mc = Some e \<Longrightarrow> rootContainer mc = mc"
  by (simp add: rootVar_def rootContainer_def serviceBindingRoot_def)

lemma same_version: "activeIn B act \<Longrightarrow> b \<in> set act \<Longrightarrow> c \<in> set act \<Longrightarrow> bindingUID b = bindingUID c \<Longrightarrow> b = c"
  by (auto simp: activeIn_def distinct_map inj_on_def)

text \<open>A container the binding does not select has nothing of it.\<close>

lemma unprojectContainer_unselected:
  assumes c: "carriesContainer act mc0 mc" and own: "unowned b m0" and mc0: "mc0 \<in> set (mpt_Containers m0)"
    and B: "compatible B" "activeIn B act" and b: "b \<in> set act" "\<not> isContainerBindable b mc0"
    and s: "amap_str ann (secretAnnotationName b) = secretName b"
  shows "unprojectContainer b ann mc = mc"
proof -
  have other: "bindingUID d \<noteq> bindingUID b" if "d \<in> set (selectedBy act mc0)" for d
    using that b same_version [OF B(2)] by (auto simp: selectedBy_def)
  have "\<not> removesEnv b (secretName b) e" if "e \<in> set (ct_Env mc)" for e
    using carried_env [OF c that]
  proof
    assume "e \<in> set (ct_Env (rootContainer mc0))"
    from unowned_env [OF own mc0 this] show ?thesis by (simp add: removesEnv_iff)
  next
    assume "\<exists>d \<in> set (selectedBy act mc0). \<exists>x. e = bindingEnv d x"
    then obtain d x where d: "d \<in> set (selectedBy act mc0)" "e = bindingEnv d x" by blast
    then have "d \<in> set act" by (simp add: selectedBy_def)
    from removesEnv_active [OF B this, of b "secretName b" x] b(1) other [OF d(1)] d(2) show ?thesis by auto
  qed
  moreover have "vm_Name v \<noteq> volumeName b" if "v \<in> set (ct_VolumeMounts mc)" for v
    using carried_mount [OF c that] own mc0 other by (auto simp: unowned_def)
  ultimately show ?thesis
    by (intro metaContainer.equality) (simp_all add: s filter_eq_self)
qed

lemma boundContainer_again:
  assumes c: "carriesContainer act mc0 mc" and lit: "literalRoot mc0"
    and b: "b \<in> set (selectedBy act mc0)"
    and new: "mc' = boundContainer b ann' (unprojectContainer b ann mc)"
    and same: "sortMounts (ct_VolumeMounts mc) = sortMounts (ct_VolumeMounts mc')"
      "mset (ct_Env (rootContainer mc)) = mset (ct_Env (rootContainer mc'))"
    and ord: "sortMounts (ct_VolumeMounts mc) = ct_VolumeMounts mc" "sortEnv ann (ct_Env mc) = ct_Env mc"
    and ann: "annotated b ann" "annotated b ann'" "knownProjectedSecrets ann' = knownProjectedSecrets ann"
    and names: "distinct (map ev_Name (filter (\<lambda>e. isProjectedEnv e (knownProjectedSecrets ann)) (ct_Env mc)))"
  shows "mc' = mc"
proof -
  let ?p = "\<lambda>e. isProjectedEnv e (knownProjectedSecrets ann)" and ?u = "unprojectContainer b ann mc"
  have name: "ct_Name mc = ct_Name mc0" using c by (simp add: carriesContainer_def)
  have "isContainerBindable b mc0" using b by (simp add: selectedBy_def)
  then have bind: "isContainerBindable b ?u" using name isContainerBindable_cong [of ?u mc0] by simp
  obtain e where e: "rootVar (rootContainer mc0) = Some e" "ev_ValueFrom e = None"
    by (rule rootVar_rootContainer [OF lit])
  have rv: "rootVar mc = Some e" using c b e(1) by (auto simp: carriesContainer_def)
  then have "List.find (\<lambda>e. ev_Name e = ServiceBindingRootEnv)
      (filter (\<lambda>e. \<not> removesEnv b (secretName b) e) (ct_Env mc)) = Some e"
    using literal_not_removed [OF e(2)] unfolding rootVar_def by (rule find_filter_kept)
  then have "rootVar ?u = Some e" by (simp add: rootVar_def annotated_amap_str [OF ann(1)])
  from rootVar_Some [OF this] have env': "ct_Env mc' = sortEnv ann
      (filter (\<lambda>e. \<not> removesEnv b (secretName b) e) (ct_Env mc) @ bindingEnvs b)"
    using bind by (simp add: new boundContainer_def bindingEnvs_def ann(3) annotated_amap_str [OF ann(1)])
  have own: "?p x" if "removesEnv b (secretName b) x" for x
    using that annotated_knownSecret [OF ann(1)]
      annotationPath_projected [of "''/type-'' @ bindingUID b"] annotationPath_projected [of "''/provider-'' @ bindingUID b"]
    by (auto simp: removesEnv_def isProjectedEnv_def typeAnnotationName_def TypeAnnotationPrefix_def
        providerAnnotationName_def ProviderAnnotationPrefix_def split: option.splits)
  have "rootVar mc' = Some e"
  proof -
    have "\<not> ?p e" using e(2) by (simp add: isProjectedEnv_def)
    moreover have "List.find (\<lambda>e. ev_Name e = ServiceBindingRootEnv)
        (filter (\<lambda>e. \<not> removesEnv b (secretName b) e) (ct_Env mc) @ bindingEnvs b) = Some e"
      using \<open>List.find _ (filter _ (ct_Env mc)) = Some e\<close> by (rule find_append_Some)
    ultimately show ?thesis unfolding rootVar_def env' by (intro find_sortProjected_first)
  qed
  then have ms: "mset (ct_Env mc) = mset (ct_Env mc')"
    using same(2) rootVar_Some [OF rv] rootVar_Some [of mc' e] by simp
  have rest: "filter (\<lambda>e. \<not> ?p e) (ct_Env mc) = filter (\<lambda>e. \<not> ?p e) (ct_Env mc')"
  proof -
    have "filter (\<lambda>e. \<not> ?p e) (filter (\<lambda>e. \<not> removesEnv b (secretName b) e) (ct_Env mc)) =
        filter (\<lambda>e. \<not> ?p e) (ct_Env mc)"
      using own by (auto intro!: filter_cong)
    moreover have "filter (\<lambda>e. \<not> ?p e) (bindingEnvs b) = []"
      using isProjectedEnv_bindingEnv [OF ann(1)] by (auto simp: bindingEnvs_def intro!: filter_eq_Nil)
    ultimately have "filter (\<lambda>e. \<not> ?p e) (filter (\<lambda>e. \<not> removesEnv b (secretName b) e) (ct_Env mc) @ bindingEnvs b) =
        filter (\<lambda>e. \<not> ?p e) (ct_Env mc)" by simp
    moreover have "sortEnv ann (filter (\<lambda>e. \<not> ?p e) xs) = filter (\<lambda>e. \<not> ?p e) xs" for xs
      by (simp add: sortProjected_split)
    ultimately show ?thesis unfolding env' filter_sortProjected by simp
  qed
  have "sortEnv ann (ct_Env mc') = ct_Env mc'" unfolding env' by (rule sortProjected_idem)
  then have "ct_Env mc = ct_Env mc'" by (rule sortProjected_unique [OF ord(2) _ ms rest names])
  moreover have "sortMounts (ct_VolumeMounts mc') = ct_VolumeMounts mc'"
    using bind by (simp add: new boundContainer_def)
  ultimately show ?thesis
    using same(1) ord(1) bind by (intro metaContainer.equality) (simp_all add: new boundContainer_def)
qed

text \<open>
  A template in canonical order that carries the binding is what projecting the binding gives,
  up to the order in which the annotations are listed.
\<close>

lemma project_settled:
  assumes old: "carries m0 act m" and lit: "literalRoots m0"
    and foreign: "\<forall>a \<in> B. unowned a m0" and B: "compatible B" "activeIn B act"
    and b: "b \<in> set act" and ord: "inOrder act m" and names: "namesDistinct m"
  shows "mpt_Volumes (project b m) = mpt_Volumes m"
    and "mpt_Containers (project b m) = mpt_Containers m"
    and "map_of (mpt_Annotations (project b m)) = map_of (mpt_Annotations m)"
proof -
  have bB: "b \<in> B" "secretName b \<noteq> ''''" using b B(2) by (auto simp: activeIn_def)
  let ?act = "withoutUID b act @ [b]" and ?ann = "mpt_Annotations m"
  let ?new = "bindAnnotations b (clearAnnotations b ?ann)"
  have set: "set act = set ?act" using b same_version [OF B(2)] by auto
  have new: "carries m0 ?act (project b m)" by (rule project_carries [OF old lit bB foreign B])
  have same: "sameContent m (project b m)"
    by (rule carries_same [OF old new set B(2) activeIn_snoc [OF B(2) bB]])
  have p: "mpt_Annotations (project b m) = ?new"
    "mpt_Containers (project b m) = map (\<lambda>mc. boundContainer b ?new (unprojectContainer b ?ann mc)) (mpt_Containers m)"
    "sortVolumes (mpt_Volumes (project b m)) = mpt_Volumes (project b m)"
    by (simp_all add: project_simps [OF bB(2)])
  show map: "map_of (mpt_Annotations (project b m)) = map_of ?ann"
    using same by (simp add: sameContent_def)
  have "act \<noteq> []" using b by auto
  then show "mpt_Volumes (project b m) = mpt_Volumes m"
    using same ord p(3) by (simp add: sameContent_def inOrder_def)
  have keys: "distinct (map fst ?ann)" using ord by (simp add: inOrder_def)
  then have keys': "distinct (map fst ?new)"
    by (intro distinct_bindAnnotations distinct_clearAnnotations)
  have known: "knownProjectedSecrets ?new = knownProjectedSecrets ?ann"
    using map unfolding p(1) by (auto simp: knownSecrets_iff [OF keys] knownSecrets_iff [OF keys'])
  have annotated: "annotated b ?ann"
    using annotated_bindAnnotations [of b "clearAnnotations b ?ann"] map unfolding p(1) annotated_def by simp
  have own: "unowned b m0" using foreign bB(1) by blast
  show "mpt_Containers (project b m) = mpt_Containers m"
  proof (rule nth_equalityI)
    show len: "length (mpt_Containers (project b m)) = length (mpt_Containers m)" by (simp add: p(2))
    fix i
    assume "i < length (mpt_Containers (project b m))"
    with len have i: "i < length (mpt_Containers m)" by simp
    let ?mc = "mpt_Containers m ! i" and ?mc' = "mpt_Containers (project b m) ! i"
    let ?orig = "mpt_Containers m0 ! i"
    have c: "carriesContainer act ?orig ?mc" and orig: "?orig \<in> set (mpt_Containers m0)"
      using old i by (auto simp: carries_def list_all2_conv_all_nth)
    have mc': "?mc' = boundContainer b ?new (unprojectContainer b ?ann ?mc)" using i by (simp add: p(2))
    have name: "ct_Name ?mc = ct_Name ?orig" using c by (simp add: carriesContainer_def)
    show "?mc' = ?mc"
    proof (cases "isContainerBindable b ?orig")
      case False
      have "unprojectContainer b ?ann ?mc = ?mc"
        by (rule unprojectContainer_unselected [OF c own orig B b False annotated_amap_str [OF annotated]])
      moreover have "\<not> isContainerBindable b ?mc" using False name isContainerBindable_cong by blast
      ultimately show ?thesis by (simp add: mc' boundContainer_def)
    next
      case True
      then have sel: "b \<in> set (selectedBy act ?orig)" using b by (simp add: selectedBy_def)
      then have "selectedBy act ?mc \<noteq> []" using selectedBy_name [OF name, of act] by auto
      with ord i have o: "sortMounts (ct_VolumeMounts ?mc) = ct_VolumeMounts ?mc"
          "sortEnv ?ann (ct_Env ?mc) = ct_Env ?mc" by (auto simp: inOrder_def)
      have "list_all2 (\<lambda>mc mc'. ct_Name mc = ct_Name mc' \<and>
         sortMounts (ct_VolumeMounts mc) = sortMounts (ct_VolumeMounts mc') \<and>
         mset (ct_Env (rootContainer mc)) = mset (ct_Env (rootContainer mc')))
       (mpt_Containers m) (mpt_Containers (project b m))" using same by (simp add: sameContent_def)
      from list_all2_nthD [OF this i] have s: "sortMounts (ct_VolumeMounts ?mc) = sortMounts (ct_VolumeMounts ?mc')"
          "mset (ct_Env (rootContainer ?mc)) = mset (ct_Env (rootContainer ?mc'))" by blast+
      have lit0: "literalRoot ?orig" using lit orig by (simp add: literalRoots_def)
      have dist: "distinct (map ev_Name (filter (\<lambda>e. isProjectedEnv e (knownProjectedSecrets ?ann)) (ct_Env ?mc)))"
        using names i by (simp add: namesDistinct_def)
      show ?thesis
        by (rule boundContainer_again [OF c lit0 sel mc' s o annotated _ known dist]) simp
    qed
  qed
qed

text \<open>
  The names have to differ: two bindings that give a container a variable of the same name each
  put their own last when they are projected, so the template, and the value the container sees,
  goes back and forth with every reconciliation, and each change is an event that asks for the
  next.
\<close>

lemma equal_names_never_settle:
  "let b = exampleBinding ''u1'' ''s1''; c = exampleBinding ''u2'' ''s2'';
       m1 = project c (project b exampleTemplate); m2 = project b m1
   in mpt_Containers m2 \<noteq> mpt_Containers m1 \<and> mpt_Containers (project c m2) = mpt_Containers m1"
  by code_simp

end
