(* ===== verification/Settled_Workload.thy ===== *)
theory Settled_Workload
  imports Settled_Template Workload_History
begin

text \<open>
  Writing a template into a workload that already holds it: the tree stays as it is, up to the
  order of the keys of a Go map. With the fixed point of projection this makes a further
  reconciliation of a workload that carries the binding write back what it read.
\<close>

section \<open>Equal trees\<close>

text \<open>Unstructured objects that \<open>DeepEqual\<close> does not tell apart: maps have no order.\<close>

inductive sameTree :: "json \<Rightarrow> json \<Rightarrow> bool" where
  same_refl: "sameTree j j"
| same_arr: "list_all2 sameTree xs ys \<Longrightarrow> sameTree (JArr xs) (JArr ys)"
| same_obj: "(\<And>k. rel_option sameTree (map_of kvs k) (map_of kvs' k)) \<Longrightarrow> sameTree (JObj kvs) (JObj kvs')"

lemma rel_option_sameTree_refl [simp]: "rel_option sameTree x x"
  by (cases x) (simp_all add: sameTree.same_refl)

lemma sameTree_putLoc:
  "getLoc j (map Key ks) = Some c \<Longrightarrow> sameTree c v \<Longrightarrow> sameTree j (putLoc j (map Key ks) v)"
proof (induction ks arbitrary: j)
  case Nil
  then show ?case by simp
next
  case (Cons k ks)
  then obtain d where d: "childAt (Key k) j = Some d" "getLoc d (map Key ks) = Some c"
    by (auto split: option.splits)
  then obtain kvs where j: "j = JObj kvs" "map_of kvs k = Some d" by (cases j) auto
  from Cons.IH [OF d(2) Cons.prems(2)] j(2)
  have "sameTree (JObj kvs) (JObj (AList.update k (putLoc d (map Key ks) v) kvs))"
    by (intro sameTree.same_obj) (simp add: amap_simps)
  with j show ?case by simp
qed

lemma sameTree_encAnnotations: "map_of a = map_of a' \<Longrightarrow> sameTree (encAnnotations a) (encAnnotations a')"
  unfolding encAnnotations_def by (intro sameTree.same_obj) (simp add: map_of_map)

section \<open>Writing again at a pointer\<close>

lemma getLoc_objSet_same: "objWritable j ks \<Longrightarrow> getLoc (objSet j ks v) (map Key ks) = Some v"
  by (induction j ks v rule: objSet.induct) (auto simp: isObj_iff amap_simps)

lemma objSet_present:
  "objWritable j ks \<Longrightarrow> getLoc j (map Key ks) = Some c \<Longrightarrow> objSet j ks v = putLoc j (map Key ks) v"
proof (induction j ks v rule: objSet.induct)
  case (3 j k k' ks v)
  then obtain kvs d where "j = JObj kvs" "map_of kvs k = Some d" "getLoc d (map Key (k' # ks)) = Some c"
    by (auto simp: isObj_iff split: option.splits)
  moreover from this obtain kvs' where "d = JObj kvs'" by (cases d) auto
  ultimately show ?case using 3 by simp
qed (auto simp: isObj_iff split: option.splits)

text \<open>The pointer leads to the value and can be written to.\<close>

definition holds :: "jsonpath \<Rightarrow> string \<Rightarrow> json \<Rightarrow> json \<Rightarrow> bool" where
  "holds J ptr out j \<longleftrightarrow> canWrite J ptr j \<and> getLoc j (map Key (ptrKeys J ptr)) = Some out"

lemma holds_written: "writePtr J ptr out j = Ok j' \<Longrightarrow> holds J ptr out j'"
  using canWrite_same [of J ptr out j j'] by (auto simp: holds_def writePtr_Ok getLoc_objSet_same)

lemma holds_replace:
  "holds J ptr out j \<Longrightarrow> writePtr J ptr out' j = Ok (putLoc j (map Key (ptrKeys J ptr)) out')"
  by (auto simp: holds_def writePtr_Ok canWrite_def objSet_present)

lemma holds_rewrite: "holds J ptr out j \<Longrightarrow> writePtr J ptr out j = Ok j"
  by (simp add: holds_replace) (simp add: holds_def putLoc_self)

lemma holds_beside:
  "agreeBeside K u u' \<Longrightarrow> \<forall>ks \<in> K. divergeKeys ks (ptrKeys J q) \<Longrightarrow> holds J q out u \<Longrightarrow> holds J q out u'"
  using agreeBeside_canWrite [of K u u' J q] by (auto simp: holds_def agreeBeside_def)

lemma holds_after:
  "writePtr J ptr out' j = Ok j' \<Longrightarrow> divergeKeys (ptrKeys J ptr) (ptrKeys J q) \<Longrightarrow> holds J q out j \<Longrightarrow>
   holds J q out j'"
  using holds_beside [OF agreeBeside_writePtr] by blast

section \<open>Writing the containers again\<close>

lemma writeElem_again:
  assumes sep: "separateElem (lib_jsonpath L) c" and w: "writeElem L c mc x = Ok x'"
  shows "writeElem L c mc x' = Ok x'"
proof -
  let ?J = "lib_jsonpath L"
  from w obtain x1 x2 where x: "writePtr ?J (mc_Env c) (encEnv (lib_codec L) (ct_Env mc)) x1 = Ok x2"
      "writePtr ?J (mc_VolumeMounts c) (encMounts (lib_codec L) (ct_VolumeMounts mc)) x2 = Ok x'"
    and name: "(case ct_Name mc of
        Some name \<Rightarrow> (if mc_Name c \<noteq> '''' then writePtr ?J (mc_Name c) (JStr name) x else Ok x)
      | None \<Rightarrow> Ok x) = Ok x1"
    by (auto simp: writeElem_def and_then_eq_Ok)
  have env: "holds ?J (mc_Env c) (encEnv (lib_codec L) (ct_Env mc)) x'"
    using holds_after [OF x(2) _ holds_written [OF x(1)]] sep by (simp add: separateElem_def divergeKeys_sym)
  have "writePtr ?J (mc_Name c) (JStr n) x' = Ok x'" if n: "ct_Name mc = Some n" "mc_Name c \<noteq> ''''" for n
  proof -
    from name n have "writePtr ?J (mc_Name c) (JStr n) x = Ok x1" by simp
    from holds_after [OF x(2) _ holds_after [OF x(1) _ holds_written [OF this]]] sep n(2) show ?thesis
      by (intro holds_rewrite) (simp add: separateElem_def)
  qed
  then have "(case ct_Name mc of
        Some name \<Rightarrow> (if mc_Name c \<noteq> '''' then writePtr ?J (mc_Name c) (JStr name) x' else Ok x')
      | None \<Rightarrow> Ok x') = Ok x'"
    by (auto split: option.split)
  then show ?thesis
    by (simp add: writeElem_def holds_rewrite [OF env] holds_rewrite [OF holds_written [OF x(2)]])
qed

lemma write_items_again:
  assumes "arrayAt u ks = Some xs" and "n \<le> length xs" and "ci + (length xs - n) \<le> length mcs"
    and "\<And>i. n \<le> i \<Longrightarrow> i < length xs \<Longrightarrow> writeElem L c (mcs ! (ci + (i - n))) (xs ! i) = Ok (xs ! i)"
  shows "fold_ok (writeContainer L c mcs) (map (\<lambda>i. RIface (itemLoc ks i)) [n..<length xs]) (u, ci) =
    Ok (u, ci + (length xs - n))"
  using assms
proof (induction "length xs - n" arbitrary: n ci)
  case 0
  then show ?case by simp
next
  case (Suc k)
  then have n: "n < length xs" and ci: "ci < length mcs" by simp_all
  have item: "getLoc u (itemLoc ks n) = Some (xs ! n)" using Suc.prems(1) n by (rule getLoc_itemLoc)
  have "writeElem L c (mcs ! ci) (xs ! n) = Ok (xs ! n)" using Suc.prems(4) [of n] n by simp
  then have one: "writeContainer L c mcs (RIface (itemLoc ks n)) (u, ci) = Ok (u, Suc ci)"
    using item by (simp add: writeContainer_writeElem [OF item ci] putLoc_self)
  have rest: "writeElem L c (mcs ! (Suc ci + (i - Suc n))) (xs ! i) = Ok (xs ! i)"
    if "Suc n \<le> i" "i < length xs" for i
  proof -
    have "Suc ci + (i - Suc n) = ci + (i - n)" using that by simp
    with Suc.prems(4) [of i] that show ?thesis by simp
  qed
  from Suc.hyps(1) [of "Suc n" "Suc ci"] Suc.hyps(2) Suc.prems(1,3) n rest
  show ?case by (simp add: upt_rec one)
qed

lemma writeContainers_again:
  assumes path: "elementsPath (lib_jsonpath L) (mc_Path c) ks" and "listed u ks" and "listed v ks"
    and sep: "separateElem (lib_jsonpath L) c"
    and w: "writeContainers L mcs c (u, ci) = Ok (u', ci')" and v: "elemsAt v ks = elemsAt u' ks"
  shows "writeContainers L mcs c (v, ci) = Ok (v, ci')"
proof -
  have fold: "fold_ok (writeContainer L c mcs) (map (\<lambda>i. RIface (itemLoc ks i)) [0..<length (elemsAt u ks)]) (u, ci) =
      Ok (u', ci')"
    using w by (simp add: writeContainers_def findContainers_listed [OF path assms(2)])
  note again = findContainers_listed [OF path assms(3)]
  show ?thesis
  proof (cases "elemsAt u ks = []")
    case True
    with fold have "u' = u" "ci' = ci" by simp_all
    with True v show ?thesis by (simp add: writeContainers_def again)
  next
    case False
    then obtain xs where xs: "arrayAt u ks = Some xs" "elemsAt u ks = xs" "xs \<noteq> []"
      by (auto simp: elemsAt_def split: option.splits)
    from write_items [OF xs(1) _ fold [unfolded xs(2)]] obtain ys where
      ys: "u' = putLoc u (map Key ks) (JArr ys)" "length ys = length xs" "ci' = ci + length xs" "ci' \<le> length mcs"
        "\<And>i. i < length xs \<Longrightarrow> writeElem L c (mcs ! (ci + i)) (xs ! i) = Ok (ys ! i)"
      using xs(3) by auto
    have "elemsAt v ks = ys" using v arrayAt_putLoc [OF xs(1)] by (simp add: ys(1) elemsAt_def)
    with xs(3) ys(2) have at: "arrayAt v ks = Some ys" by (auto simp: elemsAt_def split: option.splits)
    have "fold_ok (writeContainer L c mcs) (map (\<lambda>i. RIface (itemLoc ks i)) [0..<length ys]) (v, ci) =
        Ok (v, ci + (length ys - 0))"
      using ys(2,3,4) writeElem_again [OF sep ys(5)] by (intro write_items_again [OF at]) simp_all
    then show ?thesis using ys(2,3) by (simp add: writeContainers_def again \<open>elemsAt v ks = ys\<close>)
  qed
qed

text \<open>A tree with the elements the containers were written to takes them without a change.\<close>

lemma write_slots_again:
  assumes "fold_ok (writeContainers L mcs) cs (u, ci) = Ok (u', ci')"
    and "separateContainers L pk cs" and "codec_ok (lib_codec L)"
    and "\<forall>c \<in> set cs. listed u (pk c)"
    and "list_all2 nameFits (slots pk cs u) (drop ci mcs)"
    and "\<forall>c \<in> set cs. elemsAt v (pk c) = elemsAt u' (pk c) \<and> listed v (pk c)"
  shows "fold_ok (writeContainers L mcs) cs (v, ci) = Ok (v, ci')"
  using assms
proof (induction cs arbitrary: u ci)
  case Nil
  then show ?case by simp
next
  case (Cons c cs)
  let ?n = "length (elemsAt u (pk c))"
  from Cons.prems(1) obtain u1 ci1 where w: "writeContainers L mcs c (u, ci) = Ok (u1, ci1)"
      "fold_ok (writeContainers L mcs) cs (u1, ci1) = Ok (u', ci')"
    by (auto simp: and_then_eq_Ok)
  note step = write_slots_step [OF Cons.prems(2-5) w(1)]
  note later = write_slots [OF w(2) step(2) Cons.prems(3) step(4,5)]
  have "elemsAt u' (pk c) = elemsAt u1 (pk c) \<and> (listed u' (pk c) \<longleftrightarrow> listed u1 (pk c))"
    using step(6) later by (intro agreeBeside_elems [of "pk ` set cs"]) auto
  with Cons.prems(6) have v: "elemsAt v (pk c) = elemsAt u1 (pk c)" "listed v (pk c)" by simp_all
  have "writeContainers L mcs c (v, ci) = Ok (v, ci1)"
    using step(1) Cons.prems(4) v w(1) by (intro writeContainers_again [of L c "pk c" u]) simp_all
  with Cons.IH [OF w(2) step(2) Cons.prems(3) step(4,5)] Cons.prems(6) show ?case by simp
qed

section \<open>Writing a template again\<close>

text \<open>
  The tree of a workload that was last written with the template: its annotations and volumes are
  the encoded ones, and a tree with its containers takes the containers as they are.
\<close>

definition written ::
  "'w lib \<Rightarrow> (mappingContainer \<Rightarrow> string list) \<Rightarrow> mappingTemplate \<Rightarrow> 'v metaPodTemplate \<Rightarrow> json \<Rightarrow> bool" where
  "written L pk t m u \<longleftrightarrow> isObj u \<and>
     holds (lib_jsonpath L) (mt_Annotations t) (encAnnotations (mpt_Annotations m)) u \<and>
     holds (lib_jsonpath L) (mt_Volumes t) (encVolumes (lib_codec L) (mpt_Volumes m)) u \<and>
     (\<forall>c \<in> set (mt_Containers t). listed u (pk c)) \<and>
     (\<exists>ci. \<forall>v. (\<forall>c \<in> set (mt_Containers t). elemsAt v (pk c) = elemsAt u (pk c) \<and> listed v (pk c)) \<longrightarrow>
        fold_ok (writeContainers L (mpt_Containers m)) (mt_Containers t) (v, 0) = Ok (v, ci))"

lemma converter_reload:
  assumes "converter_ok L" and "isObj u" and "fromUnstructured L u w = Inr w'"
  shows "toUnstructured L w' = Inr u"
proof -
  obtain x where "fromUnstructured L u w = Inr x" "toUnstructured L x = Inr u"
    using assms(1,2) unfolding converter_ok_def by blast
  with assms(3) show ?thesis by simp
qed

lemma written_workload [simp]: "written L pk t (m\<lparr>mpt_workload := w\<rparr>) u = written L pk t m u"
  by (simp add: written_def)

lemma write_written:
  assumes laws: "codec_ok (lib_codec L)" "converter_ok L" and sep: "separateMapping L pk t"
    and u: "toUnstructured L w = Inr u" and wr: "writable L pk t u"
    and read: "newMetaPodTemplate L w t = Ok m"
    and same: "mpt_workload m' = w" "mpt_mapping m' = t"
      "map ct_Name (mpt_Containers m') = map ct_Name (mpt_Containers m)"
    and w': "writeToWorkload L m' = Ok w'"
  shows "\<exists>u'. toUnstructured L w' = Inr u' \<and> written L pk t m' u'"
proof -
  let ?J = "lib_jsonpath L" and ?cs = "mt_Containers t"
  have obj: "isObj u" using laws(2) u unfolding converter_ok_def by blast
  from sep have apart: "separateContainers L pk ?cs" "divergeKeys (ptrKeys ?J (mt_Annotations t)) (ptrKeys ?J (mt_Volumes t))"
    "\<forall>c \<in> set ?cs. divergeKeys (ptrKeys ?J (mt_Annotations t)) (pk c) \<and> divergeKeys (ptrKeys ?J (mt_Volumes t)) (pk c)"
    by (simp_all add: separateMapping_def Let_def)
  have lists: "\<forall>c \<in> set ?cs. listed u (pk c)" using wr by (simp add: writable_def)
  have names: "list_all2 nameFits (slots pk ?cs u) (mpt_Containers m')"
    by (rule read_names [OF u obj read apart(1) lists same(3)])
  from w' u same(1,2) obtain u1 where
    w1: "writePtr ?J (mt_Annotations t) (encAnnotations (mpt_Annotations m')) u = Ok u1"
    and "and_then (fold_ok (writeContainers L (mpt_Containers m')) ?cs (u1, 0)) (\<lambda>(u, _).
      and_then (setAt ?J (mt_Volumes t) (encVolumes (lib_codec L) (mpt_Volumes m')) u (RConc [])) (\<lambda>u.
        from_result (fromUnstructured L u w))) = Ok w'"
    by (auto simp: writeToWorkload_def setAt_root [OF obj] and_then_eq_Ok)
  then obtain u2 ci where
    w2: "fold_ok (writeContainers L (mpt_Containers m')) ?cs (u1, 0) = Ok (u2, ci)"
    and rest: "and_then (setAt ?J (mt_Volumes t) (encVolumes (lib_codec L) (mpt_Volumes m')) u2 (RConc [])) (\<lambda>u.
        from_result (fromUnstructured L u w)) = Ok w'"
    by (auto simp: and_then_eq_Ok)
  note a1 = agreeBeside_writePtr [OF w1]
  have kept: "elemsAt u1 (pk c) = elemsAt u (pk c) \<and> (listed u1 (pk c) \<longleftrightarrow> listed u (pk c))" if "c \<in> set ?cs" for c
    using that apart(3) by (intro agreeBeside_elems [OF a1]) simp
  have lists1: "\<forall>c \<in> set ?cs. listed u1 (pk c)" using kept lists by simp
  have names1: "list_all2 nameFits (slots pk ?cs u1) (drop 0 (mpt_Containers m'))"
    using names kept by (simp add: slots_cong [of ?cs u1 pk u])
  note ws = write_slots [OF w2 apart(1) laws(1) lists1 names1]
  have obj2: "isObj u2" using ws writePtr_isObj [OF w1] by simp
  from rest obtain u3 where
    w3: "writePtr ?J (mt_Volumes t) (encVolumes (lib_codec L) (mpt_Volumes m')) u2 = Ok u3"
    and w4: "fromUnstructured L u3 w = Inr w'"
    by (auto simp: setAt_root [OF obj2] and_then_eq_Ok from_result_eq)
  have obj3: "isObj u3" by (rule writePtr_isObj [OF w3])
  have reload: "toUnstructured L w' = Inr u3" by (rule converter_reload [OF laws(2) obj3 w4])
  have ann: "holds ?J (mt_Annotations t) (encAnnotations (mpt_Annotations m')) u3"
  proof (rule holds_after [OF w3])
    show "divergeKeys (ptrKeys ?J (mt_Volumes t)) (ptrKeys ?J (mt_Annotations t))"
      using apart(2) by (simp add: divergeKeys_sym)
    show "holds ?J (mt_Annotations t) (encAnnotations (mpt_Annotations m')) u2"
      using apart(3) by (intro holds_beside [OF conjunct1 [OF ws] _ holds_written [OF w1]]) (auto simp: divergeKeys_sym)
  qed
  have kept3: "elemsAt u3 (pk c) = elemsAt u2 (pk c) \<and> (listed u3 (pk c) \<longleftrightarrow> listed u2 (pk c))"
    if "c \<in> set ?cs" for c
    using that apart(3) by (intro agreeBeside_elems [OF agreeBeside_writePtr [OF w3]]) simp
  have again: "fold_ok (writeContainers L (mpt_Containers m')) ?cs (v, 0) = Ok (v, ci)"
    if "\<forall>c \<in> set ?cs. elemsAt v (pk c) = elemsAt u3 (pk c) \<and> listed v (pk c)" for v
    using that kept3 by (intro write_slots_again [OF w2 apart(1) laws(1) lists1 names1]) simp
  have "\<forall>c \<in> set ?cs. listed u3 (pk c)" using kept3 ws by simp
  then show ?thesis
    using reload obj3 ann holds_written [OF w3] again unfolding written_def by blast
qed

text \<open>Writing a template that differs in the order of its annotations changes only that order.\<close>

lemma written_again:
  assumes laws: "converter_ok L" and sep: "separateMapping L pk t"
    and u: "toUnstructured L w = Inr u" and wr: "written L pk t m u"
    and m': "mpt_workload m' = w" "mpt_mapping m' = t" "mpt_Containers m' = mpt_Containers m"
      "mpt_Volumes m' = mpt_Volumes m" "map_of (mpt_Annotations m') = map_of (mpt_Annotations m)"
    and w': "writeToWorkload L m' = Ok w'"
  shows "\<exists>u'. toUnstructured L w' = Inr u' \<and> sameTree u u'"
proof -
  let ?J = "lib_jsonpath L" and ?cs = "mt_Containers t"
  let ?enc = "encAnnotations (mpt_Annotations m')" and ?ks = "ptrKeys ?J (mt_Annotations t)"
  let ?u = "putLoc u (map Key ?ks) ?enc"
  from sep have apart: "divergeKeys ?ks (ptrKeys ?J (mt_Volumes t))" "\<forall>c \<in> set ?cs. divergeKeys ?ks (pk c)"
    by (simp_all add: separateMapping_def Let_def)
  from wr obtain ci where obj: "isObj u"
    and ann: "holds ?J (mt_Annotations t) (encAnnotations (mpt_Annotations m)) u"
    and vol: "holds ?J (mt_Volumes t) (encVolumes (lib_codec L) (mpt_Volumes m')) u"
    and lists: "\<forall>c \<in> set ?cs. listed u (pk c)"
    and again: "\<And>v. \<forall>c \<in> set ?cs. elemsAt v (pk c) = elemsAt u (pk c) \<and> listed v (pk c) \<Longrightarrow>
      fold_ok (writeContainers L (mpt_Containers m')) ?cs (v, 0) = Ok (v, ci)"
    unfolding written_def m'(3,4) by blast
  have w1: "writePtr ?J (mt_Annotations t) ?enc u = Ok ?u" by (rule holds_replace [OF ann])
  have "\<forall>c \<in> set ?cs. elemsAt ?u (pk c) = elemsAt u (pk c) \<and> listed ?u (pk c)"
    using agreeBeside_elems [OF agreeBeside_writePtr [OF w1]] apart(2) lists by simp
  from again [OF this] have w2: "fold_ok (writeContainers L (mpt_Containers m')) ?cs (?u, 0) = Ok (?u, ci)" .
  have w3: "writePtr ?J (mt_Volumes t) (encVolumes (lib_codec L) (mpt_Volumes m')) ?u = Ok ?u"
    by (rule holds_rewrite [OF holds_after [OF w1 apart(1) vol]])
  have obj': "isObj ?u" by (rule writePtr_isObj [OF w1])
  have "fromUnstructured L ?u w = Inr w'"
    using w' u m'(1,2) w1 w2 w3
    by (simp add: writeToWorkload_def setAt_root [OF obj] setAt_root [OF obj'] from_result_eq)
  then have "toUnstructured L w' = Inr ?u" by (rule converter_reload [OF laws obj'])
  moreover have "sameTree u ?u"
    using ann sameTree_encAnnotations [of "mpt_Annotations m" "mpt_Annotations m'"] m'(5)
    by (intro sameTree_putLoc) (simp_all add: holds_def)
  ultimately show ?thesis by blast
qed

section \<open>A reconciliation after a reconciliation\<close>

text \<open>All templates of a history are in canonical order.\<close>

lemma managed_inOrder:
  assumes "managed L pk t B w0 w act" and start: "goodStart L pk t B w0 m0" and B: "compatible B"
    and keys: "distinct (map fst (mpt_Annotations m0))" and "newMetaPodTemplate L w t = Ok m"
  shows "inOrder act m"
  using assms(1,5)
proof (induction arbitrary: m rule: managed.induct)
  case initial
  then have "m = m0" using start by (simp add: goodStart_def)
  with keys show ?case by (simp add: inOrder_def selectedBy_def)
next
  case (reconciled w act b lookup w')
  from managed_invariant [OF reconciled.hyps(1) start B] obtain m1 where
    m1: "fitsMapping L pk t w" "newMetaPodTemplate L w t = Ok m1" "carries m0 act m1" and act: "activeIn B act"
    by blast
  note ord = reconciled.IH [OF m1(2)]
  from start have lit: "literalRoots m0" and own: "\<forall>a \<in> B. unowned a m0" by (auto simp: goodStart_def)
  from projectedBy_stored [where lookup = lookup, OF m1(1,2) reconciled.hyps(3), of b] reconciled.hyps(4)
    reconciled.prems
  have m: "m = (if bindsNow b then project b m1 else unproject b m1)\<lparr>mpt_workload := w'\<rparr>" by auto
  show ?case
  proof (cases "bindsNow b")
    case True
    then have "secretName b \<noteq> ''''" by (simp add: bindsNow_def)
    from inOrder_project [OF ord m1(3) lit reconciled.hyps(2) this own B act] True m show ?thesis
      by (simp add: actAfter_def inOrder_def)
  next
    case False
    with inOrder_unproject [OF ord, of b] m show ?thesis by (simp add: actAfter_def inOrder_def)
  qed
next
  case (elsewhere w act w')
  from managed_invariant [OF elsewhere.hyps(1) start B] obtain m1 where
    m1: "newMetaPodTemplate L w t = Ok m1" by blast
  with elsewhere.hyps(2) elsewhere.prems have "m = m1\<lparr>mpt_workload := w'\<rparr>" by (simp add: sameTemplate_def)
  with elsewhere.IH [OF m1] show ?case by (simp add: inOrder_def)
qed

text \<open>
  The workload that a reconciliation of any binding has just written, at any point of a history,
  and that carries \<open>b\<close>.
\<close>

definition justWritten ::
  "'w lib \<Rightarrow> (mappingContainer \<Rightarrow> string list) \<Rightarrow> mappingTemplate \<Rightarrow> serviceBinding set \<Rightarrow> 'w \<Rightarrow>
   serviceBinding list \<Rightarrow> 'w \<Rightarrow> bool" where
  "justWritten L pk t B w0 act w \<longleftrightarrow> (\<exists>w1 act1 c lookup. managed L pk t B w0 w1 act1 \<and> c \<in> B \<and>
     lookup w1 = Ok t \<and> projectedBy lookup L c w1 = Ok w \<and> act = actAfter c act1)"

lemma justWritten_managed: "justWritten L pk t B w0 act w \<Longrightarrow> managed L pk t B w0 w act"
  by (auto simp: justWritten_def intro: managed.reconciled)

lemma projectedBy_written:
  assumes fits: "fitsMapping L pk t w" and read: "newMetaPodTemplate L w t = Ok m" and "lookup w = Ok t"
    and w': "projectedBy lookup L b w = Ok w'"
  shows "\<exists>u. toUnstructured L w' = Inr u \<and> written L pk t (if bindsNow b then project b m else unproject b m) u"
proof -
  let ?m = "if bindsNow b then project b m else unproject b m"
  have "mpt_workload m = w" by (rule workload.load_workload [OF read])
  moreover have "mpt_mapping m = t" using read by (auto simp: newMetaPodTemplate_def outcome_simps)
  ultimately have m: "mpt_workload ?m = w" "mpt_mapping ?m = t"
    "map ct_Name (mpt_Containers ?m) = map ct_Name (mpt_Containers m)"
    by (simp_all add: project_kept comp_def)
  have "writeToWorkload L ?m = Ok w'"
    using w' assms(3) read
    by (auto simp: projectedBy_def Project_def Unproject_def bindsNow_def project_no_secret split: if_splits)
  with m fits read show ?thesis
    by (auto simp: fitsMapping_def intro!: write_written)
qed

text \<open>Projecting looks at the identity, the specification and the secret of a binding only.\<close>

definition sameProjection :: "serviceBinding \<Rightarrow> serviceBinding \<Rightarrow> bool" where
  "sameProjection a b \<longleftrightarrow> bindingUID a = bindingUID b \<and> sb_Spec a = sb_Spec b \<and> secretName a = secretName b"

lemma project_sameProjection:
  assumes "sameProjection a b"
  shows "project a m = project b m"
proof -
  have n: "secretAnnotationName a = secretAnnotationName b" "typeAnnotationName a = typeAnnotationName b"
    "providerAnnotationName a = providerAnnotationName b" "volumeName a = volumeName b"
    and s: "sb_Spec a = sb_Spec b" "secretName a = secretName b"
    using assms by (simp_all add: sameProjection_def)
  have ann: "clearAnnotations a = clearAnnotations b" "bindAnnotations a = bindAnnotations b"
    by (simp_all add: fun_eq_iff clearAnnotations_def bindAnnotations_def Let_def n s)
  have "removesEnv a = removesEnv b" by (simp add: fun_eq_iff removesEnv_def n cong: option.case_cong)
  then have u: "unprojectContainer a = unprojectContainer b"
    by (simp add: fun_eq_iff unprojectContainer_def unprojectEnv_def unprojectVolumeMount_def Let_def n)
  have un: "unproject a m = unproject b m"
    by (intro metaPodTemplate.equality) (simp_all add: ann u n)
  have "bindingEnv a = bindingEnv b" by (simp add: fun_eq_iff bindingEnv_def n s)
  moreover have "bindingMount a = bindingMount b" by (simp add: fun_eq_iff bindingMount_def n s)
  ultimately have bound: "boundContainer a = boundContainer b"
    by (intro ext) (simp add: boundContainer_def isContainerBindable_def s)
  have vol: "bindingVolume a = bindingVolume b" by (simp add: bindingVolume_def n s)
  show ?thesis
  proof (cases "secretName b = ''''")
    case True
    then show ?thesis using un s(2) by (simp add: project_no_secret)
  next
    case False
    then have "secretName a \<noteq> ''''" using s(2) by simp
    note p = project_simps [OF False, of m] project_simps [OF this, of m]
    show ?thesis by (intro metaPodTemplate.equality) (simp_all add: p ann u bound vol n)
  qed
qed

text \<open>
  Every binding that a workload has just been written with is at rest: another reconciliation of
  it writes a tree that \<open>DeepEqual\<close> does not tell from the one it read.
\<close>

lemma reprojection_settled:
  assumes just: "justWritten L pk t B w0 act w" and start: "goodStart L pk t B w0 m0" and B: "compatible B"
    and keys: "distinct (map fst (mpt_Annotations m0))" and read: "newMetaPodTemplate L w t = Ok m"
    and names: "namesDistinct m" and a: "a \<in> set act" "sameProjection a b"
    and live: "timeIsZero (om_DeletionTimestamp (sb_meta b))" and "lookup w = Ok t"
    and w': "projectedBy lookup L b w = Ok w'"
  shows "\<exists>u u'. toUnstructured L w = Inr u \<and> toUnstructured L w' = Inr u' \<and> sameTree u u'"
proof -
  note now = justWritten_managed [OF just]
  from managed_invariant [OF now start B] read have act: "activeIn B act" and car: "carries m0 act m"
    by auto
  from start have lit: "literalRoots m0" and own: "\<forall>a \<in> B. unowned a m0" by (auto simp: goodStart_def)
  note fix_ = project_settled [OF car lit own B act a(1) managed_inOrder [OF now start B keys read] names]
  from just obtain w1 act1 c look where h: "managed L pk t B w0 w1 act1" "look w1 = Ok t"
    "projectedBy look L c w1 = Ok w" by (auto simp: justWritten_def)
  from managed_invariant [OF h(1) start B] obtain m1 where
    m1: "fitsMapping L pk t w1" "newMetaPodTemplate L w1 t = Ok m1" by blast
  let ?m = "if bindsNow c then project c m1 else unproject c m1"
  from projectedBy_written [where lookup = look, OF m1 h(2,3)] obtain u where
    u: "toUnstructured L w = Inr u" "written L pk t ?m u" by blast
  from projectedBy_stored [where lookup = look, OF m1 h(2), of c] h(3) read
  have m: "m = ?m\<lparr>mpt_workload := w\<rparr>" and fits: "fitsMapping L pk t w" by auto
  have wr: "written L pk t m u" using u(2) by (simp add: m)
  have "writeToWorkload L (project b m) = Ok w'"
    using w' live read \<open>lookup w = Ok t\<close> by (simp add: projectedBy_def Project_def)
  then have store: "writeToWorkload L (project a m) = Ok w'"
    by (simp add: project_sameProjection [OF a(2)])
  have "mpt_workload m = w" by (rule workload.load_workload [OF read])
  moreover have "mpt_mapping m = t" using read by (auto simp: newMetaPodTemplate_def outcome_simps)
  ultimately have "mpt_workload (project a m) = w" "mpt_mapping (project a m) = t"
    by (simp_all add: project_kept)
  from written_again [OF _ _ u(1) wr this fix_(2,1,3) store] fits u(1) show ?thesis
    by (auto simp: fitsMapping_def)
qed

text \<open>The same for a single binding, in any workload in which nothing else refers to its secret.\<close>

lemma Project_at_rest:
  assumes "fitsMapping L pk t w" and "\<And>w. lookup w = Ok t" and "newMetaPodTemplate L w t = Ok m"
    and "secretName b \<noteq> ''''" and "noOtherReference b m" and "literalRoots m"
  shows "\<exists>w1 m1 w2 u u'. Project lookup L b w = Ok w1 \<and> newMetaPodTemplate L w1 t = Ok m1 \<and>
    Project lookup L b w1 = Ok w2 \<and> newMetaPodTemplate L w2 t = Ok (m1\<lparr>mpt_workload := w2\<rparr>) \<and>
    toUnstructured L w1 = Inr u \<and> toUnstructured L w2 = Inr u' \<and> sameTree u u'"
proof -
  obtain w1 m1 w2 where w: "Project lookup L b w = Ok w1" "newMetaPodTemplate L w1 t = Ok m1"
      "Project lookup L b w1 = Ok w2" "newMetaPodTemplate L w2 t = Ok (m1\<lparr>mpt_workload := w2\<rparr>)"
    using Project_again [where lookup = lookup, OF assms] by blast
  have store: "writeToWorkload L (project b m) = Ok w1" "writeToWorkload L (project b m1) = Ok w2"
    using w assms(2,3) by (simp_all add: Project_def)
  obtain w' where "writeToWorkload L (project b m) = Ok w'" "fitsMapping L pk t w'"
      "newMetaPodTemplate L w' t = Ok ((project b m)\<lparr>mpt_workload := w'\<rparr>)"
    using workload.project_stored [OF assms(1,3), of b] by blast
  with store(1) w(2) have m1: "m1 = (project b m)\<lparr>mpt_workload := w1\<rparr>" by simp
  have same: "project b m1 = m1"
    by (simp add: m1 project_workload project_twice [OF assms(4-6)])
  have "mpt_workload m = w" by (rule workload.load_workload [OF assms(3)])
  moreover have map: "mpt_mapping m = t" using assms(3) by (auto simp: newMetaPodTemplate_def outcome_simps)
  ultimately have p: "mpt_workload (project b m) = w" "mpt_mapping (project b m) = t"
    "map ct_Name (mpt_Containers (project b m)) = map ct_Name (mpt_Containers m)"
    by (simp_all add: project_kept)
  have laws: "codec_ok (lib_codec L)" "converter_ok L" "separateMapping L pk t"
    using assms(1) by (simp_all add: fitsMapping_def)
  from assms(1) obtain u0 where "toUnstructured L w = Inr u0" "writable L pk t u0" by (auto simp: fitsMapping_def)
  from write_written [OF laws this assms(3) p store(1)] obtain u where
    u: "toUnstructured L w1 = Inr u" "written L pk t m1 u" by (auto simp: m1)
  have "mpt_workload m1 = w1" "mpt_mapping m1 = t" by (simp_all add: m1 p(2))
  from written_again [OF laws(2,3) u this refl refl refl] store(2) same w u(1) show ?thesis
    by metis
qed

end
