(* ===== verification/Settled_Runs.thy ===== *)
theory Settled_Runs
  imports Settled_Workload Cluster_Runs
begin

text \<open>
  The controller comes to rest: a reconciliation of a binding whose workloads have just been
  written, by it or for another binding they carry, sends nothing to the cluster. A write would be
  an event of the workload, and so ask for the next reconciliation.
\<close>

text \<open>
  The documented behaviour of \<open>ResourceManager.Manage\<close>: what is merged from the desired object is
  not sent if it equals the object that was found; and of \<open>SetUnstructuredContent\<close> and
  \<open>equality.Semantic.DeepEqual\<close>: objects with the same tree are equal.
\<close>

definition managesChanges :: "('w, 'x) env \<Rightarrow> bool" where
  "managesChanges E \<longleftrightarrow>
     (\<forall>b w p x. env_deepEqual E (env_setContent E w p) w \<longrightarrow>
        env_manage E (env_setContent E) (env_deepEqual E) b w p x = (None, x)) \<and>
     (\<forall>w p u u'. toUnstructured (env_lib E) w = Inr u \<longrightarrow> toUnstructured (env_lib E) p = Inr u' \<longrightarrow>
        sameTree u u' \<longrightarrow> env_deepEqual E (env_setContent E w p) w)"

lemma manageAll_unchanged:
  assumes "managesChanges E"
    and "\<forall>(w, p) \<in> set ps. \<exists>u u'. toUnstructured (env_lib E) w = Inr u \<and>
      toUnstructured (env_lib E) p = Inr u' \<and> sameTree u u'"
  shows "manageAll E b ps x = x"
  using assms(2)
proof (induction ps)
  case Nil
  show ?case by simp
next
  case (Cons wp ps)
  obtain w p where wp: "wp = (w, p)" by force
  with Cons.prems obtain u u' where "toUnstructured (env_lib E) w = Inr u"
    "toUnstructured (env_lib E) p = Inr u'" "sameTree u u'" by auto
  with assms(1) have "manageOne E b (w, p) x = (None, x)" unfolding managesChanges_def manageOne_def by simp
  with Cons show ?case by (simp add: wp)
qed

text \<open>
  A workload at rest for the binding: it has just been written, at any point of a history, carries
  the binding, in whatever version of its status, and no two variables of bindings in one of its
  containers have the same name.
\<close>

definition atRest :: "('w, 'x) env \<Rightarrow> serviceBinding set \<Rightarrow> serviceBinding \<Rightarrow> 'w \<Rightarrow> bool" where
  "atRest E B b w \<longleftrightarrow> (\<exists>pk t w0 m0 act m a. justWritten (env_lib E) pk t B w0 act w \<and>
     goodStart (env_lib E) pk t B w0 m0 \<and> distinct (map fst (mpt_Annotations m0)) \<and>
     newMetaPodTemplate (env_lib E) w t = Ok m \<and> namesDistinct m \<and>
     a \<in> set act \<and> sameProjection a b \<and> lookupMapping (env_config E) w = Ok t)"


text \<open>Two bindings in the deployment of the examples, reconciled in turn.\<close>

definition cacheBinding :: serviceBinding where
  "cacheBinding = (exampleBinding ''u2'' ''s2'')
     \<lparr>sb_Spec := (sb_Spec (exampleBinding ''u2'' ''s2''))
       \<lparr>bs_Env := [\<lparr>em_Name = ''CACHE_USER'', em_Key = ''user''\<rparr>]\<rparr>\<rparr>"

definition restBindings :: "serviceBinding set" where
  "restBindings = {exampleBinding ''u1'' ''s1'', cacheBinding}"

definition restEnv :: "json \<Rightarrow> (json, json list) env" where
  "restEnv w = (podEnv podLib)\<lparr>env_config := podConfig\<lparr>cfg_getObject := (\<lambda>ref. Inr w)\<rparr>,
     env_manage := (\<lambda>merge eq b w p x. if eq (merge w p) w then (None, x) else (None, x @ [p])),
     env_deepEqual := (\<lambda>a b. sameTree b a)\<rparr>"

definition restState :: "(json, json list) rstate" where
  "restState = \<lparr>rs_resource = exampleBinding ''u1'' ''s1'', rs_stash = Map.empty, rs_tracked = [], rs_cluster = []\<rparr>"

lemma cacheBinding_simps [simp]:
  "bindingUID cacheBinding = ''u2''" "secretName cacheBinding = ''s2''"
  using secretName_exampleBinding [of "''u2''" "''s2''"]
  by (simp_all add: cacheBinding_def secretName_def)

lemma rest_start: "goodStart podLib podPath podMapping restBindings deployment deploymentTemplate"
  using deployment_fits deployment_template
  by (auto simp: goodStart_def deploymentTemplate_def literalRoots_def literalRoot_def unowned_def
      restBindings_def ownKeys_def name_defs)

lemma rest_compatible: "compatible restBindings"
  by (simp add: compatible_def restBindings_def)

lemma rest_binds [simp]: "bindsNow (exampleBinding u ''s1'')" "bindsNow cacheBinding"
  by (simp_all add: bindsNow_def) (simp_all add: cacheBinding_def exampleBinding_def timeIsZero_def)

lemma rest_actAfter:
  "actAfter cacheBinding (actAfter (exampleBinding ''u1'' ''s1'') []) = [exampleBinding ''u1'' ''s1'', cacheBinding]"
  by (simp add: actAfter_def withoutUID_def)

lemma restEnv_simps [simp]:
  "env_lib (restEnv w) = podLib" "lookupMapping (env_config (restEnv w)) x = Ok podMapping"
proof -
  have "lookupMapping (podConfig\<lparr>cfg_getObject := f\<rparr>) x = Ok podMapping" for f
    using podConfig_lookup [of x] by (simp add: lookupMapping_def podConfig_def)
  then show "lookupMapping (env_config (restEnv w)) x = Ok podMapping" by (simp add: restEnv_def)
qed (simp add: restEnv_def podEnv_def)

lemma restEnv_manages: "managesChanges (restEnv w)"
  by (simp add: managesChanges_def restEnv_def podEnv_def split: if_splits)

lemma rest_names:
  "namesDistinct (project cacheBinding (project (exampleBinding ''u1'' ''s1'') deploymentTemplate))"
  by code_simp


end
