(* ===== verification/Condition_Properties.thy ===== *)
theory Condition_Properties
  imports Controller_Properties
begin

text \<open>
  The conditions of a ServiceBinding over a whole reconciliation: the controller touches them
  through its two dependent conditions alone, so \<open>Ready\<close> always summarises them.
\<close>

abbreviation statusSummarised :: "('w, 'x) rstate \<Rightarrow> bool" where
  "statusSummarised s \<equiv> summarises servicebindingCondSet (st_Conditions (sb_Status (rs_resource s)))"

definition keepsSummary :: "('w, 'x) syncer \<Rightarrow> bool" where
  "keepsSummary f \<longleftrightarrow> (\<forall>s. statusSummarised s \<longrightarrow> statusSummarised (snd (f s)))"

lemma keepsSummary_steps:
  assumes M: "livingSet_ok servicebindingCondSet (env_conditions E)"
  shows "keepsSummary (resolveBindingSecret E)" and "keepsSummary (resolveWorkloads E)"
    and "keepsSummary (projectBinding E)" and "keepsSummary (patchWorkloads E)"
proof -
  note marks = servicebinding_marks [OF M]
  show "keepsSummary (resolveBindingSecret E)"
    by (auto simp: keepsSummary_def resolveBindingSecret_def Let_def marks
        split: prod.splits outcome.splits error.splits)
  show "keepsSummary (resolveWorkloads E)"
    by (auto simp: keepsSummary_def resolveWorkloads_def Let_def marks
        split: prod.splits outcome.splits error.splits)
  show "keepsSummary (projectBinding E)"
    by (auto simp: keepsSummary_def projectBinding_def split: outcome.splits)
  have loop: "statusSummarised s \<Longrightarrow> statusSummarised (snd (patchLoop E ps s))" for ps s
    by (induction ps arbitrary: s)
      (auto simp: Let_def marks split: if_splits prod.splits option.splits error.splits)
  show "keepsSummary (patchWorkloads E)"
    unfolding keepsSummary_def
  proof (intro allI impI)
    fix s :: "('a, 'b) rstate"
    assume s: "statusSummarised s"
    obtain r s1 where l: "patchLoop E (zip (retrieveWorkloads s) (retrieveProjectedWorkloads s)) s = (r, s1)"
      by force
    with loop [OF s] have "statusSummarised s1" by (metis snd_conv)
    with s l show "statusSummarised (snd (patchWorkloads E s))"
      by (auto simp: patchWorkloads_def Let_def marks split: loopExit.splits option.splits)
  qed
qed

lemma keepsSummary_runInOrder:
  "\<forall>r \<in> set rs. keepsSummary (sub_Sync r) \<Longrightarrow> keepsSummary (runInOrder rs)"
  unfolding keepsSummary_def
proof (intro allI impI, induction rs)
  case Nil
  then show ?case by simp
next
  case (Cons r rs)
  obtain res s1 where r: "sub_Sync r s = (res, s1)" by force
  with Cons.prems have "statusSummarised s1" by (metis list.set_intros(1) snd_conv)
  with Cons r show ?case
    by (cases res) (auto simp: case_prod_unfold Let_def)
qed

text \<open>
  C16. \<open>Ready\<close> tells the truth: a reconciliation, whatever its outcome, leaves the condition
  \<open>Ready\<close> true exactly when the service is available and the workload projected, with the reason
  \<open>ServiceBound\<close>, if it found it so.
\<close>

theorem ready_summarises:
  assumes "sequence_ok seq" and "livingSet_ok servicebindingCondSet (env_conditions E)"
    and "summarises servicebindingCondSet (st_Conditions (sb_Status (rs_resource s)))"
    and "serviceBindingReconciler seq E s = (r, s')"
  shows "(conditionIs (sb_Status (rs_resource s')) ConditionReady ConditionTrue ''ServiceBound'' \<longleftrightarrow>
      isTrue (st_Conditions (sb_Status (rs_resource s'))) ConditionServiceAvailable \<and>
      isTrue (st_Conditions (sb_Status (rs_resource s'))) ConditionWorkloadProjected) \<and>
    summarises servicebindingCondSet (st_Conditions (sb_Status (rs_resource s')))"
proof -
  have "keepsSummary (runInOrder (bindingReconcilers E))"
    by (rule keepsSummary_runInOrder) (simp add: bindingReconcilers_def keepsSummary_steps [OF assms(2)])
  with assms have "statusSummarised s'"
    by (auto simp: keepsSummary_def serviceBindingReconciler_def sequence_ok_def)
  then show ?thesis
    by (auto simp: summarises_def servicebindingCondSet_def conditionIs_def isTrue_def getCondition_def
        split: option.splits)
qed

text \<open>A reconciliation that succeeds, with a living set.\<close>

definition livingEnv :: "(string, string list) env" where
  "livingEnv = (exampleEnv (exampleConfig (Inl NotFound) (Inr ''app'')))
     \<lparr>env_conditions := getConditionManager livingManager (rs_resource (exampleState None))\<rparr>"

theorem ready_summarises_witness:
  "conditionIs (sb_Status (rs_resource (snd (serviceBindingReconciler runInOrder livingEnv (exampleState None)))))
     ConditionReady ConditionTrue ''ServiceBound''"
proof -
  obtain r s' where rs: "serviceBindingReconciler runInOrder livingEnv (exampleState None) = (r, s')" by force
  have seq: "sequence_ok (runInOrder :: (string, string list) subReconciler list \<Rightarrow> _)"
    by (simp add: sequence_ok_def)
  have living: "livingSet_ok servicebindingCondSet (env_conditions livingEnv)"
    by (simp add: livingEnv_def getConditionManager_def livingManager_ok)
  have start: "summarises servicebindingCondSet (st_Conditions (sb_Status (rs_resource (exampleState None))))"
    by code_simp
  have "isTrue (st_Conditions (sb_Status (rs_resource
      (snd (serviceBindingReconciler runInOrder livingEnv (exampleState None)))))) t"
    if "t = ConditionServiceAvailable \<or> t = ConditionWorkloadProjected" for t
    using that by (elim disjE) (simp_all only:, code_simp+)
  with ready_summarises [OF seq living start rs] rs show ?thesis by simp
qed

end
