(* ===== verification/Validation_Loop.thy ===== *)
theory Validation_Loop
  imports Mapping_Api "HOL-Library.While_Combinator"
begin

text \<open>
  The loop of \<open>validateRestrictedJsonPath\<close> as it is written: an index runs over a slice that
  grows while it is visited. \<open>while_option\<close> gives \<open>None\<close> for a loop that does not end.
\<close>

type_synonym nodeLoop = "nat \<times> node list \<times> fieldError list"

definition loopGuard :: "nodeLoop \<Rightarrow> bool" where
  "loopGuard = (\<lambda>(i, nodes, errs). i < length nodes)"

definition loopStep :: "string \<Rightarrow> fldPath \<Rightarrow> nodeLoop \<Rightarrow> nodeLoop" where
  "loopStep e p = (\<lambda>(i, nodes, errs).
     (case nodes ! i of
        NodeList ns \<Rightarrow> (Suc i, nodes @ ns, errs)
      | NodeField f \<Rightarrow> (Suc i, nodes, errs)
      | NodeOther t s \<Rightarrow>
          (Suc i, nodes, errs @ [ErrInvalid p (JStr e) (''unsupported node: '' @ s)])))"

definition restrictedLoop :: "string \<Rightarrow> fldPath \<Rightarrow> node list \<Rightarrow> nodeLoop option" where
  "restrictedLoop e p nodes = while_option loopGuard (loopStep e p) (0, nodes, [])"

definition nodeCount :: "node list \<Rightarrow> nat" where
  "nodeCount nodes = sum_list (map nodeSize nodes)"

declare nodeSize.simps(1) [simp del]

lemma nodeCount_simps [simp]:
  "nodeCount [] = 0" "nodeCount (n # ns) = nodeSize n + nodeCount ns"
  "nodeCount (ns @ ms) = nodeCount ns + nodeCount ms"
  "nodeSize (NodeList ns) = Suc (nodeCount ns)"
  by (simp_all add: nodeCount_def nodeSize.simps(1))

lemma loopStep_eq:
  "loopStep e p (i, nodes, errs) =
     (case nodes ! i of
        NodeList ns \<Rightarrow> (Suc i, nodes @ ns, errs)
      | NodeField f \<Rightarrow> (Suc i, nodes, errs)
      | NodeOther t s \<Rightarrow>
          (Suc i, nodes, errs @ [ErrInvalid p (JStr e) (''unsupported node: '' @ s)]))"
  by (simp add: loopStep_def)

lemma restrictedLoop_from:
  assumes "i \<le> length nodes"
  shows "\<exists>visited. while_option loopGuard (loopStep e p) (i, nodes, errs) =
      Some (i + nodeCount (drop i nodes), visited, errs @ restrictedNodes e p (drop i nodes)) \<and>
    length visited = i + nodeCount (drop i nodes)"
  using assms
proof (induction "nodeCount (drop i nodes)" arbitrary: i nodes errs rule: less_induct)
  case less
  show ?case
  proof (cases "i < length nodes")
    case False
    with less.prems show ?thesis
      by (subst while_option_unfold) (simp add: loopGuard_def)
  next
    case True
    let ?q = "drop (Suc i) nodes"
    have drop: "drop i nodes = nodes ! i # ?q" using True by (simp add: Cons_nth_drop_Suc)
    have unfold: "while_option loopGuard (loopStep e p) (i, nodes, errs) =
        while_option loopGuard (loopStep e p) (loopStep e p (i, nodes, errs))"
      using True by (subst while_option_unfold) (simp add: loopGuard_def)
    show ?thesis
    proof (cases "nodes ! i")
      case (NodeList ns)
      have d: "drop (Suc i) (nodes @ ns) = ?q @ ns" using True by simp
      have "nodeCount (?q @ ns) < nodeCount (drop i nodes)" by (simp add: drop NodeList)
      from less.hyps [of "Suc i" "nodes @ ns" errs, unfolded d, OF this] True
      show ?thesis by (simp add: unfold drop NodeList loopStep_eq ac_simps)
    next
      case (NodeField f)
      have "nodeCount ?q < nodeCount (drop i nodes)" by (simp add: drop NodeField)
      from less.hyps [OF this, of errs] True
      show ?thesis by (simp add: unfold drop NodeField loopStep_eq)
    next
      case (NodeOther t s)
      have "nodeCount ?q < nodeCount (drop i nodes)" by (simp add: drop NodeOther)
      from less.hyps [OF this, of "errs @ [ErrInvalid p (JStr e) (''unsupported node: '' @ s)]"] True
      show ?thesis by (simp add: unfold drop NodeOther loopStep_eq)
    qed
  qed
qed

section \<open>Claim\<close>

text \<open>C34. The validation of a Restricted JSONPath ends for every parsed expression, after visiting each
  node of the tree exactly once: the loop makes as many iterations as the tree has nodes, the
  slice it runs over has grown to that many elements, and the errors are those of the breadth-first
  walk in \<open>restrictedNodes\<close>, at most one for each node.\<close>

theorem validation_terminates:
  "\<exists>visited errs. restrictedLoop e p nodes = Some (nodeCount nodes, visited, errs) \<and>
    length visited = nodeCount nodes \<and> errs = restrictedNodes e p nodes \<and>
    length errs \<le> nodeCount nodes"
proof -
  have "length (restrictedNodes e p q) \<le> nodeCount q" for q
    by (induction e p q rule: restrictedNodes.induct) auto
  with restrictedLoop_from [of 0 nodes e p "[]"] show ?thesis
    by (auto simp: restrictedLoop_def)
qed

end
