(* ===== verification/Go_Heap.thy ===== *)
theory Go_Heap
  imports SB_Prelude
begin

text \<open>
  Go storage where aliasing matters: a heap of cells, each the backing array of a slice or the
  target of a pointer, and slices as the headers Go gives them (array, offset, length,
  capacity). The heap is a list and grows at its end, so an address below the length of an
  earlier heap is storage that existed then. The locale \<open>deep_copy\<close> is the contract of a
  copying operation on values that own storage; slices and pointers to such values satisfy it
  again.
\<close>

named_theorems heap_simps \<open>rewrites for reading, writing and growing the heap\<close>

section \<open>Cells, kinds and slices\<close>

type_synonym addr = nat
type_synonym 'c heap = "'c list"

text \<open>
  A kind says how arrays of one element type are kept in a cell. \<open>spareOf n\<close> is the number of
  unused elements \<open>append\<close> leaves after growing an array to \<open>n\<close> elements, which the language
  leaves to the runtime.
\<close>

record ('e, 'c) kind =
  mkArr :: "'e list \<Rightarrow> 'c"
  arrOf :: "'c \<Rightarrow> 'e list"
  zeroOf :: 'e
  spareOf :: "nat \<Rightarrow> nat"

definition kind_ok :: "('e, 'c) kind \<Rightarrow> bool" where
  "kind_ok K \<longleftrightarrow> (\<forall>xs. arrOf K (mkArr K xs) = xs)"

lemma kind_okD [heap_simps]: "kind_ok K \<Longrightarrow> arrOf K (mkArr K xs) = xs"
  by (simp add: kind_ok_def)

datatype goSlice = NilSlice | Slice addr nat nat nat

fun goLen :: "goSlice \<Rightarrow> nat" where
  "goLen NilSlice = 0"
| "goLen (Slice a i n c) = n"

fun elems :: "('e, 'c) kind \<Rightarrow> 'c heap \<Rightarrow> goSlice \<Rightarrow> 'e list" where
  "elems K h NilSlice = []"
| "elems K h (Slice a i n c) = take n (drop i (arrOf K (h ! a)))"

text \<open>What the type system and the runtime guarantee of a slice.\<close>

fun slice_ok :: "('e, 'c) kind \<Rightarrow> 'c heap \<Rightarrow> goSlice \<Rightarrow> bool" where
  "slice_ok K h NilSlice \<longleftrightarrow> True"
| "slice_ok K h (Slice a i n c) \<longleftrightarrow>
     a < length h \<and> n \<le> c \<and> i + c \<le> length (arrOf K (h ! a))"

lemma length_elems [simp]: "slice_ok K h s \<Longrightarrow> length (elems K h s) = goLen s"
  by (cases s) auto

section \<open>Operations of the language\<close>

definition makeSlice :: "('e, 'c) kind \<Rightarrow> nat \<Rightarrow> 'c heap \<Rightarrow> goSlice \<times> 'c heap" where
  "makeSlice K n h = (Slice (length h) 0 n n, h @ [mkArr K (replicate n (zeroOf K))])"

definition loadElem :: "('e, 'c) kind \<Rightarrow> 'c heap \<Rightarrow> goSlice \<Rightarrow> nat \<Rightarrow> 'e" where
  "loadElem K h s i = elems K h s ! i"

fun storeElem :: "('e, 'c) kind \<Rightarrow> goSlice \<Rightarrow> nat \<Rightarrow> 'e \<Rightarrow> 'c heap \<Rightarrow> 'c heap" where
  "storeElem K NilSlice j x h = h"
| "storeElem K (Slice a i n c) j x h = h[a := mkArr K ((arrOf K (h ! a))[i + j := x])]"

text \<open>The builtin \<open>copy(dst, src)\<close>; the source is read before the destination is written.\<close>

fun copyBuiltin :: "('e, 'c) kind \<Rightarrow> goSlice \<Rightarrow> goSlice \<Rightarrow> 'c heap \<Rightarrow> 'c heap" where
  "copyBuiltin K NilSlice src h = h"
| "copyBuiltin K (Slice a i n c) src h =
     (let xs = take n (elems K h src); ys = arrOf K (h ! a)
      in h[a := mkArr K (take i ys @ xs @ drop (i + length xs) ys)])"

text \<open>\<open>append(s, x)\<close>: in place while the capacity lasts, in a new array otherwise.\<close>

fun appendElem :: "('e, 'c) kind \<Rightarrow> goSlice \<Rightarrow> 'e \<Rightarrow> 'c heap \<Rightarrow> goSlice \<times> 'c heap" where
  "appendElem K NilSlice x h =
     (Slice (length h) 0 1 (1 + spareOf K 1),
      h @ [mkArr K (x # replicate (spareOf K 1) (zeroOf K))])"
| "appendElem K (Slice a i n c) x h =
     (if n < c then (Slice a i (Suc n) c, storeElem K (Slice a i n c) n x h)
      else (Slice (length h) 0 (Suc n) (Suc n + spareOf K (Suc n)),
            h @ [mkArr K (elems K h (Slice a i n c) @ x #
              replicate (spareOf K (Suc n)) (zeroOf K))]))"

text \<open>A pointer is the address of a one-element array.\<close>

definition newCell :: "('e, 'c) kind \<Rightarrow> 'c heap \<Rightarrow> addr \<times> 'c heap" where
  "newCell K h = (length h, h @ [mkArr K [zeroOf K]])"

definition loadCell :: "('e, 'c) kind \<Rightarrow> 'c heap \<Rightarrow> addr \<Rightarrow> 'e" where
  "loadCell K h a = arrOf K (h ! a) ! 0"

definition storeCell :: "('e, 'c) kind \<Rightarrow> addr \<Rightarrow> 'e \<Rightarrow> 'c heap \<Rightarrow> 'c heap" where
  "storeCell K a x h = h[a := mkArr K ((arrOf K (h ! a))[0 := x])]"

definition cell_ok :: "('e, 'c) kind \<Rightarrow> 'c heap \<Rightarrow> addr \<Rightarrow> bool" where
  "cell_ok K h a \<longleftrightarrow> a < length h \<and> length (arrOf K (h ! a)) = 1"

lemma length_storeElem [simp]: "length (storeElem K s j x h) = length h"
  by (cases s) auto

lemma length_copyBuiltin [simp]: "length (copyBuiltin K d s h) = length h"
  by (cases d) (auto simp: Let_def)

lemma length_storeCell [simp]: "length (storeCell K a x h) = length h"
  by (simp add: storeCell_def)

lemma loadCell_storeCell [heap_simps]:
  "kind_ok K \<Longrightarrow> cell_ok K h a \<Longrightarrow> loadCell K (storeCell K a x h) a = x"
  by (simp add: loadCell_def storeCell_def cell_ok_def kind_okD)

lemma cell_ok_storeCell [heap_simps]:
  "kind_ok K \<Longrightarrow> cell_ok K h a \<Longrightarrow> cell_ok K (storeCell K a x h) a"
  by (simp add: storeCell_def cell_ok_def kind_okD)

lemma storeCell_other [heap_simps]: "b \<noteq> a \<Longrightarrow> storeCell K a x h ! b = h ! b"
  by (simp add: storeCell_def)

lemma newCell_ok [heap_simps]:
  "kind_ok K \<Longrightarrow> cell_ok K (h @ [mkArr K [x]]) (length h)"
  "kind_ok K \<Longrightarrow> loadCell K (h @ [mkArr K [x]]) (length h) = x"
  by (simp_all add: cell_ok_def loadCell_def kind_okD)

section \<open>Heap extension and agreement\<close>

text \<open>\<open>extends h h'\<close>: every cell of \<open>h\<close> is unchanged in \<open>h'\<close>.\<close>

definition extends :: "'c heap \<Rightarrow> 'c heap \<Rightarrow> bool" where
  "extends h h' \<longleftrightarrow> length h \<le> length h' \<and> (\<forall>a < length h. h' ! a = h ! a)"

lemma extends_refl [simp, intro]: "extends h h"
  by (simp add: extends_def)

lemma extends_trans [trans]: "extends h h1 \<Longrightarrow> extends h1 h2 \<Longrightarrow> extends h h2"
  by (auto simp: extends_def)

lemma extends_snoc [simp, intro]: "extends h (h @ xs)"
  by (simp add: extends_def nth_append)

lemma extends_length: "extends h h' \<Longrightarrow> length h \<le> length h'"
  by (simp add: extends_def)

lemma extends_nth: "extends h h' \<Longrightarrow> a < length h \<Longrightarrow> h' ! a = h ! a"
  by (simp add: extends_def)

lemma extends_update: "extends h h' \<Longrightarrow> length h \<le> a \<Longrightarrow> extends h (h'[a := c])"
  by (simp add: extends_def)

definition agree :: "addr set \<Rightarrow> 'c heap \<Rightarrow> 'c heap \<Rightarrow> bool" where
  "agree A h h' \<longleftrightarrow> (\<forall>a \<in> A. a < length h \<and> a < length h' \<and> h' ! a = h ! a)"

lemma agreeI_extends: "extends h h' \<Longrightarrow> A \<subseteq> {..<length h} \<Longrightarrow> agree A h h'"
  by (fastforce simp: extends_def agree_def)

lemma agree_mono: "agree B h h' \<Longrightarrow> A \<subseteq> B \<Longrightarrow> agree A h h'"
  by (auto simp: agree_def)

lemma agree_insert: "agree (insert a A) h h' \<longleftrightarrow>
    a < length h \<and> a < length h' \<and> h' ! a = h ! a \<and> agree A h h'"
  by (auto simp: agree_def)

lemma agree_Un: "agree (A \<union> B) h h' \<longleftrightarrow> agree A h h' \<and> agree B h h'"
  by (auto simp: agree_def)

lemma agree_update: "A \<subseteq> {..<length h} \<Longrightarrow> a \<notin> A \<Longrightarrow> agree A h (h[a := c])"
  by (auto simp: agree_def) (metis nth_list_update_neq)

section \<open>The contract of a deep copy\<close>

text \<open>
  \<open>V h r\<close> is the value read through \<open>r\<close>, \<open>A h r\<close> the storage it owns, \<open>W h r\<close> its
  well-formedness. A copy reads the same, owns only storage that did not exist before, and
  leaves what existed as it was.
\<close>

locale deep_copy =
  fixes cp :: "'r \<Rightarrow> 'c heap \<Rightarrow> 'r \<times> 'c heap"
    and V :: "'c heap \<Rightarrow> 'r \<Rightarrow> 'v"
    and A :: "'c heap \<Rightarrow> 'r \<Rightarrow> addr set"
    and W :: "'c heap \<Rightarrow> 'r \<Rightarrow> bool"
  assumes reads: "agree (A h r) h h' \<Longrightarrow> V h' r = V h r \<and> A h' r = A h r \<and> W h' r = W h r"
    and owned: "W h r \<Longrightarrow> A h r \<subseteq> {..<length h}"
    and copies: "W h r \<Longrightarrow> cp r h = (r', h') \<Longrightarrow>
      extends h h' \<and> V h' r' = V h r \<and> A h' r' \<subseteq> {length h..<length h'} \<and> W h' r'"
begin

lemma keep:
  assumes "W h r" and "extends h h'"
  shows "V h' r = V h r" "A h' r = A h r" "W h' r"
  using reads [OF agreeI_extends [OF assms(2) owned [OF assms(1)]]] assms(1) by auto

lemma write_elsewhere:
  assumes "W h r" and "a \<notin> A h r"
  shows "V (h[a := c]) r = V h r" "A (h[a := c]) r = A h r" "W (h[a := c]) r"
  using reads [OF agree_update [OF owned [OF assms(1)] assms(2)], of c] assms(1) by auto

text \<open>A copy made between other allocations: the form in which the fields of a struct are copied.\<close>

lemma copy_between:
  assumes "W h r" and "extends h h0" and "cp r h0 = (r', h1)" and "extends h1 h2"
  shows "extends h0 h1" "V h2 r' = V h r" "A h2 r' \<subseteq> {length h..<length h2}" "W h2 r'"
proof -
  note start = keep [OF assms(1,2)]
  note new = copies [OF start(3) assms(3)]
  then have "W h1 r'" by simp
  note later = keep [OF this assms(4)]
  show "extends h0 h1" "V h2 r' = V h r" "W h2 r'" using new later start by simp_all
  show "A h2 r' \<subseteq> {length h..<length h2}"
    using new later assms(2,4) by (fastforce simp: extends_def)
qed

text \<open>Writing to the copy is not seen through the original, and the other way round.\<close>

lemma original_isolated:
  assumes "W h r" and "cp r h = (r', h')" and "a \<in> A h' r'"
  shows "V (h'[a := c]) r = V h r"
proof -
  from copies [OF assms(1,2)] have ext: "extends h h'" and new: "A h' r' \<subseteq> {length h..<length h'}"
    by auto
  from new assms(3) have "a \<notin> A h' r"
    using keep(2) [OF assms(1) ext] owned [OF assms(1)] by fastforce
  with write_elsewhere(1) [OF keep(3) [OF assms(1) ext]] show ?thesis
    by (simp add: keep(1) [OF assms(1) ext])
qed

lemma copy_isolated:
  assumes "W h r" and "cp r h = (r', h')" and "a < length h"
  shows "V (h'[a := c]) r' = V h r"
proof -
  from copies [OF assms(1,2)] have new: "A h' r' \<subseteq> {length h..<length h'}"
    and w: "W h' r'" and v: "V h' r' = V h r" by auto
  from new assms(3) have "a \<notin> A h' r'" by auto
  with write_elsewhere(1) [OF w] v show ?thesis by simp
qed

lemma independent:
  assumes "W h r" and "cp r h = (r', h')"
  shows "V h' r' = V h r \<and> extends h h' \<and> A h r \<inter> A h' r' = {} \<and>
    (\<forall>a c. a < length h \<longrightarrow> V (h'[a := c]) r' = V h r) \<and>
    (\<forall>a c. a \<in> A h' r' \<longrightarrow> V (h'[a := c]) r = V h r)"
  using copies [OF assms] owned [OF assms(1)] original_isolated [OF assms] copy_isolated [OF assms]
  by fastforce

end

end
