(* ===== verification/Copy_Loops.thy ===== *)
theory Copy_Loops
  imports Go_Heap
begin

text \<open>
  The three shapes in which \<open>zz_generated.deepcopy.go\<close> copies a field that owns storage: a
  slice whose elements are copied one by one by their own \<open>DeepCopyInto\<close>, a slice copied by
  the builtin \<open>copy\<close>, and a pointer. Each is shown to meet the contract \<open>deep_copy\<close> when
  the copy of an element does.
\<close>

section \<open>The generated code\<close>

text \<open>\<open>for i := range *in { (*in)[i].DeepCopyInto(&(*out)[i]) }\<close>, from index \<open>i\<close> on.\<close>

fun copyEach ::
  "('e, 'c) kind \<Rightarrow> ('e \<Rightarrow> 'c heap \<Rightarrow> 'e \<times> 'c heap) \<Rightarrow> goSlice \<Rightarrow> goSlice \<Rightarrow> nat \<Rightarrow> nat \<Rightarrow>
   'c heap \<Rightarrow> 'c heap" where
  "copyEach K cp src dst i 0 h = h"
| "copyEach K cp src dst i (Suc k) h =
     (let (y, h1) = cp (loadElem K h src i) h
      in copyEach K cp src dst (Suc i) k (storeElem K dst i y h1))"

definition deepCopySlice ::
  "('e, 'c) kind \<Rightarrow> ('e \<Rightarrow> 'c heap \<Rightarrow> 'e \<times> 'c heap) \<Rightarrow> goSlice \<Rightarrow> 'c heap \<Rightarrow> goSlice \<times> 'c heap" where
  "deepCopySlice K cp s h =
     (if s = NilSlice then (NilSlice, h)
      else let (out, h1) = makeSlice K (goLen s) h
           in (out, copyEach K cp s out 0 (goLen s) h1))"

definition copySlice :: "('e, 'c) kind \<Rightarrow> goSlice \<Rightarrow> 'c heap \<Rightarrow> goSlice \<times> 'c heap" where
  "copySlice K s h =
     (if s = NilSlice then (NilSlice, h)
      else let (out, h1) = makeSlice K (goLen s) h in (out, copyBuiltin K out s h1))"

text \<open>
  \<open>*out = new(T); (*in).DeepCopyInto(*out)\<close>, the same steps as those of the methods
  \<open>DeepCopy\<close>; a nil pointer stays nil.
\<close>

definition copyPointer ::
  "('e, 'c) kind \<Rightarrow> ('e \<Rightarrow> 'c heap \<Rightarrow> 'e \<times> 'c heap) \<Rightarrow> addr option \<Rightarrow> 'c heap \<Rightarrow>
   addr option \<times> 'c heap" where
  "copyPointer K cp p h =
     (case p of
        None \<Rightarrow> (None, h)
      | Some a \<Rightarrow>
          (let (q, h1) = newCell K h; (y, h2) = cp (loadCell K h1 a) h1
           in (Some q, storeCell K q y h2)))"

section \<open>Views of slices and pointers\<close>

definition sliceView :: "('e, 'c) kind \<Rightarrow> ('c heap \<Rightarrow> 'e \<Rightarrow> 'v) \<Rightarrow> 'c heap \<Rightarrow> goSlice \<Rightarrow> 'v list" where
  "sliceView K V h s = map (V h) (elems K h s)"

fun sliceOwns ::
  "('e, 'c) kind \<Rightarrow> ('c heap \<Rightarrow> 'e \<Rightarrow> addr set) \<Rightarrow> 'c heap \<Rightarrow> goSlice \<Rightarrow> addr set" where
  "sliceOwns K A h NilSlice = {}"
| "sliceOwns K A h (Slice a i n c) = insert a (\<Union>x \<in> set (elems K h (Slice a i n c)). A h x)"

text \<open>An array is never part of the storage its own elements own: their types differ.\<close>

fun sliceAddr :: "goSlice \<Rightarrow> addr set" where
  "sliceAddr NilSlice = {}"
| "sliceAddr (Slice a i n c) = {a}"

definition sliceWf ::
  "('e, 'c) kind \<Rightarrow> ('c heap \<Rightarrow> 'e \<Rightarrow> addr set) \<Rightarrow> ('c heap \<Rightarrow> 'e \<Rightarrow> bool) \<Rightarrow> 'c heap \<Rightarrow>
   goSlice \<Rightarrow> bool" where
  "sliceWf K A W h s \<longleftrightarrow>
     slice_ok K h s \<and> list_all (\<lambda>x. W h x \<and> sliceAddr s \<inter> A h x = {}) (elems K h s)"

definition pointerView ::
  "('e, 'c) kind \<Rightarrow> ('c heap \<Rightarrow> 'e \<Rightarrow> 'v) \<Rightarrow> 'c heap \<Rightarrow> addr option \<Rightarrow> 'v option" where
  "pointerView K V h p = map_option (\<lambda>a. V h (loadCell K h a)) p"

lemma sliceAddr_owned: "sliceAddr s \<subseteq> sliceOwns K A h s"
  by (cases s) auto

fun pointerOwns ::
  "('e, 'c) kind \<Rightarrow> ('c heap \<Rightarrow> 'e \<Rightarrow> addr set) \<Rightarrow> 'c heap \<Rightarrow> addr option \<Rightarrow> addr set" where
  "pointerOwns K A h None = {}"
| "pointerOwns K A h (Some a) = insert a (A h (loadCell K h a))"

fun pointerWf ::
  "('e, 'c) kind \<Rightarrow> ('c heap \<Rightarrow> 'e \<Rightarrow> bool) \<Rightarrow> 'c heap \<Rightarrow> addr option \<Rightarrow> bool" where
  "pointerWf K W h None \<longleftrightarrow> True"
| "pointerWf K W h (Some a) \<longleftrightarrow> cell_ok K h a \<and> W h (loadCell K h a)"

text \<open>A value without storage of its own, copied by the assignment \<open>*out = *in\<close>.\<close>

definition plainCopy :: "'r \<Rightarrow> 'c heap \<Rightarrow> 'r \<times> 'c heap" where "plainCopy r h = (r, h)"
definition plainView :: "'c heap \<Rightarrow> 'r \<Rightarrow> 'r" where "plainView h r = r"
definition plainOwns :: "'c heap \<Rightarrow> 'r \<Rightarrow> addr set" where "plainOwns h r = {}"
definition plainWf :: "'c heap \<Rightarrow> 'r \<Rightarrow> bool" where "plainWf h r \<longleftrightarrow> True"

lemmas plain_defs = plainCopy_def plainView_def plainOwns_def plainWf_def

interpretation plain: deep_copy plainCopy plainView plainOwns plainWf
  by unfold_locales (auto simp: plain_defs)

section \<open>Elementwise copies\<close>

locale slice_copy = deep_copy cp V A W
  for cp :: "'e \<Rightarrow> 'c heap \<Rightarrow> 'e \<times> 'c heap" and V :: "'c heap \<Rightarrow> 'e \<Rightarrow> 'v" and A W +
  fixes K :: "('e, 'c) kind"
  assumes kind: "kind_ok K"
begin

lemma elems_agree: "agree (sliceOwns K A h s) h h' \<Longrightarrow> elems K h' s = elems K h s"
  by (cases s) (auto simp: agree_def)

lemma elem_agree:
  assumes "agree (sliceOwns K A h s) h h'" and "x \<in> set (elems K h s)"
  shows "V h' x = V h x \<and> A h' x = A h x \<and> W h' x = W h x"
proof (rule reads, rule agree_mono [OF assms(1)])
  show "A h x \<subseteq> sliceOwns K A h s" using assms(2) by (cases s) auto
qed

lemma slice_reads:
  assumes "agree (sliceOwns K A h s) h h'"
  shows "sliceView K V h' s = sliceView K V h s" (is ?view)
    and "sliceOwns K A h' s = sliceOwns K A h s" (is ?owns)
    and "sliceWf K A W h' s = sliceWf K A W h s" (is ?wf)
proof -
  note same = elems_agree [OF assms] and each = elem_agree [OF assms]
  show ?view using each by (simp add: sliceView_def same)
  show ?owns using each same by (cases s) auto
  have "slice_ok K h' s = slice_ok K h s" using assms by (cases s) (auto simp: agree_def)
  then show ?wf using each by (fastforce simp: sliceWf_def same list_all_iff)
qed

lemma slice_owned: "sliceWf K A W h s \<Longrightarrow> sliceOwns K A h s \<subseteq> {..<length h}"
  using owned by (cases s) (fastforce simp: sliceWf_def list_all_iff)+

text \<open>
  The loop invariant: the first \<open>i\<close> elements of the destination \<open>d\<close> read as the source
  does and own only storage allocated after \<open>d\<close>.
\<close>

definition copiedUpto :: "'c heap \<Rightarrow> addr \<Rightarrow> nat \<Rightarrow> nat \<Rightarrow> 'v list \<Rightarrow> bool" where
  "copiedUpto h d n i vs \<longleftrightarrow> d < length h \<and> length (arrOf K (h ! d)) = n \<and>
     (\<forall>j < i. W h (arrOf K (h ! d) ! j) \<and> A h (arrOf K (h ! d) ! j) \<subseteq> {d<..<length h} \<and>
        V h (arrOf K (h ! d) ! j) = vs ! j)"

lemma copiedUpto_step:
  assumes inv: "copiedUpto h d n i vs" and i: "i < n"
    and W: "W h x" and x: "V h x = vs ! i" and cp: "cp x h = (y, h1)"
  shows "copiedUpto (storeElem K (Slice d 0 n n) i y h1) d n (Suc i) vs"
proof -
  let ?h2 = "h1[d := mkArr K ((arrOf K (h ! d))[i := y])]"
  note new = copies [OF W cp]
  from inv have d: "d < length h" "length (arrOf K (h ! d)) = n"
    by (auto simp: copiedUpto_def)
  from new d have d1: "d < length h1" "h1 ! d = h ! d" by (auto simp: extends_def)
  have old: "W ?h2 z \<and> A ?h2 z \<subseteq> {d<..<length h1} \<and> V ?h2 z = V h z"
    if "W h z" "A h z \<subseteq> {d<..<length h}" for z
  proof -
    have "agree (A h z) h ?h2"
      using that(2) new by (auto simp: agree_def extends_def)
    from reads [OF this] that new show ?thesis by (fastforce simp: extends_def)
  qed
  have "agree (A h1 y) h1 ?h2"
    using new d by (force simp: agree_def)
  from reads [OF this] new have fresh:
    "W ?h2 y" "A ?h2 y \<subseteq> {length h..<length h1}" "V ?h2 y = vs ! i" using x by auto
  show ?thesis
    using inv d d1 fresh old i
    by (fastforce simp: copiedUpto_def kind_okD [OF kind] nth_list_update less_Suc_eq)
qed

lemma copyEach_copies:
  assumes "copiedUpto h d n i vs" and "i + k = n" and "sliceWf K A W h src"
    and "sliceView K V h src = vs" and "goLen src = n" and "d \<notin> sliceOwns K A h src"
    and "copyEach K cp src (Slice d 0 n n) i k h = h'"
  shows "copiedUpto h' d n n vs \<and> length h \<le> length h' \<and>
    (\<forall>a < length h. a \<noteq> d \<longrightarrow> h' ! a = h ! a)"
  using assms
proof (induction k arbitrary: i h)
  case 0
  then show ?case by simp
next
  case (Suc k)
  let ?x = "loadElem K h src i"
  obtain y h1 where cp: "cp ?x h = (y, h1)" by fastforce
  let ?h2 = "storeElem K (Slice d 0 n n) i y h1"
  have len: "length (elems K h src) = n"
    using Suc.prems(3,5) by (simp add: sliceWf_def)
  have i: "i < n" using Suc.prems(2) by simp
  have W: "W h ?x"
    using Suc.prems(3) i len by (simp add: sliceWf_def list_all_length loadElem_def)
  have V: "V h ?x = vs ! i"
    using Suc.prems(4) i len by (auto simp: sliceView_def loadElem_def)
  have ext: "extends h h1" using copies [OF W cp] by simp
  have frame: "length h \<le> length ?h2" "\<forall>a < length h. a \<noteq> d \<longrightarrow> ?h2 ! a = h ! a"
    using ext by (auto simp: extends_def)
  have agr: "agree (sliceOwns K A h src) h ?h2"
    unfolding agree_def
  proof (intro ballI conjI)
    fix a assume a: "a \<in> sliceOwns K A h src"
    with slice_owned [OF Suc.prems(3)] show "a < length h" by auto
    moreover from a Suc.prems(6) have "a \<noteq> d" by auto
    ultimately show "a < length ?h2" "?h2 ! a = h ! a" using frame by auto
  qed
  note same = slice_reads [OF agr]
  have "copiedUpto h' d n n vs \<and> length ?h2 \<le> length h' \<and>
      (\<forall>a < length ?h2. a \<noteq> d \<longrightarrow> h' ! a = ?h2 ! a)"
  proof (rule Suc.IH)
    show "copiedUpto ?h2 d n (Suc i) vs" by (rule copiedUpto_step [OF Suc.prems(1) i W V cp])
    show "copyEach K cp src (Slice d 0 n n) (Suc i) k ?h2 = h'"
      using Suc.prems(7) cp by simp
    show "Suc i + k = n" using Suc.prems(2) by simp
    show "sliceWf K A W ?h2 src" "sliceView K V ?h2 src = vs" "d \<notin> sliceOwns K A ?h2 src"
      using same Suc.prems(3,4,6) by simp_all
    show "goLen src = n" by (rule Suc.prems(5))
  qed
  then show ?case using frame by (metis (no_types, lifting) less_le_trans order_trans)
qed

lemma deepCopySlice_copies:
  assumes wf: "sliceWf K A W h s" and cp: "deepCopySlice K cp s h = (s', h')"
  shows "extends h h' \<and> sliceView K V h' s' = sliceView K V h s \<and>
    sliceOwns K A h' s' \<subseteq> {length h..<length h'} \<and> sliceWf K A W h' s' \<and> goLen s' = goLen s"
proof (cases s)
  case NilSlice
  then show ?thesis using cp by (simp add: deepCopySlice_def sliceView_def sliceWf_def)
next
  case (Slice a i n c)
  let ?d = "length h" and ?h1 = "h @ [mkArr K (replicate n (zeroOf K))]"
  from cp Slice have s': "s' = Slice ?d 0 n n" and h': "copyEach K cp s s' 0 n ?h1 = h'"
    by (auto simp: deepCopySlice_def makeSlice_def)
  have agr: "agree (sliceOwns K A h s) h ?h1"
    using slice_owned [OF wf] by (intro agreeI_extends) auto
  note same = slice_reads [OF agr]
  have start: "copiedUpto ?h1 ?d n 0 (sliceView K V h s)"
    by (simp add: copiedUpto_def kind_okD [OF kind])
  have notin: "?d \<notin> sliceOwns K A ?h1 s"
    unfolding same(2) using slice_owned [OF wf] by auto
  have wf1: "sliceWf K A W ?h1 s" and n: "goLen s = n" "0 + n = n"
    using wf same(3) Slice by auto
  note res = copyEach_copies [OF start n(2) wf1 same(1) n(1) notin h' [unfolded s']]
  have len: "length (sliceView K V h s) = n"
    using wf n(1) by (simp add: sliceView_def sliceWf_def)
  from res have inv: "copiedUpto h' ?d n n (sliceView K V h s)" by blast
  then have arr: "length (arrOf K (h' ! ?d)) = n" "?d < length h'"
    by (auto simp: copiedUpto_def)
  from inv have each: "W h' x" "A h' x \<subseteq> {length h<..<length h'}"
    if "x \<in> set (arrOf K (h' ! ?d))" for x
    using that arr by (auto simp: copiedUpto_def in_set_conv_nth)
  have "map (V h') (arrOf K (h' ! ?d)) = sliceView K V h s"
    using inv arr len by (auto simp: copiedUpto_def list_eq_iff_nth_eq)
  moreover have "extends h h'"
    using res by (auto simp: extends_def nth_append)
  ultimately show ?thesis
    using arr each Slice unfolding s'
    by (fastforce simp: sliceView_def sliceWf_def list_all_iff)
qed

end

sublocale slice_copy \<subseteq> slice: deep_copy "deepCopySlice K cp" "sliceView K V" "sliceOwns K A"
  "sliceWf K A W"
  using slice_reads slice_owned deepCopySlice_copies by unfold_locales blast+

context slice_copy begin

lemma slice_deep_copy:
  "deep_copy (deepCopySlice K cp) (sliceView K V) (sliceOwns K A) (sliceWf K A W)"
  by (rule slice.deep_copy_axioms)

end

section \<open>The builtin copy and pointers\<close>

text \<open>On elements without storage of their own the builtin \<open>copy\<close> is a deep copy.\<close>

locale plain_slice =
  fixes K :: "('e, 'c) kind"
  assumes kind: "kind_ok K"

sublocale plain_slice \<subseteq> each: slice_copy plainCopy plainView plainOwns plainWf K
  using kind by unfold_locales

context plain_slice begin

lemma copySlice_copies:
  assumes wf: "sliceWf K plainOwns plainWf h s" and cp: "copySlice K s h = (s', h')"
  shows "extends h h' \<and> sliceView K plainView h' s' = sliceView K plainView h s \<and>
    sliceOwns K plainOwns h' s' \<subseteq> {length h..<length h'} \<and> sliceWf K plainOwns plainWf h' s'"
proof (cases s)
  case NilSlice
  then show ?thesis using cp by (simp add: copySlice_def sliceView_def sliceWf_def)
next
  case (Slice a i n c)
  let ?h1 = "h @ [mkArr K (replicate n (zeroOf K))]"
  have ok: "slice_ok K h s" using wf by (simp add: sliceWf_def)
  have same: "elems K ?h1 s = elems K h s" using ok Slice by (simp add: nth_append)
  have len: "length (elems K h s) = n" using ok Slice length_elems [OF ok] by simp
  from cp Slice have s': "s' = Slice (length h) 0 n n"
    and h': "h' = copyBuiltin K s' s ?h1"
    by (auto simp: copySlice_def makeSlice_def)
  have h': "h' = h @ [mkArr K (elems K h s)]"
    unfolding h' s' using len by (simp add: same kind_okD [OF kind] Let_def list_update_append)
  show ?thesis
    unfolding h' s' using len
    by (simp add: sliceView_def sliceWf_def kind_okD [OF kind] plain_defs list_all_iff)
qed

end

sublocale plain_slice \<subseteq> slice: deep_copy "copySlice K" "sliceView K plainView"
  "sliceOwns K plainOwns" "sliceWf K plainOwns plainWf"
  using each.slice_reads each.slice_owned copySlice_copies by unfold_locales blast+

locale pointer_copy = deep_copy cp V A W
  for cp :: "'e \<Rightarrow> 'c heap \<Rightarrow> 'e \<times> 'c heap" and V :: "'c heap \<Rightarrow> 'e \<Rightarrow> 'v" and A W +
  fixes K :: "('e, 'c) kind"
  assumes kind: "kind_ok K"
begin

lemma pointer_reads:
  assumes "agree (pointerOwns K A h p) h h'"
  shows "pointerView K V h' p = pointerView K V h p \<and> pointerOwns K A h' p = pointerOwns K A h p \<and>
    pointerWf K W h' p = pointerWf K W h p"
proof (cases p)
  case None
  then show ?thesis by (simp add: pointerView_def)
next
  case (Some a)
  with assms have a: "a < length h" "a < length h'" "h' ! a = h ! a"
    and r: "agree (A h (loadCell K h a)) h h'"
    by (auto simp: agree_insert)
  from a have "loadCell K h' a = loadCell K h a" "cell_ok K h' a = cell_ok K h a"
    by (simp_all add: loadCell_def cell_ok_def)
  with reads [OF r] Some show ?thesis by (simp add: pointerView_def)
qed

lemma pointer_owned: "pointerWf K W h p \<Longrightarrow> pointerOwns K A h p \<subseteq> {..<length h}"
  using owned by (cases p) (fastforce simp: cell_ok_def)+

lemma copyPointer_copies:
  assumes wf: "pointerWf K W h p" and cp: "copyPointer K cp p h = (p', h')"
  shows "extends h h' \<and> pointerView K V h' p' = pointerView K V h p \<and>
    pointerOwns K A h' p' \<subseteq> {length h..<length h'} \<and> pointerWf K W h' p'"
proof (cases p)
  case None
  then show ?thesis using cp by (simp add: copyPointer_def pointerView_def)
next
  case (Some a)
  let ?q = "length h" and ?x = "loadCell K h a" and ?h1 = "h @ [mkArr K [zeroOf K]]"
  have a: "cell_ok K h a" "W h ?x" using wf Some by simp_all
  then have load: "loadCell K ?h1 a = ?x"
    by (simp add: loadCell_def cell_ok_def nth_append)
  obtain y h2 where y: "cp ?x ?h1 = (y, h2)" by fastforce
  from cp Some y load have p': "p' = Some ?q" and h': "h' = storeCell K ?q y h2"
    by (auto simp: copyPointer_def newCell_def)
  have x1: "W ?h1 ?x" "V ?h1 ?x = V h ?x"
    using keep [OF a(2) extends_snoc] by simp_all
  note new = copies [OF x1(1) y]
  have q: "cell_ok K h2 ?q" "?q < length h2"
    using new newCell_ok(1) [OF kind, of h "zeroOf K"]
    by (auto simp: cell_ok_def extends_def)
  have yq: "?q \<notin> A h2 y" using new by force
  have wy: "W h2 y" using new by simp
  have "V h' y = V h ?x" "A h' y \<subseteq> {length h..<length h'}" "W h' y"
    unfolding h' storeCell_def using write_elsewhere [OF wy yq] new x1 by fastforce+
  moreover have "loadCell K h' ?q = y" "cell_ok K h' ?q"
    unfolding h' using loadCell_storeCell [OF kind q(1)] cell_ok_storeCell [OF kind q(1)] by simp_all
  moreover have "extends h h'"
    unfolding h' storeCell_def using new by (auto simp: extends_def nth_append)
  moreover have "?q < length h'" using q h' by simp
  ultimately show ?thesis
    using Some p' by (auto simp: pointerView_def)
qed

text \<open>The copy is not part of the storage its own value owns.\<close>

lemma copyPointer_target:
  assumes wf: "pointerWf K W h p" and cp: "copyPointer K cp p h = (Some q, h')"
  shows "q \<notin> A h' (loadCell K h' q)" and "length h \<le> q"
proof -
  from cp obtain a where p: "p = Some a" by (cases p) (auto simp: copyPointer_def)
  let ?h1 = "h @ [mkArr K [zeroOf K]]"
  have a: "cell_ok K h a" "W h (loadCell K h a)" using wf p by simp_all
  then have load: "loadCell K ?h1 a = loadCell K h a"
    by (simp add: loadCell_def cell_ok_def nth_append)
  obtain y h2 where y: "cp (loadCell K h a) ?h1 = (y, h2)" by fastforce
  from cp p y load have q: "q = length h" and h': "h' = storeCell K q y h2"
    by (auto simp: copyPointer_def newCell_def)
  note new = copies [OF keep(3) [OF a(2) extends_snoc] y]
  have ok: "cell_ok K h2 q"
    using new newCell_ok(1) [OF kind, of h "zeroOf K"] by (auto simp: cell_ok_def extends_def q)
  have out: "W h2 y" "q \<notin> A h2 y" using new by (force simp: q)+
  show "q \<notin> A h' (loadCell K h' q)"
    using write_elsewhere(2) [OF out] out(2) loadCell_storeCell [OF kind ok]
    by (simp add: h' storeCell_def)
  show "length h \<le> q" by (simp add: q)
qed

end

sublocale pointer_copy \<subseteq> pointer: deep_copy "copyPointer K cp" "pointerView K V" "pointerOwns K A"
  "pointerWf K W"
  using pointer_reads pointer_owned copyPointer_copies by unfold_locales blast+

context pointer_copy begin

lemma pointer_deep_copy:
  "deep_copy (copyPointer K cp) (pointerView K V) (pointerOwns K A) (pointerWf K W)"
  by (rule pointer.deep_copy_axioms)

end

end
