(* ===== verification/Slice_Facts.thy ===== *)
theory Slice_Facts
  imports Copy_Loops
begin

text \<open>
  Writing an element of a slice and appending to one, for elements that own storage: what a
  reader of the slice sees, and which cells change.
\<close>

lemma take_last_update: "n < length zs \<Longrightarrow> (take (Suc n) zs)[n := x] = take n zs @ [x]"
  by (simp add: take_Suc_conv_app_nth list_update_append)

context slice_copy begin

lemma write_array:
  assumes "W h x" and "a \<notin> A h x"
  shows "V (h[a := c]) x = V h x" "A (h[a := c]) x = A h x" "W (h[a := c]) x"
  using write_elsewhere [OF assms] by simp_all

text \<open>Cell \<open>a\<close> of the heap now holds an array whose part \<open>xs\<close> the slice covers.\<close>

lemma slice_rewritten:
  assumes xs: "take n (drop i ys) = xs" "n \<le> c" "i + c \<le> length ys"
    and a: "a < length h" and each: "\<And>x. x \<in> set xs \<Longrightarrow> W h x \<and> a \<notin> A h x"
  shows "sliceView K V (h[a := mkArr K ys]) (Slice a i n c) = map (V h) xs"
    and "sliceWf K A W (h[a := mkArr K ys]) (Slice a i n c)"
    and "sliceOwns K A (h[a := mkArr K ys]) (Slice a i n c) = insert a (\<Union>x \<in> set xs. A h x)"
proof -
  let ?h = "h[a := mkArr K ys]"
  have el: "elems K ?h (Slice a i n c) = xs" using a xs by (simp add: kind_okD [OF kind])
  have w: "V ?h x = V h x \<and> A ?h x = A h x \<and> W ?h x" if "x \<in> set xs" for x
    using write_array each [OF that] by blast
  show "sliceView K V ?h (Slice a i n c) = map (V h) xs"
    using w by (simp add: sliceView_def el del: elems.simps)
  show "sliceWf K A W ?h (Slice a i n c)"
    using w each a xs(2,3)
    by (auto simp: sliceWf_def el list_all_iff kind_okD [OF kind] simp del: elems.simps)
  show "sliceOwns K A ?h (Slice a i n c) = insert a (\<Union>x \<in> set xs. A h x)"
    using w by (simp add: el del: elems.simps)
qed

lemma sliceWf_Slice:
  "sliceWf K A W h (Slice a i n c) \<longleftrightarrow> a < length h \<and> n \<le> c \<and> i + c \<le> length (arrOf K (h ! a)) \<and>
     (\<forall>x \<in> set (elems K h (Slice a i n c)). W h x \<and> a \<notin> A h x)"
  by (auto simp: sliceWf_def list_all_iff simp del: elems.simps)

lemma storeElem_spec:
  assumes wf: "sliceWf K A W h s" and j: "j < goLen s"
    and x: "W h x" "sliceAddr s \<inter> A h x = {}"
  shows "sliceView K V (storeElem K s j x h) s = (sliceView K V h s)[j := V h x]"
    and "sliceWf K A W (storeElem K s j x h) s"
    and "sliceOwns K A (storeElem K s j x h) s \<subseteq> sliceOwns K A h s \<union> A h x"
    and "\<forall>a < length h. a \<notin> sliceAddr s \<longrightarrow> storeElem K s j x h ! a = h ! a"
proof -
  from j obtain a i n c where s: "s = Slice a i n c" by (cases s) auto
  let ?ys = "(arrOf K (h ! a))[i + j := x]" and ?xs = "(elems K h s)[j := x]"
  note w = wf [unfolded s sliceWf_Slice]
  have 1: "take n (drop i ?ys) = ?xs"
    using w j s by (simp add: drop_update_swap take_update_swap)
  have 2: "n \<le> c" "i + c \<le> length ?ys" "a < length h" using w by simp_all
  have sub: "set ?xs \<subseteq> insert x (set (elems K h s))" by (rule set_update_subset_insert)
  have 3: "W h z \<and> a \<notin> A h z" if "z \<in> set ?xs" for z
    using that sub w x s by auto
  note new = slice_rewritten [OF 1 2(1,2,3) 3]
  have st: "storeElem K s j x h = h[a := mkArr K ?ys]" by (simp add: s)
  show "sliceView K V (storeElem K s j x h) s = (sliceView K V h s)[j := V h x]"
    unfolding st using new(1) by (simp add: s map_update sliceView_def del: elems.simps)
  show "sliceWf K A W (storeElem K s j x h) s" unfolding st using new(2) by (simp add: s)
  show "sliceOwns K A (storeElem K s j x h) s \<subseteq> sliceOwns K A h s \<union> A h x"
    unfolding st using new(3) sub s by (auto simp del: elems.simps)
  show "\<forall>a < length h. a \<notin> sliceAddr s \<longrightarrow> storeElem K s j x h ! a = h ! a"
    unfolding st by (simp add: s)
qed

lemma appendElem_spec:
  assumes wf: "sliceWf K A W h s" and x: "W h x" "sliceAddr s \<inter> A h x = {}"
    and app: "appendElem K s x h = (s', h')"
  shows "sliceView K V h' s' = sliceView K V h s @ [V h x]"
    and "sliceWf K A W h' s'"
    and "sliceOwns K A h' s' \<subseteq> sliceOwns K A h s \<union> A h x \<union> {length h..<length h'}"
    and "sliceAddr s' \<subseteq> sliceAddr s \<union> {length h..<length h'}"
    and "length h \<le> length h'"
    and "\<forall>a < length h. a \<notin> sliceAddr s \<longrightarrow> h' ! a = h ! a"
proof -
  show "sliceView K V h' s' = sliceView K V h s @ [V h x]" (is ?view)
    and "sliceWf K A W h' s'" (is ?wf)
    and "sliceOwns K A h' s' \<subseteq> sliceOwns K A h s \<union> A h x \<union> {length h..<length h'}" (is ?owns)
    and "sliceAddr s' \<subseteq> sliceAddr s \<union> {length h..<length h'}" (is ?addr)
    and "length h \<le> length h'" (is ?len)
    and "\<forall>a < length h. a \<notin> sliceAddr s \<longrightarrow> h' ! a = h ! a" (is ?frame)
  proof -
    let ?xs = "elems K h s @ [x]"
    have all: "W h z" "sliceAddr s \<inter> A h z = {}" if "z \<in> set ?xs" for z
      using that wf x by (auto simp: sliceWf_def list_all_iff)
    have grown: ?view ?wf ?owns ?addr ?len ?frame
      if new: "h' = h @ [mkArr K (?xs @ replicate m (zeroOf K))]"
        "s' = Slice (length h) 0 (length ?xs) (length ?xs + m)" for m
    proof -
      let ?g = "h @ [mkArr K []]"
      have h': "h' = ?g[length h := mkArr K (?xs @ replicate m (zeroOf K))]"
        by (simp add: new)
      have each: "W ?g z \<and> length h \<notin> A ?g z" if "z \<in> set ?xs" for z
        using keep [OF all(1) [OF that] extends_snoc] owned [OF all(1) [OF that]] by auto
      have pre: "take (length ?xs) (drop 0 (?xs @ replicate m (zeroOf K))) = ?xs"
        "length ?xs \<le> length ?xs + m" "0 + (length ?xs + m) \<le> length (?xs @ replicate m (zeroOf K))"
        "length h < length ?g" by simp_all
      note r = slice_rewritten [OF pre each, folded h' new(2)]
      have v: "V ?g z = V h z" "A ?g z = A h z" if "z \<in> set ?xs" for z
        using keep [OF all(1) [OF that] extends_snoc] by simp_all
      show ?view using r(1) v by (simp add: sliceView_def)
      show ?wf using r(2) by simp
      have "(\<Union>z \<in> set (elems K h s). A h z) \<subseteq> sliceOwns K A h s" by (cases s) auto
      moreover have "sliceOwns K A h' s' = insert (length h) (\<Union>z \<in> set ?xs. A h z)"
        using r(3) v by simp
      ultimately show ?owns by (auto simp: new(1))
      show ?addr ?len ?frame by (auto simp: new nth_append)
    qed
    have "?view \<and> ?wf \<and> ?owns \<and> ?addr \<and> ?len \<and> ?frame"
    proof (cases s)
      case NilSlice
      with app grown [of "spareOf K 1"]
      show ?thesis by auto
    next
      case (Slice a i n c)
      note w = wf [unfolded Slice sliceWf_Slice]
      have "slice_ok K h s" using wf by (simp add: sliceWf_def)
      from length_elems [OF this] have n: "length (elems K h s) = n" by (simp add: Slice)
      show ?thesis
      proof (cases "n < c")
        case False
        with app Slice n have "h' = h @ [mkArr K (?xs @ replicate (spareOf K (Suc n)) (zeroOf K))]"
          "s' = Slice (length h) 0 (length ?xs) (length ?xs + spareOf K (Suc n))"
          by (simp_all del: elems.simps)
        from grown [OF this] show ?thesis by blast
      next
        case True
        let ?ys = "(arrOf K (h ! a))[i + n := x]"
        from app Slice True have s': "s' = Slice a i (Suc n) c" and h': "h' = h[a := mkArr K ?ys]"
          by auto
        from w have "i + c \<le> length (arrOf K (h ! a))" by blast
        with True have "n < length (drop i (arrOf K (h ! a)))" by simp
        then have "take (Suc n) (drop i ?ys) = ?xs"
          by (simp add: Slice drop_update_swap take_update_swap take_last_update)
        note r = slice_rewritten [OF this, of c a h, folded h' s']
        have each: "W h z \<and> a \<notin> A h z" if "z \<in> set ?xs" for z using all [OF that] Slice by auto
        have pre: "Suc n \<le> c" "i + c \<le> length ?ys" "a < length h" using w True by simp_all
        note r = r [OF pre each]
        have ?view using r(1) by (simp add: sliceView_def)
        moreover have ?owns using r(3) Slice by (auto simp del: elems.simps)
        moreover have ?addr ?len ?frame by (auto simp: h' s' Slice)
        ultimately show ?thesis using r(2) by blast
      qed
    qed
    then show ?view ?wf ?owns ?addr ?len ?frame by blast+
  qed
qed

end

end
