(* ===== verification/Stored_Types.thy ===== *)
theory Stored_Types
  imports Slice_Facts Mapping_Api Binding_Api
begin

text \<open>
  The API structs as Go stores them: a field that is a slice holds a slice header, a field that
  is a pointer an address. \<open>Mapping_Api\<close> and \<open>Binding_Api\<close> describe the same structs by
  value; the views of \<open>Deep_Copy\<close> read one as the other. A cell of the heap holds the array of
  one of these types, or of one of the dies of \<open>dies/v1beta1\<close>, which wrap them.
\<close>

section \<open>Structs\<close>

record typeMeta =
  tm_Kind :: string
  tm_APIVersion :: string

type_synonym listMeta = opaque

record gTemplate =
  gt_Version :: string
  gt_Annotations :: string
  gt_Containers :: goSlice
  gt_Volumes :: string

record gMappingSpec =
  gms_Versions :: goSlice

record gMapping =
  gm_TypeMeta :: typeMeta
  gm_ObjectMeta :: objectMeta
  gm_Spec :: gMappingSpec

record gMappingList =
  gml_TypeMeta :: typeMeta
  gml_ListMeta :: listMeta
  gml_Items :: goSlice

record gWorkloadReference =
  gw_APIVersion :: string
  gw_Kind :: string
  gw_Name :: string
  gw_Selector :: "addr option"
  gw_Containers :: goSlice

record gBindingSpec =
  gs_Name :: string
  gs_Type :: string
  gs_Provider :: string
  gs_Workload :: gWorkloadReference
  gs_Service :: serviceReference
  gs_Env :: goSlice

record gBindingStatus =
  gst_ObservedGeneration :: int
  gst_Conditions :: goSlice
  gst_Binding :: "addr option"

record gBinding =
  gb_TypeMeta :: typeMeta
  gb_ObjectMeta :: objectMeta
  gb_Spec :: gBindingSpec
  gb_Status :: gBindingStatus

record gBindingList =
  gbl_TypeMeta :: typeMeta
  gbl_ListMeta :: listMeta
  gbl_Items :: goSlice

text \<open>
  A die wraps a resource \<open>r\<close>. The two object dies also embed \<open>FrozenObjectMeta\<close>, kept as the
  metadata it was frozen from; the other dies have none.
\<close>

record 'r die =
  d_mutable :: bool
  d_Frozen :: "objectMeta option"
  d_r :: 'r

section \<open>Cells\<close>

datatype cell =
    Strings "string list"
  | Conditions "condition list"
  | LabelSelectors "labelSelector list"
  | EnvMappings "envMapping list"
  | MappingContainers "mappingContainer list"
  | MappingTemplates "gTemplate list"
  | MappingSpecs "gMappingSpec list"
  | Mappings "gMapping list"
  | MappingLists "gMappingList list"
  | SecretReferences "secretReference list"
  | ServiceReferences "serviceReference list"
  | WorkloadReferences "gWorkloadReference list"
  | BindingSpecs "gBindingSpec list"
  | BindingStatuses "gBindingStatus list"
  | Bindings "gBinding list"
  | BindingLists "gBindingList list"
  | EnvMappingDies "envMapping die list"
  | MappingContainerDies "mappingContainer die list"
  | MappingTemplateDies "gTemplate die list"
  | MappingSpecDies "gMappingSpec die list"
  | MappingDies "gMapping die list"
  | SecretReferenceDies "secretReference die list"
  | ServiceReferenceDies "serviceReference die list"
  | WorkloadReferenceDies "gWorkloadReference die list"
  | BindingSpecDies "gBindingSpec die list"
  | BindingStatusDies "gBindingStatus die list"
  | BindingDies "gBinding die list"

type_synonym store = "cell heap"

text \<open>
  The zero values of Go. The zero status of a condition is the empty string, which is none of
  the three statuses; such a condition only fills fresh arrays until they are written.
\<close>

definition zeroMeta :: objectMeta where
  "zeroMeta = \<lparr>om_Name = '''', om_Namespace = '''', om_UID = '''', om_ResourceVersion = '''',
     om_Labels = [], om_DeletionTimestamp = None\<rparr>"

definition zeroTypeMeta :: typeMeta where
  "zeroTypeMeta = \<lparr>tm_Kind = '''', tm_APIVersion = ''''\<rparr>"

definition zeroCondition :: condition where
  "zeroCondition = \<lparr>c_Type = '''', c_Status = ConditionUnknown, c_Reason = '''', c_Message = ''''\<rparr>"

definition zeroTemplate :: gTemplate where
  "zeroTemplate = \<lparr>gt_Version = '''', gt_Annotations = '''', gt_Containers = NilSlice,
     gt_Volumes = ''''\<rparr>"

definition zeroMapping :: gMapping where
  "zeroMapping = \<lparr>gm_TypeMeta = zeroTypeMeta, gm_ObjectMeta = zeroMeta,
     gm_Spec = \<lparr>gms_Versions = NilSlice\<rparr>\<rparr>"

definition zeroWorkload :: gWorkloadReference where
  "zeroWorkload = \<lparr>gw_APIVersion = '''', gw_Kind = '''', gw_Name = '''', gw_Selector = None,
     gw_Containers = NilSlice\<rparr>"

definition zeroService :: serviceReference where
  "zeroService = \<lparr>sr_APIVersion = '''', sr_Kind = '''', sr_Name = ''''\<rparr>"

definition zeroSpec :: gBindingSpec where
  "zeroSpec = \<lparr>gs_Name = '''', gs_Type = '''', gs_Provider = '''', gs_Workload = zeroWorkload,
     gs_Service = zeroService, gs_Env = NilSlice\<rparr>"

definition zeroStatus :: gBindingStatus where
  "zeroStatus = \<lparr>gst_ObservedGeneration = 0, gst_Conditions = NilSlice, gst_Binding = None\<rparr>"

definition zeroBinding :: gBinding where
  "zeroBinding = \<lparr>gb_TypeMeta = zeroTypeMeta, gb_ObjectMeta = zeroMeta, gb_Spec = zeroSpec,
     gb_Status = zeroStatus\<rparr>"

definition zeroDie :: "objectMeta option \<Rightarrow> 'r \<Rightarrow> 'r die" where
  "zeroDie f r = \<lparr>d_mutable = False, d_Frozen = f, d_r = r\<rparr>"

section \<open>Kinds\<close>

text \<open>The spare room \<open>append\<close> leaves; no proof looks into it.\<close>

definition spare :: "nat \<Rightarrow> nat" where "spare n = n - 1"

definition stringKind :: "(string, cell) kind" where
  "stringKind = \<lparr>mkArr = Strings, arrOf = (\<lambda>c. case c of Strings xs \<Rightarrow> xs | _ \<Rightarrow> []),
     zeroOf = '''', spareOf = spare\<rparr>"

definition conditionKind :: "(condition, cell) kind" where
  "conditionKind = \<lparr>mkArr = Conditions, arrOf = (\<lambda>c. case c of Conditions xs \<Rightarrow> xs | _ \<Rightarrow> []),
     zeroOf = zeroCondition, spareOf = spare\<rparr>"

definition labelSelectorKind :: "(labelSelector, cell) kind" where
  "labelSelectorKind = \<lparr>mkArr = LabelSelectors, arrOf = (\<lambda>c. case c of LabelSelectors xs \<Rightarrow> xs | _ \<Rightarrow> []),
     zeroOf = JObj [], spareOf = spare\<rparr>"

definition envMappingKind :: "(envMapping, cell) kind" where
  "envMappingKind = \<lparr>mkArr = EnvMappings, arrOf = (\<lambda>c. case c of EnvMappings xs \<Rightarrow> xs | _ \<Rightarrow> []),
     zeroOf = \<lparr>em_Name = '''', em_Key = ''''\<rparr>, spareOf = spare\<rparr>"

definition mappingContainerKind :: "(mappingContainer, cell) kind" where
  "mappingContainerKind = \<lparr>mkArr = MappingContainers, arrOf = (\<lambda>c. case c of MappingContainers xs \<Rightarrow> xs | _ \<Rightarrow> []),
     zeroOf = \<lparr>mc_Path = '''', mc_Name = '''', mc_Env = '''', mc_VolumeMounts = ''''\<rparr>, spareOf = spare\<rparr>"

definition mappingTemplateKind :: "(gTemplate, cell) kind" where
  "mappingTemplateKind = \<lparr>mkArr = MappingTemplates, arrOf = (\<lambda>c. case c of MappingTemplates xs \<Rightarrow> xs | _ \<Rightarrow> []),
     zeroOf = zeroTemplate, spareOf = spare\<rparr>"

definition mappingSpecKind :: "(gMappingSpec, cell) kind" where
  "mappingSpecKind = \<lparr>mkArr = MappingSpecs, arrOf = (\<lambda>c. case c of MappingSpecs xs \<Rightarrow> xs | _ \<Rightarrow> []),
     zeroOf = \<lparr>gms_Versions = NilSlice\<rparr>, spareOf = spare\<rparr>"

definition mappingKind :: "(gMapping, cell) kind" where
  "mappingKind = \<lparr>mkArr = Mappings, arrOf = (\<lambda>c. case c of Mappings xs \<Rightarrow> xs | _ \<Rightarrow> []),
     zeroOf = zeroMapping, spareOf = spare\<rparr>"

definition mappingListKind :: "(gMappingList, cell) kind" where
  "mappingListKind = \<lparr>mkArr = MappingLists, arrOf = (\<lambda>c. case c of MappingLists xs \<Rightarrow> xs | _ \<Rightarrow> []),
     zeroOf = \<lparr>gml_TypeMeta = zeroTypeMeta, gml_ListMeta = [], gml_Items = NilSlice\<rparr>, spareOf = spare\<rparr>"

definition secretReferenceKind :: "(secretReference, cell) kind" where
  "secretReferenceKind = \<lparr>mkArr = SecretReferences, arrOf = (\<lambda>c. case c of SecretReferences xs \<Rightarrow> xs | _ \<Rightarrow> []),
     zeroOf = \<lparr>sec_Name = ''''\<rparr>, spareOf = spare\<rparr>"

definition serviceReferenceKind :: "(serviceReference, cell) kind" where
  "serviceReferenceKind = \<lparr>mkArr = ServiceReferences, arrOf = (\<lambda>c. case c of ServiceReferences xs \<Rightarrow> xs | _ \<Rightarrow> []),
     zeroOf = zeroService, spareOf = spare\<rparr>"

definition workloadReferenceKind :: "(gWorkloadReference, cell) kind" where
  "workloadReferenceKind = \<lparr>mkArr = WorkloadReferences, arrOf = (\<lambda>c. case c of WorkloadReferences xs \<Rightarrow> xs | _ \<Rightarrow> []),
     zeroOf = zeroWorkload, spareOf = spare\<rparr>"

definition bindingSpecKind :: "(gBindingSpec, cell) kind" where
  "bindingSpecKind = \<lparr>mkArr = BindingSpecs, arrOf = (\<lambda>c. case c of BindingSpecs xs \<Rightarrow> xs | _ \<Rightarrow> []),
     zeroOf = zeroSpec, spareOf = spare\<rparr>"

definition bindingStatusKind :: "(gBindingStatus, cell) kind" where
  "bindingStatusKind = \<lparr>mkArr = BindingStatuses, arrOf = (\<lambda>c. case c of BindingStatuses xs \<Rightarrow> xs | _ \<Rightarrow> []),
     zeroOf = zeroStatus, spareOf = spare\<rparr>"

definition bindingKind :: "(gBinding, cell) kind" where
  "bindingKind = \<lparr>mkArr = Bindings, arrOf = (\<lambda>c. case c of Bindings xs \<Rightarrow> xs | _ \<Rightarrow> []),
     zeroOf = zeroBinding, spareOf = spare\<rparr>"

definition bindingListKind :: "(gBindingList, cell) kind" where
  "bindingListKind = \<lparr>mkArr = BindingLists, arrOf = (\<lambda>c. case c of BindingLists xs \<Rightarrow> xs | _ \<Rightarrow> []),
     zeroOf = \<lparr>gbl_TypeMeta = zeroTypeMeta, gbl_ListMeta = [], gbl_Items = NilSlice\<rparr>, spareOf = spare\<rparr>"

definition envMappingDieKind :: "(envMapping die, cell) kind" where
  "envMappingDieKind = \<lparr>mkArr = EnvMappingDies, arrOf = (\<lambda>c. case c of EnvMappingDies xs \<Rightarrow> xs | _ \<Rightarrow> []),
     zeroOf = zeroDie None (zeroOf envMappingKind), spareOf = spare\<rparr>"

definition mappingContainerDieKind :: "(mappingContainer die, cell) kind" where
  "mappingContainerDieKind = \<lparr>mkArr = MappingContainerDies, arrOf = (\<lambda>c. case c of MappingContainerDies xs \<Rightarrow> xs | _ \<Rightarrow> []),
     zeroOf = zeroDie None (zeroOf mappingContainerKind), spareOf = spare\<rparr>"

definition mappingTemplateDieKind :: "(gTemplate die, cell) kind" where
  "mappingTemplateDieKind = \<lparr>mkArr = MappingTemplateDies, arrOf = (\<lambda>c. case c of MappingTemplateDies xs \<Rightarrow> xs | _ \<Rightarrow> []),
     zeroOf = zeroDie None zeroTemplate, spareOf = spare\<rparr>"

definition mappingSpecDieKind :: "(gMappingSpec die, cell) kind" where
  "mappingSpecDieKind = \<lparr>mkArr = MappingSpecDies, arrOf = (\<lambda>c. case c of MappingSpecDies xs \<Rightarrow> xs | _ \<Rightarrow> []),
     zeroOf = zeroDie None (zeroOf mappingSpecKind), spareOf = spare\<rparr>"

definition mappingDieKind :: "(gMapping die, cell) kind" where
  "mappingDieKind = \<lparr>mkArr = MappingDies, arrOf = (\<lambda>c. case c of MappingDies xs \<Rightarrow> xs | _ \<Rightarrow> []),
     zeroOf = zeroDie (Some zeroMeta) zeroMapping, spareOf = spare\<rparr>"

definition secretReferenceDieKind :: "(secretReference die, cell) kind" where
  "secretReferenceDieKind = \<lparr>mkArr = SecretReferenceDies, arrOf = (\<lambda>c. case c of SecretReferenceDies xs \<Rightarrow> xs | _ \<Rightarrow> []),
     zeroOf = zeroDie None (zeroOf secretReferenceKind), spareOf = spare\<rparr>"

definition serviceReferenceDieKind :: "(serviceReference die, cell) kind" where
  "serviceReferenceDieKind = \<lparr>mkArr = ServiceReferenceDies, arrOf = (\<lambda>c. case c of ServiceReferenceDies xs \<Rightarrow> xs | _ \<Rightarrow> []),
     zeroOf = zeroDie None zeroService, spareOf = spare\<rparr>"

definition workloadReferenceDieKind :: "(gWorkloadReference die, cell) kind" where
  "workloadReferenceDieKind = \<lparr>mkArr = WorkloadReferenceDies, arrOf = (\<lambda>c. case c of WorkloadReferenceDies xs \<Rightarrow> xs | _ \<Rightarrow> []),
     zeroOf = zeroDie None zeroWorkload, spareOf = spare\<rparr>"

definition bindingSpecDieKind :: "(gBindingSpec die, cell) kind" where
  "bindingSpecDieKind = \<lparr>mkArr = BindingSpecDies, arrOf = (\<lambda>c. case c of BindingSpecDies xs \<Rightarrow> xs | _ \<Rightarrow> []),
     zeroOf = zeroDie None zeroSpec, spareOf = spare\<rparr>"

definition bindingStatusDieKind :: "(gBindingStatus die, cell) kind" where
  "bindingStatusDieKind = \<lparr>mkArr = BindingStatusDies, arrOf = (\<lambda>c. case c of BindingStatusDies xs \<Rightarrow> xs | _ \<Rightarrow> []),
     zeroOf = zeroDie None zeroStatus, spareOf = spare\<rparr>"

definition bindingDieKind :: "(gBinding die, cell) kind" where
  "bindingDieKind = \<lparr>mkArr = BindingDies, arrOf = (\<lambda>c. case c of BindingDies xs \<Rightarrow> xs | _ \<Rightarrow> []),
     zeroOf = zeroDie (Some zeroMeta) zeroBinding, spareOf = spare\<rparr>"

lemmas kind_defs =
  stringKind_def
  conditionKind_def
  labelSelectorKind_def
  envMappingKind_def
  mappingContainerKind_def
  mappingTemplateKind_def
  mappingSpecKind_def
  mappingKind_def
  mappingListKind_def
  secretReferenceKind_def
  serviceReferenceKind_def
  workloadReferenceKind_def
  bindingSpecKind_def
  bindingStatusKind_def
  bindingKind_def
  bindingListKind_def
  envMappingDieKind_def
  mappingContainerDieKind_def
  mappingTemplateDieKind_def
  mappingSpecDieKind_def
  mappingDieKind_def
  secretReferenceDieKind_def
  serviceReferenceDieKind_def
  workloadReferenceDieKind_def
  bindingSpecDieKind_def
  bindingStatusDieKind_def
  bindingDieKind_def

lemma kinds_ok [simp]:
  "kind_ok stringKind"
  "kind_ok conditionKind"
  "kind_ok labelSelectorKind"
  "kind_ok envMappingKind"
  "kind_ok mappingContainerKind"
  "kind_ok mappingTemplateKind"
  "kind_ok mappingSpecKind"
  "kind_ok mappingKind"
  "kind_ok mappingListKind"
  "kind_ok secretReferenceKind"
  "kind_ok serviceReferenceKind"
  "kind_ok workloadReferenceKind"
  "kind_ok bindingSpecKind"
  "kind_ok bindingStatusKind"
  "kind_ok bindingKind"
  "kind_ok bindingListKind"
  "kind_ok envMappingDieKind"
  "kind_ok mappingContainerDieKind"
  "kind_ok mappingTemplateDieKind"
  "kind_ok mappingSpecDieKind"
  "kind_ok mappingDieKind"
  "kind_ok secretReferenceDieKind"
  "kind_ok serviceReferenceDieKind"
  "kind_ok workloadReferenceDieKind"
  "kind_ok bindingSpecDieKind"
  "kind_ok bindingStatusDieKind"
  "kind_ok bindingDieKind"
  by (simp_all add: kind_ok_def kind_defs)

end
