(* ===== verification/Deep_Copy.thy ===== *)
theory Deep_Copy
  imports Stored_Types
begin

text \<open>
  \<open>apis/v1beta1/zz_generated.deepcopy.go\<close> on the heap. \<open>DeepCopyInto\<close> gives the struct it
  leaves in \<open>*out\<close>, which its first statement \<open>*out = *in\<close> overwrites whole, so \<open>out\<close> is
  a result and not an argument; \<open>out\<close> is a different variable than \<open>in\<close> everywhere in the
  program. The structs of apimachinery are kept by value, and their own \<open>DeepCopyInto\<close> are the
  fields of the argument \<open>L\<close>.
\<close>

section \<open>Copies of apimachinery\<close>

record copiers =
  cp_ObjectMeta :: "objectMeta \<Rightarrow> objectMeta"
  cp_ListMeta :: "listMeta \<Rightarrow> listMeta"
  cp_Condition :: "condition \<Rightarrow> condition"
  cp_LabelSelector :: "labelSelector \<Rightarrow> labelSelector"

text \<open>Their documented behaviour: the copy is equal to the receiver.\<close>

definition copiers_ok :: "copiers \<Rightarrow> bool" where
  "copiers_ok L \<longleftrightarrow> (\<forall>x. cp_ObjectMeta L x = x) \<and> (\<forall>x. cp_ListMeta L x = x) \<and>
     (\<forall>x. cp_Condition L x = x) \<and> (\<forall>x. cp_LabelSelector L x = x)"

definition copiedBy :: "('e \<Rightarrow> 'e) \<Rightarrow> 'e \<Rightarrow> 'c heap \<Rightarrow> 'e \<times> 'c heap" where
  "copiedBy f x h = (f x, h)"

text \<open>A \<open>runtime.Object\<close>: nil, or a pointer to one of the four API objects.\<close>

datatype runtimeObject =
    MappingObject addr
  | MappingListObject addr
  | BindingObject addr
  | BindingListObject addr

section \<open>ClusterWorkloadResourceMapping\<close>

definition ClusterWorkloadResourceMappingContainer_DeepCopyInto ::
  "mappingContainer \<Rightarrow> store \<Rightarrow> mappingContainer \<times> store" where
  "ClusterWorkloadResourceMappingContainer_DeepCopyInto inp h = (inp, h)"

definition ClusterWorkloadResourceMappingContainer_DeepCopy ::
  "addr option \<Rightarrow> store \<Rightarrow> addr option \<times> store" where
  "ClusterWorkloadResourceMappingContainer_DeepCopy =
     copyPointer mappingContainerKind ClusterWorkloadResourceMappingContainer_DeepCopyInto"

definition ClusterWorkloadResourceMappingTemplate_DeepCopyInto ::
  "gTemplate \<Rightarrow> store \<Rightarrow> gTemplate \<times> store" where
  "ClusterWorkloadResourceMappingTemplate_DeepCopyInto inp h =
     (let out = inp;
          (containers, h) = copySlice mappingContainerKind (gt_Containers inp) h
      in (out\<lparr>gt_Containers := containers\<rparr>, h))"

definition ClusterWorkloadResourceMappingTemplate_DeepCopy ::
  "addr option \<Rightarrow> store \<Rightarrow> addr option \<times> store" where
  "ClusterWorkloadResourceMappingTemplate_DeepCopy =
     copyPointer mappingTemplateKind ClusterWorkloadResourceMappingTemplate_DeepCopyInto"

definition ClusterWorkloadResourceMappingSpec_DeepCopyInto ::
  "gMappingSpec \<Rightarrow> store \<Rightarrow> gMappingSpec \<times> store" where
  "ClusterWorkloadResourceMappingSpec_DeepCopyInto inp h =
     (let out = inp;
          (versions, h) = deepCopySlice mappingTemplateKind
            ClusterWorkloadResourceMappingTemplate_DeepCopyInto (gms_Versions inp) h
      in (out\<lparr>gms_Versions := versions\<rparr>, h))"

definition ClusterWorkloadResourceMappingSpec_DeepCopy ::
  "addr option \<Rightarrow> store \<Rightarrow> addr option \<times> store" where
  "ClusterWorkloadResourceMappingSpec_DeepCopy =
     copyPointer mappingSpecKind ClusterWorkloadResourceMappingSpec_DeepCopyInto"

definition ClusterWorkloadResourceMapping_DeepCopyInto ::
  "copiers \<Rightarrow> gMapping \<Rightarrow> store \<Rightarrow> gMapping \<times> store" where
  "ClusterWorkloadResourceMapping_DeepCopyInto L inp h =
     (let out = inp;
          out = out\<lparr>gm_TypeMeta := gm_TypeMeta inp\<rparr>;
          out = out\<lparr>gm_ObjectMeta := cp_ObjectMeta L (gm_ObjectMeta inp)\<rparr>;
          (spec, h) = ClusterWorkloadResourceMappingSpec_DeepCopyInto (gm_Spec inp) h
      in (out\<lparr>gm_Spec := spec\<rparr>, h))"

definition ClusterWorkloadResourceMapping_DeepCopy ::
  "copiers \<Rightarrow> addr option \<Rightarrow> store \<Rightarrow> addr option \<times> store" where
  "ClusterWorkloadResourceMapping_DeepCopy L =
     copyPointer mappingKind (ClusterWorkloadResourceMapping_DeepCopyInto L)"

definition ClusterWorkloadResourceMapping_DeepCopyObject ::
  "copiers \<Rightarrow> addr option \<Rightarrow> store \<Rightarrow> runtimeObject option \<times> store" where
  "ClusterWorkloadResourceMapping_DeepCopyObject L inp h =
     (case ClusterWorkloadResourceMapping_DeepCopy L inp h of
        (Some c, h) \<Rightarrow> (Some (MappingObject c), h) | (None, h) \<Rightarrow> (None, h))"

definition ClusterWorkloadResourceMappingList_DeepCopyInto ::
  "copiers \<Rightarrow> gMappingList \<Rightarrow> store \<Rightarrow> gMappingList \<times> store" where
  "ClusterWorkloadResourceMappingList_DeepCopyInto L inp h =
     (let out = inp;
          out = out\<lparr>gml_TypeMeta := gml_TypeMeta inp\<rparr>;
          out = out\<lparr>gml_ListMeta := cp_ListMeta L (gml_ListMeta inp)\<rparr>;
          (items, h) = deepCopySlice mappingKind
            (ClusterWorkloadResourceMapping_DeepCopyInto L) (gml_Items inp) h
      in (out\<lparr>gml_Items := items\<rparr>, h))"

definition ClusterWorkloadResourceMappingList_DeepCopy ::
  "copiers \<Rightarrow> addr option \<Rightarrow> store \<Rightarrow> addr option \<times> store" where
  "ClusterWorkloadResourceMappingList_DeepCopy L =
     copyPointer mappingListKind (ClusterWorkloadResourceMappingList_DeepCopyInto L)"

definition ClusterWorkloadResourceMappingList_DeepCopyObject ::
  "copiers \<Rightarrow> addr option \<Rightarrow> store \<Rightarrow> runtimeObject option \<times> store" where
  "ClusterWorkloadResourceMappingList_DeepCopyObject L inp h =
     (case ClusterWorkloadResourceMappingList_DeepCopy L inp h of
        (Some c, h) \<Rightarrow> (Some (MappingListObject c), h) | (None, h) \<Rightarrow> (None, h))"

section \<open>ServiceBinding\<close>

definition EnvMapping_DeepCopyInto :: "envMapping \<Rightarrow> store \<Rightarrow> envMapping \<times> store" where
  "EnvMapping_DeepCopyInto inp h = (inp, h)"

definition EnvMapping_DeepCopy :: "addr option \<Rightarrow> store \<Rightarrow> addr option \<times> store" where
  "EnvMapping_DeepCopy = copyPointer envMappingKind EnvMapping_DeepCopyInto"

definition ServiceBindingSecretReference_DeepCopyInto ::
  "secretReference \<Rightarrow> store \<Rightarrow> secretReference \<times> store" where
  "ServiceBindingSecretReference_DeepCopyInto inp h = (inp, h)"

definition ServiceBindingSecretReference_DeepCopy ::
  "addr option \<Rightarrow> store \<Rightarrow> addr option \<times> store" where
  "ServiceBindingSecretReference_DeepCopy =
     copyPointer secretReferenceKind ServiceBindingSecretReference_DeepCopyInto"

definition ServiceBindingServiceReference_DeepCopyInto ::
  "serviceReference \<Rightarrow> store \<Rightarrow> serviceReference \<times> store" where
  "ServiceBindingServiceReference_DeepCopyInto inp h = (inp, h)"

definition ServiceBindingServiceReference_DeepCopy ::
  "addr option \<Rightarrow> store \<Rightarrow> addr option \<times> store" where
  "ServiceBindingServiceReference_DeepCopy =
     copyPointer serviceReferenceKind ServiceBindingServiceReference_DeepCopyInto"

definition ServiceBindingWorkloadReference_DeepCopyInto ::
  "copiers \<Rightarrow> gWorkloadReference \<Rightarrow> store \<Rightarrow> gWorkloadReference \<times> store" where
  "ServiceBindingWorkloadReference_DeepCopyInto L inp h =
     (let out = inp;
          (selector, h) = copyPointer labelSelectorKind (copiedBy (cp_LabelSelector L))
            (gw_Selector inp) h;
          out = out\<lparr>gw_Selector := selector\<rparr>;
          (containers, h) = copySlice stringKind (gw_Containers inp) h
      in (out\<lparr>gw_Containers := containers\<rparr>, h))"

definition ServiceBindingWorkloadReference_DeepCopy ::
  "copiers \<Rightarrow> addr option \<Rightarrow> store \<Rightarrow> addr option \<times> store" where
  "ServiceBindingWorkloadReference_DeepCopy L =
     copyPointer workloadReferenceKind (ServiceBindingWorkloadReference_DeepCopyInto L)"

definition ServiceBindingSpec_DeepCopyInto ::
  "copiers \<Rightarrow> gBindingSpec \<Rightarrow> store \<Rightarrow> gBindingSpec \<times> store" where
  "ServiceBindingSpec_DeepCopyInto L inp h =
     (let out = inp;
          (workload, h) = ServiceBindingWorkloadReference_DeepCopyInto L (gs_Workload inp) h;
          out = out\<lparr>gs_Workload := workload\<rparr>;
          out = out\<lparr>gs_Service := gs_Service inp\<rparr>;
          (env, h) = copySlice envMappingKind (gs_Env inp) h
      in (out\<lparr>gs_Env := env\<rparr>, h))"

definition ServiceBindingSpec_DeepCopy ::
  "copiers \<Rightarrow> addr option \<Rightarrow> store \<Rightarrow> addr option \<times> store" where
  "ServiceBindingSpec_DeepCopy L =
     copyPointer bindingSpecKind (ServiceBindingSpec_DeepCopyInto L)"

definition ServiceBindingStatus_DeepCopyInto ::
  "copiers \<Rightarrow> gBindingStatus \<Rightarrow> store \<Rightarrow> gBindingStatus \<times> store" where
  "ServiceBindingStatus_DeepCopyInto L inp h =
     (let out = inp;
          (conditions, h) = deepCopySlice conditionKind (copiedBy (cp_Condition L))
            (gst_Conditions inp) h;
          out = out\<lparr>gst_Conditions := conditions\<rparr>;
          (binding, h) = copyPointer secretReferenceKind plainCopy (gst_Binding inp) h
      in (out\<lparr>gst_Binding := binding\<rparr>, h))"

definition ServiceBindingStatus_DeepCopy ::
  "copiers \<Rightarrow> addr option \<Rightarrow> store \<Rightarrow> addr option \<times> store" where
  "ServiceBindingStatus_DeepCopy L =
     copyPointer bindingStatusKind (ServiceBindingStatus_DeepCopyInto L)"

definition ServiceBinding_DeepCopyInto ::
  "copiers \<Rightarrow> gBinding \<Rightarrow> store \<Rightarrow> gBinding \<times> store" where
  "ServiceBinding_DeepCopyInto L inp h =
     (let out = inp;
          out = out\<lparr>gb_TypeMeta := gb_TypeMeta inp\<rparr>;
          out = out\<lparr>gb_ObjectMeta := cp_ObjectMeta L (gb_ObjectMeta inp)\<rparr>;
          (spec, h) = ServiceBindingSpec_DeepCopyInto L (gb_Spec inp) h;
          out = out\<lparr>gb_Spec := spec\<rparr>;
          (status, h) = ServiceBindingStatus_DeepCopyInto L (gb_Status inp) h
      in (out\<lparr>gb_Status := status\<rparr>, h))"

definition ServiceBinding_DeepCopy ::
  "copiers \<Rightarrow> addr option \<Rightarrow> store \<Rightarrow> addr option \<times> store" where
  "ServiceBinding_DeepCopy L = copyPointer bindingKind (ServiceBinding_DeepCopyInto L)"

definition ServiceBinding_DeepCopyObject ::
  "copiers \<Rightarrow> addr option \<Rightarrow> store \<Rightarrow> runtimeObject option \<times> store" where
  "ServiceBinding_DeepCopyObject L inp h =
     (case ServiceBinding_DeepCopy L inp h of
        (Some c, h) \<Rightarrow> (Some (BindingObject c), h) | (None, h) \<Rightarrow> (None, h))"

definition ServiceBindingList_DeepCopyInto ::
  "copiers \<Rightarrow> gBindingList \<Rightarrow> store \<Rightarrow> gBindingList \<times> store" where
  "ServiceBindingList_DeepCopyInto L inp h =
     (let out = inp;
          out = out\<lparr>gbl_TypeMeta := gbl_TypeMeta inp\<rparr>;
          out = out\<lparr>gbl_ListMeta := cp_ListMeta L (gbl_ListMeta inp)\<rparr>;
          (items, h) = deepCopySlice bindingKind (ServiceBinding_DeepCopyInto L) (gbl_Items inp) h
      in (out\<lparr>gbl_Items := items\<rparr>, h))"

definition ServiceBindingList_DeepCopy ::
  "copiers \<Rightarrow> addr option \<Rightarrow> store \<Rightarrow> addr option \<times> store" where
  "ServiceBindingList_DeepCopy L =
     copyPointer bindingListKind (ServiceBindingList_DeepCopyInto L)"

definition ServiceBindingList_DeepCopyObject ::
  "copiers \<Rightarrow> addr option \<Rightarrow> store \<Rightarrow> runtimeObject option \<times> store" where
  "ServiceBindingList_DeepCopyObject L inp h =
     (case ServiceBindingList_DeepCopy L inp h of
        (Some c, h) \<Rightarrow> (Some (BindingListObject c), h) | (None, h) \<Rightarrow> (None, h))"

end
