(* ===== verification/Deep_Copy_Facts.thy ===== *)
theory Deep_Copy_Facts
  imports Deep_Copy
begin

text \<open>
  The API structs read by value: each \<open>view\<close> gives the record of \<open>Mapping_Api\<close> or
  \<open>Binding_Api\<close> a stored struct stands for, \<open>owns\<close> the storage it reaches and \<open>wf\<close> that
  its slices and pointers lead to allocated arrays of their type. Every \<open>DeepCopyInto\<close> meets
  the contract \<open>deep_copy\<close>.
\<close>

section \<open>Views\<close>

definition viewTemplate :: "store \<Rightarrow> gTemplate \<Rightarrow> mappingTemplate" where
  "viewTemplate h t = \<lparr>mt_Version = gt_Version t, mt_Annotations = gt_Annotations t,
     mt_Containers = sliceView mappingContainerKind plainView h (gt_Containers t),
     mt_Volumes = gt_Volumes t\<rparr>"

definition ownsTemplate :: "store \<Rightarrow> gTemplate \<Rightarrow> addr set" where
  "ownsTemplate h t = sliceOwns mappingContainerKind plainOwns h (gt_Containers t)"

definition wfTemplate :: "store \<Rightarrow> gTemplate \<Rightarrow> bool" where
  "wfTemplate h t = sliceWf mappingContainerKind plainOwns plainWf h (gt_Containers t)"

definition viewMappingSpec :: "store \<Rightarrow> gMappingSpec \<Rightarrow> mappingTemplate list" where
  "viewMappingSpec h s = sliceView mappingTemplateKind viewTemplate h (gms_Versions s)"

definition ownsMappingSpec :: "store \<Rightarrow> gMappingSpec \<Rightarrow> addr set" where
  "ownsMappingSpec h s = sliceOwns mappingTemplateKind ownsTemplate h (gms_Versions s)"

definition wfMappingSpec :: "store \<Rightarrow> gMappingSpec \<Rightarrow> bool" where
  "wfMappingSpec h s = sliceWf mappingTemplateKind ownsTemplate wfTemplate h (gms_Versions s)"

definition viewMapping :: "store \<Rightarrow> gMapping \<Rightarrow> typeMeta \<times> resourceMapping" where
  "viewMapping h m = (gm_TypeMeta m,
     \<lparr>rm_meta = gm_ObjectMeta m, rm_Versions = viewMappingSpec h (gm_Spec m)\<rparr>)"

definition ownsMapping :: "store \<Rightarrow> gMapping \<Rightarrow> addr set" where
  "ownsMapping h m = ownsMappingSpec h (gm_Spec m)"

definition wfMapping :: "store \<Rightarrow> gMapping \<Rightarrow> bool" where
  "wfMapping h m = wfMappingSpec h (gm_Spec m)"

definition viewMappingList ::
  "store \<Rightarrow> gMappingList \<Rightarrow> typeMeta \<times> listMeta \<times> (typeMeta \<times> resourceMapping) list" where
  "viewMappingList h l = (gml_TypeMeta l, gml_ListMeta l,
     sliceView mappingKind viewMapping h (gml_Items l))"

definition ownsMappingList :: "store \<Rightarrow> gMappingList \<Rightarrow> addr set" where
  "ownsMappingList h l = sliceOwns mappingKind ownsMapping h (gml_Items l)"

definition wfMappingList :: "store \<Rightarrow> gMappingList \<Rightarrow> bool" where
  "wfMappingList h l = sliceWf mappingKind ownsMapping wfMapping h (gml_Items l)"

definition viewWorkload :: "store \<Rightarrow> gWorkloadReference \<Rightarrow> workloadReference" where
  "viewWorkload h w = \<lparr>wr_APIVersion = gw_APIVersion w, wr_Kind = gw_Kind w,
     wr_Name = gw_Name w,
     wr_Selector = pointerView labelSelectorKind plainView h (gw_Selector w),
     wr_Containers = sliceView stringKind plainView h (gw_Containers w)\<rparr>"

definition ownsWorkload :: "store \<Rightarrow> gWorkloadReference \<Rightarrow> addr set" where
  "ownsWorkload h w = pointerOwns labelSelectorKind plainOwns h (gw_Selector w) \<union>
     sliceOwns stringKind plainOwns h (gw_Containers w)"

definition wfWorkload :: "store \<Rightarrow> gWorkloadReference \<Rightarrow> bool" where
  "wfWorkload h w \<longleftrightarrow> pointerWf labelSelectorKind plainWf h (gw_Selector w) \<and>
     sliceWf stringKind plainOwns plainWf h (gw_Containers w)"

definition viewBindingSpec :: "store \<Rightarrow> gBindingSpec \<Rightarrow> bindingSpec" where
  "viewBindingSpec h s = \<lparr>bs_Name = gs_Name s, bs_Type = gs_Type s, bs_Provider = gs_Provider s,
     bs_Workload = viewWorkload h (gs_Workload s), bs_Service = gs_Service s,
     bs_Env = sliceView envMappingKind plainView h (gs_Env s)\<rparr>"

definition ownsBindingSpec :: "store \<Rightarrow> gBindingSpec \<Rightarrow> addr set" where
  "ownsBindingSpec h s = ownsWorkload h (gs_Workload s) \<union>
     sliceOwns envMappingKind plainOwns h (gs_Env s)"

definition wfBindingSpec :: "store \<Rightarrow> gBindingSpec \<Rightarrow> bool" where
  "wfBindingSpec h s \<longleftrightarrow> wfWorkload h (gs_Workload s) \<and>
     sliceWf envMappingKind plainOwns plainWf h (gs_Env s) \<and>
     sliceAddr (gs_Env s) \<inter> ownsWorkload h (gs_Workload s) = {}"

definition viewBindingStatus :: "store \<Rightarrow> gBindingStatus \<Rightarrow> bindingStatus" where
  "viewBindingStatus h s = \<lparr>st_ObservedGeneration = gst_ObservedGeneration s,
     st_Conditions = sliceView conditionKind plainView h (gst_Conditions s),
     st_Binding = pointerView secretReferenceKind plainView h (gst_Binding s)\<rparr>"

definition ownsBindingStatus :: "store \<Rightarrow> gBindingStatus \<Rightarrow> addr set" where
  "ownsBindingStatus h s = sliceOwns conditionKind plainOwns h (gst_Conditions s) \<union>
     pointerOwns secretReferenceKind plainOwns h (gst_Binding s)"

definition wfBindingStatus :: "store \<Rightarrow> gBindingStatus \<Rightarrow> bool" where
  "wfBindingStatus h s \<longleftrightarrow> sliceWf conditionKind plainOwns plainWf h (gst_Conditions s) \<and>
     pointerWf secretReferenceKind plainWf h (gst_Binding s)"

definition viewBinding :: "store \<Rightarrow> gBinding \<Rightarrow> typeMeta \<times> serviceBinding" where
  "viewBinding h b = (gb_TypeMeta b, \<lparr>sb_meta = gb_ObjectMeta b,
     sb_Spec = viewBindingSpec h (gb_Spec b), sb_Status = viewBindingStatus h (gb_Status b)\<rparr>)"

definition ownsBinding :: "store \<Rightarrow> gBinding \<Rightarrow> addr set" where
  "ownsBinding h b = ownsBindingSpec h (gb_Spec b) \<union> ownsBindingStatus h (gb_Status b)"

definition wfBinding :: "store \<Rightarrow> gBinding \<Rightarrow> bool" where
  "wfBinding h b \<longleftrightarrow> wfBindingSpec h (gb_Spec b) \<and> wfBindingStatus h (gb_Status b)"

definition viewBindingList ::
  "store \<Rightarrow> gBindingList \<Rightarrow> typeMeta \<times> listMeta \<times> (typeMeta \<times> serviceBinding) list" where
  "viewBindingList h l = (gbl_TypeMeta l, gbl_ListMeta l,
     sliceView bindingKind viewBinding h (gbl_Items l))"

definition ownsBindingList :: "store \<Rightarrow> gBindingList \<Rightarrow> addr set" where
  "ownsBindingList h l = sliceOwns bindingKind ownsBinding h (gbl_Items l)"

definition wfBindingList :: "store \<Rightarrow> gBindingList \<Rightarrow> bool" where
  "wfBindingList h l = sliceWf bindingKind ownsBinding wfBinding h (gbl_Items l)"

lemmas template_defs = viewTemplate_def ownsTemplate_def wfTemplate_def
lemmas mappingSpec_defs = viewMappingSpec_def ownsMappingSpec_def wfMappingSpec_def
lemmas mapping_defs = viewMapping_def ownsMapping_def wfMapping_def
lemmas mappingList_defs = viewMappingList_def ownsMappingList_def wfMappingList_def
lemmas workload_defs = viewWorkload_def ownsWorkload_def wfWorkload_def
lemmas bindingSpec_defs = viewBindingSpec_def ownsBindingSpec_def wfBindingSpec_def
lemmas bindingStatus_defs = viewBindingStatus_def ownsBindingStatus_def wfBindingStatus_def
lemmas binding_defs = viewBinding_def ownsBinding_def wfBinding_def
lemmas bindingList_defs = viewBindingList_def ownsBindingList_def wfBindingList_def

section \<open>The contract, type by type\<close>

interpretation containers: plain_slice mappingContainerKind by unfold_locales simp
interpretation strings: plain_slice stringKind by unfold_locales simp
interpretation envs: plain_slice envMappingKind by unfold_locales simp
interpretation secretRef: pointer_copy plainCopy plainView plainOwns plainWf secretReferenceKind
  by unfold_locales simp

lemma plain_copies:
  "EnvMapping_DeepCopyInto = plainCopy"
  "ClusterWorkloadResourceMappingContainer_DeepCopyInto = plainCopy"
  "ServiceBindingSecretReference_DeepCopyInto = plainCopy"
  "ServiceBindingServiceReference_DeepCopyInto = plainCopy"
  by (auto simp: fun_eq_iff plainCopy_def EnvMapping_DeepCopyInto_def
      ClusterWorkloadResourceMappingContainer_DeepCopyInto_def
      ServiceBindingSecretReference_DeepCopyInto_def ServiceBindingServiceReference_DeepCopyInto_def)

interpretation template: deep_copy ClusterWorkloadResourceMappingTemplate_DeepCopyInto
  viewTemplate ownsTemplate wfTemplate
proof unfold_locales
  fix h h' r
  show "agree (ownsTemplate h r) h h' \<Longrightarrow> viewTemplate h' r = viewTemplate h r \<and>
      ownsTemplate h' r = ownsTemplate h r \<and> wfTemplate h' r = wfTemplate h r"
    using containers.slice.reads by (auto simp: template_defs)
  show "wfTemplate h r \<Longrightarrow> ownsTemplate h r \<subseteq> {..<length h}"
    using containers.slice.owned by (auto simp: template_defs)
  fix r'
  show "wfTemplate h r \<Longrightarrow> ClusterWorkloadResourceMappingTemplate_DeepCopyInto r h = (r', h') \<Longrightarrow>
      extends h h' \<and> viewTemplate h' r' = viewTemplate h r \<and>
      ownsTemplate h' r' \<subseteq> {length h..<length h'} \<and> wfTemplate h' r'"
    using containers.slice.copies
    by (fastforce simp: template_defs ClusterWorkloadResourceMappingTemplate_DeepCopyInto_def
        split: prod.splits)
qed

interpretation templates: slice_copy ClusterWorkloadResourceMappingTemplate_DeepCopyInto
  viewTemplate ownsTemplate wfTemplate mappingTemplateKind
  by unfold_locales simp

interpretation mappingSpec: deep_copy ClusterWorkloadResourceMappingSpec_DeepCopyInto
  viewMappingSpec ownsMappingSpec wfMappingSpec
proof unfold_locales
  fix h h' r
  show "agree (ownsMappingSpec h r) h h' \<Longrightarrow> viewMappingSpec h' r = viewMappingSpec h r \<and>
      ownsMappingSpec h' r = ownsMappingSpec h r \<and> wfMappingSpec h' r = wfMappingSpec h r"
    using templates.slice.reads by (auto simp: mappingSpec_defs)
  show "wfMappingSpec h r \<Longrightarrow> ownsMappingSpec h r \<subseteq> {..<length h}"
    using templates.slice.owned by (auto simp: mappingSpec_defs)
  fix r'
  show "wfMappingSpec h r \<Longrightarrow> ClusterWorkloadResourceMappingSpec_DeepCopyInto r h = (r', h') \<Longrightarrow>
      extends h h' \<and> viewMappingSpec h' r' = viewMappingSpec h r \<and>
      ownsMappingSpec h' r' \<subseteq> {length h..<length h'} \<and> wfMappingSpec h' r'"
    using templates.slice.copies
    by (fastforce simp: mappingSpec_defs ClusterWorkloadResourceMappingSpec_DeepCopyInto_def
        split: prod.splits)
qed

text \<open>From here on the copies of apimachinery take part.\<close>

lemma copiers_plain [simp]:
  assumes "copiers_ok L"
  shows "copiedBy (cp_Condition L) = plainCopy" "copiedBy (cp_LabelSelector L) = plainCopy"
    "cp_ObjectMeta L m = m" "cp_ListMeta L lm = lm"
  using assms by (auto simp: copiers_ok_def copiedBy_def plainCopy_def fun_eq_iff)

interpretation conditions: slice_copy plainCopy plainView plainOwns plainWf conditionKind
  by unfold_locales simp
interpretation selector: pointer_copy plainCopy plainView plainOwns plainWf labelSelectorKind
  by unfold_locales simp

lemma mapping_deep_copy:
  assumes L: "copiers_ok L"
  shows "deep_copy (ClusterWorkloadResourceMapping_DeepCopyInto L) viewMapping ownsMapping wfMapping"
proof unfold_locales
  fix h h' r
  show "agree (ownsMapping h r) h h' \<Longrightarrow> viewMapping h' r = viewMapping h r \<and>
      ownsMapping h' r = ownsMapping h r \<and> wfMapping h' r = wfMapping h r"
    using mappingSpec.reads by (auto simp: mapping_defs)
  show "wfMapping h r \<Longrightarrow> ownsMapping h r \<subseteq> {..<length h}"
    using mappingSpec.owned by (auto simp: mapping_defs)
  fix r'
  show "wfMapping h r \<Longrightarrow> ClusterWorkloadResourceMapping_DeepCopyInto L r h = (r', h') \<Longrightarrow>
      extends h h' \<and> viewMapping h' r' = viewMapping h r \<and>
      ownsMapping h' r' \<subseteq> {length h..<length h'} \<and> wfMapping h' r'"
    using mappingSpec.copies L
    by (fastforce simp: mapping_defs ClusterWorkloadResourceMapping_DeepCopyInto_def Let_def
        split: prod.splits)
qed

lemma sliceI: "deep_copy cp V A W \<Longrightarrow> kind_ok K \<Longrightarrow>
    deep_copy (deepCopySlice K cp) (sliceView K V) (sliceOwns K A) (sliceWf K A W)"
  by (simp add: slice_copy.slice_deep_copy slice_copy_def slice_copy_axioms_def)

lemma pointerI: "deep_copy cp V A W \<Longrightarrow> kind_ok K \<Longrightarrow>
    deep_copy (copyPointer K cp) (pointerView K V) (pointerOwns K A) (pointerWf K W)"
  by (simp add: pointer_copy.pointer_deep_copy pointer_copy_def pointer_copy_axioms_def)

lemma mappingList_deep_copy:
  assumes L: "copiers_ok L"
  shows "deep_copy (ClusterWorkloadResourceMappingList_DeepCopyInto L)
    viewMappingList ownsMappingList wfMappingList"
proof -
  note items = sliceI [OF mapping_deep_copy [OF L] kinds_ok(8)]
  show ?thesis
  proof unfold_locales
    fix h h' r
    show "agree (ownsMappingList h r) h h' \<Longrightarrow> viewMappingList h' r = viewMappingList h r \<and>
        ownsMappingList h' r = ownsMappingList h r \<and> wfMappingList h' r = wfMappingList h r"
      using deep_copy.reads [OF items] by (auto simp: mappingList_defs)
    show "wfMappingList h r \<Longrightarrow> ownsMappingList h r \<subseteq> {..<length h}"
      using deep_copy.owned [OF items] by (auto simp: mappingList_defs)
    fix r'
    show "wfMappingList h r \<Longrightarrow> ClusterWorkloadResourceMappingList_DeepCopyInto L r h = (r', h') \<Longrightarrow>
        extends h h' \<and> viewMappingList h' r' = viewMappingList h r \<and>
        ownsMappingList h' r' \<subseteq> {length h..<length h'} \<and> wfMappingList h' r'"
      using deep_copy.copies [OF items] L
      by (fastforce simp: mappingList_defs ClusterWorkloadResourceMappingList_DeepCopyInto_def
          Let_def split: prod.splits)
  qed
qed

lemma workload_deep_copy:
  assumes L: "copiers_ok L"
  shows "deep_copy (ServiceBindingWorkloadReference_DeepCopyInto L)
    viewWorkload ownsWorkload wfWorkload"
proof unfold_locales
  fix h h' r
  show "agree (ownsWorkload h r) h h' \<Longrightarrow> viewWorkload h' r = viewWorkload h r \<and>
      ownsWorkload h' r = ownsWorkload h r \<and> wfWorkload h' r = wfWorkload h r"
    using selector.pointer.reads strings.slice.reads by (auto simp: workload_defs agree_Un)
  show "wfWorkload h r \<Longrightarrow> ownsWorkload h r \<subseteq> {..<length h}"
    using selector.pointer.owned strings.slice.owned by (auto simp: workload_defs)
  fix r'
  assume wf: "wfWorkload h r" and cp: "ServiceBindingWorkloadReference_DeepCopyInto L r h = (r', h')"
  obtain p h1 where p: "copyPointer labelSelectorKind plainCopy (gw_Selector r) h = (p, h1)"
    by fastforce
  obtain c h2 where c: "copySlice stringKind (gw_Containers r) h1 = (c, h2)" by fastforce
  from cp L p c have r': "r' = r\<lparr>gw_Selector := p, gw_Containers := c\<rparr>" and h': "h' = h2"
    by (auto simp: ServiceBindingWorkloadReference_DeepCopyInto_def)
  from wf have w: "pointerWf labelSelectorKind plainWf h (gw_Selector r)"
    "sliceWf stringKind plainOwns plainWf h (gw_Containers r)" by (simp_all add: wfWorkload_def)
  have e1: "extends h h1" using selector.pointer.copies [OF w(1) p] by simp
  note second = strings.slice.copy_between [OF w(2) e1 c extends_refl]
  note first = selector.pointer.copy_between [OF w(1) extends_refl p second(1)]
  show "extends h h' \<and> viewWorkload h' r' = viewWorkload h r \<and>
      ownsWorkload h' r' \<subseteq> {length h..<length h'} \<and> wfWorkload h' r'"
    using first second extends_trans [OF e1 second(1)] unfolding r' h'
    by (simp add: workload_defs)
qed

lemma bindingSpec_deep_copy:
  assumes L: "copiers_ok L"
  shows "deep_copy (ServiceBindingSpec_DeepCopyInto L) viewBindingSpec ownsBindingSpec wfBindingSpec"
proof -
  note W = workload_deep_copy [OF L]
  show ?thesis
  proof unfold_locales
    fix h h' r
    show "agree (ownsBindingSpec h r) h h' \<Longrightarrow> viewBindingSpec h' r = viewBindingSpec h r \<and>
        ownsBindingSpec h' r = ownsBindingSpec h r \<and> wfBindingSpec h' r = wfBindingSpec h r"
      using deep_copy.reads [OF W] envs.slice.reads by (auto simp: bindingSpec_defs agree_Un)
    show "wfBindingSpec h r \<Longrightarrow> ownsBindingSpec h r \<subseteq> {..<length h}"
      using deep_copy.owned [OF W] envs.slice.owned by (auto simp: bindingSpec_defs)
    fix r'
    assume wf: "wfBindingSpec h r" and cp: "ServiceBindingSpec_DeepCopyInto L r h = (r', h')"
    obtain w h1 where w: "ServiceBindingWorkloadReference_DeepCopyInto L (gs_Workload r) h = (w, h1)"
      by fastforce
    obtain c h2 where c: "copySlice envMappingKind (gs_Env r) h1 = (c, h2)" by fastforce
    from cp w c have r': "r' = r\<lparr>gs_Workload := w, gs_Env := c\<rparr>" and h': "h' = h2"
      by (auto simp: ServiceBindingSpec_DeepCopyInto_def Let_def)
    from wf have ok: "wfWorkload h (gs_Workload r)" "sliceWf envMappingKind plainOwns plainWf h (gs_Env r)"
      by (simp_all add: wfBindingSpec_def)
    have e1: "extends h h1" using deep_copy.copies [OF W ok(1) w] by simp
    note second = envs.slice.copy_between [OF ok(2) e1 c extends_refl]
    note first = deep_copy.copy_between [OF W ok(1) extends_refl w second(1)]
    have "ownsWorkload h2 w \<subseteq> {..<length h1}"
      using deep_copy.copies [OF W ok(1) w] deep_copy.keep(2) [OF W _ second(1), of w] by auto
    moreover have "sliceAddr c \<subseteq> {length h1..<length h2}"
      using envs.slice.copies [OF envs.slice.keep(3) [OF ok(2) e1] c] sliceAddr_owned by blast
    ultimately have apart: "sliceAddr c \<inter> ownsWorkload h2 w = {}" by fastforce
    show "extends h h' \<and> viewBindingSpec h' r' = viewBindingSpec h r \<and>
        ownsBindingSpec h' r' \<subseteq> {length h..<length h'} \<and> wfBindingSpec h' r'"
      using first second apart extends_trans [OF e1 second(1)] unfolding r' h'
      by (simp add: bindingSpec_defs)
  qed
qed

lemma bindingStatus_deep_copy:
  assumes L: "copiers_ok L"
  shows "deep_copy (ServiceBindingStatus_DeepCopyInto L)
    viewBindingStatus ownsBindingStatus wfBindingStatus"
proof unfold_locales
  fix h h' r
  show "agree (ownsBindingStatus h r) h h' \<Longrightarrow> viewBindingStatus h' r = viewBindingStatus h r \<and>
      ownsBindingStatus h' r = ownsBindingStatus h r \<and> wfBindingStatus h' r = wfBindingStatus h r"
    using secretRef.pointer.reads conditions.slice.reads by (auto simp: bindingStatus_defs agree_Un)
  show "wfBindingStatus h r \<Longrightarrow> ownsBindingStatus h r \<subseteq> {..<length h}"
    using secretRef.pointer.owned conditions.slice.owned by (auto simp: bindingStatus_defs)
  fix r'
  assume wf: "wfBindingStatus h r" and cp: "ServiceBindingStatus_DeepCopyInto L r h = (r', h')"
  obtain c h1 where c: "deepCopySlice conditionKind plainCopy (gst_Conditions r) h = (c, h1)"
    by fastforce
  obtain p h2 where p: "copyPointer secretReferenceKind plainCopy (gst_Binding r) h1 = (p, h2)"
    by fastforce
  from cp L p c have r': "r' = r\<lparr>gst_Conditions := c, gst_Binding := p\<rparr>" and h': "h' = h2"
    by (auto simp: ServiceBindingStatus_DeepCopyInto_def)
  from wf have w: "sliceWf conditionKind plainOwns plainWf h (gst_Conditions r)"
    "pointerWf secretReferenceKind plainWf h (gst_Binding r)" by (simp_all add: wfBindingStatus_def)
  have e1: "extends h h1" using conditions.slice.copies [OF w(1) c] by simp
  note second = secretRef.pointer.copy_between [OF w(2) e1 p extends_refl]
  note first = conditions.slice.copy_between [OF w(1) extends_refl c second(1)]
  show "extends h h' \<and> viewBindingStatus h' r' = viewBindingStatus h r \<and>
      ownsBindingStatus h' r' \<subseteq> {length h..<length h'} \<and> wfBindingStatus h' r'"
    using first second extends_trans [OF e1 second(1)] unfolding r' h'
    by (simp add: bindingStatus_defs)
qed

lemma binding_deep_copy:
  assumes L: "copiers_ok L"
  shows "deep_copy (ServiceBinding_DeepCopyInto L) viewBinding ownsBinding wfBinding"
proof -
  note S = bindingSpec_deep_copy [OF L] and T = bindingStatus_deep_copy [OF L]
  show ?thesis
  proof unfold_locales
    fix h h' r
    show "agree (ownsBinding h r) h h' \<Longrightarrow> viewBinding h' r = viewBinding h r \<and>
        ownsBinding h' r = ownsBinding h r \<and> wfBinding h' r = wfBinding h r"
      using deep_copy.reads [OF S] deep_copy.reads [OF T] by (auto simp: binding_defs agree_Un)
    show "wfBinding h r \<Longrightarrow> ownsBinding h r \<subseteq> {..<length h}"
      using deep_copy.owned [OF S] deep_copy.owned [OF T] by (auto simp: binding_defs)
    fix r'
    assume wf: "wfBinding h r" and cp: "ServiceBinding_DeepCopyInto L r h = (r', h')"
    obtain s h1 where s: "ServiceBindingSpec_DeepCopyInto L (gb_Spec r) h = (s, h1)" by fastforce
    obtain t h2 where t: "ServiceBindingStatus_DeepCopyInto L (gb_Status r) h1 = (t, h2)"
      by fastforce
    from cp L s t have r': "r' = r\<lparr>gb_Spec := s, gb_Status := t\<rparr>" and h': "h' = h2"
      by (auto simp: ServiceBinding_DeepCopyInto_def Let_def)
    from wf have ok: "wfBindingSpec h (gb_Spec r)" "wfBindingStatus h (gb_Status r)"
      by (simp_all add: wfBinding_def)
    have e1: "extends h h1" using deep_copy.copies [OF S ok(1) s] by simp
    note second = deep_copy.copy_between [OF T ok(2) e1 t extends_refl]
    note first = deep_copy.copy_between [OF S ok(1) extends_refl s second(1)]
    show "extends h h' \<and> viewBinding h' r' = viewBinding h r \<and>
        ownsBinding h' r' \<subseteq> {length h..<length h'} \<and> wfBinding h' r'"
      using first second extends_trans [OF e1 second(1)] unfolding r' h'
      by (simp add: binding_defs)
  qed
qed

lemma bindingList_deep_copy:
  assumes L: "copiers_ok L"
  shows "deep_copy (ServiceBindingList_DeepCopyInto L)
    viewBindingList ownsBindingList wfBindingList"
proof -
  note items = sliceI [OF binding_deep_copy [OF L] kinds_ok(15)]
  show ?thesis
  proof unfold_locales
    fix h h' r
    show "agree (ownsBindingList h r) h h' \<Longrightarrow> viewBindingList h' r = viewBindingList h r \<and>
        ownsBindingList h' r = ownsBindingList h r \<and> wfBindingList h' r = wfBindingList h r"
      using deep_copy.reads [OF items] by (auto simp: bindingList_defs)
    show "wfBindingList h r \<Longrightarrow> ownsBindingList h r \<subseteq> {..<length h}"
      using deep_copy.owned [OF items] by (auto simp: bindingList_defs)
    fix r'
    show "wfBindingList h r \<Longrightarrow> ServiceBindingList_DeepCopyInto L r h = (r', h') \<Longrightarrow>
        extends h h' \<and> viewBindingList h' r' = viewBindingList h r \<and>
        ownsBindingList h' r' \<subseteq> {length h..<length h'} \<and> wfBindingList h' r'"
      using deep_copy.copies [OF items] L
      by (fastforce simp: bindingList_defs ServiceBindingList_DeepCopyInto_def
          Let_def split: prod.splits)
  qed
qed

end
