(* ===== verification/Deep_Copy_Properties.thy ===== *)
theory Deep_Copy_Properties
  imports Deep_Copy_Facts
begin

text \<open>
  The properties of the generated deep copies: the copy is equal to the original, shares no
  storage with it, and the original is left alone; a nil receiver gives a nil result.
\<close>

definition plainCopiers :: copiers where
  "plainCopiers = \<lparr>cp_ObjectMeta = id, cp_ListMeta = id, cp_Condition = id, cp_LabelSelector = id\<rparr>"

lemma plainCopiers_ok [simp]: "copiers_ok plainCopiers"
  by (simp add: copiers_ok_def plainCopiers_def)

lemma copyPointer_None: "copyPointer K cp None h = (None, h)"
  by (simp add: copyPointer_def)

lemma copyPointer_nil_iff: "copyPointer K cp p h = (q, h') \<Longrightarrow> q = None \<longleftrightarrow> p = None"
  by (auto simp: copyPointer_def split: option.splits prod.splits)

text \<open>A stored binding and a stored mapping for the concrete instances.\<close>

definition exampleStore :: store where
  "exampleStore =
    [Strings [''app'', ''sidecar''],
     EnvMappings [\<lparr>em_Name = ''URL'', em_Key = ''uri''\<rparr>],
     Conditions [\<lparr>c_Type = ''Ready'', c_Status = ConditionTrue, c_Reason = '''', c_Message = ''''\<rparr>],
     SecretReferences [\<lparr>sec_Name = ''db''\<rparr>],
     Bindings [zeroBinding
       \<lparr>gb_Spec := zeroSpec\<lparr>gs_Workload := zeroWorkload\<lparr>gw_Containers := Slice 0 0 1 2\<rparr>,
          gs_Env := Slice 1 0 1 1\<rparr>,
        gb_Status := \<lparr>gst_ObservedGeneration = 1, gst_Conditions = Slice 2 0 1 1,
          gst_Binding = Some 3\<rparr>\<rparr>],
     MappingTemplates [zeroTemplate\<lparr>gt_Version := ''*''\<rparr>],
     Mappings [zeroMapping\<lparr>gm_Spec := \<lparr>gms_Versions = Slice 5 0 1 1\<rparr>\<rparr>],
     MappingLists [\<lparr>gml_TypeMeta = zeroTypeMeta, gml_ListMeta = [], gml_Items = Slice 6 0 1 1\<rparr>]]"

lemmas example_simps = exampleStore_def zeroBinding_def zeroSpec_def zeroWorkload_def zeroService_def
  zeroTypeMeta_def zeroMeta_def zeroTemplate_def zeroMapping_def zeroStatus_def kind_defs
  cell_ok_def loadCell_def sliceWf_def sliceView_def pointerView_def plain_defs
  binding_defs bindingSpec_defs bindingStatus_defs workload_defs mapping_defs mappingSpec_defs
  template_defs mappingList_defs

section \<open>Claims\<close>

text \<open>C37. \<open>DeepCopy\<close> of a ServiceBinding gives a binding that reads the same and shares no
  storage with the original: whatever is written later to storage that existed before the call
  leaves the copy as it is, and whatever is written to the copy's own storage leaves the
  original as it is. Nothing that existed is changed by the call.\<close>

theorem binding_DeepCopy_independent:
  assumes "copiers_ok L" and "pointerWf bindingKind wfBinding h p"
    and "ServiceBinding_DeepCopy L p h = (q, h')"
  shows "pointerView bindingKind viewBinding h' q = pointerView bindingKind viewBinding h p \<and>
    extends h h' \<and>
    pointerOwns bindingKind ownsBinding h p \<inter> pointerOwns bindingKind ownsBinding h' q = {} \<and>
    (\<forall>a c. a < length h \<longrightarrow> pointerView bindingKind viewBinding (h'[a := c]) q =
       pointerView bindingKind viewBinding h p) \<and>
    (\<forall>a c. a \<in> pointerOwns bindingKind ownsBinding h' q \<longrightarrow>
       pointerView bindingKind viewBinding (h'[a := c]) p =
       pointerView bindingKind viewBinding h p)"
  by (rule deep_copy.independent [OF pointerI [OF binding_deep_copy [OF assms(1)] kinds_ok(15)]
        assms(2)]) (use assms(3) in \<open>simp add: ServiceBinding_DeepCopy_def\<close>)

lemma example_binding_wf: "pointerWf bindingKind wfBinding exampleStore (Some 4)"
  by (simp add: example_simps)

theorem binding_DeepCopy_independent_witness:
  "case ServiceBinding_DeepCopy plainCopiers (Some 4) exampleStore of (q, h') \<Rightarrow>
     pointerView bindingKind viewBinding (h'[1 := EnvMappings []]) q =
       pointerView bindingKind viewBinding exampleStore (Some 4) \<and>
     length (bs_Env (sb_Spec (snd (the (pointerView bindingKind viewBinding exampleStore (Some 4)))))) = 1"
proof -
  obtain q h' where cp: "ServiceBinding_DeepCopy plainCopiers (Some 4) exampleStore = (q, h')"
    by fastforce
  have "1 < length exampleStore" by (simp add: exampleStore_def)
  with binding_DeepCopy_independent [OF plainCopiers_ok example_binding_wf cp] cp
  show ?thesis by (simp add: example_simps)
qed

text \<open>C38. \<open>DeepCopyObject\<close> of a list of mappings gives no object for a nil receiver, never an
  object around a nil pointer; otherwise it gives a pointer to a well-typed list, every slice
  of which lies within an allocated array of its own element type, that reads the same down to
  the containers of every version, in storage that is all new.\<close>

theorem mappingList_DeepCopyObject:
  assumes "copiers_ok L" and "pointerWf mappingListKind wfMappingList h p"
    and "ClusterWorkloadResourceMappingList_DeepCopyObject L p h = (obj, h')"
  shows "(case p of
      None \<Rightarrow> obj = None \<and> h' = h
    | Some a \<Rightarrow> \<exists>b. obj = Some (MappingListObject b) \<and> extends h h' \<and> length h \<le> b \<and>
        cell_ok mappingListKind h' b \<and> wfMappingList h' (loadCell mappingListKind h' b) \<and>
        viewMappingList h' (loadCell mappingListKind h' b) =
          viewMappingList h (loadCell mappingListKind h a) \<and>
        ownsMappingList h' (loadCell mappingListKind h' b) \<subseteq> {length h..<length h'})"
proof -
  obtain q h1 where q: "ClusterWorkloadResourceMappingList_DeepCopy L p h = (q, h1)" by fastforce
  note D = pointerI [OF mappingList_deep_copy [OF assms(1)] kinds_ok(9)]
  note new = deep_copy.copies [OF D assms(2) q [unfolded ClusterWorkloadResourceMappingList_DeepCopy_def]]
  have nil: "q = None \<longleftrightarrow> p = None"
    using q by (simp add: ClusterWorkloadResourceMappingList_DeepCopy_def copyPointer_nil_iff)
  show ?thesis
  proof (cases p)
    case None
    then show ?thesis
      using q assms(3)
      by (auto simp: ClusterWorkloadResourceMappingList_DeepCopyObject_def copyPointer_None
          ClusterWorkloadResourceMappingList_DeepCopy_def)
  next
    case (Some a)
    with nil obtain b where b: "q = Some b" by auto
    with assms(3) q have "obj = Some (MappingListObject b)" "h' = h1"
      by (auto simp: ClusterWorkloadResourceMappingList_DeepCopyObject_def)
    then show ?thesis using new Some b by (auto simp: pointerView_def)
  qed
qed

theorem mappingList_DeepCopyObject_witness:
  "case ClusterWorkloadResourceMappingList_DeepCopyObject plainCopiers (Some 7) exampleStore of
     (obj, h') \<Rightarrow> \<exists>b. obj = Some (MappingListObject b) \<and>
       map (mt_Version \<circ> hd \<circ> rm_Versions \<circ> snd)
         (snd (snd (viewMappingList h' (loadCell mappingListKind h' b)))) = [''*'']"
proof -
  obtain obj h' where cp: "ClusterWorkloadResourceMappingList_DeepCopyObject plainCopiers (Some 7)
      exampleStore = (obj, h')" by fastforce
  have wf: "pointerWf mappingListKind wfMappingList exampleStore (Some 7)"
    by (simp add: example_simps)
  have view: "viewMappingList exampleStore (loadCell mappingListKind exampleStore 7) =
      (zeroTypeMeta, [], [(zeroTypeMeta, \<lparr>rm_meta = zeroMeta, rm_Versions =
        [\<lparr>mt_Version = ''*'', mt_Annotations = '''', mt_Containers = [], mt_Volumes = ''''\<rparr>]\<rparr>)])"
    by (simp add: example_simps)
  from mappingList_DeepCopyObject [OF plainCopiers_ok wf cp] cp view
  show ?thesis by auto
qed

end
