(* ===== verification/Stored_Default.thy ===== *)
theory Stored_Default
  imports Deep_Copy_Properties
begin

text \<open>
  The loop of the admission projector over the bindings the client listed, on the heap: each
  binding is deep-copied and the copy is given its default in place, since the list belongs to
  the client's cache. (\<open>controllers/webhook_controller.go\<close> and
  \<open>apis/v1beta1/servicebinding_webhook.go\<close>)
\<close>

section \<open>Default in place\<close>

definition ServiceBinding_Default :: "addr \<Rightarrow> store \<Rightarrow> store" where
  "ServiceBinding_Default r h =
     (let b = loadCell bindingKind h r
      in if gs_Name (gb_Spec b) = ''''
         then storeCell bindingKind r
           (b\<lparr>gb_Spec := (gb_Spec b)\<lparr>gs_Name := om_Name (gb_ObjectMeta b)\<rparr>\<rparr>) h
         else h)"

text \<open>\<open>activeServiceBindings[i].DeepCopy()\<close>: the receiver is an element of the slice.\<close>

definition copyElement :: "copiers \<Rightarrow> gBinding \<Rightarrow> store \<Rightarrow> addr \<times> store" where
  "copyElement L b h =
     (let (out, h) = newCell bindingKind h;
          (y, h) = ServiceBinding_DeepCopyInto L b h
      in (out, storeCell bindingKind out y h))"

text \<open>
  The bindings handed to the projector, from index \<open>i\<close> on. The projection that the code makes
  with each copy changes the workload only, so the copies are made one after the other here.
\<close>

fun defaultedCopies :: "copiers \<Rightarrow> goSlice \<Rightarrow> nat \<Rightarrow> nat \<Rightarrow> store \<Rightarrow> addr list \<times> store" where
  "defaultedCopies L s i 0 h = ([], h)"
| "defaultedCopies L s i (Suc k) h =
     (let (sb, h) = copyElement L (loadElem bindingKind h s i) h;
          h = ServiceBinding_Default sb h;
          (sbs, h) = defaultedCopies L s (Suc i) k h
      in (sb # sbs, h))"

section \<open>What the loop does\<close>

lemma Default_refines:
  assumes "cell_ok bindingKind h r" and "wfBinding h (loadCell bindingKind h r)"
    and "r \<notin> ownsBinding h (loadCell bindingKind h r)"
    and "copiers_ok L" and "ServiceBinding_Default r h = h'"
  shows "viewBinding h' (loadCell bindingKind h' r) =
      apsnd bindingDefault (viewBinding h (loadCell bindingKind h r)) \<and>
    cell_ok bindingKind h' r \<and> wfBinding h' (loadCell bindingKind h' r) \<and>
    length h' = length h \<and> (\<forall>a < length h. a \<noteq> r \<longrightarrow> h' ! a = h ! a)"
proof (cases "gs_Name (gb_Spec (loadCell bindingKind h r)) = ''''")
  case False
  then have "h' = h" using assms(5) by (simp add: ServiceBinding_Default_def Let_def)
  with False assms(1,2) show ?thesis
    by (simp add: viewBinding_def viewBindingSpec_def bindingDefault_def)
next
  case True
  let ?b = "loadCell bindingKind h r"
  let ?b' = "?b\<lparr>gb_Spec := (gb_Spec ?b)\<lparr>gs_Name := om_Name (gb_ObjectMeta ?b)\<rparr>\<rparr>"
  have h': "h' = storeCell bindingKind r ?b' h"
    using True assms(5) by (simp add: ServiceBinding_Default_def Let_def)
  have k: "kind_ok bindingKind" by simp
  note B = binding_deep_copy [OF assms(4)]
  have same: "ownsBinding h ?b' = ownsBinding h ?b" "wfBinding h ?b' = wfBinding h ?b"
    by (simp_all add: binding_defs bindingSpec_defs)
  have out: "wfBinding h ?b'" "r \<notin> ownsBinding h ?b'" using assms(2,3) same by simp_all
  note w = deep_copy.write_elsewhere [OF B out, of "mkArr bindingKind ((arrOf bindingKind (h ! r))[0 := ?b'])",
      folded storeCell_def, folded h']
  have "viewBinding h ?b' = apsnd bindingDefault (viewBinding h ?b)"
    using True by (simp add: viewBinding_def viewBindingSpec_def bindingDefault_def)
  with w loadCell_storeCell [OF k assms(1), of ?b', folded h']
    cell_ok_storeCell [OF k assms(1), of ?b', folded h']
  show ?thesis by (simp add: h' storeCell_other)
qed

lemma copyElement_spec:
  assumes L: "copiers_ok L" and b: "wfBinding h b" and cp: "copyElement L b h = (q, h')"
  shows "extends h h' \<and> length h \<le> q \<and> cell_ok bindingKind h' q \<and>
    wfBinding h' (loadCell bindingKind h' q) \<and> q \<notin> ownsBinding h' (loadCell bindingKind h' q) \<and>
    viewBinding h' (loadCell bindingKind h' q) = viewBinding h b"
proof -
  let ?q = "length h" and ?h1 = "h @ [mkArr bindingKind [zeroOf bindingKind]]"
  note B = binding_deep_copy [OF L]
  have k: "kind_ok bindingKind" by simp
  obtain y h2 where y: "ServiceBinding_DeepCopyInto L b ?h1 = (y, h2)" by fastforce
  from cp y have q: "q = ?q" and h': "h' = storeCell bindingKind ?q y h2"
    by (auto simp: copyElement_def newCell_def)
  note b1 = deep_copy.keep [OF B b extends_snoc]
  note new = deep_copy.copies [OF B b1(3) y]
  have ok: "cell_ok bindingKind h2 ?q"
    using new newCell_ok(1) [OF k, of h "zeroOf bindingKind"]
    by (auto simp: cell_ok_def extends_def)
  have out: "wfBinding h2 y" "?q \<notin> ownsBinding h2 y" using new by force+
  note w = deep_copy.write_elsewhere [OF B out, of "mkArr bindingKind ((arrOf bindingKind (h2 ! ?q))[0 := y])",
      folded storeCell_def, folded h']
  have "extends h h'"
    unfolding h' storeCell_def using new by (auto simp: extends_def nth_append)
  with w out new b1 loadCell_storeCell [OF k ok, of y, folded h']
    cell_ok_storeCell [OF k ok, of y, folded h'] q
  show ?thesis by simp
qed

lemma defaultedCopies_spec:
  assumes L: "copiers_ok L" and s: "sliceWf bindingKind ownsBinding wfBinding h s"
    and len: "i + k = goLen s" and run: "defaultedCopies L s i k h = (qs, h')"
  shows "extends h h' \<and>
    list_all2 (\<lambda>q v. viewBinding h' (loadCell bindingKind h' q) = apsnd bindingDefault v) qs
      (drop i (sliceView bindingKind viewBinding h s))"
  using s len run
proof (induction k arbitrary: i h qs)
  case 0
  then show ?case by (auto simp: sliceWf_def sliceView_def)
next
  case (Suc k)
  note B = binding_deep_copy [OF L]
  note S = sliceI [OF B kinds_ok(15)]
  let ?x = "loadElem bindingKind h s i" and ?vs = "sliceView bindingKind viewBinding h s"
  obtain q h1 where q: "copyElement L ?x h = (q, h1)" by fastforce
  obtain h2 where h2: "ServiceBinding_Default q h1 = h2" by simp
  obtain qs' where rest: "defaultedCopies L s (Suc i) k h2 = (qs', h')" and qs: "qs = q # qs'"
    using Suc.prems(3) q h2 by (auto split: prod.splits)
  have n: "length ?vs = goLen s" "length (elems bindingKind h s) = goLen s"
    using Suc.prems(1) by (simp_all add: sliceWf_def sliceView_def)
  have i: "i < goLen s" using Suc.prems(2) by simp
  have x: "wfBinding h ?x" "viewBinding h ?x = ?vs ! i"
    using Suc.prems(1) i n
    by (simp_all add: sliceWf_def list_all_length loadElem_def sliceView_def)
  note c = copyElement_spec [OF L x(1) q]
  note d = Default_refines [of h1 q, OF _ _ _ L h2]
  from c d have d: "viewBinding h2 (loadCell bindingKind h2 q) = apsnd bindingDefault (?vs ! i)"
    "cell_ok bindingKind h2 q" "wfBinding h2 (loadCell bindingKind h2 q)"
    "length h2 = length h1" "\<forall>a < length h1. a \<noteq> q \<longrightarrow> h2 ! a = h1 ! a"
    using x(2) by simp_all
  have e2: "extends h h2" using c d(4,5) by (auto simp: extends_def)
  note keep = deep_copy.keep [OF S Suc.prems(1) e2]
  have "Suc i + k = goLen s" using Suc.prems(2) by simp
  note IH = Suc.IH [OF keep(3) this rest]
  then have e3: "extends h2 h'" by simp
  have "loadCell bindingKind h' q = loadCell bindingKind h2 q"
    using d(2) e3 by (simp add: loadCell_def cell_ok_def extends_def)
  with deep_copy.keep(1) [OF B d(3) e3] d(1)
  have "viewBinding h' (loadCell bindingKind h' q) = apsnd bindingDefault (?vs ! i)" by simp
  moreover have "drop i ?vs = ?vs ! i # drop (Suc i) ?vs"
    using i n by (simp add: Cons_nth_drop_Suc)
  ultimately show ?case
    using IH keep(1) extends_trans [OF e2 e3] by (simp add: qs)
qed

section \<open>Claim\<close>

text \<open>C21. The bindings the admission projector hands to the projector read as the listed bindings with
  their defaults set, in order, and the listed bindings themselves stay as the client's cache
  holds them: no default is ever written through to the cache.\<close>

theorem defaults_on_copies:
  assumes "copiers_ok L" and "sliceWf bindingKind ownsBinding wfBinding h s"
    and "defaultedCopies L s 0 (goLen s) h = (sbs, h')"
  shows "map (\<lambda>q. viewBinding h' (loadCell bindingKind h' q)) sbs =
      map (apsnd bindingDefault) (sliceView bindingKind viewBinding h s) \<and>
    sliceView bindingKind viewBinding h' s = sliceView bindingKind viewBinding h s \<and>
    extends h h'"
proof -
  have "0 + goLen s = goLen s" by simp
  note spec = defaultedCopies_spec [OF assms(1,2) this assms(3)]
  then have "map (\<lambda>q. viewBinding h' (loadCell bindingKind h' q)) sbs =
      map (apsnd bindingDefault) (sliceView bindingKind viewBinding h s)"
    by (auto simp: list_all2_conv_all_nth list_eq_iff_nth_eq)
  with spec deep_copy.keep(1) [OF sliceI [OF binding_deep_copy [OF assms(1)] kinds_ok(15)] assms(2)]
  show ?thesis by blast
qed

definition listedStore :: store where
  "listedStore = exampleStore @ [Bindings [zeroBinding\<lparr>gb_ObjectMeta := zeroMeta\<lparr>om_Name := ''db''\<rparr>\<rparr>]]"

theorem defaults_on_copies_witness:
  "case defaultedCopies plainCopiers (Slice 8 0 1 1) 0 1 listedStore of (sbs, h') \<Rightarrow>
     map (\<lambda>q. bs_Name (sb_Spec (snd (viewBinding h' (loadCell bindingKind h' q))))) sbs = [''db''] \<and>
     map (\<lambda>v. bs_Name (sb_Spec (snd v))) (sliceView bindingKind viewBinding h' (Slice 8 0 1 1)) = ['''']"
proof -
  let ?s = "Slice 8 0 1 1"
  obtain sbs h' where run: "defaultedCopies plainCopiers ?s 0 (goLen ?s) listedStore = (sbs, h')"
    by fastforce
  have at: "listedStore ! 8 = Bindings [zeroBinding\<lparr>gb_ObjectMeta := zeroMeta\<lparr>om_Name := ''db''\<rparr>\<rparr>]"
    "length listedStore = 9" by (simp_all add: listedStore_def exampleStore_def)
  have wf: "sliceWf bindingKind ownsBinding wfBinding listedStore ?s"
    using at by (simp add: sliceWf_def kind_defs zeroBinding_def zeroSpec_def zeroStatus_def
        zeroWorkload_def binding_defs bindingSpec_defs bindingStatus_defs workload_defs)
  have view: "sliceView bindingKind viewBinding listedStore ?s =
      [viewBinding listedStore (zeroBinding\<lparr>gb_ObjectMeta := zeroMeta\<lparr>om_Name := ''db''\<rparr>\<rparr>)]"
    using at by (simp add: sliceView_def kind_defs)
  from defaults_on_copies [OF plainCopiers_ok wf run] view
  have r: "map (\<lambda>q. viewBinding h' (loadCell bindingKind h' q)) sbs =
      [apsnd bindingDefault (viewBinding listedStore (zeroBinding\<lparr>gb_ObjectMeta := zeroMeta\<lparr>om_Name := ''db''\<rparr>\<rparr>))]"
    "sliceView bindingKind viewBinding h' ?s =
      [viewBinding listedStore (zeroBinding\<lparr>gb_ObjectMeta := zeroMeta\<lparr>om_Name := ''db''\<rparr>\<rparr>)]"
    by simp_all
  have "map (\<lambda>q. bs_Name (sb_Spec (snd (viewBinding h' (loadCell bindingKind h' q))))) sbs =
      map (bs_Name \<circ> sb_Spec \<circ> snd) (map (\<lambda>q. viewBinding h' (loadCell bindingKind h' q)) sbs)" by simp
  then have "map (\<lambda>q. bs_Name (sb_Spec (snd (viewBinding h' (loadCell bindingKind h' q))))) sbs = [''db'']"
    unfolding r(1) by (simp add: viewBinding_def viewBindingSpec_def bindingDefault_def
        zeroBinding_def zeroSpec_def zeroMeta_def)
  with r(2) run show ?thesis
    by (simp add: viewBinding_def viewBindingSpec_def zeroBinding_def zeroSpec_def)
qed

end
