(* ===== verification/Stored_Lookup.thy ===== *)
theory Stored_Lookup
  imports Deep_Copy_Properties Resolver_Properties
begin

text \<open>
  \<open>Default\<close> of a mapping in place
  (\<open>apis/v1beta1/clusterworkloadresourcemapping_webhook.go\<close>) and \<open>LookupMapping\<close> of the
  resolver (\<open>resolver/cluster.go\<close>) on the heap, where the fetched mapping belongs to the
  client: the template that is found is copied before its defaults are set. Two slices may share
  an array. Setting defaults goes element by element and does nothing the second time, so
  sharing does no harm, and no lemma here excludes it.
\<close>

section \<open>Default in place\<close>

text \<open>The loop over \<open>c := &r.Containers[i]\<close>, from index \<open>i\<close> on.\<close>

fun defaultEach :: "goSlice \<Rightarrow> nat \<Rightarrow> nat \<Rightarrow> store \<Rightarrow> store" where
  "defaultEach s i 0 h = h"
| "defaultEach s i (Suc k) h =
     (let c = loadElem mappingContainerKind h s i;
          h = (if mc_Env c = ''''
               then storeElem mappingContainerKind s i (c\<lparr>mc_Env := ''.env''\<rparr>) h else h);
          c = loadElem mappingContainerKind h s i;
          h = (if mc_VolumeMounts c = ''''
               then storeElem mappingContainerKind s i (c\<lparr>mc_VolumeMounts := ''.volumeMounts''\<rparr>) h
               else h)
      in defaultEach s (Suc i) k h)"

text \<open>A composite literal of a slice type is a new array.\<close>

definition literalSlice :: "('e, 'c) kind \<Rightarrow> 'e list \<Rightarrow> 'c heap \<Rightarrow> goSlice \<times> 'c heap" where
  "literalSlice K xs h = (Slice (length h) 0 (length xs) (length xs), h @ [mkArr K xs])"

text \<open>
  The receiver is a pointer to a struct that the caller keeps; as with \<open>DeepCopyInto\<close>, the
  struct goes in and comes out by value and the caller writes it back.
\<close>

definition ClusterWorkloadResourceMappingTemplate_Default ::
  "gTemplate \<Rightarrow> store \<Rightarrow> gTemplate \<times> store" where
  "ClusterWorkloadResourceMappingTemplate_Default r h =
     (let r = (if gt_Annotations r = ''''
               then r\<lparr>gt_Annotations := ''.spec.template.metadata.annotations''\<rparr> else r);
          (r, h) = (if goLen (gt_Containers r) = 0
               then (let (s, h) = literalSlice mappingContainerKind podSpecableContainers h
                     in (r\<lparr>gt_Containers := s\<rparr>, h))
               else (r, h));
          h = defaultEach (gt_Containers r) 0 (goLen (gt_Containers r)) h;
          r = (if gt_Volumes r = '''' then r\<lparr>gt_Volumes := ''.spec.template.spec.volumes''\<rparr> else r)
      in (r, h))"

fun defaultVersions :: "goSlice \<Rightarrow> nat \<Rightarrow> nat \<Rightarrow> store \<Rightarrow> store" where
  "defaultVersions s i 0 h = h"
| "defaultVersions s i (Suc k) h =
     (let (r, h) = ClusterWorkloadResourceMappingTemplate_Default (loadElem mappingTemplateKind h s i) h
      in defaultVersions s (Suc i) k (storeElem mappingTemplateKind s i r h))"

definition ClusterWorkloadResourceMapping_Default :: "gMapping \<Rightarrow> store \<Rightarrow> store" where
  "ClusterWorkloadResourceMapping_Default r h =
     defaultVersions (gms_Versions (gm_Spec r)) 0 (goLen (gms_Versions (gm_Spec r))) h"

section \<open>The lookup\<close>

text \<open>
  The loop over the versions. \<open>v\<close> and \<open>w\<close> are the addresses of the variables \<open>v\<close> and
  \<open>wildcardMapping\<close>, which each pass assigns to; what is assigned is a copy of the struct, whose
  slice of containers is still the one of the fetched mapping.
\<close>

fun scanStored ::
  "string \<Rightarrow> goSlice \<Rightarrow> addr \<Rightarrow> addr \<Rightarrow> nat \<Rightarrow> nat \<Rightarrow> addr option \<Rightarrow> store \<Rightarrow> addr option \<times> store" where
  "scanStored ver s v w i 0 mapping h = (mapping, h)"
| "scanStored ver s v w i (Suc k) mapping h =
     (let x = loadElem mappingTemplateKind h s i;
          h = storeCell mappingTemplateKind v x h;
          (mapping, h) = (if gt_Version x = ver then (Some v, h)
            else if gt_Version x = ''*'' then (mapping, storeCell mappingTemplateKind w x h)
            else (mapping, h))
      in scanStored ver s v w (Suc i) k mapping h)"

definition selectStored :: "string \<Rightarrow> goSlice \<Rightarrow> store \<Rightarrow> addr option \<times> store" where
  "selectStored ver versions h =
     (let (w, h) = newCell mappingTemplateKind h;
          h = storeCell mappingTemplateKind w (zeroTemplate\<lparr>gt_Version := ''*''\<rparr>) h;
          (v, h) = newCell mappingTemplateKind h;
          (mapping, h) = scanStored ver versions v w 0 (goLen versions) None h;
          mapping = (case mapping of None \<Rightarrow> Some w | Some p \<Rightarrow> Some p);
          (mapping, h) = ClusterWorkloadResourceMappingTemplate_DeepCopy mapping h
      in (mapping, case mapping of
            None \<Rightarrow> h
          | Some p \<Rightarrow>
              (let (r, h) = ClusterWorkloadResourceMappingTemplate_Default
                     (loadCell mappingTemplateKind h p) h
               in storeCell mappingTemplateKind p r h)))"

section \<open>Setting defaults on an array\<close>

lemma containers_cell:
  "arrOf mappingContainerKind c \<noteq> [] \<Longrightarrow> mkArr mappingContainerKind (arrOf mappingContainerKind c) = c"
  by (cases c) (simp_all add: kind_defs)

lemma defaultContainer_idem [simp]: "defaultContainer (defaultContainer c) = defaultContainer c"
  by (simp add: defaultContainer_id defaultContainer_defaulted)

text \<open>Every array of containers holds what it held, some of it with its defaults set.\<close>

definition defaulting :: "store \<Rightarrow> store \<Rightarrow> bool" where
  "defaulting h h' \<longleftrightarrow> length h \<le> length h' \<and>
     (\<forall>a < length h. list_all2 (\<lambda>c c'. c' = c \<or> c' = defaultContainer c)
        (arrOf mappingContainerKind (h ! a)) (arrOf mappingContainerKind (h' ! a)))"

lemma defaulting_extends: "extends h h' \<Longrightarrow> defaulting h h'"
  by (auto simp: defaulting_def extends_def intro: list_all2_refl)

lemma defaulting_refl [simp, intro]: "defaulting h h"
  by (simp add: defaulting_extends)

lemma defaulting_trans [trans]:
  assumes "defaulting h h1" and "defaulting h1 h2"
  shows "defaulting h h2"
proof -
  have "list_all2 (\<lambda>c c'. c' = c \<or> c' = defaultContainer c)
      (arrOf mappingContainerKind (h ! a)) (arrOf mappingContainerKind (h2 ! a))"
    if "a < length h" for a
    by (rule list_all2_trans [of "\<lambda>c c'. c' = c \<or> c' = defaultContainer c"
          "\<lambda>c c'. c' = c \<or> c' = defaultContainer c" _ _ "arrOf mappingContainerKind (h1 ! a)"])
      (use assms that in \<open>auto simp: defaulting_def\<close>)
  with assms show ?thesis by (auto simp: defaulting_def)
qed

lemma viewTemplate_eq:
  "viewTemplate h t = \<lparr>mt_Version = gt_Version t, mt_Annotations = gt_Annotations t,
     mt_Containers = elems mappingContainerKind h (gt_Containers t), mt_Volumes = gt_Volumes t\<rparr>"
  by (simp add: viewTemplate_def sliceView_def plainView_def map_idI)

text \<open>What a template reads: its defaulted value is the same before and after.\<close>

lemma defaulting_template:
  assumes d: "defaulting h h'" and wf: "wfTemplate h t"
  shows "wfTemplate h' t" "ownsTemplate h' t = ownsTemplate h t"
    "defaultTemplate (viewTemplate h' t) = defaultTemplate (viewTemplate h t)"
    "defaultedTemplate (viewTemplate h t) \<Longrightarrow> viewTemplate h' t = viewTemplate h t"
proof -
  let ?R = "\<lambda>c c'. c' = c \<or> c' = defaultContainer c" and ?K = mappingContainerKind
  have all: "list_all2 ?R (elems ?K h (gt_Containers t)) (elems ?K h' (gt_Containers t)) \<and>
      slice_ok ?K h' (gt_Containers t)"
  proof (cases "gt_Containers t")
    case (Slice a i n c)
    then have ok: "a < length h" "n \<le> c" "i + c \<le> length (arrOf ?K (h ! a))"
      using wf by (simp_all add: wfTemplate_def sliceWf_def)
    with d have "list_all2 ?R (arrOf ?K (h ! a)) (arrOf ?K (h' ! a))" "a < length h'"
      by (auto simp: defaulting_def)
    with ok show ?thesis
      by (auto simp: Slice list_all2_takeI list_all2_dropI dest: list_all2_lengthD)
  qed simp
  show "wfTemplate h' t" "ownsTemplate h' t = ownsTemplate h t"
    using all by (cases "gt_Containers t"; auto simp: template_defs sliceWf_def plain_defs list_all_iff)+
  have map: "map defaultContainer ys = map defaultContainer xs" "length ys = length xs"
    "\<forall>c \<in> set xs. defaultContainer c = c \<Longrightarrow> ys = xs"
    if "list_all2 ?R xs ys" for xs ys
    using that by (induction rule: list_all2_induct) auto
  let ?xs = "elems ?K h (gt_Containers t)" and ?ys = "elems ?K h' (gt_Containers t)"
  note map = map [of ?xs ?ys]
  have "?xs = [] \<longleftrightarrow> ?ys = []" using map(2) all by (metis length_0_conv)
  then show "defaultTemplate (viewTemplate h' t) = defaultTemplate (viewTemplate h t)"
    using map(1) all
    by (auto simp: defaultTemplate_def viewTemplate_eq Let_def)
  show "viewTemplate h' t = viewTemplate h t" if "defaultedTemplate (viewTemplate h t)"
  proof -
    from that have "\<forall>c \<in> set ?xs. defaultContainer c = c"
      by (auto simp: defaultedTemplate_def viewTemplate_eq defaultContainer_id)
    with map(3) all show ?thesis by (auto simp: viewTemplate_eq)
  qed
qed

text \<open>One pass of the loop over the containers stores the container with its defaults.\<close>

lemma defaultEach_step:
  assumes ok: "slice_ok mappingContainerKind h s" and i: "i < goLen s"
  shows "defaultEach s i (Suc k) h = defaultEach s (Suc i) k
    (storeElem mappingContainerKind s i (defaultContainer (loadElem mappingContainerKind h s i)) h)"
proof -
  let ?K = mappingContainerKind
  obtain a b n c where s: "s = Slice a b n c" using i by (cases s) auto
  have arr: "b + i < length (arrOf ?K (h ! a))" "a < length h" "i < n" using ok i s by auto
  then have same: "mkArr ?K (arrOf ?K (h ! a)) = h ! a" by (intro containers_cell) auto
  have load: "loadElem ?K h s i = arrOf ?K (h ! a) ! (b + i)" using arr s by (simp add: loadElem_def)
  have store: "storeElem ?K s i x h = h[a := mkArr ?K ((arrOf ?K (h ! a))[b + i := x])]" for x
    by (simp add: s)
  have again: "loadElem ?K (storeElem ?K s i x h) s i = x"
    "storeElem ?K s i y (storeElem ?K s i x h) = storeElem ?K s i y h" for x y
    using arr s by (simp_all add: loadElem_def kind_okD)
  have id: "storeElem ?K s i (loadElem ?K h s i) h = h" using same by (simp add: store load)
  show ?thesis by (simp add: Let_def defaultContainer_def again id)
qed

lemma storeElem_defaulting:
  assumes ok: "slice_ok mappingContainerKind h s" and i: "i < goLen s"
    and h': "h' = storeElem mappingContainerKind s i (defaultContainer (loadElem mappingContainerKind h s i)) h"
  shows "defaulting h h'" "slice_ok mappingContainerKind h' s"
    "elems mappingContainerKind h' s = (elems mappingContainerKind h s)
       [i := defaultContainer (elems mappingContainerKind h s ! i)]"
    "\<forall>a < length h. a \<notin> sliceAddr s \<longrightarrow> h' ! a = h ! a"
proof -
  let ?K = mappingContainerKind
  obtain a b n c where s: "s = Slice a b n c" using i by (cases s) auto
  have arr: "b + i < length (arrOf ?K (h ! a))" "a < length h" "i < n" "b + c \<le> length (arrOf ?K (h ! a))"
    "n \<le> c" using ok i s by auto
  have h': "h' = h[a := mkArr ?K ((arrOf ?K (h ! a))[b + i := defaultContainer (arrOf ?K (h ! a) ! (b + i))])]"
    using h' arr by (simp add: s loadElem_def)
  show "defaulting h h'"
    unfolding defaulting_def h' length_list_update
  proof (intro conjI allI impI order_refl)
    fix e
    assume e: "e < length h"
    show "list_all2 (\<lambda>c c'. c' = c \<or> c' = defaultContainer c) (arrOf ?K (h ! e)) (arrOf ?K (h[a := mkArr ?K
        ((arrOf ?K (h ! a))[b + i := defaultContainer (arrOf ?K (h ! a) ! (b + i))])] ! e))"
      by (cases "e = a") (use arr in \<open>auto simp: kind_okD list_all2_conv_all_nth nth_list_update\<close>)
  qed
  show "slice_ok ?K h' s" using arr by (simp add: h' s kind_okD)
  show "elems ?K h' s = (elems ?K h s)[i := defaultContainer (elems ?K h s ! i)]"
    using arr by (simp add: h' s kind_okD drop_update_swap take_update_swap)
  show "\<forall>a < length h. a \<notin> sliceAddr s \<longrightarrow> h' ! a = h ! a" by (simp add: h' s)
qed

lemma defaultEach_spec:
  assumes "slice_ok mappingContainerKind h s" and "i + k = goLen s" and "defaultEach s i k h = h'"
  shows "defaulting h h' \<and> length h' = length h \<and> slice_ok mappingContainerKind h' s \<and>
    elems mappingContainerKind h' s = take i (elems mappingContainerKind h s) @
      map defaultContainer (drop i (elems mappingContainerKind h s)) \<and>
    (\<forall>a < length h. a \<notin> sliceAddr s \<longrightarrow> h' ! a = h ! a)"
  using assms
proof (induction k arbitrary: i h)
  case 0
  then show ?case by simp
next
  case (Suc k)
  let ?K = mappingContainerKind
  let ?h = "storeElem ?K s i (defaultContainer (loadElem ?K h s i)) h"
  have i: "i < goLen s" "Suc i + k = goLen s" using Suc.prems(2) by simp_all
  have run: "defaultEach s (Suc i) k ?h = h'"
    using Suc.prems(3) defaultEach_step [OF Suc.prems(1) i(1)] by simp
  note one = storeElem_defaulting [OF Suc.prems(1) i(1) refl]
  note IH = Suc.IH [OF one(2) i(2) run]
  have n: "i < length (elems ?K h s)" using i(1) Suc.prems(1) by simp
  then have "take (Suc i) ((elems ?K h s)[i := x]) @ map defaultContainer (drop (Suc i) ((elems ?K h s)[i := x]))
      = take i (elems ?K h s) @ x # map defaultContainer (drop (Suc i) (elems ?K h s))" for x
    by (simp add: take_Suc_conv_app_nth)
  with IH one(3) n
  have "elems ?K h' s = take i (elems ?K h s) @ map defaultContainer (drop i (elems ?K h s))"
    by (simp add: Cons_nth_drop_Suc [symmetric])
  moreover have "\<forall>a < length h. a \<notin> sliceAddr s \<longrightarrow> h' ! a = h ! a" using IH one(4) by simp
  ultimately show ?case using IH defaulting_trans [OF one(1)] by simp
qed

section \<open>Defaults of a template and of a mapping\<close>

lemma template_owns: "ownsTemplate h t = sliceAddr (gt_Containers t)"
  by (cases "gt_Containers t") (simp_all add: ownsTemplate_def plainOwns_def)

lemma template_wf: "wfTemplate h t \<longleftrightarrow> slice_ok mappingContainerKind h (gt_Containers t)"
  by (simp add: wfTemplate_def sliceWf_def plain_defs list_all_iff)

definition defaultPaths :: "gTemplate \<Rightarrow> gTemplate" where
  "defaultPaths t = t
     \<lparr>gt_Annotations := (if gt_Annotations t = '''' then ''.spec.template.metadata.annotations'' else gt_Annotations t),
      gt_Volumes := (if gt_Volumes t = '''' then ''.spec.template.spec.volumes'' else gt_Volumes t)\<rparr>"

lemma Template_Default_nonempty:
  "goLen (gt_Containers t) \<noteq> 0 \<Longrightarrow> ClusterWorkloadResourceMappingTemplate_Default t h =
     (defaultPaths t, defaultEach (gt_Containers t) 0 (goLen (gt_Containers t)) h)"
  by (cases "gt_Annotations t = ''''"; cases "gt_Volumes t = ''''")
    (simp_all add: ClusterWorkloadResourceMappingTemplate_Default_def defaultPaths_def Let_def)

lemma Template_Default_empty:
  "goLen (gt_Containers t) = 0 \<Longrightarrow> literalSlice mappingContainerKind podSpecableContainers h = (s, h1) \<Longrightarrow>
     ClusterWorkloadResourceMappingTemplate_Default t h =
     (defaultPaths t\<lparr>gt_Containers := s\<rparr>, defaultEach s 0 (goLen s) h1)"
  by (cases "gt_Annotations t = ''''"; cases "gt_Volumes t = ''''")
    (simp_all add: ClusterWorkloadResourceMappingTemplate_Default_def defaultPaths_def Let_def)

lemma Template_Default_refines:
  assumes wf: "wfTemplate h t" and run: "ClusterWorkloadResourceMappingTemplate_Default t h = (t', h')"
  shows "defaulting h h' \<and> wfTemplate h' t' \<and>
    viewTemplate h' t' = defaultTemplate (viewTemplate h t) \<and>
    ownsTemplate h' t' \<subseteq> ownsTemplate h t \<union> {length h..<length h'} \<and>
    (\<forall>a < length h. a \<notin> ownsTemplate h t \<longrightarrow> h' ! a = h ! a)"
proof -
  let ?K = mappingContainerKind
  have ok: "slice_ok ?K h (gt_Containers t)" using wf by (simp add: template_wf)
  have empty: "elems ?K h (gt_Containers t) = [] \<longleftrightarrow> goLen (gt_Containers t) = 0"
    using length_elems [OF ok] by (metis length_0_conv)
  show ?thesis
  proof (cases "goLen (gt_Containers t) = 0")
    case False
    obtain g where g: "defaultEach (gt_Containers t) 0 (goLen (gt_Containers t)) h = g" by simp
    note each = defaultEach_spec [OF ok _ g, simplified]
    from run g Template_Default_nonempty [OF False, of h] have out: "h' = g" "t' = defaultPaths t" by auto
    have "viewTemplate h' t' = defaultTemplate (viewTemplate h t)"
      using each False empty by (simp add: viewTemplate_eq defaultTemplate_def defaultPaths_def out Let_def)
    with each show ?thesis by (simp add: template_wf template_owns out defaultPaths_def)
  next
    case True
    let ?n = "length podSpecableContainers"
    let ?s = "Slice (length h) 0 ?n ?n" and ?h1 = "h @ [mkArr ?K podSpecableContainers]"
    obtain g where g: "defaultEach ?s 0 (goLen ?s) ?h1 = g" by simp
    have ok1: "slice_ok ?K ?h1 ?s" by (simp add: kind_okD)
    have "elems ?K ?h1 ?s = podSpecableContainers" by (simp add: kind_okD)
    with defaultEach_spec [OF ok1 _ g] have each: "defaulting ?h1 g" "length g = Suc (length h)"
      "slice_ok ?K g ?s" "elems ?K g ?s = map defaultContainer podSpecableContainers"
      "\<forall>a < length h. g ! a = h ! a" by (auto simp: nth_append)
    have "literalSlice ?K podSpecableContainers h = (?s, ?h1)" by (simp add: literalSlice_def)
    from run g Template_Default_empty [OF True this]
    have out: "h' = g" "t' = defaultPaths t\<lparr>gt_Containers := ?s\<rparr>" by auto
    have "viewTemplate h' t' = defaultTemplate (viewTemplate h t)"
      using each(4) True empty by (simp add: viewTemplate_eq defaultTemplate_def defaultPaths_def out Let_def)
    with each defaulting_trans [OF defaulting_extends [OF extends_snoc] each(1)]
    show ?thesis by (simp add: template_wf template_owns out)
  qed
qed

abbreviation versionsWf :: "store \<Rightarrow> goSlice \<Rightarrow> bool" where
  "versionsWf \<equiv> sliceWf mappingTemplateKind ownsTemplate wfTemplate"

abbreviation versionsOwn :: "store \<Rightarrow> goSlice \<Rightarrow> addr set" where
  "versionsOwn \<equiv> sliceOwns mappingTemplateKind ownsTemplate"

text \<open>An array of templates is no array of containers.\<close>

lemma storeElem_templates_defaulting:
  assumes "slice_ok mappingTemplateKind h s" and "i < goLen s"
  shows "defaulting h (storeElem mappingTemplateKind s i x h)"
proof -
  obtain a b n c where s: "s = Slice a b n c" using assms(2) by (cases s) auto
  have "arrOf mappingTemplateKind (h ! a) \<noteq> []" using assms s by auto
  then have "arrOf mappingContainerKind (h ! a) = []" by (cases "h ! a") (simp_all add: kind_defs)
  moreover have "arrOf mappingContainerKind (mkArr mappingTemplateKind xs) = []" for xs
    by (simp add: kind_defs)
  ultimately have "arrOf mappingContainerKind (storeElem mappingTemplateKind s i x h ! e) =
      arrOf mappingContainerKind (h ! e)" if "e < length h" for e
    using that by (cases "e = a") (simp_all add: s)
  then show ?thesis by (auto simp: defaulting_def intro: list_all2_refl)
qed

lemma elems_storeElem:
  "kind_ok K \<Longrightarrow> slice_ok K h s \<Longrightarrow> elems K (storeElem K s i x h) s = (elems K h s)[i := x]"
  by (cases s) (auto simp: kind_okD drop_update_swap take_update_swap)

lemma elem_owned: "x \<in> set (elems K h s) \<Longrightarrow> A h x \<subseteq> sliceOwns K A h s"
  by (cases s) auto

text \<open>One pass of the loop over the versions.\<close>

lemma defaultVersion_step:
  assumes wf: "versionsWf h s" and i: "i < goLen s" and x: "x = elems mappingTemplateKind h s ! i"
    and d: "ClusterWorkloadResourceMappingTemplate_Default x h = (x', h1)"
    and h2: "h2 = storeElem mappingTemplateKind s i x' h1"
  shows "versionsWf h2 s \<and> defaulting h h2 \<and>
    elems mappingTemplateKind h2 s = (elems mappingTemplateKind h s)[i := x'] \<and>
    viewTemplate h2 x' = defaultTemplate (viewTemplate h x) \<and>
    versionsOwn h2 s \<subseteq> versionsOwn h s \<union> {length h..<length h2} \<and>
    (\<forall>a < length h. a \<notin> versionsOwn h s \<longrightarrow> h2 ! a = h ! a)"
proof -
  let ?K = mappingTemplateKind
  have ok: "slice_ok ?K h s" using wf by (simp add: sliceWf_def)
  have n: "length (elems ?K h s) = goLen s" using ok by simp
  then have x_in: "x \<in> set (elems ?K h s)" using i x by simp
  have each: "wfTemplate h z \<and> sliceAddr s \<inter> ownsTemplate h z = {}" if "z \<in> set (elems ?K h s)" for z
    using wf that by (simp add: sliceWf_def list_all_iff)
  note xd = Template_Default_refines [OF conjunct1 [OF each [OF x_in]] d]
  have len: "length h \<le> length h1" using xd by (simp add: defaulting_def)
  have addr: "sliceAddr s \<subseteq> {..<length h}" using ok by (cases s) auto
  have arr: "elems ?K h1 s = elems ?K h s" "slice_ok ?K h1 s"
    using xd each [OF x_in] ok len by (cases s; fastforce)+
  have wf1: "versionsWf h1 s"
    using each defaulting_template [OF conjunct1 [OF xd]] arr(2)
    by (simp add: sliceWf_def arr(1) list_all_iff)
  have own1: "versionsOwn h1 s = versionsOwn h s"
    using each defaulting_template(2) [OF conjunct1 [OF xd]] arr(1) by (cases s) auto
  have out: "wfTemplate h1 x'" "sliceAddr s \<inter> ownsTemplate h1 x' = {}"
    using xd each [OF x_in] addr by fastforce+
  note st = templates.storeElem_spec [OF wf1 i out, folded h2]
  have el: "elems ?K h2 s = (elems ?K h s)[i := x']"
    using elems_storeElem [OF _ arr(2)] by (simp add: h2 arr(1))
  have "viewTemplate h2 x' = (sliceView ?K viewTemplate h2 s) ! i"
    using el i n by (simp add: sliceView_def)
  then have "viewTemplate h2 x' = viewTemplate h1 x'"
    using st(1) i n by (simp add: sliceView_def arr(1))
  moreover have "versionsOwn h2 s \<subseteq> versionsOwn h s \<union> {length h..<length h2}"
    using st(3) own1 xd elem_owned [OF x_in, of ownsTemplate] by (auto simp: h2)
  moreover have "\<forall>a < length h. a \<notin> versionsOwn h s \<longrightarrow> h2 ! a = h ! a"
    using st(4) xd len elem_owned [OF x_in, of ownsTemplate] sliceAddr_owned [of s ?K ownsTemplate h]
    by (metis less_le_trans subsetD)
  ultimately show ?thesis
    using st(2) el xd defaulting_trans [OF _ storeElem_templates_defaulting [OF arr(2) i], of h x', folded h2]
    by simp
qed

lemma defaultVersions_spec:
  assumes "versionsWf h s" and "i + k = goLen s" and "defaultVersions s i k h = h'"
  shows "versionsWf h' s \<and> defaulting h h' \<and>
    (\<forall>j < i. elems mappingTemplateKind h' s ! j = elems mappingTemplateKind h s ! j) \<and>
    (\<forall>j. i \<le> j \<and> j < goLen s \<longrightarrow> viewTemplate h' (elems mappingTemplateKind h' s ! j) =
       defaultTemplate (viewTemplate h (elems mappingTemplateKind h s ! j))) \<and>
    (\<forall>a < length h. a \<notin> versionsOwn h s \<longrightarrow> h' ! a = h ! a)"
  using assms
proof (induction k arbitrary: i h)
  case 0
  then show ?case by auto
next
  case (Suc k)
  let ?K = mappingTemplateKind
  define x where "x = elems ?K h s ! i"
  obtain x' h1 where d: "ClusterWorkloadResourceMappingTemplate_Default x h = (x', h1)" by fastforce
  define h2 where "h2 = storeElem ?K s i x' h1"
  have i: "i < goLen s" "Suc i + k = goLen s" using Suc.prems(2) by simp_all
  have run: "defaultVersions s (Suc i) k h2 = h'"
    using Suc.prems(3) d by (simp add: x_def h2_def loadElem_def)
  note one = defaultVersion_step [OF Suc.prems(1) i(1) x_def d h2_def]
  note IH = Suc.IH [OF conjunct1 [OF one] i(2) run]
  have n: "length (elems ?K h s) = goLen s" using Suc.prems(1) by (simp add: sliceWf_def)
  have wf2: "wfTemplate h2 (elems ?K h2 s ! j)" if "j < goLen s" for j
    using one that n by (auto simp: sliceWf_def list_all_length)
  have wf: "wfTemplate h (elems ?K h s ! j)" if "j < goLen s" for j
    using Suc.prems(1) that n by (auto simp: sliceWf_def list_all_length)
  have at_i: "elems ?K h2 s ! i = x'" "elems ?K h' s ! i = x'" using one IH i n by simp_all
  have "viewTemplate h' x' = viewTemplate h2 x'"
    using defaulting_template(4) [of h2 h' x'] IH wf2 [OF i(1)] one at_i
    by (simp add: defaultTemplate_defaulted)
  then have here: "viewTemplate h' (elems ?K h' s ! i) = defaultTemplate (viewTemplate h (elems ?K h s ! i))"
    using one at_i by (simp add: x_def)
  have later: "viewTemplate h' (elems ?K h' s ! j) = defaultTemplate (viewTemplate h (elems ?K h s ! j))"
    if "Suc i \<le> j" "j < goLen s" for j
    using IH that one n defaulting_template(3) [OF _ wf [OF that(2)], of h2] by simp
  have "\<forall>j. i \<le> j \<and> j < goLen s \<longrightarrow> viewTemplate h' (elems ?K h' s ! j) =
       defaultTemplate (viewTemplate h (elems ?K h s ! j))"
    using here later by (metis le_eq_less_or_eq Suc_le_eq)
  moreover have "\<forall>a < length h. a \<notin> versionsOwn h s \<longrightarrow> h' ! a = h ! a"
  proof (intro allI impI)
    fix a
    assume a: "a < length h" "a \<notin> versionsOwn h s"
    then have "a < length h2" "a \<notin> versionsOwn h2 s" using one by (auto simp: defaulting_def)
    with IH one a show "h' ! a = h ! a" by auto
  qed
  ultimately show ?case using IH one defaulting_trans [of h h2 h'] by simp
qed

section \<open>Finding the version\<close>

text \<open>
  The variables of the loop on the heap against the cells of \<open>scanVersions\<close>: what they hold
  reads, in the heap \<open>h0\<close> of the fetched mapping, as the cells do.
\<close>

definition scanned ::
  "store \<Rightarrow> addr \<Rightarrow> addr \<Rightarrow> addr option \<times> store \<Rightarrow> versionCells \<times> templatePtr option \<Rightarrow> bool" where
  "scanned h0 v w = (\<lambda>(p, h) (cells, ptr).
     extends h0 h \<and> cell_ok mappingTemplateKind h v \<and> cell_ok mappingTemplateKind h w \<and>
     (case cell_v cells of None \<Rightarrow> True
      | Some t \<Rightarrow> wfTemplate h0 (loadCell mappingTemplateKind h v) \<and>
          viewTemplate h0 (loadCell mappingTemplateKind h v) = t) \<and>
     wfTemplate h0 (loadCell mappingTemplateKind h w) \<and>
     viewTemplate h0 (loadCell mappingTemplateKind h w) = cell_wildcard cells \<and>
     (ptr = None \<and> p = None \<or> ptr = Some AddrV \<and> p = Some v \<and> cell_v cells \<noteq> None))"

lemma storeCell_extends: "extends h0 h \<Longrightarrow> length h0 \<le> a \<Longrightarrow> extends h0 (storeCell K a x h)"
  by (simp add: storeCell_def extends_update)

lemma storeCell_cell: "kind_ok K \<Longrightarrow> cell_ok K h a \<Longrightarrow> b \<noteq> a \<Longrightarrow>
    cell_ok K (storeCell K a x h) b = cell_ok K h b \<and> loadCell K (storeCell K a x h) b = loadCell K h b"
  by (simp add: cell_ok_def loadCell_def storeCell_other)

lemma scanStored_refines:
  assumes "versionsWf h0 s" and "length h0 \<le> v" and "length h0 \<le> w" and "v \<noteq> w"
    and "scanned h0 v w (p, h) (cells, ptr)" and "i + k = goLen s"
  shows "scanned h0 v w (scanStored ver s v w i k p h)
    (scanVersions ver (drop i (sliceView mappingTemplateKind viewTemplate h0 s)) (cells, ptr))"
  using assms(5,6)
proof (induction k arbitrary: i p h cells ptr)
  case 0
  have "length (sliceView mappingTemplateKind viewTemplate h0 s) = goLen s"
    using assms(1) by (simp add: sliceView_def sliceWf_def)
  with 0 show ?case by simp
next
  case (Suc k)
  let ?K = mappingTemplateKind and ?vs = "sliceView mappingTemplateKind viewTemplate h0 s"
  have n: "length ?vs = goLen s" "length (elems ?K h0 s) = goLen s"
    using assms(1) by (simp_all add: sliceView_def sliceWf_def)
  have i: "i < goLen s" "Suc i + k = goLen s" using Suc.prems(2) by simp_all
  define x where "x = loadElem ?K h s i"
  have ext: "extends h0 h" using Suc.prems(1) by (simp add: scanned_def)
  have "elems ?K h s = elems ?K h0 s"
    using assms(1) ext by (cases s) (simp_all add: sliceWf_def extends_def)
  then have x: "x = elems ?K h0 s ! i" by (simp add: x_def loadElem_def)
  then have wf: "wfTemplate h0 x" and view: "viewTemplate h0 x = ?vs ! i"
    using assms(1) i n by (simp_all add: sliceWf_def list_all_length sliceView_def)
  have ver: "mt_Version (?vs ! i) = gt_Version x" by (simp add: view [symmetric] viewTemplate_def)
  define h1 where "h1 = storeCell ?K v x h"
  define h2 where "h2 = storeCell ?K w x h1"
  have ok: "cell_ok ?K h v" "cell_ok ?K h w" using Suc.prems(1) by (simp_all add: scanned_def)
  note kt = kinds_ok(6)
  have h1: "extends h0 h1" "cell_ok ?K h1 v" "cell_ok ?K h1 w" "loadCell ?K h1 v = x"
    "loadCell ?K h1 w = loadCell ?K h w"
    using ext ok storeCell_cell [OF kt ok(1) assms(4) [symmetric]] assms(2)
    by (simp_all add: h1_def storeCell_extends heap_simps)
  have h2: "extends h0 h2" "cell_ok ?K h2 v" "cell_ok ?K h2 w" "loadCell ?K h2 v = x"
    "loadCell ?K h2 w = x"
    using h1 storeCell_cell [OF kt h1(3) assms(4)] assms(3)
    by (simp_all add: h2_def storeCell_extends heap_simps)
  have split: "drop i ?vs = ?vs ! i # drop (Suc i) ?vs" using i n by (simp add: Cons_nth_drop_Suc)
  let ?c = "cells\<lparr>cell_v := Some (?vs ! i)\<rparr>"
  consider "gt_Version x = ver" | "gt_Version x \<noteq> ver" "gt_Version x = ''*''"
    | "gt_Version x \<noteq> ver" "gt_Version x \<noteq> ''*''" by blast
  then show ?case
  proof cases
    case 1
    have "scanned h0 v w (Some v, h1) (?c, Some AddrV)"
      using Suc.prems(1) h1 wf view by (simp add: scanned_def)
    from Suc.IH [OF this i(2)] 1 show ?thesis
      by (simp add: split ver x_def [symmetric] h1_def [symmetric])
  next
    case 2
    have "scanned h0 v w (p, h2) (?c\<lparr>cell_wildcard := ?vs ! i\<rparr>, ptr)"
      using Suc.prems(1) h2 wf view by (auto simp: scanned_def)
    from Suc.IH [OF this i(2)] 2 show ?thesis
      by (simp add: split ver x_def [symmetric] h1_def [symmetric] h2_def [symmetric])
  next
    case 3
    have "scanned h0 v w (p, h1) (?c, ptr)"
      using Suc.prems(1) h1 wf view by (auto simp: scanned_def)
    from Suc.IH [OF this i(2)] 3 show ?thesis
      by (simp add: split ver x_def [symmetric] h1_def [symmetric])
  qed
qed

text \<open>\<open>mapping.DeepCopy()\<close> followed by \<open>Default()\<close> on the copy.\<close>

lemma copied_default:
  assumes wf: "pointerWf mappingTemplateKind wfTemplate h (Some c)"
    and cp: "ClusterWorkloadResourceMappingTemplate_DeepCopy (Some c) h = (Some q, h1)"
    and d: "ClusterWorkloadResourceMappingTemplate_Default (loadCell mappingTemplateKind h1 q) h1 = (r, h2)"
    and h': "h' = storeCell mappingTemplateKind q r h2"
  shows "extends h h' \<and> length h \<le> q \<and> cell_ok mappingTemplateKind h' q \<and>
    viewTemplate h' (loadCell mappingTemplateKind h' q) =
      defaultTemplate (viewTemplate h (loadCell mappingTemplateKind h c)) \<and>
    ownsTemplate h' (loadCell mappingTemplateKind h' q) \<subseteq> {length h..<length h'}"
proof -
  let ?K = mappingTemplateKind
  have P: "pointer_copy ClusterWorkloadResourceMappingTemplate_DeepCopyInto viewTemplate ownsTemplate
      wfTemplate ?K"
    by unfold_locales simp
  note cp = cp [unfolded ClusterWorkloadResourceMappingTemplate_DeepCopy_def]
  note new = pointer_copy.copyPointer_copies [OF P wf cp]
  note fresh = pointer_copy.copyPointer_target [OF P wf cp]
  let ?y = "loadCell ?K h1 q"
  have y: "wfTemplate h1 ?y" "cell_ok ?K h1 q" "extends h h1" "ownsTemplate h1 ?y \<subseteq> {length h..<length h1}"
    "viewTemplate h1 ?y = viewTemplate h (loadCell ?K h c)"
    using new by (auto simp: pointerView_def)
  note dd = Template_Default_refines [OF y(1) d]
  have len: "length h \<le> length h1" "length h1 \<le> length h2"
    using y(3) dd by (auto simp: extends_def defaulting_def)
  have q: "q < length h1" "h2 ! q = h1 ! q" using y(2) dd fresh(1) by (auto simp: cell_ok_def)
  have ok: "cell_ok ?K h2 q" using y(2) q len by (simp add: cell_ok_def)
  have out: "wfTemplate h2 r" "q \<notin> ownsTemplate h2 r" using dd fresh(1) q by fastforce+
  note w = template.write_elsewhere [OF out, of "mkArr ?K ((arrOf ?K (h2 ! q))[0 := r])",
      folded storeCell_def, folded h']
  have "extends h h2"
    using y(3,4) dd len by (auto simp: extends_def) (metis atLeastLessThan_iff not_less subsetD less_le_trans)
  then have "extends h h'" using fresh(2) by (simp add: h' storeCell_extends)
  moreover have "ownsTemplate h2 r \<subseteq> {length h..<length h2}"
    using dd y(4) len by fastforce
  ultimately show ?thesis
    using w dd fresh(2) loadCell_storeCell [OF kinds_ok(6) ok, of r, folded h'] y(5)
      cell_ok_storeCell [OF kinds_ok(6) ok, of r, folded h'] by (simp add: h')
qed

lemma selectStored_refines:
  assumes wf: "versionsWf h s" and run: "selectStored ver s h = (q, h')"
  shows "\<exists>a. q = Some a \<and> extends h h' \<and> length h \<le> a \<and> cell_ok mappingTemplateKind h' a \<and>
    selectVersion ver (sliceView mappingTemplateKind viewTemplate h s) =
      Ok (viewTemplate h' (loadCell mappingTemplateKind h' a)) \<and>
    ownsTemplate h' (loadCell mappingTemplateKind h' a) \<subseteq> {length h..<length h'}"
proof -
  let ?K = mappingTemplateKind and ?vs = "sliceView mappingTemplateKind viewTemplate h s"
  let ?w = "length h" and ?star = "zeroTemplate\<lparr>gt_Version := ''*''\<rparr>"
  let ?h1 = "h @ [mkArr ?K [?star]]"
  let ?v = "length ?h1" and ?h2 = "?h1 @ [mkArr ?K [zeroOf ?K]]"
  let ?cells = "\<lparr>cell_v = None, cell_wildcard = emptyTemplate ''*''\<rparr>"
  have w1: "storeCell ?K ?w ?star (h @ [mkArr ?K [zeroOf ?K]]) = ?h1"
    by (simp add: storeCell_def kind_okD list_update_append)
  have at: "?h2 ! ?w = mkArr ?K [?star]" "?h2 ! ?v = mkArr ?K [zeroOf ?K]"
    by (simp_all add: nth_append)
  have star: "wfTemplate h ?star" "viewTemplate h ?star = emptyTemplate ''*''"
    by (simp_all add: template_wf viewTemplate_eq emptyTemplate_def zeroTemplate_def)
  have start: "scanned h ?v ?w (None, ?h2) (?cells, None)"
    using star at by (simp add: scanned_def cell_ok_def loadCell_def kind_okD extends_def nth_append)
  obtain p h3 where scan: "scanStored ver s ?v ?w 0 (goLen s) None ?h2 = (p, h3)" by fastforce
  obtain cells ptr where val: "scanVersions ver ?vs (?cells, None) = (cells, ptr)" by fastforce
  have neq: "length h \<le> ?v" "length h \<le> ?w" "?v \<noteq> ?w" "0 + goLen s = goLen s" by simp_all
  from scanStored_refines [OF wf neq(1-3) start neq(4), of ver] scan val
  have sim: "scanned h ?v ?w (p, h3) (cells, ptr)" by simp
  define c where "c = (case p of None \<Rightarrow> ?w | Some a \<Rightarrow> a)"
  have found: "wfTemplate h (loadCell ?K h3 c)" "cell_ok ?K h3 c"
    "selectVersion ver ?vs = Ok (defaultTemplate (viewTemplate h (loadCell ?K h3 c)))"
    using sim val by (auto simp: scanned_def selectVersion_def derefTemplate_def c_def)
  have e3: "extends h h3" using sim by (simp add: scanned_def)
  note same = template.keep [OF found(1) e3]
  have wf3: "pointerWf ?K wfTemplate h3 (Some c)" using same found(2) by simp
  obtain b h4 where cp: "ClusterWorkloadResourceMappingTemplate_DeepCopy (Some c) h3 = (Some b, h4)"
    by (cases "ClusterWorkloadResourceMappingTemplate_DeepCopy (Some c) h3")
      (auto simp: ClusterWorkloadResourceMappingTemplate_DeepCopy_def dest: copyPointer_nil_iff)
  obtain r h5 where d: "ClusterWorkloadResourceMappingTemplate_Default (loadCell ?K h4 b) h4 = (r, h5)"
    by fastforce
  have pc: "(case p of None \<Rightarrow> Some ?w | Some a \<Rightarrow> Some a) = Some c"
    by (simp add: c_def split: option.splits)
  have out: "q = Some b" "h' = storeCell ?K b r h5"
    using run scan cp d pc
    by (auto simp: selectStored_def newCell_def w1 Let_def simp del: append_assoc)
  note copy = copied_default [OF wf3 cp d out(2)]
  have len: "length h \<le> length h3" using e3 by (simp add: extends_def)
  with copy show ?thesis
    using extends_trans [OF e3, of h'] found(3) same(1)
    by (intro exI [of _ b]) (auto simp: out(1))
qed

section \<open>Claims\<close>

text \<open>C31. \<open>Default\<close> of a mapping, done in place through the slices of its versions and
  of their containers, has the effect of the defaults by value on every version, even where two
  versions share an array of containers. It writes to nothing but the storage of the mapping,
  leaves the mapping well-formed, and reads the same when it is done again.\<close>

theorem mapping_Default_in_place:
  assumes "wfMapping h m" and "ClusterWorkloadResourceMapping_Default m h = h'"
  shows "viewMapping h' m = apsnd defaultMapping (viewMapping h m) \<and> wfMapping h' m \<and>
    (\<forall>a < length h. a \<notin> ownsMapping h m \<longrightarrow> h' ! a = h ! a) \<and>
    viewMapping (ClusterWorkloadResourceMapping_Default m h') m = viewMapping h' m"
proof -
  have once: "viewMapping g' m = apsnd defaultMapping (viewMapping g m) \<and> wfMapping g' m \<and>
      (\<forall>a < length g. a \<notin> ownsMapping g m \<longrightarrow> g' ! a = g ! a)"
    if wf: "wfMapping g m" and g': "g' = ClusterWorkloadResourceMapping_Default m g" for g g'
  proof -
    let ?s = "gms_Versions (gm_Spec m)" and ?K = mappingTemplateKind
    have s: "versionsWf g ?s" using wf by (simp add: mapping_defs mappingSpec_defs)
    have d: "defaultVersions ?s 0 (goLen ?s) g = g'"
      by (simp add: g' ClusterWorkloadResourceMapping_Default_def)
    note spec = defaultVersions_spec [OF s _ d, simplified]
    have "length (elems ?K g ?s) = goLen ?s" "length (elems ?K g' ?s) = goLen ?s"
      using s spec by (simp_all add: sliceWf_def)
    then have "sliceView ?K viewTemplate g' ?s = map defaultTemplate (sliceView ?K viewTemplate g ?s)"
      using spec by (simp add: sliceView_def list_eq_iff_nth_eq)
    with spec show ?thesis by (simp add: mapping_defs mappingSpec_defs defaultMapping_def)
  qed
  note first = once [OF assms(1) assms(2) [symmetric]]
  have "defaultMapping (defaultMapping x) = defaultMapping x" for x
    by (simp add: defaultMapping_def defaultTemplate_id defaultTemplate_defaulted)
  with first once [OF conjunct1 [OF conjunct2 [OF first]] refl] show ?thesis
    by (simp add: apsnd_compose [symmetric] apsnd_def map_prod_def split: prod.splits)
qed

text \<open>Two versions that share the array of their containers.\<close>

definition sharingStore :: store where
  "sharingStore =
    [MappingContainers [\<lparr>mc_Path = ''.spec'', mc_Name = '''', mc_Env = '''', mc_VolumeMounts = ''.mounts''\<rparr>],
     MappingTemplates [zeroTemplate\<lparr>gt_Version := ''v1'', gt_Containers := Slice 0 0 1 1\<rparr>,
       zeroTemplate\<lparr>gt_Version := ''*'', gt_Containers := Slice 0 0 1 1\<rparr>]]"

definition sharingMapping :: gMapping where
  "sharingMapping = zeroMapping\<lparr>gm_Spec := \<lparr>gms_Versions = Slice 1 0 2 2\<rparr>\<rparr>"

lemma sharing_wf: "wfMapping sharingStore sharingMapping"
  by (simp add: sharingStore_def sharingMapping_def example_simps)

lemma sharing_view:
  "viewMapping sharingStore sharingMapping = (zeroTypeMeta, \<lparr>rm_meta = zeroMeta, rm_Versions =
     map (\<lambda>ver. \<lparr>mt_Version = ver, mt_Annotations = '''', mt_Containers =
       [\<lparr>mc_Path = ''.spec'', mc_Name = '''', mc_Env = '''', mc_VolumeMounts = ''.mounts''\<rparr>],
       mt_Volumes = ''''\<rparr>) [''v1'', ''*'']\<rparr>)"
  by (simp add: sharingStore_def sharingMapping_def example_simps)

theorem mapping_Default_in_place_witness:
  "map (map mc_Env \<circ> mt_Containers) (rm_Versions (snd (viewMapping
      (ClusterWorkloadResourceMapping_Default sharingMapping sharingStore) sharingMapping))) =
    [[''.env''], [''.env'']]"
  using mapping_Default_in_place [OF sharing_wf refl]
  by (simp add: sharing_view defaultMapping_def defaultTemplate_def defaultContainer_def Let_def)

text \<open>C30. \<open>LookupMapping\<close> never hands out, and never sets a default in, the mapping that
  the client fetched: the result is a pointer to a new template in new storage, which reads as
  the template the lookup by value gives, and every cell that existed before is as it was.\<close>

theorem lookup_keeps_fetched:
  assumes "wfMapping h m" and "selectStored ver (gms_Versions (gm_Spec m)) h = (q, h')"
  shows "\<exists>a. q = Some a \<and> length h \<le> a \<and> extends h h' \<and> viewMapping h' m = viewMapping h m \<and>
    selectVersion ver (rm_Versions (snd (viewMapping h m))) =
      Ok (viewTemplate h' (loadCell mappingTemplateKind h' a)) \<and>
    ownsTemplate h' (loadCell mappingTemplateKind h' a) \<inter> ownsMapping h m = {}"
proof -
  have s: "versionsWf h (gms_Versions (gm_Spec m))" using assms(1) by (simp add: mapping_defs mappingSpec_defs)
  note D = mapping_deep_copy [OF plainCopiers_ok]
  from selectStored_refines [OF s assms(2)] obtain a where a: "q = Some a" "extends h h'" "length h \<le> a"
    "selectVersion ver (sliceView mappingTemplateKind viewTemplate h (gms_Versions (gm_Spec m))) =
      Ok (viewTemplate h' (loadCell mappingTemplateKind h' a))"
    "ownsTemplate h' (loadCell mappingTemplateKind h' a) \<subseteq> {length h..<length h'}" by blast
  moreover have "viewMapping h' m = viewMapping h m" by (rule deep_copy.keep(1) [OF D assms(1) a(2)])
  moreover have "ownsMapping h m \<subseteq> {..<length h}" by (rule deep_copy.owned [OF D assms(1)])
  ultimately show ?thesis
    by (intro exI [of _ a]) (fastforce simp: viewMapping_def viewMappingSpec_def)
qed

theorem lookup_keeps_fetched_witness:
  "case selectStored ''v2'' (gms_Versions (gm_Spec sharingMapping)) sharingStore of (q, h') \<Rightarrow>
     map mc_Env (mt_Containers (viewTemplate h' (loadCell mappingTemplateKind h' (the q)))) = [''.env''] \<and>
     map (map mc_Env \<circ> mt_Containers) (rm_Versions (snd (viewMapping h' sharingMapping))) = [[''''], ['''']]"
proof -
  obtain q h' where run: "selectStored ''v2'' (gms_Versions (gm_Spec sharingMapping)) sharingStore = (q, h')"
    by fastforce
  from lookup_keeps_fetched [OF sharing_wf run] obtain a where a: "q = Some a"
    "viewMapping h' sharingMapping = viewMapping sharingStore sharingMapping"
    "selectVersion ''v2'' (rm_Versions (snd (viewMapping sharingStore sharingMapping))) =
      Ok (viewTemplate h' (loadCell mappingTemplateKind h' a))" by blast
  let ?t = "viewTemplate h' (loadCell mappingTemplateKind h' a)"
  have "map_ok (map mc_Env \<circ> mt_Containers) (Ok ?t) = Ok [''.env'']"
    unfolding a(3) [symmetric]
    by (simp add: sharing_view selectVersion_def derefTemplate_def defaultTemplate_def defaultContainer_def)
  then have "map mc_Env (mt_Containers ?t) = [''.env'']" by simp
  with a run show ?thesis by (simp add: sharing_view)
qed

end
