(* ===== verification/Die.thy ===== *)
theory Die
  imports Stored_Types
begin

text \<open>
  What diegen generates for every type in \<open>dies/v1beta1/zz_generated.die.go\<close>, once for all
  types. A die is a pointer to a cell holding the wrapped resource and whether it is mutable:
  an immutable die hands out deep copies and answers every change with a new die, a mutable one
  hands out the resource itself and changes in place. A callback is a function on the heap that
  gets the address it may work on.
\<close>

section \<open>Parameters of the generator\<close>

text \<open>
  The type that is wrapped: how its dies and its values are kept, its \<open>DeepCopyInto\<close>, and the
  \<open>FrozenObjectMeta\<close> of a resource, which only the object types have.
\<close>

record ('r, 'c) dieType =
  dt_die :: "('r die, 'c) kind"
  dt_res :: "('r, 'c) kind"
  dt_DeepCopyInto :: "'r \<Rightarrow> 'c heap \<Rightarrow> 'r \<times> 'c heap"
  dt_freeze :: "'r \<Rightarrow> objectMeta option"

text \<open>
  \<open>encoding/json\<close> on the type and on \<open>runtime.RawExtension\<close>. Marshalling reads the heap.
  Unmarshalling fills the value it is given, may allocate, and may fail half way; the dies ignore
  the error, so the value is part of the result in either case.
\<close>

type_synonym rawExtension = string

record ('r, 'c) jsonOps =
  js_Marshal :: "'c heap \<Rightarrow> 'r \<Rightarrow> error + string"
  js_Unmarshal :: "string \<Rightarrow> 'r \<Rightarrow> 'c heap \<Rightarrow> ('r \<times> error option) \<times> 'c heap"
  js_MarshalRaw :: "rawExtension \<Rightarrow> error + string"
  js_UnmarshalRaw :: "string \<Rightarrow> rawExtension"

text \<open>\<open>b, _ := json.Marshal(x)\<close>: no bytes when it fails.\<close>

definition bytesOf :: "error + string \<Rightarrow> string" where
  "bytesOf r = (case r of Inl err \<Rightarrow> '''' | Inr b \<Rightarrow> b)"

section \<open>The generated methods\<close>

definition loadDie :: "('r, 'c) dieType \<Rightarrow> 'c heap \<Rightarrow> addr \<Rightarrow> 'r die" where
  "loadDie T h d = loadCell (dt_die T) h d"

definition storeDie :: "('r, 'c) dieType \<Rightarrow> addr \<Rightarrow> 'r die \<Rightarrow> 'c heap \<Rightarrow> 'c heap" where
  "storeDie T d x h = storeCell (dt_die T) d x h"

text \<open>\<open>&XDie{...}\<close>\<close>

definition newDie :: "('r, 'c) dieType \<Rightarrow> 'r die \<Rightarrow> 'c heap \<Rightarrow> addr \<times> 'c heap" where
  "newDie T x h = (length h, h @ [mkArr (dt_die T) [x]])"

text \<open>\<open>*d.r.DeepCopy()\<close>: the copy is made behind a new pointer, which is then read.\<close>

definition derefDeepCopy :: "('r, 'c) dieType \<Rightarrow> 'r \<Rightarrow> 'c heap \<Rightarrow> 'r \<times> 'c heap" where
  "derefDeepCopy T r h =
     (let (out, h) = newCell (dt_res T) h;
          (y, h) = dt_DeepCopyInto T r h;
          h = storeCell (dt_res T) out y h
      in (loadCell (dt_res T) h out, h))"

definition dieDeepCopy :: "('r, 'c) dieType \<Rightarrow> addr \<Rightarrow> 'c heap \<Rightarrow> addr \<times> 'c heap" where
  "dieDeepCopy T d h =
     (let (r, h) = derefDeepCopy T (d_r (loadDie T h d)) h
      in newDie T \<lparr>d_mutable = d_mutable (loadDie T h d), d_Frozen = dt_freeze T r, d_r = r\<rparr> h)"

definition dieImmutable :: "('r, 'c) dieType \<Rightarrow> addr \<Rightarrow> bool \<Rightarrow> 'c heap \<Rightarrow> addr \<times> 'c heap" where
  "dieImmutable T d immutable h =
     (if d_mutable (loadDie T h d) = (\<not> immutable) then (d, h)
      else let (d, h) = dieDeepCopy T d h
           in (d, storeDie T d ((loadDie T h d)\<lparr>d_mutable := \<not> immutable\<rparr>) h))"

definition dieFeed :: "('r, 'c) dieType \<Rightarrow> addr \<Rightarrow> 'r \<Rightarrow> 'c heap \<Rightarrow> addr \<times> 'c heap" where
  "dieFeed T d r h =
     (if d_mutable (loadDie T h d)
      then (d, storeDie T d ((loadDie T h d)\<lparr>d_Frozen := dt_freeze T r, d_r := r\<rparr>) h)
      else newDie T \<lparr>d_mutable = d_mutable (loadDie T h d), d_Frozen = dt_freeze T r, d_r = r\<rparr> h)"

definition dieFeedPtr ::
  "('r, 'c) dieType \<Rightarrow> addr \<Rightarrow> addr option \<Rightarrow> 'c heap \<Rightarrow> addr \<times> 'c heap" where
  "dieFeedPtr T d p h =
     (let (r, h) = (case p of None \<Rightarrow> newCell (dt_res T) h | Some a \<Rightarrow> (a, h))
      in dieFeed T d (loadCell (dt_res T) h r) h)"

definition dieFeedRawExtension ::
  "('r, 'c) dieType \<Rightarrow> ('r, 'c) jsonOps \<Rightarrow> addr \<Rightarrow> rawExtension \<Rightarrow> 'c heap \<Rightarrow> addr \<times> 'c heap" where
  "dieFeedRawExtension T J d raw h =
     (let b = bytesOf (js_MarshalRaw J raw);
          ((r, err), h) = js_Unmarshal J b (zeroOf (dt_res T)) h
      in dieFeed T d r h)"

definition dieRelease :: "('r, 'c) dieType \<Rightarrow> addr \<Rightarrow> 'c heap \<Rightarrow> 'r \<times> 'c heap" where
  "dieRelease T d h =
     (if d_mutable (loadDie T h d) then (d_r (loadDie T h d), h)
      else derefDeepCopy T (d_r (loadDie T h d)) h)"

definition dieReleasePtr :: "('r, 'c) dieType \<Rightarrow> addr \<Rightarrow> 'c heap \<Rightarrow> addr \<times> 'c heap" where
  "dieReleasePtr T d h =
     (let (r, h) = dieRelease T d h in (length h, h @ [mkArr (dt_res T) [r]]))"

definition dieReleaseRawExtension ::
  "('r, 'c) dieType \<Rightarrow> ('r, 'c) jsonOps \<Rightarrow> addr \<Rightarrow> 'c heap \<Rightarrow> rawExtension \<times> 'c heap" where
  "dieReleaseRawExtension T J d h =
     (let (r, h) = dieReleasePtr T d h;
          b = bytesOf (js_Marshal J h (loadCell (dt_res T) h r))
      in (js_UnmarshalRaw J b, h))"

definition dieStamp ::
  "('r, 'c) dieType \<Rightarrow> addr \<Rightarrow> ('r \<Rightarrow> 'c heap \<Rightarrow> 'r \<times> 'c heap) \<Rightarrow> 'c heap \<Rightarrow> addr \<times> 'c heap" where
  "dieStamp T d fn h =
     (let (r, h) = dieRelease T d h; (r, h) = fn r h in dieFeed T d r h)"

text \<open>\<open>var XBlank = (&XDie{}).DieFeed(X{})\<close>\<close>

definition dieBlank :: "('r, 'c) dieType \<Rightarrow> 'c heap \<Rightarrow> addr \<times> 'c heap" where
  "dieBlank T h =
     (let (d, h) = newCell (dt_die T) h in dieFeed T d (zeroOf (dt_res T)) h)"

section \<open>The methods of one type\<close>

record ('r, 'c) dieMethods =
  DieBlank :: "'c heap \<Rightarrow> addr \<times> 'c heap"
  DieImmutable :: "addr \<Rightarrow> bool \<Rightarrow> 'c heap \<Rightarrow> addr \<times> 'c heap"
  DieFeed :: "addr \<Rightarrow> 'r \<Rightarrow> 'c heap \<Rightarrow> addr \<times> 'c heap"
  DieFeedPtr :: "addr \<Rightarrow> addr option \<Rightarrow> 'c heap \<Rightarrow> addr \<times> 'c heap"
  DieFeedRawExtension ::
    "('r, 'c) jsonOps \<Rightarrow> addr \<Rightarrow> rawExtension \<Rightarrow> 'c heap \<Rightarrow> addr \<times> 'c heap"
  DieRelease :: "addr \<Rightarrow> 'c heap \<Rightarrow> 'r \<times> 'c heap"
  DieReleasePtr :: "addr \<Rightarrow> 'c heap \<Rightarrow> addr \<times> 'c heap"
  DieReleaseRawExtension :: "('r, 'c) jsonOps \<Rightarrow> addr \<Rightarrow> 'c heap \<Rightarrow> rawExtension \<times> 'c heap"
  DieStamp :: "addr \<Rightarrow> ('r \<Rightarrow> 'c heap \<Rightarrow> 'r \<times> 'c heap) \<Rightarrow> 'c heap \<Rightarrow> addr \<times> 'c heap"
  DieDeepCopy :: "addr \<Rightarrow> 'c heap \<Rightarrow> addr \<times> 'c heap"

definition diegen :: "('r, 'c) dieType \<Rightarrow> ('r, 'c) dieMethods" where
  "diegen T =
     \<lparr>DieBlank = dieBlank T,
      DieImmutable = dieImmutable T,
      DieFeed = dieFeed T,
      DieFeedPtr = dieFeedPtr T,
      DieFeedRawExtension = dieFeedRawExtension T,
      DieRelease = dieRelease T,
      DieReleasePtr = dieReleasePtr T,
      DieReleaseRawExtension = dieReleaseRawExtension T,
      DieStamp = dieStamp T,
      DieDeepCopy = dieDeepCopy T\<rparr>"

text \<open>The additional methods of the object types.\<close>

definition dieReleaseUnstructured ::
  "('r, 'c) dieType \<Rightarrow> ('c heap \<Rightarrow> 'r \<Rightarrow> json) \<Rightarrow> addr \<Rightarrow> 'c heap \<Rightarrow> json \<times> 'c heap" where
  "dieReleaseUnstructured T toUnstructured d h =
     (let (r, h) = dieReleasePtr T d h
      in (toUnstructured h (loadCell (dt_res T) h r), h))"

definition dieDeepCopyObject :: "('r, 'c) dieType \<Rightarrow> addr \<Rightarrow> 'c heap \<Rightarrow> addr \<times> 'c heap" where
  "dieDeepCopyObject T d h =
     (let (out, h) = newCell (dt_res T) h;
          (y, h) = dt_DeepCopyInto T (d_r (loadDie T h d)) h
      in (out, storeCell (dt_res T) out y h))"

definition dieGetObjectKind ::
  "('r, 'c) dieType \<Rightarrow> ('r \<Rightarrow> typeMeta) \<Rightarrow> addr \<Rightarrow> 'c heap \<Rightarrow> typeMeta \<times> 'c heap" where
  "dieGetObjectKind T typeMetaOf d h = (let (r, h) = dieRelease T d h in (typeMetaOf r, h))"

definition dieMarshalJSON ::
  "('r, 'c) dieType \<Rightarrow> ('r, 'c) jsonOps \<Rightarrow> addr \<Rightarrow> 'c heap \<Rightarrow> error + string" where
  "dieMarshalJSON T J d h = js_Marshal J h (d_r (loadDie T h d))"

definition dieUnmarshalJSON ::
  "('r, 'c) dieType \<Rightarrow> ('r, 'c) jsonOps \<Rightarrow> addr \<Rightarrow> addr \<Rightarrow> string \<Rightarrow> 'c heap \<Rightarrow>
   error option \<times> 'c heap" where
  "dieUnmarshalJSON T J blank d b h =
     (if d = blank
      then (Some (Error ''cannot unmarshal into the blank die, create a copy first''), h)
      else if \<not> d_mutable (loadDie T h d)
      then (Some (Error ''cannot unmarshal into immutable dies, create a mutable version first''), h)
      else let ((r, err), h) = js_Unmarshal J b (zeroOf (dt_res T)) h;
               (d', h) = dieFeed T d r h
           in (err, storeDie T d (loadDie T h d') h))"

section \<open>Idioms of the hand-written dies\<close>

text \<open>
  \<open>d := XBlank.DieImmutable(false).DieFeed(x); fn(d); d.DieRelease()\<close>: a callback works on a
  part of the resource through a mutable die of its own.
\<close>

definition subDie ::
  "('r, 'c) dieMethods \<Rightarrow> addr \<Rightarrow> 'r \<Rightarrow> (addr \<Rightarrow> 'c heap \<Rightarrow> 'c heap) \<Rightarrow> 'c heap \<Rightarrow> 'r \<times> 'c heap" where
  "subDie M blank x fn h =
     (let (d, h) = DieImmutable M blank False h;
          (d, h) = DieFeed M d x h;
          h = fn d h
      in DieRelease M d h)"

text \<open>The same for a field that is a pointer.\<close>

definition subDiePtr ::
  "('r, 'c) dieMethods \<Rightarrow> addr \<Rightarrow> addr option \<Rightarrow> (addr \<Rightarrow> 'c heap \<Rightarrow> 'c heap) \<Rightarrow> 'c heap \<Rightarrow>
   addr option \<times> 'c heap" where
  "subDiePtr M blank p fn h =
     (let (d, h) = DieImmutable M blank False h;
          (d, h) = DieFeedPtr M d p h;
          h = fn d h;
          (q, h) = DieReleasePtr M d h
      in (Some q, h))"

text \<open>\<open>for i := range s\<close> up to the first element that satisfies \<open>P\<close>.\<close>

fun findElem :: "('e, 'c) kind \<Rightarrow> 'c heap \<Rightarrow> goSlice \<Rightarrow> ('e \<Rightarrow> bool) \<Rightarrow> nat \<Rightarrow> nat \<Rightarrow> nat option" where
  "findElem K h s P i 0 = None"
| "findElem K h s P i (Suc k) =
     (if P (loadElem K h s i) then Some i else findElem K h s P (Suc i) k)"

text \<open>
  The body of \<open>VersionsDie\<close> and \<open>EnvDie\<close>: the callback edits the first element with the key,
  in place, or a new one that is appended.
\<close>

definition upsertDie ::
  "('r, 'c) dieMethods \<Rightarrow> addr \<Rightarrow> ('r, 'c) kind \<Rightarrow> ('r \<Rightarrow> string) \<Rightarrow> (string \<Rightarrow> 'r) \<Rightarrow> string \<Rightarrow>
   (addr \<Rightarrow> 'c heap \<Rightarrow> 'c heap) \<Rightarrow> goSlice \<Rightarrow> 'c heap \<Rightarrow> goSlice \<times> 'c heap" where
  "upsertDie M blank K keyOf fresh key fn s h =
     (case findElem K h s (\<lambda>x. key = keyOf x) 0 (goLen s) of
        Some i \<Rightarrow>
          (let (x, h) = subDie M blank (loadElem K h s i) fn h in (s, storeElem K s i x h))
      | None \<Rightarrow> (let (x, h) = subDie M blank (fresh key) fn h in appendElem K s x h))"

text \<open>\<open>make([]T, len(dies))\<close> filled with what the dies release, in their order.\<close>

fun releaseEach ::
  "(addr \<Rightarrow> 'c heap \<Rightarrow> 'r \<times> 'c heap) \<Rightarrow> ('r, 'c) kind \<Rightarrow> goSlice \<Rightarrow> nat \<Rightarrow> addr list \<Rightarrow>
   'c heap \<Rightarrow> 'c heap" where
  "releaseEach release K s i [] h = h"
| "releaseEach release K s i (d # ds) h =
     (let (x, h) = release d h in releaseEach release K s (Suc i) ds (storeElem K s i x h))"

definition releaseAll ::
  "(addr \<Rightarrow> 'c heap \<Rightarrow> 'r \<times> 'c heap) \<Rightarrow> ('r, 'c) kind \<Rightarrow> addr list \<Rightarrow> 'c heap \<Rightarrow>
   goSlice \<times> 'c heap" where
  "releaseAll release K ds h =
     (let (s, h) = makeSlice K (length ds) h in (s, releaseEach release K s 0 ds h))"


end
