(* ===== verification/Generated_Dies.thy ===== *)
theory Generated_Dies
  imports Die Deep_Copy
begin

text \<open>
  \<open>dies/v1beta1/zz_generated.die.go\<close>: for every API type the parameters diegen was run with,
  the table of its methods, and one stamp per field. \<open>L\<close> are the copies of apimachinery, as in
  \<open>Deep_Copy\<close>; the dies of \<open>dies.dev/apis/meta/v1\<close> are the record \<open>extDies\<close>, an argument of
  the stamps that use them.
\<close>

section \<open>Dies of other packages\<close>

record extDies =
  ed_ObjectMeta :: "(objectMeta, cell) dieMethods"
  ed_ObjectMetaBlank :: addr
  ed_LabelSelector :: "(labelSelector, cell) dieMethods"
  ed_LabelSelectorBlank :: addr
  ed_ConditionRelease :: "addr \<Rightarrow> store \<Rightarrow> condition \<times> store"
  ed_ConditionBlank :: addr
  ed_ConditionType :: "string \<Rightarrow> addr \<Rightarrow> store \<Rightarrow> addr \<times> store"
  ed_ConditionUnknown :: "addr \<Rightarrow> store \<Rightarrow> addr \<times> store"
  ed_ConditionReason :: "string \<Rightarrow> addr \<Rightarrow> store \<Rightarrow> addr \<times> store"

section \<open>Types and their methods\<close>

definition mappingDieType :: "copiers \<Rightarrow> (gMapping, cell) dieType" where
  "mappingDieType L = \<lparr>dt_die = mappingDieKind, dt_res = mappingKind,
     dt_DeepCopyInto = ClusterWorkloadResourceMapping_DeepCopyInto L, dt_freeze = (\<lambda>r. Some (gm_ObjectMeta r))\<rparr>"

definition ClusterWorkloadResourceMappingDie :: "copiers \<Rightarrow> (gMapping, cell) dieMethods" where
  "ClusterWorkloadResourceMappingDie L = diegen (mappingDieType L)"

definition mappingSpecDieType :: "(gMappingSpec, cell) dieType" where
  "mappingSpecDieType = \<lparr>dt_die = mappingSpecDieKind, dt_res = mappingSpecKind,
     dt_DeepCopyInto = ClusterWorkloadResourceMappingSpec_DeepCopyInto, dt_freeze = (\<lambda>r. None)\<rparr>"

definition ClusterWorkloadResourceMappingSpecDie :: "(gMappingSpec, cell) dieMethods" where
  "ClusterWorkloadResourceMappingSpecDie = diegen mappingSpecDieType"

definition templateDieType :: "(gTemplate, cell) dieType" where
  "templateDieType = \<lparr>dt_die = mappingTemplateDieKind, dt_res = mappingTemplateKind,
     dt_DeepCopyInto = ClusterWorkloadResourceMappingTemplate_DeepCopyInto, dt_freeze = (\<lambda>r. None)\<rparr>"

definition ClusterWorkloadResourceMappingTemplateDie :: "(gTemplate, cell) dieMethods" where
  "ClusterWorkloadResourceMappingTemplateDie = diegen templateDieType"

definition containerDieType :: "(mappingContainer, cell) dieType" where
  "containerDieType = \<lparr>dt_die = mappingContainerDieKind, dt_res = mappingContainerKind,
     dt_DeepCopyInto = ClusterWorkloadResourceMappingContainer_DeepCopyInto, dt_freeze = (\<lambda>r. None)\<rparr>"

definition ClusterWorkloadResourceMappingContainerDie :: "(mappingContainer, cell) dieMethods" where
  "ClusterWorkloadResourceMappingContainerDie = diegen containerDieType"

definition bindingDieType :: "copiers \<Rightarrow> (gBinding, cell) dieType" where
  "bindingDieType L = \<lparr>dt_die = bindingDieKind, dt_res = bindingKind,
     dt_DeepCopyInto = ServiceBinding_DeepCopyInto L, dt_freeze = (\<lambda>r. Some (gb_ObjectMeta r))\<rparr>"

definition ServiceBindingDie :: "copiers \<Rightarrow> (gBinding, cell) dieMethods" where
  "ServiceBindingDie L = diegen (bindingDieType L)"

definition bindingSpecDieType :: "copiers \<Rightarrow> (gBindingSpec, cell) dieType" where
  "bindingSpecDieType L = \<lparr>dt_die = bindingSpecDieKind, dt_res = bindingSpecKind,
     dt_DeepCopyInto = ServiceBindingSpec_DeepCopyInto L, dt_freeze = (\<lambda>r. None)\<rparr>"

definition ServiceBindingSpecDie :: "copiers \<Rightarrow> (gBindingSpec, cell) dieMethods" where
  "ServiceBindingSpecDie L = diegen (bindingSpecDieType L)"

definition workloadDieType :: "copiers \<Rightarrow> (gWorkloadReference, cell) dieType" where
  "workloadDieType L = \<lparr>dt_die = workloadReferenceDieKind, dt_res = workloadReferenceKind,
     dt_DeepCopyInto = ServiceBindingWorkloadReference_DeepCopyInto L, dt_freeze = (\<lambda>r. None)\<rparr>"

definition ServiceBindingWorkloadReferenceDie :: "copiers \<Rightarrow> (gWorkloadReference, cell) dieMethods" where
  "ServiceBindingWorkloadReferenceDie L = diegen (workloadDieType L)"

definition serviceDieType :: "(serviceReference, cell) dieType" where
  "serviceDieType = \<lparr>dt_die = serviceReferenceDieKind, dt_res = serviceReferenceKind,
     dt_DeepCopyInto = ServiceBindingServiceReference_DeepCopyInto, dt_freeze = (\<lambda>r. None)\<rparr>"

definition ServiceBindingServiceReferenceDie :: "(serviceReference, cell) dieMethods" where
  "ServiceBindingServiceReferenceDie = diegen serviceDieType"

definition envMappingDieType :: "(envMapping, cell) dieType" where
  "envMappingDieType = \<lparr>dt_die = envMappingDieKind, dt_res = envMappingKind,
     dt_DeepCopyInto = EnvMapping_DeepCopyInto, dt_freeze = (\<lambda>r. None)\<rparr>"

definition EnvMappingDie :: "(envMapping, cell) dieMethods" where
  "EnvMappingDie = diegen envMappingDieType"

definition bindingStatusDieType :: "copiers \<Rightarrow> (gBindingStatus, cell) dieType" where
  "bindingStatusDieType L = \<lparr>dt_die = bindingStatusDieKind, dt_res = bindingStatusKind,
     dt_DeepCopyInto = ServiceBindingStatus_DeepCopyInto L, dt_freeze = (\<lambda>r. None)\<rparr>"

definition ServiceBindingStatusDie :: "copiers \<Rightarrow> (gBindingStatus, cell) dieMethods" where
  "ServiceBindingStatusDie L = diegen (bindingStatusDieType L)"

definition secretReferenceDieType :: "(secretReference, cell) dieType" where
  "secretReferenceDieType = \<lparr>dt_die = secretReferenceDieKind, dt_res = secretReferenceKind,
     dt_DeepCopyInto = ServiceBindingSecretReference_DeepCopyInto, dt_freeze = (\<lambda>r. None)\<rparr>"

definition ServiceBindingSecretReferenceDie :: "(secretReference, cell) dieMethods" where
  "ServiceBindingSecretReferenceDie = diegen secretReferenceDieType"

lemmas dieType_defs =
  mappingDieType_def
  mappingSpecDieType_def
  templateDieType_def
  containerDieType_def
  bindingDieType_def
  bindingSpecDieType_def
  workloadDieType_def
  serviceDieType_def
  envMappingDieType_def
  bindingStatusDieType_def
  secretReferenceDieType_def

lemmas die_table_defs =
  ClusterWorkloadResourceMappingDie_def
  ClusterWorkloadResourceMappingSpecDie_def
  ClusterWorkloadResourceMappingTemplateDie_def
  ClusterWorkloadResourceMappingContainerDie_def
  ServiceBindingDie_def
  ServiceBindingSpecDie_def
  ServiceBindingWorkloadReferenceDie_def
  ServiceBindingServiceReferenceDie_def
  EnvMappingDie_def
  ServiceBindingStatusDie_def
  ServiceBindingSecretReferenceDie_def

section \<open>Package initialisation\<close>

text \<open>
  The blank dies, in the order of their declarations. Each takes two cells, the die it is fed
  from and the die that \<open>DieFeed\<close> makes, so their addresses are the odd ones.
\<close>

definition packageInit :: "copiers \<Rightarrow> store \<Rightarrow> addr list \<times> store" where
  "packageInit L h =
     (let (d0, h) = DieBlank (ClusterWorkloadResourceMappingDie L) h;
          (d1, h) = DieBlank ClusterWorkloadResourceMappingSpecDie h;
          (d2, h) = DieBlank ClusterWorkloadResourceMappingTemplateDie h;
          (d3, h) = DieBlank ClusterWorkloadResourceMappingContainerDie h;
          (d4, h) = DieBlank (ServiceBindingDie L) h;
          (d5, h) = DieBlank (ServiceBindingSpecDie L) h;
          (d6, h) = DieBlank (ServiceBindingWorkloadReferenceDie L) h;
          (d7, h) = DieBlank ServiceBindingServiceReferenceDie h;
          (d8, h) = DieBlank EnvMappingDie h;
          (d9, h) = DieBlank (ServiceBindingStatusDie L) h;
          (d10, h) = DieBlank ServiceBindingSecretReferenceDie h
      in ([d0, d1, d2, d3, d4, d5, d6, d7, d8, d9, d10], h))"

definition ClusterWorkloadResourceMappingBlank :: addr where
  "ClusterWorkloadResourceMappingBlank = 1"

definition ClusterWorkloadResourceMappingSpecBlank :: addr where
  "ClusterWorkloadResourceMappingSpecBlank = 3"

definition ClusterWorkloadResourceMappingTemplateBlank :: addr where
  "ClusterWorkloadResourceMappingTemplateBlank = 5"

definition ClusterWorkloadResourceMappingContainerBlank :: addr where
  "ClusterWorkloadResourceMappingContainerBlank = 7"

definition ServiceBindingBlank :: addr where
  "ServiceBindingBlank = 9"

definition ServiceBindingSpecBlank :: addr where
  "ServiceBindingSpecBlank = 11"

definition ServiceBindingWorkloadReferenceBlank :: addr where
  "ServiceBindingWorkloadReferenceBlank = 13"

definition ServiceBindingServiceReferenceBlank :: addr where
  "ServiceBindingServiceReferenceBlank = 15"

definition EnvMappingBlank :: addr where
  "EnvMappingBlank = 17"

definition ServiceBindingStatusBlank :: addr where
  "ServiceBindingStatusBlank = 19"

definition ServiceBindingSecretReferenceBlank :: addr where
  "ServiceBindingSecretReferenceBlank = 21"

lemmas blank_defs =
  ClusterWorkloadResourceMappingBlank_def
  ClusterWorkloadResourceMappingSpecBlank_def
  ClusterWorkloadResourceMappingTemplateBlank_def
  ClusterWorkloadResourceMappingContainerBlank_def
  ServiceBindingBlank_def
  ServiceBindingSpecBlank_def
  ServiceBindingWorkloadReferenceBlank_def
  ServiceBindingServiceReferenceBlank_def
  EnvMappingBlank_def
  ServiceBindingStatusBlank_def
  ServiceBindingSecretReferenceBlank_def

section \<open>Stamps of the fields\<close>

definition ClusterWorkloadResourceMappingDie_APIVersion ::
  "copiers \<Rightarrow> addr \<Rightarrow> string \<Rightarrow> store \<Rightarrow> addr \<times> store" where
  "ClusterWorkloadResourceMappingDie_APIVersion L d v =
     DieStamp (ClusterWorkloadResourceMappingDie L) d
       (\<lambda>r h. (r\<lparr>gm_TypeMeta := (gm_TypeMeta r)\<lparr>tm_APIVersion := v\<rparr>\<rparr>, h))"

definition ClusterWorkloadResourceMappingDie_Kind ::
  "copiers \<Rightarrow> addr \<Rightarrow> string \<Rightarrow> store \<Rightarrow> addr \<times> store" where
  "ClusterWorkloadResourceMappingDie_Kind L d v =
     DieStamp (ClusterWorkloadResourceMappingDie L) d
       (\<lambda>r h. (r\<lparr>gm_TypeMeta := (gm_TypeMeta r)\<lparr>tm_Kind := v\<rparr>\<rparr>, h))"

definition ClusterWorkloadResourceMappingDie_MetadataDie ::
  "copiers \<Rightarrow> extDies \<Rightarrow> addr \<Rightarrow> (addr \<Rightarrow> store \<Rightarrow> store) \<Rightarrow> store \<Rightarrow> addr \<times> store" where
  "ClusterWorkloadResourceMappingDie_MetadataDie L D d fn =
     DieStamp (ClusterWorkloadResourceMappingDie L) d (\<lambda>r h.
       (let (x, h) = subDie (ed_ObjectMeta D) (ed_ObjectMetaBlank D)
          (gm_ObjectMeta r) fn h in (r\<lparr>gm_ObjectMeta := x\<rparr>, h)))"

definition ClusterWorkloadResourceMappingDie_SpecDie ::
  "copiers \<Rightarrow> addr \<Rightarrow> (addr \<Rightarrow> store \<Rightarrow> store) \<Rightarrow> store \<Rightarrow> addr \<times> store" where
  "ClusterWorkloadResourceMappingDie_SpecDie L d fn =
     DieStamp (ClusterWorkloadResourceMappingDie L) d (\<lambda>r h.
       (let (x, h) = subDie ClusterWorkloadResourceMappingSpecDie ClusterWorkloadResourceMappingSpecBlank
          (gm_Spec r) fn h in (r\<lparr>gm_Spec := x\<rparr>, h)))"

definition ClusterWorkloadResourceMappingDie_Spec ::
  "copiers \<Rightarrow> addr \<Rightarrow> gMappingSpec \<Rightarrow> store \<Rightarrow> addr \<times> store" where
  "ClusterWorkloadResourceMappingDie_Spec L d v =
     DieStamp (ClusterWorkloadResourceMappingDie L) d
       (\<lambda>r h. (r\<lparr>gm_Spec := v\<rparr>, h))"

definition ClusterWorkloadResourceMappingSpecDie_Versions ::
  "addr \<Rightarrow> goSlice \<Rightarrow> store \<Rightarrow> addr \<times> store" where
  "ClusterWorkloadResourceMappingSpecDie_Versions d v =
     DieStamp ClusterWorkloadResourceMappingSpecDie d
       (\<lambda>r h. (r\<lparr>gms_Versions := v\<rparr>, h))"

definition ClusterWorkloadResourceMappingTemplateDie_Version ::
  "addr \<Rightarrow> string \<Rightarrow> store \<Rightarrow> addr \<times> store" where
  "ClusterWorkloadResourceMappingTemplateDie_Version d v =
     DieStamp ClusterWorkloadResourceMappingTemplateDie d
       (\<lambda>r h. (r\<lparr>gt_Version := v\<rparr>, h))"

definition ClusterWorkloadResourceMappingTemplateDie_Annotations ::
  "addr \<Rightarrow> string \<Rightarrow> store \<Rightarrow> addr \<times> store" where
  "ClusterWorkloadResourceMappingTemplateDie_Annotations d v =
     DieStamp ClusterWorkloadResourceMappingTemplateDie d
       (\<lambda>r h. (r\<lparr>gt_Annotations := v\<rparr>, h))"

definition ClusterWorkloadResourceMappingTemplateDie_Containers ::
  "addr \<Rightarrow> goSlice \<Rightarrow> store \<Rightarrow> addr \<times> store" where
  "ClusterWorkloadResourceMappingTemplateDie_Containers d v =
     DieStamp ClusterWorkloadResourceMappingTemplateDie d
       (\<lambda>r h. (r\<lparr>gt_Containers := v\<rparr>, h))"

definition ClusterWorkloadResourceMappingTemplateDie_Volumes ::
  "addr \<Rightarrow> string \<Rightarrow> store \<Rightarrow> addr \<times> store" where
  "ClusterWorkloadResourceMappingTemplateDie_Volumes d v =
     DieStamp ClusterWorkloadResourceMappingTemplateDie d
       (\<lambda>r h. (r\<lparr>gt_Volumes := v\<rparr>, h))"

definition ClusterWorkloadResourceMappingContainerDie_Path ::
  "addr \<Rightarrow> string \<Rightarrow> store \<Rightarrow> addr \<times> store" where
  "ClusterWorkloadResourceMappingContainerDie_Path d v =
     DieStamp ClusterWorkloadResourceMappingContainerDie d
       (\<lambda>r h. (r\<lparr>mc_Path := v\<rparr>, h))"

definition ClusterWorkloadResourceMappingContainerDie_Name ::
  "addr \<Rightarrow> string \<Rightarrow> store \<Rightarrow> addr \<times> store" where
  "ClusterWorkloadResourceMappingContainerDie_Name d v =
     DieStamp ClusterWorkloadResourceMappingContainerDie d
       (\<lambda>r h. (r\<lparr>mc_Name := v\<rparr>, h))"

definition ClusterWorkloadResourceMappingContainerDie_Env ::
  "addr \<Rightarrow> string \<Rightarrow> store \<Rightarrow> addr \<times> store" where
  "ClusterWorkloadResourceMappingContainerDie_Env d v =
     DieStamp ClusterWorkloadResourceMappingContainerDie d
       (\<lambda>r h. (r\<lparr>mc_Env := v\<rparr>, h))"

definition ClusterWorkloadResourceMappingContainerDie_VolumeMounts ::
  "addr \<Rightarrow> string \<Rightarrow> store \<Rightarrow> addr \<times> store" where
  "ClusterWorkloadResourceMappingContainerDie_VolumeMounts d v =
     DieStamp ClusterWorkloadResourceMappingContainerDie d
       (\<lambda>r h. (r\<lparr>mc_VolumeMounts := v\<rparr>, h))"

definition ServiceBindingDie_APIVersion ::
  "copiers \<Rightarrow> addr \<Rightarrow> string \<Rightarrow> store \<Rightarrow> addr \<times> store" where
  "ServiceBindingDie_APIVersion L d v =
     DieStamp (ServiceBindingDie L) d
       (\<lambda>r h. (r\<lparr>gb_TypeMeta := (gb_TypeMeta r)\<lparr>tm_APIVersion := v\<rparr>\<rparr>, h))"

definition ServiceBindingDie_Kind ::
  "copiers \<Rightarrow> addr \<Rightarrow> string \<Rightarrow> store \<Rightarrow> addr \<times> store" where
  "ServiceBindingDie_Kind L d v =
     DieStamp (ServiceBindingDie L) d
       (\<lambda>r h. (r\<lparr>gb_TypeMeta := (gb_TypeMeta r)\<lparr>tm_Kind := v\<rparr>\<rparr>, h))"

definition ServiceBindingDie_MetadataDie ::
  "copiers \<Rightarrow> extDies \<Rightarrow> addr \<Rightarrow> (addr \<Rightarrow> store \<Rightarrow> store) \<Rightarrow> store \<Rightarrow> addr \<times> store" where
  "ServiceBindingDie_MetadataDie L D d fn =
     DieStamp (ServiceBindingDie L) d (\<lambda>r h.
       (let (x, h) = subDie (ed_ObjectMeta D) (ed_ObjectMetaBlank D)
          (gb_ObjectMeta r) fn h in (r\<lparr>gb_ObjectMeta := x\<rparr>, h)))"

definition ServiceBindingDie_SpecDie ::
  "copiers \<Rightarrow> addr \<Rightarrow> (addr \<Rightarrow> store \<Rightarrow> store) \<Rightarrow> store \<Rightarrow> addr \<times> store" where
  "ServiceBindingDie_SpecDie L d fn =
     DieStamp (ServiceBindingDie L) d (\<lambda>r h.
       (let (x, h) = subDie (ServiceBindingSpecDie L) ServiceBindingSpecBlank
          (gb_Spec r) fn h in (r\<lparr>gb_Spec := x\<rparr>, h)))"

definition ServiceBindingDie_StatusDie ::
  "copiers \<Rightarrow> addr \<Rightarrow> (addr \<Rightarrow> store \<Rightarrow> store) \<Rightarrow> store \<Rightarrow> addr \<times> store" where
  "ServiceBindingDie_StatusDie L d fn =
     DieStamp (ServiceBindingDie L) d (\<lambda>r h.
       (let (x, h) = subDie (ServiceBindingStatusDie L) ServiceBindingStatusBlank
          (gb_Status r) fn h in (r\<lparr>gb_Status := x\<rparr>, h)))"

definition ServiceBindingDie_Spec ::
  "copiers \<Rightarrow> addr \<Rightarrow> gBindingSpec \<Rightarrow> store \<Rightarrow> addr \<times> store" where
  "ServiceBindingDie_Spec L d v =
     DieStamp (ServiceBindingDie L) d
       (\<lambda>r h. (r\<lparr>gb_Spec := v\<rparr>, h))"

definition ServiceBindingDie_Status ::
  "copiers \<Rightarrow> addr \<Rightarrow> gBindingStatus \<Rightarrow> store \<Rightarrow> addr \<times> store" where
  "ServiceBindingDie_Status L d v =
     DieStamp (ServiceBindingDie L) d
       (\<lambda>r h. (r\<lparr>gb_Status := v\<rparr>, h))"

definition ServiceBindingSpecDie_Name ::
  "copiers \<Rightarrow> addr \<Rightarrow> string \<Rightarrow> store \<Rightarrow> addr \<times> store" where
  "ServiceBindingSpecDie_Name L d v =
     DieStamp (ServiceBindingSpecDie L) d
       (\<lambda>r h. (r\<lparr>gs_Name := v\<rparr>, h))"

definition ServiceBindingSpecDie_Type ::
  "copiers \<Rightarrow> addr \<Rightarrow> string \<Rightarrow> store \<Rightarrow> addr \<times> store" where
  "ServiceBindingSpecDie_Type L d v =
     DieStamp (ServiceBindingSpecDie L) d
       (\<lambda>r h. (r\<lparr>gs_Type := v\<rparr>, h))"

definition ServiceBindingSpecDie_Provider ::
  "copiers \<Rightarrow> addr \<Rightarrow> string \<Rightarrow> store \<Rightarrow> addr \<times> store" where
  "ServiceBindingSpecDie_Provider L d v =
     DieStamp (ServiceBindingSpecDie L) d
       (\<lambda>r h. (r\<lparr>gs_Provider := v\<rparr>, h))"

definition ServiceBindingSpecDie_Workload ::
  "copiers \<Rightarrow> addr \<Rightarrow> gWorkloadReference \<Rightarrow> store \<Rightarrow> addr \<times> store" where
  "ServiceBindingSpecDie_Workload L d v =
     DieStamp (ServiceBindingSpecDie L) d
       (\<lambda>r h. (r\<lparr>gs_Workload := v\<rparr>, h))"

definition ServiceBindingSpecDie_Service ::
  "copiers \<Rightarrow> addr \<Rightarrow> serviceReference \<Rightarrow> store \<Rightarrow> addr \<times> store" where
  "ServiceBindingSpecDie_Service L d v =
     DieStamp (ServiceBindingSpecDie L) d
       (\<lambda>r h. (r\<lparr>gs_Service := v\<rparr>, h))"

definition ServiceBindingSpecDie_Env ::
  "copiers \<Rightarrow> addr \<Rightarrow> goSlice \<Rightarrow> store \<Rightarrow> addr \<times> store" where
  "ServiceBindingSpecDie_Env L d v =
     DieStamp (ServiceBindingSpecDie L) d
       (\<lambda>r h. (r\<lparr>gs_Env := v\<rparr>, h))"

definition ServiceBindingWorkloadReferenceDie_APIVersion ::
  "copiers \<Rightarrow> addr \<Rightarrow> string \<Rightarrow> store \<Rightarrow> addr \<times> store" where
  "ServiceBindingWorkloadReferenceDie_APIVersion L d v =
     DieStamp (ServiceBindingWorkloadReferenceDie L) d
       (\<lambda>r h. (r\<lparr>gw_APIVersion := v\<rparr>, h))"

definition ServiceBindingWorkloadReferenceDie_Kind ::
  "copiers \<Rightarrow> addr \<Rightarrow> string \<Rightarrow> store \<Rightarrow> addr \<times> store" where
  "ServiceBindingWorkloadReferenceDie_Kind L d v =
     DieStamp (ServiceBindingWorkloadReferenceDie L) d
       (\<lambda>r h. (r\<lparr>gw_Kind := v\<rparr>, h))"

definition ServiceBindingWorkloadReferenceDie_Name ::
  "copiers \<Rightarrow> addr \<Rightarrow> string \<Rightarrow> store \<Rightarrow> addr \<times> store" where
  "ServiceBindingWorkloadReferenceDie_Name L d v =
     DieStamp (ServiceBindingWorkloadReferenceDie L) d
       (\<lambda>r h. (r\<lparr>gw_Name := v\<rparr>, h))"

definition ServiceBindingWorkloadReferenceDie_Selector ::
  "copiers \<Rightarrow> addr \<Rightarrow> addr option \<Rightarrow> store \<Rightarrow> addr \<times> store" where
  "ServiceBindingWorkloadReferenceDie_Selector L d v =
     DieStamp (ServiceBindingWorkloadReferenceDie L) d
       (\<lambda>r h. (r\<lparr>gw_Selector := v\<rparr>, h))"

definition ServiceBindingWorkloadReferenceDie_Containers ::
  "copiers \<Rightarrow> addr \<Rightarrow> goSlice \<Rightarrow> store \<Rightarrow> addr \<times> store" where
  "ServiceBindingWorkloadReferenceDie_Containers L d v =
     DieStamp (ServiceBindingWorkloadReferenceDie L) d
       (\<lambda>r h. (r\<lparr>gw_Containers := v\<rparr>, h))"

definition ServiceBindingServiceReferenceDie_APIVersion ::
  "addr \<Rightarrow> string \<Rightarrow> store \<Rightarrow> addr \<times> store" where
  "ServiceBindingServiceReferenceDie_APIVersion d v =
     DieStamp ServiceBindingServiceReferenceDie d
       (\<lambda>r h. (r\<lparr>sr_APIVersion := v\<rparr>, h))"

definition ServiceBindingServiceReferenceDie_Kind ::
  "addr \<Rightarrow> string \<Rightarrow> store \<Rightarrow> addr \<times> store" where
  "ServiceBindingServiceReferenceDie_Kind d v =
     DieStamp ServiceBindingServiceReferenceDie d
       (\<lambda>r h. (r\<lparr>sr_Kind := v\<rparr>, h))"

definition ServiceBindingServiceReferenceDie_Name ::
  "addr \<Rightarrow> string \<Rightarrow> store \<Rightarrow> addr \<times> store" where
  "ServiceBindingServiceReferenceDie_Name d v =
     DieStamp ServiceBindingServiceReferenceDie d
       (\<lambda>r h. (r\<lparr>sr_Name := v\<rparr>, h))"

definition EnvMappingDie_Name ::
  "addr \<Rightarrow> string \<Rightarrow> store \<Rightarrow> addr \<times> store" where
  "EnvMappingDie_Name d v =
     DieStamp EnvMappingDie d
       (\<lambda>r h. (r\<lparr>em_Name := v\<rparr>, h))"

definition EnvMappingDie_Key ::
  "addr \<Rightarrow> string \<Rightarrow> store \<Rightarrow> addr \<times> store" where
  "EnvMappingDie_Key d v =
     DieStamp EnvMappingDie d
       (\<lambda>r h. (r\<lparr>em_Key := v\<rparr>, h))"

definition ServiceBindingStatusDie_ObservedGeneration ::
  "copiers \<Rightarrow> addr \<Rightarrow> int \<Rightarrow> store \<Rightarrow> addr \<times> store" where
  "ServiceBindingStatusDie_ObservedGeneration L d v =
     DieStamp (ServiceBindingStatusDie L) d
       (\<lambda>r h. (r\<lparr>gst_ObservedGeneration := v\<rparr>, h))"

definition ServiceBindingStatusDie_Conditions ::
  "copiers \<Rightarrow> addr \<Rightarrow> goSlice \<Rightarrow> store \<Rightarrow> addr \<times> store" where
  "ServiceBindingStatusDie_Conditions L d v =
     DieStamp (ServiceBindingStatusDie L) d
       (\<lambda>r h. (r\<lparr>gst_Conditions := v\<rparr>, h))"

definition ServiceBindingStatusDie_Binding ::
  "copiers \<Rightarrow> addr \<Rightarrow> addr option \<Rightarrow> store \<Rightarrow> addr \<times> store" where
  "ServiceBindingStatusDie_Binding L d v =
     DieStamp (ServiceBindingStatusDie L) d
       (\<lambda>r h. (r\<lparr>gst_Binding := v\<rparr>, h))"

definition ServiceBindingSecretReferenceDie_Name ::
  "addr \<Rightarrow> string \<Rightarrow> store \<Rightarrow> addr \<times> store" where
  "ServiceBindingSecretReferenceDie_Name d v =
     DieStamp ServiceBindingSecretReferenceDie d
       (\<lambda>r h. (r\<lparr>sec_Name := v\<rparr>, h))"

section \<open>Methods of the object dies\<close>

definition ClusterWorkloadResourceMappingDie_DieReleaseUnstructured ::
  "copiers \<Rightarrow> (store \<Rightarrow> gMapping \<Rightarrow> json) \<Rightarrow> addr \<Rightarrow> store \<Rightarrow> json \<times> store" where
  "ClusterWorkloadResourceMappingDie_DieReleaseUnstructured L toUnstructured =
     dieReleaseUnstructured (mappingDieType L) toUnstructured"

definition ClusterWorkloadResourceMappingDie_DeepCopyObject ::
  "copiers \<Rightarrow> addr \<Rightarrow> store \<Rightarrow> runtimeObject \<times> store" where
  "ClusterWorkloadResourceMappingDie_DeepCopyObject L d h =
     (let (out, h) = dieDeepCopyObject (mappingDieType L) d h in (MappingObject out, h))"

definition ClusterWorkloadResourceMappingDie_GetObjectKind :: "copiers \<Rightarrow> addr \<Rightarrow> store \<Rightarrow> typeMeta \<times> store" where
  "ClusterWorkloadResourceMappingDie_GetObjectKind L = dieGetObjectKind (mappingDieType L) gm_TypeMeta"

definition ClusterWorkloadResourceMappingDie_MarshalJSON ::
  "copiers \<Rightarrow> (gMapping, cell) jsonOps \<Rightarrow> addr \<Rightarrow> store \<Rightarrow> error + string" where
  "ClusterWorkloadResourceMappingDie_MarshalJSON L J = dieMarshalJSON (mappingDieType L) J"

definition ClusterWorkloadResourceMappingDie_UnmarshalJSON ::
  "copiers \<Rightarrow> (gMapping, cell) jsonOps \<Rightarrow> addr \<Rightarrow> string \<Rightarrow> store \<Rightarrow> error option \<times> store" where
  "ClusterWorkloadResourceMappingDie_UnmarshalJSON L J d b h =
     dieUnmarshalJSON (mappingDieType L) J ClusterWorkloadResourceMappingBlank d b h"

definition ServiceBindingDie_DieReleaseUnstructured ::
  "copiers \<Rightarrow> (store \<Rightarrow> gBinding \<Rightarrow> json) \<Rightarrow> addr \<Rightarrow> store \<Rightarrow> json \<times> store" where
  "ServiceBindingDie_DieReleaseUnstructured L toUnstructured =
     dieReleaseUnstructured (bindingDieType L) toUnstructured"

definition ServiceBindingDie_DeepCopyObject ::
  "copiers \<Rightarrow> addr \<Rightarrow> store \<Rightarrow> runtimeObject \<times> store" where
  "ServiceBindingDie_DeepCopyObject L d h =
     (let (out, h) = dieDeepCopyObject (bindingDieType L) d h in (BindingObject out, h))"

definition ServiceBindingDie_GetObjectKind :: "copiers \<Rightarrow> addr \<Rightarrow> store \<Rightarrow> typeMeta \<times> store" where
  "ServiceBindingDie_GetObjectKind L = dieGetObjectKind (bindingDieType L) gb_TypeMeta"

definition ServiceBindingDie_MarshalJSON ::
  "copiers \<Rightarrow> (gBinding, cell) jsonOps \<Rightarrow> addr \<Rightarrow> store \<Rightarrow> error + string" where
  "ServiceBindingDie_MarshalJSON L J = dieMarshalJSON (bindingDieType L) J"

definition ServiceBindingDie_UnmarshalJSON ::
  "copiers \<Rightarrow> (gBinding, cell) jsonOps \<Rightarrow> addr \<Rightarrow> string \<Rightarrow> store \<Rightarrow> error option \<times> store" where
  "ServiceBindingDie_UnmarshalJSON L J d b h =
     dieUnmarshalJSON (bindingDieType L) J ServiceBindingBlank d b h"

end
