(* ===== verification/Dies.thy ===== *)
theory Dies
  imports Generated_Dies
begin

text \<open>
  The hand-written stamps of \<open>dies/v1beta1/servicebinding.go\<close> and
  \<open>dies/v1beta1/clusterworkloadresourcemapping.go\<close>.
\<close>

section \<open>ServiceBinding\<close>

definition ServiceBindingSpecDie_WorkloadDie ::
  "copiers \<Rightarrow> addr \<Rightarrow> (addr \<Rightarrow> store \<Rightarrow> store) \<Rightarrow> store \<Rightarrow> addr \<times> store" where
  "ServiceBindingSpecDie_WorkloadDie L d fn =
     DieStamp (ServiceBindingSpecDie L) d (\<lambda>r h.
       (let (x, h) = subDie (ServiceBindingWorkloadReferenceDie L)
          ServiceBindingWorkloadReferenceBlank (gs_Workload r) fn h
        in (r\<lparr>gs_Workload := x\<rparr>, h)))"

definition ServiceBindingSpecDie_ServiceDie ::
  "copiers \<Rightarrow> addr \<Rightarrow> (addr \<Rightarrow> store \<Rightarrow> store) \<Rightarrow> store \<Rightarrow> addr \<times> store" where
  "ServiceBindingSpecDie_ServiceDie L d fn =
     DieStamp (ServiceBindingSpecDie L) d (\<lambda>r h.
       (let (x, h) = subDie ServiceBindingServiceReferenceDie
          ServiceBindingServiceReferenceBlank (gs_Service r) fn h
        in (r\<lparr>gs_Service := x\<rparr>, h)))"

definition envFresh :: "string \<Rightarrow> envMapping" where
  "envFresh key = \<lparr>em_Name = '''', em_Key = key\<rparr>"

definition ServiceBindingSpecDie_EnvDie ::
  "copiers \<Rightarrow> addr \<Rightarrow> string \<Rightarrow> (addr \<Rightarrow> store \<Rightarrow> store) \<Rightarrow> store \<Rightarrow> addr \<times> store" where
  "ServiceBindingSpecDie_EnvDie L d key fn =
     DieStamp (ServiceBindingSpecDie L) d (\<lambda>r h.
       (let (env, h) = upsertDie EnvMappingDie EnvMappingBlank envMappingKind em_Key envFresh
          key fn (gs_Env r) h
        in (r\<lparr>gs_Env := env\<rparr>, h)))"

definition ServiceBindingWorkloadReferenceDie_SelectorDie ::
  "copiers \<Rightarrow> extDies \<Rightarrow> addr \<Rightarrow> (addr \<Rightarrow> store \<Rightarrow> store) \<Rightarrow> store \<Rightarrow> addr \<times> store" where
  "ServiceBindingWorkloadReferenceDie_SelectorDie L D d fn =
     DieStamp (ServiceBindingWorkloadReferenceDie L) d (\<lambda>r h.
       (let (p, h) = subDiePtr (ed_LabelSelector D) (ed_LabelSelectorBlank D)
          (gw_Selector r) fn h
        in (r\<lparr>gw_Selector := p\<rparr>, h)))"

definition ServiceBindingStatusDie_ConditionsDie ::
  "copiers \<Rightarrow> extDies \<Rightarrow> addr \<Rightarrow> addr list \<Rightarrow> store \<Rightarrow> addr \<times> store" where
  "ServiceBindingStatusDie_ConditionsDie L D d conditions =
     DieStamp (ServiceBindingStatusDie L) d (\<lambda>r h.
       (let (s, h) = releaseAll (ed_ConditionRelease D) conditionKind conditions h
        in (r\<lparr>gst_Conditions := s\<rparr>, h)))"

definition initialCondition :: "extDies \<Rightarrow> string \<Rightarrow> store \<Rightarrow> addr \<times> store" where
  "initialCondition D t h =
     (let (d, h) = ed_ConditionType D t (ed_ConditionBlank D) h;
          (d, h) = ed_ConditionUnknown D d h
      in ed_ConditionReason D ''Initializing'' d h)"

definition ServiceBindingStatusDie_BindingDie ::
  "copiers \<Rightarrow> addr \<Rightarrow> (addr \<Rightarrow> store \<Rightarrow> store) \<Rightarrow> store \<Rightarrow> addr \<times> store" where
  "ServiceBindingStatusDie_BindingDie L d fn =
     DieStamp (ServiceBindingStatusDie L) d (\<lambda>r h.
       (let (p, h) = subDiePtr ServiceBindingSecretReferenceDie
          ServiceBindingSecretReferenceBlank (gst_Binding r) fn h
        in (r\<lparr>gst_Binding := p\<rparr>, h)))"

section \<open>ClusterWorkloadResourceMapping\<close>

definition templateFresh :: "string \<Rightarrow> gTemplate" where
  "templateFresh version = zeroTemplate\<lparr>gt_Version := version\<rparr>"

definition ClusterWorkloadResourceMappingSpecDie_VersionsDie ::
  "addr \<Rightarrow> string \<Rightarrow> (addr \<Rightarrow> store \<Rightarrow> store) \<Rightarrow> store \<Rightarrow> addr \<times> store" where
  "ClusterWorkloadResourceMappingSpecDie_VersionsDie d version fn =
     DieStamp ClusterWorkloadResourceMappingSpecDie d (\<lambda>r h.
       (let (versions, h) = upsertDie ClusterWorkloadResourceMappingTemplateDie
          ClusterWorkloadResourceMappingTemplateBlank mappingTemplateKind gt_Version templateFresh
          version fn (gms_Versions r) h
        in (r\<lparr>gms_Versions := versions\<rparr>, h)))"

definition ClusterWorkloadResourceMappingTemplateDie_ContainersDie ::
  "addr \<Rightarrow> addr list \<Rightarrow> store \<Rightarrow> addr \<times> store" where
  "ClusterWorkloadResourceMappingTemplateDie_ContainersDie d containers =
     DieStamp ClusterWorkloadResourceMappingTemplateDie d (\<lambda>r h.
       (let (s, h) = releaseAll (DieRelease ClusterWorkloadResourceMappingContainerDie)
          mappingContainerKind containers h
        in (r\<lparr>gt_Containers := s\<rparr>, h)))"

end
