(* ===== verification/Die_Facts.thy ===== *)
theory Die_Facts
  imports Die
begin

text \<open>
  What every die does, proved once over the contract \<open>deep_copy\<close> of the wrapped type: releasing
  an immutable die gives a fresh copy, stamping it leaves everything that existed as it was, and
  the idioms of the hand-written dies change one part of a resource and keep the rest.
\<close>

section \<open>Statements about dies\<close>

text \<open>\<open>d\<close> is a die of the given mutability whose resource is well-formed and reads as \<open>v\<close>.\<close>

definition dieHolds ::
  "('r, 'c) dieType \<Rightarrow> ('c heap \<Rightarrow> 'r \<Rightarrow> 'v) \<Rightarrow> ('c heap \<Rightarrow> 'r \<Rightarrow> bool) \<Rightarrow> 'c heap \<Rightarrow> addr \<Rightarrow> bool \<Rightarrow> 'v \<Rightarrow>
   bool" where
  "dieHolds T V W h d m v \<longleftrightarrow> cell_ok (dt_die T) h d \<and> d_mutable (loadDie T h d) = m \<and>
     W h (d_r (loadDie T h d)) \<and> V h (d_r (loadDie T h d)) = v"

text \<open>A function given a resource writes only to storage the resource owns, or to new storage.\<close>

definition confined ::
  "('c heap \<Rightarrow> 'r \<Rightarrow> addr set) \<Rightarrow> ('c heap \<Rightarrow> 'r \<Rightarrow> bool) \<Rightarrow> ('r \<Rightarrow> 'c heap \<Rightarrow> 'r \<times> 'c heap) \<Rightarrow> bool" where
  "confined A W fn \<longleftrightarrow> (\<forall>h r r' h'. W h r \<and> fn r h = (r', h') \<longrightarrow> length h \<le> length h' \<and>
     (\<forall>a < length h. a \<notin> A h r \<longrightarrow> h' ! a = h ! a))"

text \<open>
  A callback on a mutable die changes the resource of that die as \<open>g\<close> changes its value, and
  writes to no other storage that existed before.
\<close>

definition edits ::
  "('r, 'c) dieType \<Rightarrow> ('c heap \<Rightarrow> 'r \<Rightarrow> 'v) \<Rightarrow> ('c heap \<Rightarrow> 'r \<Rightarrow> addr set) \<Rightarrow> ('c heap \<Rightarrow> 'r \<Rightarrow> bool) \<Rightarrow>
   (addr \<Rightarrow> 'c heap \<Rightarrow> 'c heap) \<Rightarrow> ('v \<Rightarrow> 'v) \<Rightarrow> bool" where
  "edits T V A W fn g \<longleftrightarrow> (\<forall>h d v. dieHolds T V W h d True v \<and> d \<notin> A h (d_r (loadDie T h d)) \<longrightarrow>
     dieHolds T V W (fn d h) d True (g v) \<and>
     d \<notin> A (fn d h) (d_r (loadDie T (fn d h) d)) \<and>
     A (fn d h) (d_r (loadDie T (fn d h) d)) \<subseteq>
       A h (d_r (loadDie T h d)) \<union> {length h..<length (fn d h)} \<and>
     length h \<le> length (fn d h) \<and> (\<forall>a < length h. a \<noteq> d \<longrightarrow> fn d h ! a = h ! a))"

text \<open>
  A stamp function changes the resource it is given as \<open>g\<close> changes its value, within the
  storage the resource owns; the storage of \<open>base\<close>, where the blank dies are, is there and is
  not the resource's own.
\<close>

definition stamps ::
  "'c heap \<Rightarrow> ('c heap \<Rightarrow> 'r \<Rightarrow> 'v) \<Rightarrow> ('c heap \<Rightarrow> 'r \<Rightarrow> addr set) \<Rightarrow> ('c heap \<Rightarrow> 'r \<Rightarrow> bool) \<Rightarrow>
   ('r \<Rightarrow> 'c heap \<Rightarrow> 'r \<times> 'c heap) \<Rightarrow> ('v \<Rightarrow> 'v) \<Rightarrow> bool" where
  "stamps base V A W fn g \<longleftrightarrow> (\<forall>h r r' h'. extends base h \<and> A h r \<inter> {..<length base} = {} \<and>
     W h r \<and> fn r h = (r', h') \<longrightarrow>
     W h' r' \<and> V h' r' = g (V h r) \<and> length h \<le> length h' \<and>
     (\<forall>a < length h. a \<notin> A h r \<longrightarrow> h' ! a = h ! a))"

lemma stampsD:
  assumes "stamps base V A W fn g" and "extends base h" and "A h r \<inter> {..<length base} = {}"
    and "W h r" and "fn r h = (r', h')"
  shows "W h' r'" "V h' r' = g (V h r)" "length h \<le> length h'"
    "a < length h \<Longrightarrow> a \<notin> A h r \<Longrightarrow> h' ! a = h ! a"
  using assms unfolding stamps_def by blast+

lemma editsD:
  assumes "edits T V A W fn g" and "dieHolds T V W h d True v"
    and "d \<notin> A h (d_r (loadDie T h d))" and "fn d h = h'"
  shows "dieHolds T V W h' d True (g v)" "d \<notin> A h' (d_r (loadDie T h' d))"
    "A h' (d_r (loadDie T h' d)) \<subseteq> A h (d_r (loadDie T h d)) \<union> {length h..<length h'}"
    "length h \<le> length h'" "\<forall>a < length h. a \<noteq> d \<longrightarrow> h' ! a = h ! a"
  using assms unfolding edits_def by blast+

text \<open>Callbacks may be sequenced, as the statements of a Go closure are.\<close>

lemma edits_seq:
  assumes f: "edits T V A W f g" and f': "edits T V A W f' g'"
  shows "edits T V A W (\<lambda>d h. f' d (f d h)) (\<lambda>v. g' (g v))"
  unfolding edits_def
proof (intro allI impI, elim conjE)
  fix h d v
  assume d: "dieHolds T V W h d True v" and out: "d \<notin> A h (d_r (loadDie T h d))"
  note one = editsD [OF f d out refl]
  note two = editsD [OF f' one(1,2) refl]
  show "dieHolds T V W (f' d (f d h)) d True (g' (g v)) \<and>
     d \<notin> A (f' d (f d h)) (d_r (loadDie T (f' d (f d h)) d)) \<and>
     A (f' d (f d h)) (d_r (loadDie T (f' d (f d h)) d)) \<subseteq>
       A h (d_r (loadDie T h d)) \<union> {length h..<length (f' d (f d h))} \<and>
     length h \<le> length (f' d (f d h)) \<and>
     (\<forall>a < length h. a \<noteq> d \<longrightarrow> f' d (f d h) ! a = h ! a)"
  proof (intro conjI)
    show "A (f' d (f d h)) (d_r (loadDie T (f' d (f d h)) d)) \<subseteq>
        A h (d_r (loadDie T h d)) \<union> {length h..<length (f' d (f d h))}"
      using one(3) two(3) one(4) two(4) by fastforce
  qed (use one two in auto)
qed

fun upsertBy :: "('v \<Rightarrow> string) \<Rightarrow> (string \<Rightarrow> 'v) \<Rightarrow> string \<Rightarrow> ('v \<Rightarrow> 'v) \<Rightarrow> 'v list \<Rightarrow> 'v list" where
  "upsertBy keyOf fresh key g [] = [g (fresh key)]"
| "upsertBy keyOf fresh key g (v # vs) =
     (if key = keyOf v then g v # vs else v # upsertBy keyOf fresh key g vs)"

section \<open>The generated methods meet them\<close>

locale die = deep_copy cp V A W
  for cp :: "'r \<Rightarrow> 'c heap \<Rightarrow> 'r \<times> 'c heap" and V :: "'c heap \<Rightarrow> 'r \<Rightarrow> 'v" and A W +
  fixes T :: "('r, 'c) dieType"
  assumes die_kind: "kind_ok (dt_die T)"
    and res_kind: "kind_ok (dt_res T)"
    and copier: "dt_DeepCopyInto T = cp"
begin

lemma newDie_eq: "newDie T x h = (d, h') \<longleftrightarrow> d = length h \<and> h' = h @ [mkArr (dt_die T) [x]]"
  by (auto simp: newDie_def)

lemma loadDie_new: "loadDie T (h @ [mkArr (dt_die T) [x]]) (length h) = x"
  "cell_ok (dt_die T) (h @ [mkArr (dt_die T) [x]]) (length h)"
  using newCell_ok [OF die_kind] by (simp_all add: loadDie_def)

lemma loadDie_keep:
  assumes "cell_ok (dt_die T) h d" and "extends h h'"
  shows "loadDie T h' d = loadDie T h d" "cell_ok (dt_die T) h' d"
  using assms by (auto simp: loadDie_def loadCell_def cell_ok_def extends_def)

lemma loadDie_store:
  assumes "cell_ok (dt_die T) h d"
  shows "loadDie T (storeDie T d x h) d = x" "cell_ok (dt_die T) (storeDie T d x h) d"
  using loadCell_storeCell [OF die_kind assms] cell_ok_storeCell [OF die_kind assms]
  by (simp_all add: loadDie_def storeDie_def)

lemma dieHolds_keep: "dieHolds T V W h d m v \<Longrightarrow> extends h h' \<Longrightarrow> dieHolds T V W h' d m v"
  using loadDie_keep [of h d h'] keep [of h "d_r (loadDie T h d)" h']
  by (simp add: dieHolds_def)

lemma derefDeepCopy_copies:
  assumes wf: "W h r" and cp: "derefDeepCopy T r h = (r', h')"
  shows "extends h h' \<and> V h' r' = V h r \<and> A h' r' \<subseteq> {length h..<length h'} \<and> W h' r'"
proof -
  let ?q = "length h" and ?h1 = "h @ [mkArr (dt_res T) [zeroOf (dt_res T)]]"
  obtain y h2 where y: "cp r ?h1 = (y, h2)" by fastforce
  note new = copies [OF keep(3) [OF wf extends_snoc] y]
  have q: "cell_ok (dt_res T) h2 ?q"
    using new newCell_ok(1) [OF res_kind, of h "zeroOf (dt_res T)"]
    by (auto simp: cell_ok_def extends_def)
  have h': "h' = storeCell (dt_res T) ?q y h2" and r': "r' = y"
    using cp y loadCell_storeCell [OF res_kind q, of y]
    by (auto simp: derefDeepCopy_def newCell_def copier Let_def)
  have yq: "?q \<notin> A h2 y" using new by force
  have wy: "W h2 y" using new by simp
  have "V h' y = V h r" "A h' y \<subseteq> {length h..<length h'}" "W h' y"
    unfolding h' storeCell_def
    using write_elsewhere [OF wy yq] new keep(1) [OF wf extends_snoc] by fastforce+
  moreover have "extends h h'"
    unfolding h' storeCell_def using new by (auto simp: extends_def nth_append)
  ultimately show ?thesis using r' by simp
qed

end

sublocale die \<subseteq> deref: deep_copy "derefDeepCopy T" V A W
  using reads owned derefDeepCopy_copies by unfold_locales blast+

context die begin

lemma release_immutable:
  assumes "dieHolds T V W h d False v" and "dieRelease T d h = (r, h')"
  shows "extends h h' \<and> V h' r = v \<and> A h' r \<subseteq> {length h..<length h'} \<and> W h' r"
proof -
  from assms have "W h (d_r (loadDie T h d))" "derefDeepCopy T (d_r (loadDie T h d)) h = (r, h')"
    and v: "V h (d_r (loadDie T h d)) = v"
    by (simp_all add: dieHolds_def dieRelease_def)
  from derefDeepCopy_copies [OF this(1,2)] v show ?thesis by simp
qed

lemma release_mutable:
  assumes "dieHolds T V W h d True v"
  shows "dieRelease T d h = (d_r (loadDie T h d), h)"
  using assms by (simp add: dieHolds_def dieRelease_def)

lemma feed_immutable:
  assumes "dieHolds T V W h d False v" and "W h r" and "dieFeed T d r h = (d', h')"
  shows "extends h h' \<and> d' = length h \<and> length h' = Suc (length h) \<and>
    d_r (loadDie T h' d') = r \<and> A h' r = A h r \<and> dieHolds T V W h' d' False (V h r)"
proof -
  from assms(1,3) have d': "d' = length h"
    and h': "h' = h @ [mkArr (dt_die T) [\<lparr>d_mutable = False, d_Frozen = dt_freeze T r, d_r = r\<rparr>]]"
    by (auto simp: dieFeed_def dieHolds_def newDie_eq)
  show ?thesis
    using keep [OF assms(2) extends_snoc] loadDie_new unfolding d' h'
    by (simp add: dieHolds_def)
qed

lemma feed_mutable:
  assumes "dieHolds T V W h d True v" and "W h r" and "d \<notin> A h r" and "dieFeed T d r h = (d', h')"
  shows "d' = d \<and> length h' = length h \<and> (\<forall>a < length h. a \<noteq> d \<longrightarrow> h' ! a = h ! a) \<and>
    d_r (loadDie T h' d) = r \<and> A h' r = A h r \<and> dieHolds T V W h' d True (V h r)"
proof -
  let ?x = "(loadDie T h d)\<lparr>d_Frozen := dt_freeze T r, d_r := r\<rparr>"
  from assms(1,4) have d': "d' = d" and h': "h' = storeDie T d ?x h"
    by (auto simp: dieFeed_def dieHolds_def)
  have ok: "cell_ok (dt_die T) h d" and m: "d_mutable (loadDie T h d)"
    using assms(1) by (simp_all add: dieHolds_def)
  have same: "V h' r = V h r" "A h' r = A h r" "W h' r"
    unfolding h' storeDie_def storeCell_def by (rule write_elsewhere [OF assms(2,3)])+
  moreover have "loadDie T h' d = ?x" "cell_ok (dt_die T) h' d"
    unfolding h' using loadDie_store [OF ok] by simp_all
  moreover have "length h' = length h" "\<forall>a < length h. a \<noteq> d \<longrightarrow> h' ! a = h ! a"
    unfolding h' storeDie_def storeCell_def by simp_all
  ultimately show ?thesis using d' m by (simp add: dieHolds_def)
qed

text \<open>The immutability of dies: stamping changes nothing that existed.\<close>

lemma stamp_immutable:
  assumes d: "dieHolds T V W h d False v" and fn: "confined A W fn"
    and wf: "\<And>h r r' h'. W h r \<Longrightarrow> fn r h = (r', h') \<Longrightarrow> W h' r'"
    and st: "dieStamp T d fn h = (d', h')"
  shows "extends h h' \<and> length h \<le> d' \<and> dieHolds T V W h' d False v \<and>
    (\<exists>w. dieHolds T V W h' d' False w)"
proof -
  obtain r h1 where r: "dieRelease T d h = (r, h1)" by fastforce
  obtain r2 h2 where r2: "fn r h1 = (r2, h2)" by fastforce
  note rel = release_immutable [OF d r]
  from rel have w1: "W h1 r" by simp
  from fn w1 r2 have fr: "length h1 \<le> length h2" "\<forall>a < length h1. a \<notin> A h1 r \<longrightarrow> h2 ! a = h1 ! a"
    by (auto simp: confined_def)
  have ext2: "extends h h2"
    unfolding extends_def
  proof (intro conjI allI impI)
    show "length h \<le> length h2" using rel fr(1) by (simp add: extends_def)
    fix a assume a: "a < length h"
    with rel have "a < length h1" "a \<notin> A h1 r" "h1 ! a = h ! a" by (auto simp: extends_def)
    with fr(2) show "h2 ! a = h ! a" by simp
  qed
  from st r r2 have fd: "dieFeed T d r2 h2 = (d', h')" by (simp add: dieStamp_def)
  note feed = feed_immutable [OF dieHolds_keep [OF d ext2] wf [OF w1 r2] fd]
  then have "extends h h'" using ext2 extends_trans by blast
  with feed extends_length [OF ext2] dieHolds_keep [OF d this] show ?thesis by auto
qed

lemma stamp_spec:
  assumes d: "dieHolds T V W h d False v" and base: "extends base h"
    and fn: "stamps base V A W fn g" and st: "dieStamp T d fn h = (d', h')"
  shows "extends h h' \<and> length h \<le> d' \<and> dieHolds T V W h' d False v \<and>
    dieHolds T V W h' d' False (g v)"
proof -
  obtain r h1 where r: "dieRelease T d h = (r, h1)" by fastforce
  obtain r2 h2 where r2: "fn r h1 = (r2, h2)" by fastforce
  note rel = release_immutable [OF d r]
  have base1: "extends base h1" using base rel extends_trans by blast
  have "A h1 r \<inter> {..<length base} = {}" using rel extends_length [OF base] by auto
  note new = stampsD [OF fn base1 this _ r2]
  have w1: "W h1 r" using rel by simp
  have ext2: "extends h h2"
    unfolding extends_def
  proof (intro conjI allI impI)
    show "length h \<le> length h2" using rel new(3) [OF w1] by (simp add: extends_def)
    fix a assume a: "a < length h"
    with rel have "a < length h1" "a \<notin> A h1 r" "h1 ! a = h ! a" by (auto simp: extends_def)
    with new(4) [OF w1] show "h2 ! a = h ! a" by simp
  qed
  from st r r2 have fd: "dieFeed T d r2 h2 = (d', h')" by (simp add: dieStamp_def)
  note feed = feed_immutable [OF dieHolds_keep [OF d ext2] new(1) [OF w1] fd]
  then have ext: "extends h h'" using ext2 extends_trans by blast
  show ?thesis
    using feed ext extends_length [OF ext2] dieHolds_keep [OF d ext] new(2) [OF w1] rel by auto
qed

text \<open>The part of a resource that a callback edits through a die of its own.\<close>

lemma subDie_spec:
  assumes blank: "dieHolds T V W h b False u" and x: "W h x" and fn: "edits T V A W fn g"
    and sub: "subDie (diegen T) b x fn h = (x', h')"
  shows "extends h h' \<and> V h' x' = g (V h x) \<and> W h' x' \<and>
    A h' x' \<subseteq> A h x \<union> {length h..<length h'}"
proof -
  obtain r h1 where r: "derefDeepCopy T (d_r (loadDie T h b)) h = (r, h1)" by fastforce
  let ?d = "length h1"
  let ?h2 = "h1 @ [mkArr (dt_die T) [\<lparr>d_mutable = True, d_Frozen = dt_freeze T r, d_r = r\<rparr>]]"
  from blank have wb: "W h (d_r (loadDie T h b))" and mb: "\<not> d_mutable (loadDie T h b)"
    and cb: "cell_ok (dt_die T) h b" by (simp_all add: dieHolds_def)
  note copy = derefDeepCopy_copies [OF wb r]
  have e1: "extends h h1" using copy by simp
  have im: "dieImmutable T b False h = (?d, ?h2)"
    using r mb loadDie_keep(1) [OF cb e1] loadDie_new
    by (simp add: dieImmutable_def dieDeepCopy_def newDie_def storeDie_def storeCell_def
        kind_okD [OF die_kind])
  have e2: "extends h ?h2" using e1 extends_snoc extends_trans by blast
  have wr: "W h1 r" using copy by simp
  have hold: "dieHolds T V W ?h2 ?d True (V h1 r)"
    using keep [OF wr extends_snoc] loadDie_new by (simp add: dieHolds_def)
  note x2 = keep [OF x e2]
  have out: "?d \<notin> A ?h2 x" using x2(2) owned [OF x] extends_length [OF e1] by auto
  obtain h3 where fd: "dieFeed T ?d x ?h2 = (?d, h3)"
    using feed_mutable [OF hold x2(3) out] by (cases "dieFeed T ?d x ?h2") blast
  note feed = feed_mutable [OF hold x2(3) out fd]
  obtain h4 where h4: "fn ?d h3 = h4" by simp
  have out3: "?d \<notin> A h3 (d_r (loadDie T h3 ?d))" using feed out by simp
  from feed have "dieHolds T V W h3 ?d True (V ?h2 x)" by simp
  note ed = editsD [OF fn this out3 h4]
  from sub im fd h4 release_mutable [OF ed(1)]
  have x': "x' = d_r (loadDie T h4 ?d)" and h': "h' = h4"
    by (auto simp: subDie_def diegen_def)
  have "extends h h4"
    unfolding extends_def
  proof (intro conjI allI impI)
    show "length h \<le> length h4" using extends_length [OF e2] feed ed(4) by simp
    fix a assume a: "a < length h"
    then have "a < length ?h2" "a \<noteq> ?d" using extends_length [OF e1] by auto
    with feed ed(5) extends_nth [OF e2 a] show "h4 ! a = h ! a" by simp
  qed
  moreover have "A h4 x' \<subseteq> A h x \<union> {length h..<length h4}"
    using ed(3) feed x2(2) x' extends_length [OF e2] by fastforce
  ultimately show ?thesis
    using ed(1) x2(1) x' h' by (simp add: dieHolds_def)
qed

end

end
