(* ===== verification/Die_Idioms.thy ===== *)
theory Die_Idioms
  imports Die_Facts
begin

text \<open>
  The idioms of the hand-written dies over slices: editing the element with a key or appending
  one, and filling a slice with what a list of dies releases.
\<close>

section \<open>Searching a slice\<close>

lemma findElem_Some:
  "findElem K h s P i k = Some j \<Longrightarrow>
     i \<le> j \<and> j < i + k \<and> P (loadElem K h s j) \<and> (\<forall>m. i \<le> m \<and> m < j \<longrightarrow> \<not> P (loadElem K h s m))"
proof (induction k arbitrary: i)
  case 0
  then show ?case by simp
next
  case (Suc k)
  show ?case
  proof (cases "P (loadElem K h s i)")
    case True
    with Suc.prems show ?thesis by auto
  next
    case False
    with Suc.prems have "findElem K h s P (Suc i) k = Some j" by simp
    note r = Suc.IH [OF this]
    have "\<not> P (loadElem K h s m)" if "i \<le> m" "m < j" for m
      using r False that by (cases "m = i") auto
    with r show ?thesis by auto
  qed
qed

lemma findElem_None:
  "findElem K h s P i k = None \<Longrightarrow> i \<le> m \<Longrightarrow> m < i + k \<Longrightarrow> \<not> P (loadElem K h s m)"
proof (induction k arbitrary: i)
  case 0
  then show ?case by simp
next
  case (Suc k)
  from Suc.prems(1) have i: "\<not> P (loadElem K h s i)" "findElem K h s P (Suc i) k = None"
    by (auto split: if_splits)
  show ?case
  proof (cases "m = i")
    case False
    then show ?thesis using Suc.IH [OF i(2)] Suc.prems(2,3) by simp
  qed (use i in simp)
qed

lemma upsertBy_found:
  "j < length vs \<Longrightarrow> key = keyOf (vs ! j) \<Longrightarrow> (\<And>m. m < j \<Longrightarrow> key \<noteq> keyOf (vs ! m)) \<Longrightarrow>
     upsertBy keyOf fresh key g vs = vs[j := g (vs ! j)]"
proof (induction vs arbitrary: j)
  case Nil
  then show ?case by simp
next
  case (Cons v vs)
  show ?case
  proof (cases j)
    case 0
    with Cons.prems show ?thesis by simp
  next
    case (Suc j')
    with Cons.prems(3) [of 0] have "key \<noteq> keyOf v" by simp
    moreover have "upsertBy keyOf fresh key g vs = vs[j' := g (vs ! j')]"
    proof (rule Cons.IH)
      show "key \<noteq> keyOf (vs ! m)" if "m < j'" for m
        using Cons.prems(3) [of "Suc m"] that Suc by simp
    qed (use Cons.prems Suc in auto)
    ultimately show ?thesis by (simp add: Suc)
  qed
qed

lemma upsertBy_missing:
  "key \<notin> keyOf ` set vs \<Longrightarrow> upsertBy keyOf fresh key g vs = vs @ [g (fresh key)]"
  by (induction vs) auto

section \<open>Editing by key\<close>

sublocale die \<subseteq> slices: slice_copy cp V A W "dt_res T"
  using res_kind by unfold_locales

context die begin

lemma upsertDie_spec:
  assumes blank: "dieHolds T V W h b False u" and s: "sliceWf (dt_res T) A W h s"
    and key: "\<And>h x. keyOf x = keyV (V h x)"
    and zero: "\<And>h. W h (fresh key) \<and> V h (fresh key) = freshV key \<and> A h (fresh key) = {}"
    and fn: "edits T V A W fn g"
    and up: "upsertDie (diegen T) b (dt_res T) keyOf fresh key fn s h = (s', h')"
  shows "sliceView (dt_res T) V h' s' = upsertBy keyV freshV key g (sliceView (dt_res T) V h s)"
    and "sliceWf (dt_res T) A W h' s'"
    and "sliceAddr s' \<subseteq> sliceAddr s \<union> {length h..<length h'}"
    and "length h \<le> length h'"
    and "\<forall>a < length h. a \<notin> sliceAddr s \<longrightarrow> h' ! a = h ! a"
proof -
  let ?K = "dt_res T" and ?vs = "sliceView (dt_res T) V h s"
  have len: "length ?vs = goLen s" "length (elems ?K h s) = goLen s"
    using s by (simp_all add: sliceWf_def sliceView_def)
  have nth: "keyOf (loadElem ?K h s m) = keyV (?vs ! m)" if "m < goLen s" for m
    using that len key [of "loadElem ?K h s m" h] by (simp add: loadElem_def sliceView_def)
  have addr: "sliceAddr s \<subseteq> {..<length h}"
    using slices.slice_owned [OF s] sliceAddr_owned by blast
  have part: "W h1 x \<and> V h1 x = g (V h y) \<and> sliceAddr s \<inter> A h1 x = {} \<and> sliceWf ?K A W h1 s \<and>
      sliceView ?K V h1 s = ?vs \<and> extends h h1"
    if sub: "subDie (diegen T) b y fn h = (x, h1)" and y: "W h y" "sliceAddr s \<inter> A h y = {}"
    for x y h1
  proof -
    note r = subDie_spec [OF blank y(1) fn sub]
    moreover have "sliceAddr s \<inter> A h1 x = {}" using r y(2) addr by fastforce
    ultimately show ?thesis using slices.slice.keep [OF s, of h1] by simp
  qed
  show "sliceView ?K V h' s' = upsertBy keyV freshV key g ?vs"
    and "sliceWf ?K A W h' s'"
    and "sliceAddr s' \<subseteq> sliceAddr s \<union> {length h..<length h'}"
    and "length h \<le> length h'"
    and "\<forall>a < length h. a \<notin> sliceAddr s \<longrightarrow> h' ! a = h ! a"
  proof -
    have "sliceView ?K V h' s' = upsertBy keyV freshV key g ?vs \<and> sliceWf ?K A W h' s' \<and>
      sliceAddr s' \<subseteq> sliceAddr s \<union> {length h..<length h'} \<and> length h \<le> length h' \<and>
      (\<forall>a < length h. a \<notin> sliceAddr s \<longrightarrow> h' ! a = h ! a)"
    proof (cases "findElem ?K h s (\<lambda>x. key = keyOf x) 0 (goLen s)")
      case (Some j)
      obtain x h1 where x: "subDie (diegen T) b (loadElem ?K h s j) fn h = (x, h1)" by fastforce
      from up Some x have s': "s' = s" and h': "h' = storeElem ?K s j x h1"
        by (auto simp: upsertDie_def)
      from findElem_Some [OF Some] have j: "j < goLen s" and k: "key = keyOf (loadElem ?K h s j)"
        and first: "\<And>m. m < j \<Longrightarrow> key \<noteq> keyOf (loadElem ?K h s m)" by auto
      have mem: "loadElem ?K h s j \<in> set (elems ?K h s)"
        using j len by (simp add: loadElem_def)
      with s have "W h (loadElem ?K h s j)" "sliceAddr s \<inter> A h (loadElem ?K h s j) = {}"
        by (auto simp: sliceWf_def list_all_iff)
      note p = part [OF x this]
      have jv: "V h (loadElem ?K h s j) = ?vs ! j"
        using j len by (simp add: loadElem_def sliceView_def)
      have "upsertBy keyV freshV key g ?vs = ?vs[j := g (?vs ! j)]"
        using j k first nth len by (intro upsertBy_found) auto
      moreover have "sliceView ?K V h' s = ?vs[j := g (?vs ! j)]" "sliceWf ?K A W h' s"
        "\<forall>a < length h1. a \<notin> sliceAddr s \<longrightarrow> h' ! a = h1 ! a"
        using slices.storeElem_spec [of h1 s j x] p j jv h' by simp_all
      ultimately show ?thesis using p by (simp add: s') (simp add: h' extends_def)
    next
      case None
      obtain x h1 where x: "subDie (diegen T) b (fresh key) fn h = (x, h1)" by fastforce
      from up None x have ap: "appendElem ?K s x h1 = (s', h')" by (simp add: upsertDie_def)
      note p = part [OF x]
      then have p: "W h1 x" "V h1 x = g (freshV key)" "sliceAddr s \<inter> A h1 x = {}"
        "sliceWf ?K A W h1 s" "sliceView ?K V h1 s = ?vs" "extends h h1"
        using zero by simp_all
      note a = slices.appendElem_spec [OF p(4) p(1) p(3) ap]
      have "key \<notin> keyV ` set ?vs"
        using findElem_None [OF None le0] nth len by (fastforce simp: in_set_conv_nth)
      then have "upsertBy keyV freshV key g ?vs = ?vs @ [g (freshV key)]"
        by (rule upsertBy_missing)
      moreover have "sliceView ?K V h' s' = ?vs @ [g (freshV key)]" using a(1) p by simp
      moreover have "sliceAddr s' \<subseteq> sliceAddr s \<union> {length h..<length h'}"
        using a(4) extends_length [OF p(6)] by fastforce
      moreover have "length h \<le> length h'" using a(5) extends_length [OF p(6)] by simp
      moreover have "\<forall>b < length h. b \<notin> sliceAddr s \<longrightarrow> h' ! b = h ! b"
        using a(6) p(6) by (simp add: extends_def)
      ultimately show ?thesis using a(2) by simp
    qed
    then show "sliceView ?K V h' s' = upsertBy keyV freshV key g ?vs"
      "sliceWf ?K A W h' s'" "sliceAddr s' \<subseteq> sliceAddr s \<union> {length h..<length h'}"
      "length h \<le> length h'" "\<forall>a < length h. a \<notin> sliceAddr s \<longrightarrow> h' ! a = h ! a" by blast+
  qed
qed

end

section \<open>Releasing a list of dies\<close>

sublocale die \<subseteq> releases: slice_copy "derefDeepCopy T" V A W "dt_res T"
  using res_kind by unfold_locales

context die begin

lemma releaseEach_spec:
  assumes "releases.copiedUpto h s n i vs" and "i + length ds = n" and "extends h0 h"
    and "length h0 \<le> s" and "\<forall>k < length ds. dieHolds T V W h0 (ds ! k) False (vs ! (i + k))"
    and "releaseEach (dieRelease T) (dt_res T) (Slice s 0 n n) i ds h = h'"
  shows "releases.copiedUpto h' s n n vs \<and> extends h0 h'"
  using assms
proof (induction ds arbitrary: i h)
  case Nil
  then show ?case by simp
next
  case (Cons d ds)
  let ?K = "dt_res T" and ?r = "d_r (loadDie T h d)"
  from Cons.prems(5) have "dieHolds T V W h0 d False (vs ! i)" by fastforce
  from dieHolds_keep [OF this Cons.prems(3)] have d: "dieHolds T V W h d False (vs ! i)" .
  then have w: "W h ?r" "V h ?r = vs ! i" by (simp_all add: dieHolds_def)
  obtain x h1 where x: "derefDeepCopy T ?r h = (x, h1)" by fastforce
  have rel: "dieRelease T d h = (x, h1)" using d x by (simp add: dieRelease_def dieHolds_def)
  have i: "i < n" using Cons.prems(2) by simp
  let ?h2 = "storeElem ?K (Slice s 0 n n) i x h1"
  have step: "releases.copiedUpto ?h2 s n (Suc i) vs"
    by (rule releases.copiedUpto_step [OF Cons.prems(1) i w x])
  have "extends h0 h1"
    using derefDeepCopy_copies [OF w(1) x] Cons.prems(3) extends_trans by blast
  then have e: "extends h0 ?h2" using Cons.prems(4) by (simp add: extends_update)
  show ?case
  proof (rule Cons.IH [OF step _ e Cons.prems(4)])
    show "Suc i + length ds = n" using Cons.prems(2) by simp
    show "\<forall>k < length ds. dieHolds T V W h0 (ds ! k) False (vs ! (Suc i + k))"
      using Cons.prems(5) by fastforce
    show "releaseEach (dieRelease T) ?K (Slice s 0 n n) (Suc i) ds ?h2 = h'"
      using Cons.prems(6) rel by simp
  qed
qed

lemma releaseAll_spec:
  assumes ds: "list_all2 (\<lambda>d v. dieHolds T V W h d False v) ds vs"
    and rel: "releaseAll (dieRelease T) (dt_res T) ds h = (s, h')"
  shows "extends h h' \<and> sliceView (dt_res T) V h' s = vs \<and> sliceWf (dt_res T) A W h' s \<and>
    sliceOwns (dt_res T) A h' s \<subseteq> {length h..<length h'} \<and> s \<noteq> NilSlice"
proof -
  let ?K = "dt_res T" and ?s = "length h" and ?n = "length ds"
  let ?h1 = "h @ [mkArr (dt_res T) (replicate (length ds) (zeroOf (dt_res T)))]"
  from rel have s: "s = Slice ?s 0 ?n ?n"
    and h': "releaseEach (dieRelease T) ?K (Slice ?s 0 ?n ?n) 0 ds ?h1 = h'"
    by (auto simp: releaseAll_def makeSlice_def)
  have start: "releases.copiedUpto ?h1 ?s ?n 0 vs"
    by (simp add: releases.copiedUpto_def kind_okD [OF res_kind])
  have hold: "\<forall>k < length ds. dieHolds T V W h (ds ! k) False (vs ! (0 + k))"
    using ds by (simp add: list_all2_conv_all_nth)
  have "releases.copiedUpto h' ?s ?n ?n vs \<and> extends h h'"
    by (rule releaseEach_spec [OF start _ extends_snoc _ hold h']) simp_all
  then have inv: "releases.copiedUpto h' ?s ?n ?n vs" and e: "extends h h'" by simp_all
  from inv have arr: "length (arrOf ?K (h' ! ?s)) = ?n" "?s < length h'"
    by (simp_all add: releases.copiedUpto_def)
  have each: "W h' x \<and> A h' x \<subseteq> {length h..<length h'} \<and> ?s \<notin> A h' x"
    if "x \<in> set (arrOf ?K (h' ! ?s))" for x
    using inv that arr by (fastforce simp: releases.copiedUpto_def in_set_conv_nth)
  have "map (V h') (arrOf ?K (h' ! ?s)) = vs"
    using inv arr list_all2_lengthD [OF ds]
    by (auto simp: releases.copiedUpto_def list_eq_iff_nth_eq)
  then show ?thesis
    using e arr each unfolding s by (fastforce simp: sliceView_def sliceWf_def list_all_iff)
qed

section \<open>Setters as callbacks\<close>

lemma edits_setter:
  assumes f: "\<And>h r. W h r \<Longrightarrow> W h (f r) \<and> V h (f r) = g (V h r) \<and> A h (f r) \<subseteq> A h r"
  shows "edits T V A W (\<lambda>d h. snd (dieStamp T d (\<lambda>r h. (f r, h)) h)) g"
  unfolding edits_def
proof (intro allI impI, elim conjE)
  fix h d v
  assume d: "dieHolds T V W h d True v" and out: "d \<notin> A h (d_r (loadDie T h d))"
  let ?r = "d_r (loadDie T h d)"
  have w: "W h ?r" "V h ?r = v" using d by (simp_all add: dieHolds_def)
  note fr = f [OF w(1)]
  have out': "d \<notin> A h (f ?r)" using fr out by blast
  obtain h' where fd: "dieFeed T d (f ?r) h = (d, h')"
    using feed_mutable [OF d _ out'] fr by (cases "dieFeed T d (f ?r) h") blast
  have st: "snd (dieStamp T d (\<lambda>r h. (f r, h)) h) = h'"
    by (simp add: dieStamp_def release_mutable [OF d] fd)
  have wf: "W h (f ?r)" using fr by simp
  note feed = feed_mutable [OF d wf out' fd]
  show "dieHolds T V W (snd (dieStamp T d (\<lambda>r h. (f r, h)) h)) d True (g v) \<and>
       d \<notin> A (snd (dieStamp T d (\<lambda>r h. (f r, h)) h))
             (d_r (loadDie T (snd (dieStamp T d (\<lambda>r h. (f r, h)) h)) d)) \<and>
       A (snd (dieStamp T d (\<lambda>r h. (f r, h)) h))
             (d_r (loadDie T (snd (dieStamp T d (\<lambda>r h. (f r, h)) h)) d)) \<subseteq>
         A h ?r \<union> {length h..<length (snd (dieStamp T d (\<lambda>r h. (f r, h)) h))} \<and>
       length h \<le> length (snd (dieStamp T d (\<lambda>r h. (f r, h)) h)) \<and>
       (\<forall>a < length h. a \<noteq> d \<longrightarrow> snd (dieStamp T d (\<lambda>r h. (f r, h)) h) ! a = h ! a)"
    unfolding st using feed fr out' w by auto
qed

lemma stamps_setter:
  assumes "\<And>h r. W h r \<Longrightarrow> W h (f r) \<and> V h (f r) = g (V h r)"
  shows "stamps base V A W (\<lambda>r h. (f r, h)) g"
  using assms by (auto simp: stamps_def)

end

end
