(* ===== verification/Die_Properties.thy ===== *)
theory Die_Properties
  imports Dies Die_Idioms Deep_Copy_Properties
begin

text \<open>
  The properties of the dies of the API types: an immutable die is never changed by a stamp,
  and the hand-written stamps edit the element with a key or append it.
\<close>

section \<open>The dies of the API types\<close>

interpretation templateDie: die ClusterWorkloadResourceMappingTemplate_DeepCopyInto viewTemplate
  ownsTemplate wfTemplate templateDieType
  by unfold_locales (simp_all add: templateDieType_def)

interpretation mappingSpecDie: die ClusterWorkloadResourceMappingSpec_DeepCopyInto viewMappingSpec
  ownsMappingSpec wfMappingSpec mappingSpecDieType
  by unfold_locales (simp_all add: mappingSpecDieType_def)

interpretation containerDie: die plainCopy plainView plainOwns plainWf containerDieType
  by unfold_locales (simp_all add: containerDieType_def plain_copies)

interpretation envMappingDie: die plainCopy plainView plainOwns plainWf envMappingDieType
  by unfold_locales (simp_all add: envMappingDieType_def plain_copies)

interpretation serviceDie: die plainCopy plainView plainOwns plainWf serviceDieType
  by unfold_locales (simp_all add: serviceDieType_def plain_copies)

interpretation secretReferenceDie: die plainCopy plainView plainOwns plainWf secretReferenceDieType
  by unfold_locales (simp_all add: secretReferenceDieType_def plain_copies)

lemma dieI: "deep_copy cp V A W \<Longrightarrow> kind_ok (dt_die T) \<Longrightarrow> kind_ok (dt_res T) \<Longrightarrow>
    dt_DeepCopyInto T = cp \<Longrightarrow> die cp V A W T"
  by (simp add: die_def die_axioms_def)

lemma dies_of_bindings:
  assumes "copiers_ok L"
  shows "die (ServiceBindingWorkloadReference_DeepCopyInto L) viewWorkload ownsWorkload wfWorkload
      (workloadDieType L)"
    and "die (ServiceBindingSpec_DeepCopyInto L) viewBindingSpec ownsBindingSpec wfBindingSpec
      (bindingSpecDieType L)"
    and "die (ServiceBindingStatus_DeepCopyInto L) viewBindingStatus ownsBindingStatus
      wfBindingStatus (bindingStatusDieType L)"
    and "die (ServiceBinding_DeepCopyInto L) viewBinding ownsBinding wfBinding (bindingDieType L)"
    and "die (ClusterWorkloadResourceMapping_DeepCopyInto L) viewMapping ownsMapping wfMapping
      (mappingDieType L)"
  by (rule dieI; simp add: dieType_defs assms workload_deep_copy bindingSpec_deep_copy
      bindingStatus_deep_copy binding_deep_copy mapping_deep_copy)+

section \<open>The blank dies\<close>

definition blankStore :: store where "blankStore = snd (packageInit plainCopiers [])"

lemma dieFeed_zero:
  assumes "kind_ok (dt_die T)" and "\<not> d_mutable (zeroOf (dt_die T))"
  shows "dieBlank T h = (Suc (length h), h @ [mkArr (dt_die T) [zeroOf (dt_die T)],
    mkArr (dt_die T) [\<lparr>d_mutable = False, d_Frozen = dt_freeze T (zeroOf (dt_res T)),
      d_r = zeroOf (dt_res T)\<rparr>]])"
  using newCell_ok [OF assms(1), of h "zeroOf (dt_die T)"] assms(2)
  by (simp add: dieBlank_def newCell_def dieFeed_def newDie_def loadDie_def)

lemma packageInit_eq:
  "packageInit L h = (map (\<lambda>n. length h + n) [1, 3, 5, 7, 9, 11, 13, 15, 17, 19, 21],
     h @ snd (packageInit plainCopiers []))"
  by (simp add: packageInit_def die_table_defs diegen_def dieType_defs dieFeed_zero kind_defs
      zeroDie_def kind_ok_def)

text \<open>The addresses of the blank dies are those initialisation returns.\<close>

lemma packageInit_blanks:
  "packageInit L [] =
     ([ClusterWorkloadResourceMappingBlank, ClusterWorkloadResourceMappingSpecBlank,
       ClusterWorkloadResourceMappingTemplateBlank, ClusterWorkloadResourceMappingContainerBlank,
       ServiceBindingBlank, ServiceBindingSpecBlank, ServiceBindingWorkloadReferenceBlank,
       ServiceBindingServiceReferenceBlank, EnvMappingBlank, ServiceBindingStatusBlank,
       ServiceBindingSecretReferenceBlank], blankStore)"
  unfolding packageInit_eq [of L] by (simp add: blank_defs blankStore_def)

lemma blankStore_eq: "blankStore = concat [
    [MappingDies [zeroDie (Some zeroMeta) zeroMapping], MappingDies [zeroDie (Some zeroMeta) zeroMapping]],
    [MappingSpecDies [zeroDie None (zeroOf mappingSpecKind)],
     MappingSpecDies [zeroDie None (zeroOf mappingSpecKind)]],
    [MappingTemplateDies [zeroDie None zeroTemplate], MappingTemplateDies [zeroDie None zeroTemplate]],
    [MappingContainerDies [zeroDie None (zeroOf mappingContainerKind)],
     MappingContainerDies [zeroDie None (zeroOf mappingContainerKind)]],
    [BindingDies [zeroDie (Some zeroMeta) zeroBinding], BindingDies [zeroDie (Some zeroMeta) zeroBinding]],
    [BindingSpecDies [zeroDie None zeroSpec], BindingSpecDies [zeroDie None zeroSpec]],
    [WorkloadReferenceDies [zeroDie None zeroWorkload], WorkloadReferenceDies [zeroDie None zeroWorkload]],
    [ServiceReferenceDies [zeroDie None zeroService], ServiceReferenceDies [zeroDie None zeroService]],
    [EnvMappingDies [zeroDie None (zeroOf envMappingKind)],
     EnvMappingDies [zeroDie None (zeroOf envMappingKind)]],
    [BindingStatusDies [zeroDie None zeroStatus], BindingStatusDies [zeroDie None zeroStatus]],
    [SecretReferenceDies [zeroDie None (zeroOf secretReferenceKind)],
     SecretReferenceDies [zeroDie None (zeroOf secretReferenceKind)]]]"
  by (simp add: blankStore_def packageInit_def die_table_defs diegen_def dieType_defs dieFeed_zero
      kind_defs zeroDie_def kind_ok_def zeroMapping_def zeroBinding_def)

lemma blank_template: "dieHolds templateDieType viewTemplate wfTemplate blankStore
    ClusterWorkloadResourceMappingTemplateBlank False (viewTemplate [] zeroTemplate)"
  by (simp add: dieHolds_def blankStore_eq blank_defs loadDie_def loadCell_def cell_ok_def
      templateDieType_def kind_defs zeroDie_def template_defs zeroTemplate_def sliceWf_def
      sliceView_def)

lemma blank_envMapping: "dieHolds envMappingDieType plainView plainWf blankStore EnvMappingBlank
    False (envFresh '''')"
  by (simp add: dieHolds_def blankStore_eq blank_defs loadDie_def loadCell_def cell_ok_def
      envMappingDieType_def kind_defs zeroDie_def plain_defs envFresh_def)

lemma blankStore_length: "length blankStore = 22"
  by (simp add: blankStore_eq)

section \<open>Stamps by key\<close>

text \<open>The value of a new version that has only its name.\<close>

definition versionFresh :: "string \<Rightarrow> mappingTemplate" where
  "versionFresh version = \<lparr>mt_Version = version, mt_Annotations = '''', mt_Containers = [],
     mt_Volumes = ''''\<rparr>"

lemma templateFresh_view:
  "wfTemplate h (templateFresh v) \<and> viewTemplate h (templateFresh v) = versionFresh v \<and>
   ownsTemplate h (templateFresh v) = {}"
  by (simp add: template_defs templateFresh_def versionFresh_def zeroTemplate_def sliceWf_def
      sliceView_def)

lemma VersionsDie_stamps:
  assumes fn: "edits templateDieType viewTemplate ownsTemplate wfTemplate fn g"
  shows "stamps blankStore viewMappingSpec ownsMappingSpec wfMappingSpec
    (\<lambda>r h. let (versions, h) = upsertDie ClusterWorkloadResourceMappingTemplateDie
          ClusterWorkloadResourceMappingTemplateBlank mappingTemplateKind gt_Version templateFresh
          version fn (gms_Versions r) h
        in (r\<lparr>gms_Versions := versions\<rparr>, h))
    (upsertBy mt_Version versionFresh version g)"
  unfolding stamps_def
proof (intro allI impI, elim conjE)
  fix h r r' h'
  assume base: "extends blankStore h" and wf: "wfMappingSpec h r"
    and st: "(let (versions, h) = upsertDie ClusterWorkloadResourceMappingTemplateDie
          ClusterWorkloadResourceMappingTemplateBlank mappingTemplateKind gt_Version templateFresh
          version fn (gms_Versions r) h
        in (r\<lparr>gms_Versions := versions\<rparr>, h)) = (r', h')"
  obtain s where up: "upsertDie (diegen templateDieType) ClusterWorkloadResourceMappingTemplateBlank
      (dt_res templateDieType) gt_Version templateFresh version fn (gms_Versions r) h = (s, h')"
    and r': "r' = r\<lparr>gms_Versions := s\<rparr>"
    using st by (auto simp: ClusterWorkloadResourceMappingTemplateDie_def templateDieType_def
        split: prod.splits)
  have res: "dt_res templateDieType = mappingTemplateKind" by (simp add: templateDieType_def)
  have wfs: "sliceWf (dt_res templateDieType) ownsTemplate wfTemplate h (gms_Versions r)"
    using wf by (simp add: wfMappingSpec_def res)
  have key: "gt_Version x = mt_Version (viewTemplate h x)" for h x by (simp add: viewTemplate_def)
  note u = templateDie.upsertDie_spec [where keyOf = gt_Version and keyV = mt_Version and
      fresh = templateFresh and freshV = versionFresh and key = version, OF templateDie.dieHolds_keep [OF blank_template base] wfs key
      templateFresh_view fn up, unfolded res]
  show "wfMappingSpec h' r' \<and>
      viewMappingSpec h' r' = upsertBy mt_Version versionFresh version g (viewMappingSpec h r) \<and>
      length h \<le> length h' \<and> (\<forall>a < length h. a \<notin> ownsMappingSpec h r \<longrightarrow> h' ! a = h ! a)"
    using u sliceAddr_owned [of "gms_Versions r" mappingTemplateKind ownsTemplate h]
    by (auto simp: mappingSpec_defs r')
qed

lemma EnvDie_stamps:
  assumes fn: "edits envMappingDieType plainView plainOwns plainWf fn g" and L: "copiers_ok L"
  shows "stamps blankStore viewBindingSpec ownsBindingSpec wfBindingSpec
    (\<lambda>r h. let (env, h) = upsertDie EnvMappingDie EnvMappingBlank envMappingKind em_Key envFresh
          key fn (gs_Env r) h
        in (r\<lparr>gs_Env := env\<rparr>, h))
    (\<lambda>v. v\<lparr>bs_Env := upsertBy em_Key envFresh key g (bs_Env v)\<rparr>)"
  unfolding stamps_def
proof (intro allI impI, elim conjE)
  fix h r r' h'
  assume base: "extends blankStore h" and wf: "wfBindingSpec h r"
    and st: "(let (env, h) = upsertDie EnvMappingDie EnvMappingBlank envMappingKind em_Key envFresh
          key fn (gs_Env r) h
        in (r\<lparr>gs_Env := env\<rparr>, h)) = (r', h')"
  obtain s where up: "upsertDie (diegen envMappingDieType) EnvMappingBlank
      (dt_res envMappingDieType) em_Key envFresh key fn (gs_Env r) h = (s, h')"
    and r': "r' = r\<lparr>gs_Env := s\<rparr>"
    using st by (auto simp: EnvMappingDie_def envMappingDieType_def split: prod.splits)
  have res: "dt_res envMappingDieType = envMappingKind" by (simp add: envMappingDieType_def)
  have wfs: "sliceWf (dt_res envMappingDieType) plainOwns plainWf h (gs_Env r)"
    and ww: "wfWorkload h (gs_Workload r)"
    and apart: "sliceAddr (gs_Env r) \<inter> ownsWorkload h (gs_Workload r) = {}"
    using wf by (simp_all add: wfBindingSpec_def res)
  have k: "em_Key x = em_Key (plainView h x)" for h :: store and x by (simp add: plain_defs)
  have z: "plainWf h (envFresh key) \<and> plainView h (envFresh key) = envFresh key \<and>
      plainOwns h (envFresh key) = {}" for h :: store by (simp add: plain_defs)
  note u = envMappingDie.upsertDie_spec [where keyOf = em_Key and keyV = em_Key and
      fresh = envFresh and freshV = envFresh and key = key, OF envMappingDie.dieHolds_keep [OF blank_envMapping base]
      wfs k z fn up, unfolded res]
  note W = workload_deep_copy [OF L]
  have own: "ownsWorkload h (gs_Workload r) \<subseteq> {..<length h}" by (rule deep_copy.owned [OF W ww])
  have "agree (ownsWorkload h (gs_Workload r)) h h'"
    using own apart u(4,5) by (fastforce simp: agree_def)
  note w = deep_copy.reads [OF W this]
  have "sliceAddr s \<inter> ownsWorkload h (gs_Workload r) = {}" using u(3) apart own by fastforce
  then show "wfBindingSpec h' r' \<and> viewBindingSpec h' r' =
        (viewBindingSpec h r)\<lparr>bs_Env := upsertBy em_Key envFresh key g (bs_Env (viewBindingSpec h r))\<rparr> \<and>
      length h \<le> length h' \<and> (\<forall>a < length h. a \<notin> ownsBindingSpec h r \<longrightarrow> h' ! a = h ! a)"
    using u w ww sliceAddr_owned [of "gs_Env r" envMappingKind plainOwns h]
    by (auto simp: bindingSpec_defs r')
qed


lemma ContainersDie_stamps:
  assumes "list_all2 (\<lambda>d v. dieHolds containerDieType plainView plainWf blank d False v) ds vs"
  shows "stamps blank viewTemplate ownsTemplate wfTemplate
    (\<lambda>r h. let (s, h) = releaseAll (DieRelease ClusterWorkloadResourceMappingContainerDie)
          mappingContainerKind ds h
        in (r\<lparr>gt_Containers := s\<rparr>, h))
    (\<lambda>v. v\<lparr>mt_Containers := vs\<rparr>)"
  unfolding stamps_def
proof (intro allI impI, elim conjE)
  fix h h' :: store and r r' :: gTemplate
  assume base: "extends blank h"
    and st: "(let (s, h) = releaseAll (DieRelease ClusterWorkloadResourceMappingContainerDie)
          mappingContainerKind ds h
        in (r\<lparr>gt_Containers := s\<rparr>, h)) = (r', h')"
  obtain s where rel: "releaseAll (dieRelease containerDieType) (dt_res containerDieType) ds h = (s, h')"
    and r': "r' = r\<lparr>gt_Containers := s\<rparr>"
    using st by (auto simp: ClusterWorkloadResourceMappingContainerDie_def diegen_def
        containerDieType_def split: prod.splits)
  have ds: "list_all2 (\<lambda>d v. dieHolds containerDieType plainView plainWf h d False v) ds vs"
    using assms by (rule list_all2_mono) (rule containerDie.dieHolds_keep [OF _ base])
  have res: "dt_res containerDieType = mappingContainerKind" by (simp add: containerDieType_def)
  note c = containerDie.releaseAll_spec [OF ds rel, unfolded res]
  show "wfTemplate h' r' \<and> viewTemplate h' r' = (viewTemplate h r)\<lparr>mt_Containers := vs\<rparr> \<and>
      length h \<le> length h' \<and> (\<forall>a < length h. a \<notin> ownsTemplate h r \<longrightarrow> h' ! a = h ! a)"
    using c by (auto simp: template_defs r' extends_def)
qed

section \<open>Claims\<close>

text \<open>C39. A ServiceBinding die that is immutable stays what it is: whatever function it is
  stamped with, as long as that function writes only to the resource it is handed and to new
  storage, no storage that existed changes, the die still reads the same, and the result is a
  new immutable die.\<close>

theorem immutable_die_unchanged:
  assumes "copiers_ok L"
    and "dieHolds (bindingDieType L) viewBinding wfBinding h d False v"
    and "confined ownsBinding wfBinding fn"
    and "\<And>h r r' h'. wfBinding h r \<Longrightarrow> fn r h = (r', h') \<Longrightarrow> wfBinding h' r'"
    and "DieStamp (ServiceBindingDie L) d fn h = (d', h')"
  shows "extends h h' \<and> length h \<le> d' \<and>
    dieHolds (bindingDieType L) viewBinding wfBinding h' d False v \<and>
    (\<exists>w. dieHolds (bindingDieType L) viewBinding wfBinding h' d' False w)"
  by (rule die.stamp_immutable [OF dies_of_bindings(4) [OF assms(1)] assms(2,3)])
    (use assms(4,5) in \<open>simp_all add: ServiceBindingDie_def diegen_def\<close>)

lemma blank_binding: "dieHolds (bindingDieType plainCopiers) viewBinding wfBinding blankStore
    ServiceBindingBlank False (viewBinding [] zeroBinding)"
  by (simp add: dieHolds_def blankStore_eq blank_defs loadDie_def loadCell_def cell_ok_def
      bindingDieType_def kind_defs zeroDie_def zeroBinding_def zeroSpec_def zeroStatus_def
      zeroWorkload_def binding_defs bindingSpec_defs bindingStatus_defs workload_defs sliceWf_def
      sliceView_def pointerView_def)

lemma binding_setter:
  "confined ownsBinding wfBinding (\<lambda>r h. (r\<lparr>gb_ObjectMeta := v\<rparr>, h))"
  "\<And>h r r' h'. wfBinding h r \<Longrightarrow> (r\<lparr>gb_ObjectMeta := v\<rparr>, h) = (r', h') \<Longrightarrow> wfBinding h' r'"
  by (auto simp: confined_def wfBinding_def)

theorem immutable_die_unchanged_witness:
  "case DieStamp (ServiceBindingDie plainCopiers) ServiceBindingBlank
      (\<lambda>r h. (r\<lparr>gb_ObjectMeta := zeroMeta\<lparr>om_Name := ''b''\<rparr>\<rparr>, h)) blankStore of
     (d', h') \<Rightarrow> 22 \<le> d' \<and> dieHolds (bindingDieType plainCopiers) viewBinding wfBinding h'
       ServiceBindingBlank False (viewBinding [] zeroBinding)"
proof -
  obtain d' h' where st: "DieStamp (ServiceBindingDie plainCopiers) ServiceBindingBlank
      (\<lambda>r h. (r\<lparr>gb_ObjectMeta := zeroMeta\<lparr>om_Name := ''b''\<rparr>\<rparr>, h)) blankStore = (d', h')"
    by fastforce
  from immutable_die_unchanged [OF plainCopiers_ok blank_binding binding_setter st] st
  show ?thesis by (simp add: blankStore_length)
qed

text \<open>C40. \<open>VersionsDie\<close> edits the first version of the mapping with the given name, keeping the
  order of the versions and all others, or appends a new version of that name that the callback
  starts from; the die it is called on, and everything else that existed, stays as it was.\<close>

theorem VersionsDie_upserts:
  assumes "edits templateDieType viewTemplate ownsTemplate wfTemplate fn g"
    and "extends (snd (packageInit L [])) h"
    and "dieHolds mappingSpecDieType viewMappingSpec wfMappingSpec h d False vs"
    and "ClusterWorkloadResourceMappingSpecDie_VersionsDie d version fn h = (d', h')"
  shows "dieHolds mappingSpecDieType viewMappingSpec wfMappingSpec h' d' False
      (upsertBy mt_Version versionFresh version g vs) \<and>
    dieHolds mappingSpecDieType viewMappingSpec wfMappingSpec h' d False vs \<and>
    extends h h' \<and> length h \<le> d'"
proof -
  have base: "extends blankStore h" using assms(2) by (simp add: packageInit_blanks)
  show ?thesis
    using mappingSpecDie.stamp_spec [OF assms(3) base VersionsDie_stamps [OF assms(1)]] assms(4)
    by (simp add: ClusterWorkloadResourceMappingSpecDie_VersionsDie_def
        ClusterWorkloadResourceMappingSpecDie_def diegen_def)
qed

lemma blank_mappingSpec: "dieHolds mappingSpecDieType viewMappingSpec wfMappingSpec blankStore
    ClusterWorkloadResourceMappingSpecBlank False []"
  by (simp add: dieHolds_def blankStore_eq blank_defs loadDie_def loadCell_def cell_ok_def
      mappingSpecDieType_def kind_defs zeroDie_def mappingSpec_defs sliceWf_def sliceView_def)

lemma Annotations_edits: "edits templateDieType viewTemplate ownsTemplate wfTemplate
    (\<lambda>d h. snd (ClusterWorkloadResourceMappingTemplateDie_Annotations d v h))
    (\<lambda>t. t\<lparr>mt_Annotations := v\<rparr>)"
  using templateDie.edits_setter [of "gt_Annotations_update (\<lambda>_. v)" "mt_Annotations_update (\<lambda>_. v)"]
  by (simp add: ClusterWorkloadResourceMappingTemplateDie_Annotations_def
      ClusterWorkloadResourceMappingTemplateDie_def diegen_def template_defs)

lemma Volumes_edits: "edits templateDieType viewTemplate ownsTemplate wfTemplate
    (\<lambda>d h. snd (ClusterWorkloadResourceMappingTemplateDie_Volumes d v h))
    (\<lambda>t. t\<lparr>mt_Volumes := v\<rparr>)"
  using templateDie.edits_setter [of "gt_Volumes_update (\<lambda>_. v)" "mt_Volumes_update (\<lambda>_. v)"]
  by (simp add: ClusterWorkloadResourceMappingTemplateDie_Volumes_def
      ClusterWorkloadResourceMappingTemplateDie_def diegen_def template_defs)

theorem VersionsDie_upserts_witness:
  "case ClusterWorkloadResourceMappingSpecDie_VersionsDie ClusterWorkloadResourceMappingSpecBlank
      ''v1'' (\<lambda>d h. snd (ClusterWorkloadResourceMappingTemplateDie_Volumes d ''.volumes''
        (snd (ClusterWorkloadResourceMappingTemplateDie_Annotations d ''.annotations'' h)))) blankStore of
     (d', h') \<Rightarrow> dieHolds mappingSpecDieType viewMappingSpec wfMappingSpec h' d' False
       [\<lparr>mt_Version = ''v1'', mt_Annotations = ''.annotations'', mt_Containers = [],
         mt_Volumes = ''.volumes''\<rparr>]"
proof -
  note fn = edits_seq [OF Annotations_edits [of "''.annotations''"] Volumes_edits [of "''.volumes''"]]
  have base: "extends (snd (packageInit plainCopiers [])) blankStore"
    by (simp add: packageInit_blanks)
  obtain d' h' where st: "ClusterWorkloadResourceMappingSpecDie_VersionsDie
      ClusterWorkloadResourceMappingSpecBlank ''v1''
      (\<lambda>d h. snd (ClusterWorkloadResourceMappingTemplateDie_Volumes d ''.volumes''
        (snd (ClusterWorkloadResourceMappingTemplateDie_Annotations d ''.annotations'' h)))) blankStore =
      (d', h')" by fastforce
  from VersionsDie_upserts [OF fn base blank_mappingSpec st] st
  show ?thesis by (simp add: versionFresh_def)
qed

text \<open>\<open>EnvDie\<close> on a binding's spec edits the first environment mapping with the given key,
  or appends one for that key, and changes nothing else of the spec: name, type, provider,
  workload and service read as before, in a new die, while the die it is called on stays as it
  was.\<close>

lemma EnvDie_upserts:
  assumes "copiers_ok L"
    and "edits envMappingDieType plainView plainOwns plainWf fn g"
    and "extends (snd (packageInit L [])) h"
    and "dieHolds (bindingSpecDieType L) viewBindingSpec wfBindingSpec h d False v"
    and "ServiceBindingSpecDie_EnvDie L d key fn h = (d', h')"
  shows "dieHolds (bindingSpecDieType L) viewBindingSpec wfBindingSpec h' d' False
      (v\<lparr>bs_Env := upsertBy em_Key envFresh key g (bs_Env v)\<rparr>) \<and>
    dieHolds (bindingSpecDieType L) viewBindingSpec wfBindingSpec h' d False v \<and>
    extends h h' \<and> length h \<le> d'"
proof -
  have base: "extends blankStore h" using assms(3) by (simp add: packageInit_blanks)
  show ?thesis
    using die.stamp_spec [OF dies_of_bindings(2) [OF assms(1)] assms(4) base
        EnvDie_stamps [OF assms(2,1)]] assms(5)
    by (simp add: ServiceBindingSpecDie_EnvDie_def ServiceBindingSpecDie_def diegen_def)
qed

lemma blank_bindingSpec: "dieHolds (bindingSpecDieType plainCopiers) viewBindingSpec wfBindingSpec
    blankStore ServiceBindingSpecBlank False (viewBindingSpec [] zeroSpec)"
  by (simp add: dieHolds_def blankStore_eq blank_defs loadDie_def loadCell_def cell_ok_def
      bindingSpecDieType_def kind_defs zeroDie_def zeroSpec_def zeroWorkload_def
      bindingSpec_defs workload_defs sliceWf_def sliceView_def pointerView_def)

lemma Name_edits: "edits envMappingDieType plainView plainOwns plainWf
    (\<lambda>d h. snd (EnvMappingDie_Name d v h)) (\<lambda>e. e\<lparr>em_Name := v\<rparr>)"
  using envMappingDie.edits_setter [of "em_Name_update (\<lambda>_. v)" "em_Name_update (\<lambda>_. v)"]
  by (simp add: EnvMappingDie_Name_def EnvMappingDie_def diegen_def plain_defs)

lemma EnvDie_upserts_witness:
  "case ServiceBindingSpecDie_EnvDie plainCopiers ServiceBindingSpecBlank ''uri''
      (\<lambda>d h. snd (EnvMappingDie_Name d ''URL'' h)) blankStore of
     (d', h') \<Rightarrow> dieHolds (bindingSpecDieType plainCopiers) viewBindingSpec wfBindingSpec h' d' False
       ((viewBindingSpec [] zeroSpec)\<lparr>bs_Env := [\<lparr>em_Name = ''URL'', em_Key = ''uri''\<rparr>]\<rparr>)"
proof -
  have base: "extends (snd (packageInit plainCopiers [])) blankStore"
    by (simp add: packageInit_blanks)
  have env: "bs_Env (viewBindingSpec [] zeroSpec) = []"
    by (simp add: viewBindingSpec_def zeroSpec_def sliceView_def)
  obtain d' h' where st: "ServiceBindingSpecDie_EnvDie plainCopiers ServiceBindingSpecBlank ''uri''
      (\<lambda>d h. snd (EnvMappingDie_Name d ''URL'' h)) blankStore = (d', h')" by fastforce
  from EnvDie_upserts [OF plainCopiers_ok Name_edits base blank_bindingSpec st] st env
  show ?thesis by (simp add: envFresh_def)
qed

text \<open>The plain setter of a slice field keeps the array it is given: writing to an element
  of that array later changes what the immutable die that the setter returned reads.\<close>

lemma Versions_shares_argument:
  assumes "dieHolds mappingSpecDieType viewMappingSpec wfMappingSpec h d False vs"
    and "wfMappingSpec h \<lparr>gms_Versions = v\<rparr>"
    and "ClusterWorkloadResourceMappingSpecDie_Versions d v h = (d', h')"
    and "j < goLen v" and "wfTemplate h' x" and "sliceAddr v \<inter> ownsTemplate h' x = {}"
  shows "dieHolds mappingSpecDieType viewMappingSpec wfMappingSpec h' d' False
      (viewMappingSpec h \<lparr>gms_Versions = v\<rparr>) \<and>
    viewMappingSpec (storeElem mappingTemplateKind v j x h')
      (d_r (loadDie mappingSpecDieType h' d')) =
      (viewMappingSpec h \<lparr>gms_Versions = v\<rparr>)[j := viewTemplate h' x]"
proof -
  obtain r h1 where r: "dieRelease mappingSpecDieType d h = (r, h1)" by fastforce
  note rel = mappingSpecDie.release_immutable [OF assms(1) r]
  then have e1: "extends h h1" by simp
  let ?r = "r\<lparr>gms_Versions := v\<rparr>"
  have same: "?r = \<lparr>gms_Versions = v\<rparr>" by simp
  note w1 = mappingSpec.keep [OF assms(2) e1]
  from assms(3) r have fd: "dieFeed mappingSpecDieType d ?r h1 = (d', h')"
    by (simp add: ClusterWorkloadResourceMappingSpecDie_Versions_def
        ClusterWorkloadResourceMappingSpecDie_def diegen_def dieStamp_def)
  note feed = mappingSpecDie.feed_immutable [OF mappingSpecDie.dieHolds_keep [OF assms(1) e1]
      w1(3) fd [unfolded same]]
  then have e: "extends h h'" using e1 extends_trans by blast
  note w = mappingSpec.keep [OF assms(2) e]
  have "sliceWf mappingTemplateKind ownsTemplate wfTemplate h' v"
    using w(3) by (simp add: wfMappingSpec_def)
  from templates.storeElem_spec(1) [OF this assms(4,5,6)]
  show ?thesis using feed w w1 by (auto simp: viewMappingSpec_def)
qed

definition sharedStore :: store where
  "sharedStore = blankStore @ [MappingTemplates [zeroTemplate]]"

lemma Versions_shares_argument_witness:
  "case ClusterWorkloadResourceMappingSpecDie_Versions ClusterWorkloadResourceMappingSpecBlank
      (Slice 22 0 1 1) sharedStore of
     (d', h') \<Rightarrow> dieHolds mappingSpecDieType viewMappingSpec wfMappingSpec h' d' False
         [versionFresh ''''] \<and>
       viewMappingSpec (storeElem mappingTemplateKind (Slice 22 0 1 1) 0 (templateFresh ''v2'') h')
         (d_r (loadDie mappingSpecDieType h' d')) = [versionFresh ''v2'']"
proof -
  obtain d' h' where st: "ClusterWorkloadResourceMappingSpecDie_Versions
      ClusterWorkloadResourceMappingSpecBlank (Slice 22 0 1 1) sharedStore = (d', h')" by fastforce
  have e: "extends blankStore sharedStore" by (simp add: sharedStore_def)
  have nth: "sharedStore ! 22 = MappingTemplates [zeroTemplate]" "length sharedStore = 23"
    using nth_append_length [of blankStore] by (simp_all add: sharedStore_def blankStore_length)
  have wf: "wfMappingSpec sharedStore \<lparr>gms_Versions = Slice 22 0 1 1\<rparr>"
    using templateFresh_view [of sharedStore "''''"] nth
    by (simp add: mappingSpec_defs sliceWf_def kind_defs template_defs zeroTemplate_def)
  have view: "viewMappingSpec sharedStore \<lparr>gms_Versions = Slice 22 0 1 1\<rparr> = [versionFresh '''']"
    using nth by (simp add: viewMappingSpec_def sliceView_def kind_defs viewTemplate_def
        zeroTemplate_def versionFresh_def)
  have x: "wfTemplate h' (templateFresh ''v2'')"
    "sliceAddr (Slice 22 0 1 1) \<inter> ownsTemplate h' (templateFresh ''v2'') = {}"
    using templateFresh_view [of h' "''v2''"] by simp_all
  have j: "0 < goLen (Slice 22 0 1 1)" by simp
  from Versions_shares_argument [OF mappingSpecDie.dieHolds_keep [OF blank_mappingSpec e] wf st j x]
  show ?thesis using st templateFresh_view [of h' "''v2''"] view by simp
qed


end
