(* ===== verification/Manager_Wiring.thy ===== *)
theory Manager_Wiring
  imports Webhook_Controller
begin

text \<open>
  \<open>main.go\<close>: how the program is put together. Each call into controller-runtime that can fail
  is one step; whether it fails is the argument \<open>fails\<close>. Durations are nanoseconds. Also here is
  what the reconcilers watch besides their own resource.
\<close>

section \<open>Flags and manager options\<close>

text \<open>The values given on the command line, as the \<open>flag\<close> package parsed them.\<close>

record commandLine =
  cl_metricsBindAddress :: "string option"
  cl_healthProbeBindAddress :: "string option"
  cl_leaderElect :: "bool option"

record managerOptions =
  mo_MetricsBindAddress :: string
  mo_Port :: int
  mo_HealthProbeBindAddress :: string
  mo_LeaderElection :: bool
  mo_LeaderElectionID :: string
  mo_SyncPeriod :: int

definition given :: "'a option \<Rightarrow> 'a \<Rightarrow> 'a" where
  "given v dflt = (case v of None \<Rightarrow> dflt | Some x \<Rightarrow> x)"

definition second :: int where "second = 1000000000"

definition syncPeriod :: int where "syncPeriod = 10 * 60 * 60 * second"

definition managerOptionsOf :: "commandLine \<Rightarrow> managerOptions" where
  "managerOptionsOf cl =
    \<lparr>mo_MetricsBindAddress = given (cl_metricsBindAddress cl) '':8080'',
     mo_Port = 9443,
     mo_HealthProbeBindAddress = given (cl_healthProbeBindAddress cl) '':8081'',
     mo_LeaderElection = given (cl_leaderElect cl) False,
     mo_LeaderElectionID = ''a359ffaf.servicebinding.io'',
     mo_SyncPeriod = syncPeriod\<rparr>"

section \<open>Access checkers\<close>

definition mainAccessChecker :: accessChecker where
  "mainAccessChecker = newAccessChecker (5 * 60 * second)"

definition admissionChecker :: accessChecker where
  "admissionChecker = withVerb mainAccessChecker ''update''"

definition triggerChecker :: accessChecker where
  "triggerChecker = withVerb mainAccessChecker ''get''"

section \<open>Starting up\<close>

datatype handler = AdmissionProjectorWebhookHandler | TriggerWebhookHandler

datatype startupStep =
    AddToScheme string
  | NewManager managerOptions
  | SetupServiceBindingController
  | SetupWebhook string
  | SetupAdmissionProjector string accessChecker
  | SetupTrigger string accessChecker
  | RegisterHandler string handler
  | AddHealthzCheck string
  | AddReadyzCheck string
  | StartManager

text \<open>
  What a failure does: \<open>utilruntime.Must\<close> panics, \<open>main\<close> logs a message and exits with 1. A
  registration has no error to return.
\<close>

datatype onFailure = MustPanic | ExitWith string | CannotFail

datatype exit = Returned | Panicked | ExitedOne string

definition initSteps :: "(startupStep \<times> onFailure) list" where
  "initSteps =
    [(AddToScheme ''client-go'', MustPanic),
     (AddToScheme (gv_Group GroupVersion @ ''/'' @ gv_Version GroupVersion), MustPanic)]"

definition mainSteps :: "commandLine \<Rightarrow> (startupStep \<times> onFailure) list" where
  "mainSteps cl =
    [(NewManager (managerOptionsOf cl), ExitWith ''unable to start manager''),
     (SetupServiceBindingController, ExitWith ''unable to create controller''),
     (SetupWebhook ''ServiceBinding'', ExitWith ''unable to create webhook''),
     (SetupWebhook ''ClusterWorkloadResourceMapping'', ExitWith ''unable to create webhook''),
     (SetupAdmissionProjector ''servicebinding-runtime-admission-projector'' admissionChecker,
      ExitWith ''unable to create controller''),
     (RegisterHandler ''/interceptor'' AdmissionProjectorWebhookHandler, CannotFail),
     (SetupTrigger ''servicebinding-runtime-trigger'' triggerChecker,
      ExitWith ''unable to create controller''),
     (RegisterHandler ''/trigger'' TriggerWebhookHandler, CannotFail),
     (AddHealthzCheck ''healthz'', ExitWith ''unable to set up health check''),
     (AddReadyzCheck ''readyz'', ExitWith ''unable to set up ready check''),
     (StartManager, ExitWith ''problem running manager'')]"

text \<open>The steps that were taken, the failing one included, and how the program ended.\<close>

fun runStartup :: "(startupStep \<Rightarrow> bool) \<Rightarrow> (startupStep \<times> onFailure) list \<Rightarrow> startupStep list \<times> exit" where
  "runStartup fails [] = ([], Returned)"
| "runStartup fails ((s, f) # ss) =
     (case f of
        CannotFail \<Rightarrow> (let (taken, e) = runStartup fails ss in (s # taken, e))
      | MustPanic \<Rightarrow>
          (if fails s then ([s], Panicked)
           else let (taken, e) = runStartup fails ss in (s # taken, e))
      | ExitWith msg \<Rightarrow>
          (if fails s then ([s], ExitedOne msg)
           else let (taken, e) = runStartup fails ss in (s # taken, e)))"

definition mainProgram :: "(startupStep \<Rightarrow> bool) \<Rightarrow> commandLine \<Rightarrow> startupStep list \<times> exit" where
  "mainProgram fails cl = runStartup fails (initSteps @ mainSteps cl)"

section \<open>Watched resources\<close>

text \<open>
  \<open>LoadServiceBindings\<close> maps an event of any binding to the request of its webhook
  configuration. \<open>ProjectBinding\<close> watches the mappings with a handler that has no functions, so
  that they are cached and none of their events asks for anything.
\<close>

definition bindingEventRequests :: "namespacedName \<Rightarrow> serviceBinding \<Rightarrow> namespacedName list" where
  "bindingEventRequests req sb = [req]"

definition mappingEventRequests :: "resourceMapping \<Rightarrow> namespacedName list" where
  "mappingEventRequests r = []"

definition configurationRequest :: "string \<Rightarrow> namespacedName" where
  "configurationRequest name = \<lparr>nn_Namespace = '''', nn_Name = name\<rparr>"

section \<open>What a start leaves behind\<close>

lemma runStartup_prefix:
  "runStartup fails ss = (taken, e) \<Longrightarrow> \<exists>rest. map fst ss = taken @ rest"
proof (induction ss arbitrary: taken e)
  case Nil
  then show ?case by simp
next
  case (Cons sf ss)
  obtain s f where sf: "sf = (s, f)" by (cases sf)
  obtain t x where run: "runStartup fails ss = (t, x)" by fastforce
  from Cons.IH [OF this] obtain rest where "map fst ss = t @ rest" by blast
  then show ?case
    using Cons.prems run by (auto simp: sf split: onFailure.splits if_splits)
qed

text \<open>A step goes through when it cannot fail or does not.\<close>

definition goesThrough :: "(startupStep \<Rightarrow> bool) \<Rightarrow> startupStep \<times> onFailure \<Rightarrow> bool" where
  "goesThrough fails sf \<longleftrightarrow> snd sf = CannotFail \<or> \<not> fails (fst sf)"

fun exitOf :: "onFailure \<Rightarrow> exit" where
  "exitOf MustPanic = Panicked"
| "exitOf (ExitWith msg) = ExitedOne msg"
| "exitOf CannotFail = Returned"

lemma runStartup_spec:
  "runStartup fails ss =
    (case dropWhile (goesThrough fails) ss of
       [] \<Rightarrow> (map fst ss, Returned)
     | sf # _ \<Rightarrow> (map fst (takeWhile (goesThrough fails) ss) @ [fst sf], exitOf (snd sf)))"
proof (induction ss)
  case Nil
  then show ?case by simp
next
  case (Cons sf ss)
  obtain s f where sf: "sf = (s, f)" by (cases sf)
  have "runStartup fails ((s, f) # ss) =
      (if goesThrough fails (s, f) then (s # fst (runStartup fails ss), snd (runStartup fails ss))
       else ([s], exitOf f))"
    by (cases f) (auto simp: goesThrough_def split: prod.splits)
  then show ?case
    using Cons.IH
    by (cases "dropWhile (goesThrough fails) ss")
      (simp_all add: sf del: runStartup.simps dropWhile_eq_Nil_conv)
qed

lemma runStartup_start_last:
  assumes "runStartup fails (ss @ [(x, ExitWith msg)]) = (taken, e)" and "x \<notin> fst ` set ss"
    and "x \<in> set taken"
  shows "taken = map fst ss @ [x] \<and> list_all (goesThrough fails) ss \<and>
    e = (if fails x then ExitedOne msg else Returned)"
proof (cases "dropWhile (goesThrough fails) ss")
  case Nil
  then have "list_all (goesThrough fails) ss" by (simp add: list_all_iff dropWhile_eq_Nil_conv)
  with Nil assms(1) show ?thesis
    by (auto simp: runStartup_spec dropWhile_append list_all_iff goesThrough_def
        takeWhile_append split: list.splits if_splits)
next
  case (Cons sf rest)
  have mem: "sf \<in> set ss" using Cons set_dropWhileD [of sf "goesThrough fails" ss] by simp
  have bad: "\<not> goesThrough fails sf"
    using Cons hd_dropWhile [of "goesThrough fails" ss] by simp
  have "taken = map fst (takeWhile (goesThrough fails) ss) @ [fst sf]"
    using assms(1) Cons dropWhile_append1 [where P = "goesThrough fails", OF mem bad]
      takeWhile_append1 [where P = "goesThrough fails", OF mem bad]
    by (simp add: runStartup_spec)
  with mem have "x \<in> fst ` set ss"
    using assms(3) by (auto dest: set_takeWhileD)
  with assms(2) show ?thesis by blast
qed

end
