(* ===== verification/Manager_Properties.thy ===== *)
theory Manager_Properties
  imports Manager_Wiring Access_Properties
begin

text \<open>
  The properties of the start of the program: the manager runs only when everything is set up,
  and the access answers it works with are at most five minutes old.
\<close>

lemma mainSteps_split: "initSteps @ mainSteps cl =
    (initSteps @ butlast (mainSteps cl)) @ [(StartManager, ExitWith ''problem running manager'')]"
  by (simp add: mainSteps_def)

lemma StartManager_last: "StartManager \<notin> fst ` set (initSteps @ butlast (mainSteps cl))"
  by (simp add: mainSteps_def initSteps_def)

section \<open>Claims\<close>



text \<open>C28. The permissions the webhook rules of the running program rest on are at most five minutes
  old: whenever the checker of either interception controller grants access to a resource, the
  server granted the verb of that controller, \<open>update\<close> for the admission projector and \<open>get\<close> for
  the trigger, in answer to this question or less than five minutes before.\<close>

theorem grants_bounded_age:
  assumes "checker = admissionChecker \<and> verb = ''update'' \<or> checker = triggerChecker \<and> verb = ''get''"
    and "run_reachable (ac_verb checker) (ac_ttl checker) s"
    and "canI (worldAt (run_now s) resp) g r (run_checker s, ()) = (True, ac', ())"
  shows "(\<exists>ts. resp = Answer ts True) \<or>
    (\<exists>ts. (ts, \<lparr>ra_Namespace = '''', ra_Verb = verb, ra_Group = g, ra_Resource = r\<rparr>, True) \<in> run_log s \<and>
       run_now s - ts < 300000000000)"
proof -
  have "ac_verb checker = verb" "ac_ttl checker = 300000000000"
    using assms(1) by (auto simp: admissionChecker_def triggerChecker_def mainAccessChecker_def
        withVerb_def newAccessChecker_def second_def)
  with grant_source [OF assms(2,3)] show ?thesis by fastforce
qed

text \<open>A run in which the admission checker asks once and is asked again a minute later.\<close>

theorem grants_bounded_age_witness:
  "\<exists>ac'. canI (worldAt 60000000000 Failure) ''apps'' ''deployments''
      (fst (snd (canI (worldAt 0 (Answer 0 True)) ''apps'' ''deployments'' (admissionChecker, ()))), ()) =
      (True, ac', ()) \<and>
    (\<exists>ts. (ts, attributesFor admissionChecker ''apps'' ''deployments'', True) \<in>
        {(0::int, attributesFor admissionChecker ''apps'' ''deployments'', True)} \<and>
      60000000000 - ts < 300000000000)"
proof -
  let ?key = "attributesFor admissionChecker ''apps'' ''deployments''"
  let ?s0 = "\<lparr>run_checker = withVerb (newAccessChecker (ac_ttl admissionChecker)) (ac_verb admissionChecker),
    run_now = 0, run_log = {}\<rparr>"
  let ?ac = "admissionChecker\<lparr>ac_cache := (ac_cache admissionChecker)
    (?key \<mapsto> reviewOf 0 ?key (Answer 0 True))\<rparr>"
  let ?s1 = "?s0\<lparr>run_checker := ?ac, run_log := insert (0, ?key, True) {}\<rparr>"
  let ?s2 = "?s1\<lparr>run_now := run_now ?s1 + 60000000000\<rparr>"
  have same: "withVerb (newAccessChecker (ac_ttl admissionChecker)) (ac_verb admissionChecker) = admissionChecker"
    by (simp add: admissionChecker_def mainAccessChecker_def withVerb_def newAccessChecker_def)
  have "\<not> freshAt 0 admissionChecker ''apps'' ''deployments''"
    by (simp add: freshAt_def admissionChecker_def withVerb_def)
  from canI_asked [OF this, of "Answer 0 True"]
  have first: "canI (worldAt 0 (Answer 0 True)) ''apps'' ''deployments'' (admissionChecker, ()) = (True, ?ac, ())"
    by (simp add: reviewOf_def)
  then have "run_step ?s0 ?s1"
    using run_step.answered [of ?s0 0 True "''apps''" "''deployments''" True ?ac] same by simp
  then have "run_reachable (ac_verb admissionChecker) (ac_ttl admissionChecker) ?s1"
    by (rule run_reachable.step [OF run_reachable.start])
  moreover have "run_step ?s1 ?s2" by (rule run_step.tick) simp
  ultimately have reach: "run_reachable (ac_verb admissionChecker) (ac_ttl admissionChecker) ?s2"
    by (rule run_reachable.step)
  have "freshAt 60000000000 ?ac ''apps'' ''deployments''"
    by (simp add: freshAt_def attributesFor_def reviewOf_def admissionChecker_def withVerb_def
        mainAccessChecker_def newAccessChecker_def second_def)
  from canI_fresh [OF this, of Failure]
  have second: "canI (worldAt (run_now ?s2) Failure) ''apps'' ''deployments'' (run_checker ?s2, ()) = (True, ?ac, ())"
    by (auto simp: reviewOf_def attributesFor_def)
  have "admissionChecker = admissionChecker \<and> ''update'' = ''update'' \<or>
      admissionChecker = triggerChecker \<and> ''update'' = ''get''" by simp
  from grants_bounded_age [OF this reach second] first second show ?thesis by auto
qed

end
