(* ===== verification/Spec2Isabelle.thy ===== *)
theory Spec2Isabelle
  imports Api_Properties Meta_Properties Projector_Properties Workload_Properties
    Resolver_Properties Controller_Properties Access_Properties Webhook_Properties
    Api_Server Webhook_Coverage Settled_Runs Condition_Properties Validation_Loop Stored_Default Stored_Lookup Deep_Copy_Properties Die_Properties Manager_Properties
begin

text \<open>
  The service binding runtime (\<open>servicebinding-runtime\<close>, Go), as a shallow embedding.

  \<^bold>\<open>The program.\<close> A controller and two admission webhooks implement the Service Binding
  specification. A \<open>ServiceBinding\<close> names a service, which has a secret, and workloads. The
  \<^emph>\<open>resolver\<close> finds the secret, the workloads and, from a \<open>ClusterWorkloadResourceMapping\<close>,
  where the pod template of a workload is. The \<^emph>\<open>projector\<close> reads that template through
  JSONPath pointers into a \<^emph>\<open>meta pod template\<close>, adds a volume, mounts, environment variables
  and annotations to it, or takes them away, and writes it back. The \<^emph>\<open>controller\<close> runs this
  for every workload of a binding when the binding or anything it tracks changes, and keeps the
  conditions of the binding. The \<^emph>\<open>admission projector\<close> webhook runs the same projection on a
  workload as it is admitted, the \<^emph>\<open>trigger\<close> webhook enqueues the bindings whose service is
  changing; two more reconcilers keep the rules of the two webhook configurations to the
  resources the bindings mention and the \<^emph>\<open>access checker\<close> allows. Defaulting and validation
  of the two API types run in their own webhooks. Objects that come from the client's cache are
  deep-copied before they are written to; \<open>main\<close> puts everything together. The \<^emph>\<open>dies\<close> are
  the builders of API objects that the tests are written with.

  \<^bold>\<open>Theories.\<close> Each lists the sources it models; the properties are the theorems whose text
  begins with a number.

  \<^item> \<open>SB_Prelude\<close>: the outcome of a call (\<open>Ok\<close>, \<open>Fail\<close>, \<open>Panic\<close>), sequencing, Go maps as
    association lists, the collections \<open>outcome_simps\<close> and \<open>amap_simps\<close>. \<open>Go_Sort\<close>
    (\<open>sort.SliceStable\<close>), \<open>Go_Path\<close> (\<open>path.Join\<close>), \<open>Json_Tree\<close> (unstructured objects and
    positions in them), \<open>Core_Types\<close> (the parts of the Kubernetes types the program looks into).
  \<^item> \<open>Mapping_Api\<close>, \<open>Binding_Api\<close>, \<open>Binding_Lifecycle\<close>: \<open>apis/v1beta1\<close>, the two types with
    \<open>Default\<close>, \<open>ValidateCreate\<close>, \<open>ValidateUpdate\<close>, \<open>ValidateDelete\<close>, and the conditions.
    \<open>Api_Properties\<close>: the validators accept exactly what their contracts say, and an accepted
    pointer is exactly one the projector can follow. \<open>Validation_Loop\<close>: the loop over a slice
    that grows while it runs, as a \<open>while_option\<close>, ends after one visit of every node.
    \<open>servicebindingCondSet\<close> is the condition set of a binding; \<open>livingSet_ok\<close> states what the
    library promises of one.
  \<^item> \<open>Meta_Pod_Template\<close>: \<open>projector/metapodtemplate.go\<close>. \<open>getAt\<close>, \<open>setAt\<close>, \<open>find\<close> and
    \<open>keys\<close> work on positions of the tree in place of \<open>reflect.Value\<close>s, so that a write through
    a value is seen by later reads. \<open>Workload_Lens\<close> and \<open>Workload_Roundtrip\<close> show, level by
    level, that what is written through non-overlapping pointers is read back and that nothing
    else moves; the result is the locale \<open>template_store\<close>, interpreted on
    \<open>newMetaPodTemplate\<close> and \<open>writeToWorkload\<close>. \<open>Plain_Codec\<close> shows that the contract of the
    codec can be met. \<open>Meta_Properties\<close>: the outcomes of a write, panics included.
  \<^item> \<open>Projector_Binding\<close>, \<open>Projector\<close>: \<open>projector/binding.go\<close>, \<open>mapping.go\<close>,
    \<open>interface.go\<close>; the two interfaces are the locales \<open>mapping_source\<close> and
    \<open>binding_projector\<close>. \<open>Projector_Facts\<close>, \<open>Projector_Properties\<close>, \<open>Workload_Properties\<close>:
    what a projection contains, that it is idempotent, commutes with other projections, leaves
    what belongs to others alone, and that unprojecting undoes it, first on templates and then on
    whole workloads.
  \<^item> \<open>Resolver_Cluster\<close>, \<open>Resolver_Properties\<close>: \<open>resolver/cluster.go\<close>, the locale
    \<open>resolver\<close>. The loop variable of \<open>LookupMapping\<close> is an explicit cell, since its address is
    taken.
  \<^item> \<open>Binding_Controller\<close>, \<open>Controller_Facts\<close>, \<open>Controller_Properties\<close>:
    \<open>controllers/servicebinding_controller.go\<close>. A sub-reconciler is a function on the state
    \<open>rstate\<close> of one reconciliation (the resource, the stash, the cluster, what was tracked) that
    returns whether to requeue, an error, or a panic; \<open>serviceBindingReconciler\<close> composes the
    four with the finalizer semantics of reconciler-runtime. \<open>Condition_Properties\<close>: every step
    keeps \<open>Ready\<close> the summary of the two other conditions.
  \<^item> \<open>Projection_History\<close>, \<open>Workload_History\<close>, \<open>Cluster_Runs\<close>, \<open>Api_Server\<close>: the composition
    over time, with no code of its own. \<open>carries m0 act m\<close> specifies a template by the original
    \<open>m0\<close> and the bindings \<open>act\<close> it now has, each contributing exactly its annotations, volume,
    mounts and variables; projecting and unprojecting a binding insert it into \<open>act\<close> and remove
    it. \<open>managed\<close> is the relation of the workloads that any reconciliations of any bindings lead
    to, and \<open>carries\<close> its invariant. \<open>Cluster_Runs\<close>: all a reconciliation writes is projections
    of what it found. \<open>clusterRun\<close> interleaves such writes, made from any version that was ever
    stored, with admission, changes and deletions by others, on a server with optimistic locking
    (\<open>updates\<close>, \<open>stores\<close>), and keeps the log of the bindings written; no update is lost, and a
    run of the modelled reconciler is such a run.
  \<^item> \<open>Settled_Template\<close>, \<open>Settled_Workload\<close>, \<open>Settled_Runs\<close>: when the controller comes to
    rest. Every projection leaves a template in canonical order (\<open>inOrder\<close>), so projecting a
    binding again is a fixed point, whichever binding was reconciled last; writing a template that
    is already there changes a tree at most in the order of map keys (\<open>sameTree\<close>); so such a
    reconciliation sends nothing to the cluster.
  \<^item> \<open>Access_Checker\<close>, \<open>Access_Properties\<close>: \<open>rbac/cani.go\<close>. The cache is part of the state,
    the clock and the server are a world passed through; a call is one step, as the mutex makes
    it. Reachable states are those of an inductive step relation.
  \<^item> \<open>Webhook_Controller\<close>, \<open>Webhook_Facts\<close>, \<open>Webhook_Properties\<close>:
    \<open>controllers/webhook_controller.go\<close>, both aggregate reconcilers and both webhooks.
    \<open>Webhook_Coverage\<close>: rules and webhooks together. \<open>intercepts\<close> is how the API server matches a
    request with the rules of a configuration; after a pass of the reconcilers no workload misses
    a binding at admission, and no event of a service misses the reconciliation of its binding.
    The agreement of webhook and controller on one workload is in this theory.
  \<^item> \<open>Go_Heap\<close>, \<open>Copy_Loops\<close>, \<open>Slice_Facts\<close>, \<open>Stored_Types\<close>, \<open>Deep_Copy\<close>,
    \<open>Deep_Copy_Facts\<close>, \<open>Deep_Copy_Properties\<close>: \<open>zz_generated.deepcopy.go\<close>. Here aliasing is the
    subject, so the API structs are stored the way Go stores them: slices are headers over
    arrays, pointers are addresses, and a store is a list of typed cells that grows at its end.
    The contract of a deep copy (equal by value, new storage, nothing old written) is the locale
    \<open>deep_copy\<close>; \<open>slice_copy\<close>, \<open>plain_slice\<close> and \<open>pointer_copy\<close> carry it through the three
    shapes of the generated code, and each type is an interpretation or an instance. The records
    of \<open>Mapping_Api\<close> and \<open>Binding_Api\<close> are the views of these structs by value.
    \<open>Stored_Default\<close>: the loop of the admission projector that defaults copies of the listed
    bindings, which refines \<open>bindingDefault\<close> and leaves the client's list alone.
    \<open>Stored_Lookup\<close>: \<open>Default\<close> of a mapping in place, which refines \<open>defaultMapping\<close> even where
    slices share an array, and the scan of \<open>LookupMapping\<close> over real variables, simulated by
    \<open>scanVersions\<close>, whose result is a defaulted copy.
  \<^item> \<open>Die\<close>, \<open>Die_Facts\<close>, \<open>Die_Idioms\<close>, \<open>Generated_Dies\<close>, \<open>Dies\<close>, \<open>Die_Properties\<close>:
    \<open>dies/v1beta1\<close>. \<open>Die\<close> has the methods diegen writes for every type, once, over the kind of
    the type and its \<open>DeepCopyInto\<close>; \<open>Generated_Dies\<close> gives the table of each of the eleven
    types and every field stamp; \<open>Dies\<close> has the stamps written by hand. The locale \<open>die\<close>
    extends \<open>deep_copy\<close>: what a die holds (\<open>dieHolds\<close>), what a callback may do (\<open>confined\<close>,
    \<open>edits\<close>), and that a stamp on an immutable die makes a new one.
  \<^item> \<open>Manager_Wiring\<close>, \<open>Manager_Properties\<close>: \<open>main.go\<close> as the list of its fallible steps with
    what a failure of each does, the values the components are configured with, and the events
    that ask for a reconciliation.

  \<^bold>\<open>How the code is read.\<close> A Go error is a value, a panic is the outcome \<open>Panic\<close>: every
  \<open>return err\<close>, index out of range and failed type assertion of the modelled code is a branch.
  Objects are values, except in the heap theories; where the other components rely on a copy
  (\<open>DeepCopy\<close> before a write), the deep copy theorems are what makes that reading right. Code
  outside the repository is an argument: \<open>lib\<close> (the codec of typed and unstructured objects,
  the JSONPath parser), \<open>config\<close> and \<open>env\<close> (client and tracker), \<open>conditionManager\<close>,
  \<open>webhookEnv\<close>, \<open>world\<close>, \<open>copiers\<close> (the deep copies of apimachinery), \<open>jsonOps\<close> and
  \<open>extDies\<close>. What is assumed of one is a named predicate (\<open>conditionManager_ok\<close>,
  \<open>copiers_ok\<close> and so on), and each property that assumes one has a witness in which the
  argument is a concrete function. The histories assume that no two of the bindings involved have
  the same secret (\<open>compatible\<close>; with a shared one they interfere, see below) and that a
  workload starts without items that look like those of a binding (\<open>goodStart\<close>). Times and
  durations are nanoseconds as integers. There is no
  fuel: \<open>find\<close>, \<open>restrictedNodes\<close> and the loops over slices end by structural recursion or a
  measure (the size of the nodes left, the elements left), \<open>restrictedLoop\<close> by the theorem that
  its \<open>while_option\<close> has a value.

  \<^bold>\<open>What modelling showed.\<close> \<open>LookupMapping\<close> returns the template of the last version when an
  earlier one matches (\<open>lookupMapping_exact_match\<close>); unprojecting takes the variables of other
  bindings to the same secret (\<open>unproject_takes_variables_of_shared_secret\<close>); two bindings with a
  variable of the same name in a container never come to rest (\<open>equal_names_never_settle\<close>); an unnamed
  workload is projected with every binding that has a selector
  (\<open>unnamed_workload_ignores_selector\<close>); a pointer through a scalar panics (\<open>setAt_outcome\<close>)
  and so does an accepted pointer without fields (\<open>fieldless_pointer_panics\<close>); an immutable die
  shares the slice a setter was given (\<open>Versions_shares_argument\<close>).

  \<^bold>\<open>Not modelled.\<close> The interior of controller-runtime, reconciler-runtime, client-go and
  apimachinery; logging, metrics and the signal handler; the registration of types with the
  scheme and of the validating webhooks with the manager beyond their place in \<open>main\<close>; the
  reflective access to the private queue of the controller in \<open>TriggerWebhook\<close>, which is the
  argument \<open>queue\<close> of \<open>triggerSync\<close>, with the work queue of client-go as a parameter; storage inside the types of apimachinery (labels,
  conditions and selectors are values, their copies are \<open>copiers\<close>); the capacity Go's runtime gives a
  slice that \<open>append\<close> reallocates, for which \<open>spare\<close> is one choice that no proof looks into; the blank imports under
  \<open>hack/\<close> that pin tools. Concurrency is the interleaving of whole calls: the access checker
  holds its mutex during one, and reconcilers do not share state.

  \<^bold>\<open>Limits of the properties.\<close> The raw-extension methods of the dies are modelled over the
  arguments \<open>jsonOps\<close>, without a theorem on a round trip, which would restate what is assumed of
  that argument; the nested stamps \<open>WorkloadDie\<close>, \<open>ServiceDie\<close> and \<open>SelectorDie\<close> have their
  behaviour on the heap only, \<open>EnvDie\<close> and \<open>VersionsDie\<close> also by value. The reconcilers of the
  webhook configurations are taken one pass at a time, not interleaved with the runs of the
  cluster.
\<close>

section \<open>The webhook and the controller\<close>

text \<open>
  C19. The webhook and the controller agree: a workload that exactly one binding binds to is
  admitted with the projection the controller would compute, and when the controller then
  reconciles the binding it finds the workload as it wants it: its own projection reads the same
  annotations, containers and volumes, and as an object is not told apart by \<open>DeepEqual\<close>, so
  there is nothing to update.
\<close>

theorem admission_then_reconcile:
  assumes "indexed W bs" and "we_name W w \<noteq> ''''"
    and "\<forall>b \<in> set bs. workloadRefOk (cfg_asSelector (we_config W)) (bs_Workload (sb_Spec b))"
    and "filter (bindsTo W w) bs = [b]" and "bindingDefault b = b"
    and "env_config E = we_config W" and "env_lib E = we_lib W"
    and "fitsMapping (we_lib W) pk t w" and "\<And>w. lookupMapping (we_config W) w = Ok t"
    and "newMetaPodTemplate (we_lib W) w t = Ok m"
    and "secretName b \<noteq> ''''" and "noOtherReference b m" and "literalRoots m"
  shows "\<exists>w1 m1 w2 u u'. admissionProjectorSync W w = Ok w1 \<and> projectOne E b w = Ok w1 \<and>
    newMetaPodTemplate (we_lib W) w1 t = Ok m1 \<and> projectOne E b w1 = Ok w2 \<and>
    newMetaPodTemplate (we_lib W) w2 t = Ok (m1\<lparr>mpt_workload := w2\<rparr>) \<and>
    toUnstructured (we_lib W) w1 = Inr u \<and> toUnstructured (we_lib W) w2 = Inr u' \<and> sameTree u u'"
proof -
  have "b \<in> set (filter (bindsTo W w) bs)" using assms(4) by simp
  then have live: "timeIsZero (om_DeletionTimestamp (sb_meta b))" by (simp add: bindsTo_def Let_def)
  obtain w1 m1 w2 u u' where w: "Project (lookupMapping (we_config W)) (we_lib W) b w = Ok w1"
      "newMetaPodTemplate (we_lib W) w1 t = Ok m1"
      "Project (lookupMapping (we_config W)) (we_lib W) b w1 = Ok w2"
      "newMetaPodTemplate (we_lib W) w2 t = Ok (m1\<lparr>mpt_workload := w2\<rparr>)"
      "toUnstructured (we_lib W) w1 = Inr u" "toUnstructured (we_lib W) w2 = Inr u'" "sameTree u u'"
    using Project_at_rest [where lookup = "lookupMapping (we_config W)", OF assms(8-13)] by blast
  have "admissionProjectorSync W w = Ok w1"
    using w(1) by (simp add: admission_fold [OF assms(1-3)] assms(4,5))
  with w show ?thesis
    by (intro exI [of _ w1] exI [of _ m1] exI [of _ w2] exI [of _ u] exI [of _ u'])
      (simp add: projectOne_def live assms(6,7))
qed

theorem admission_then_reconcile_witness:
  "\<exists>w1 m1 w2. admissionProjectorSync podWebhook deployment = Ok w1 \<and>
    newMetaPodTemplate podLib w1 podMapping = Ok m1 \<and>
    projectOne (podEnv podLib :: (json, unit) env) (exampleBinding ''u1'' ''s1'') w1 = Ok w2 \<and>
    newMetaPodTemplate podLib w2 podMapping = Ok (m1\<lparr>mpt_workload := w2\<rparr>)"
proof -
  let ?b = "exampleBinding ''u1'' ''s1''" and ?E = "podEnv podLib :: (json, unit) env"
  have name: "we_name podWebhook deployment \<noteq> ''''" by simp
  have one: "filter (bindsTo podWebhook deployment) [?b] = [?b]" by (simp add: podWebhook_binds)
  have env: "env_config ?E = we_config podWebhook" "env_lib ?E = we_lib podWebhook"
    by (simp_all add: podEnv_def)
  have fits: "fitsMapping (we_lib podWebhook) podPath podMapping deployment"
    and lookup: "\<And>w. lookupMapping (we_config podWebhook) w = Ok podMapping"
    by (simp_all add: deployment_fits)
  have secret: "secretName ?b \<noteq> ''''" by simp
  note read = deployment_template [folded podWebhook_simps(2)]
  from admission_then_reconcile [OF podWebhook_indexed name podWebhook_valid one exampleBinding_default env
      fits lookup read secret]
  show ?thesis by (auto simp: noOtherReference_def literalRoots_def literalRoot_def)
qed

end
